(* ===== verification/Prelude.thy ===== *)
theory Prelude
  imports Main "HOL-Library.Word"
begin

section \<open>Shared vocabulary of the development\<close>

text \<open>
  What every component uses: the procedure type that threads mutable state through
  fallible Go code, the parts of the Go standard library the runner calls (string
  trimming and case folding, UTF-8 validity, hexadecimal formatting, clock
  arithmetic), and the calculus with which handlers are shown to keep an invariant.
\<close>

named_theorems proc_defs \<open>definitions of the procedure combinators\<close>
named_theorems keeps_rules \<open>rules that propagate an invariant through a procedure\<close>

subsection \<open>Procedures: mutable state and Go errors\<close>

text \<open>
  A Go function that may fail returns an error next to its result and keeps every
  assignment it made before failing. A procedure therefore returns the state in both
  cases: \<open>Inl\<close> carries the error, \<open>Inr\<close> the value.
\<close>

type_synonym ('w, 'e, 'a) proc = "'w \<Rightarrow> ('e + 'a) \<times> 'w"

definition ret :: "'a \<Rightarrow> ('w, 'e, 'a) proc" where
  [proc_defs]: "ret x = (\<lambda>w. (Inr x, w))"

definition fail :: "'e \<Rightarrow> ('w, 'e, 'a) proc" where
  [proc_defs]: "fail e = (\<lambda>w. (Inl e, w))"

definition get :: "('w \<Rightarrow> 'a) \<Rightarrow> ('w, 'e, 'a) proc" where
  [proc_defs]: "get f = (\<lambda>w. (Inr (f w), w))"

definition modify :: "('w \<Rightarrow> 'w) \<Rightarrow> ('w, 'e, unit) proc" where
  [proc_defs]: "modify g = (\<lambda>w. (Inr (), g w))"

definition bind :: "('w, 'e, 'a) proc \<Rightarrow> ('a \<Rightarrow> ('w, 'e, 'b) proc) \<Rightarrow> ('w, 'e, 'b) proc" where
  [proc_defs]: "bind m f = (\<lambda>w. case m w of (Inl e, w') \<Rightarrow> (Inl e, w') | (Inr x, w') \<Rightarrow> f x w')"

definition andThen :: "('w, 'e, 'a) proc \<Rightarrow> ('w, 'e, 'b) proc \<Rightarrow> ('w, 'e, 'b) proc" where
  [proc_defs]: "andThen m k = bind m (\<lambda>_. k)"

text \<open>\<open>_ = f()\<close>: the call is made and its error dropped.\<close>

definition ignoring :: "('w, 'e, 'a) proc \<Rightarrow> ('w, 'e, unit) proc" where
  [proc_defs]: "ignoring m = (\<lambda>w. (Inr (), snd (m w)))"

text \<open>\<open>if err := f(); err != nil { return wrap(err) }\<close>.\<close>

definition mapError :: "('e \<Rightarrow> 'e) \<Rightarrow> ('w, 'e, 'a) proc \<Rightarrow> ('w, 'e, 'a) proc" where
  [proc_defs]: "mapError g m = (\<lambda>w. case m w of (Inl e, w') \<Rightarrow> (Inl (g e), w') | (Inr x, w') \<Rightarrow> (Inr x, w'))"

text \<open>The result and the error of a call as a value, for code that inspects both.\<close>

definition tryProc :: "('w, 'e, 'a) proc \<Rightarrow> ('w, 'e, 'e + 'a) proc" where
  [proc_defs]: "tryProc m = (\<lambda>w. (Inr (fst (m w)), snd (m w)))"

definition ofSum :: "('e + 'a) \<Rightarrow> ('w, 'e, 'a) proc" where
  [proc_defs]: "ofSum r = (\<lambda>w. (r, w))"

definition guardThat :: "bool \<Rightarrow> 'e \<Rightarrow> ('w, 'e, unit) proc" where
  [proc_defs]: "guardThat b e = (\<lambda>w. if b then (Inr (), w) else (Inl e, w))"

subsection \<open>Keeping an invariant\<close>

definition keeps :: "('w \<Rightarrow> bool) \<Rightarrow> ('w, 'e, 'a) proc \<Rightarrow> bool" where
  "keeps I m \<longleftrightarrow> (\<forall>w. I w \<longrightarrow> I (snd (m w)))"

lemma keepsI: "(\<And>w. I w \<Longrightarrow> I (snd (m w))) \<Longrightarrow> keeps I m"
  by (simp add: keeps_def)

lemma keepsD: "keeps I m \<Longrightarrow> I w \<Longrightarrow> I (snd (m w))"
  by (simp add: keeps_def)

lemma keeps_ret [keeps_rules, simp]: "keeps I (ret x)"
  by (simp add: keeps_def ret_def)

lemma keeps_fail [keeps_rules, simp]: "keeps I (fail e)"
  by (simp add: keeps_def fail_def)

lemma keeps_get [keeps_rules, simp]: "keeps I (get f)"
  by (simp add: keeps_def get_def)

lemma keeps_ofSum [keeps_rules, simp]: "keeps I (ofSum r)"
  by (simp add: keeps_def ofSum_def)

lemma keeps_guardThat [keeps_rules, simp]: "keeps I (guardThat b e)"
  by (simp add: keeps_def guardThat_def)

lemma keeps_bind [keeps_rules]:
  "keeps I m \<Longrightarrow> (\<And>x. keeps I (f x)) \<Longrightarrow> keeps I (bind m f)"
  by (auto simp: keeps_def bind_def split: prod.splits sum.splits)

lemma keeps_andThen [keeps_rules]: "keeps I m \<Longrightarrow> keeps I k \<Longrightarrow> keeps I (andThen m k)"
  unfolding andThen_def by (rule keeps_bind)

lemma keeps_ignoring [keeps_rules]: "keeps I m \<Longrightarrow> keeps I (ignoring m)"
  by (simp add: keeps_def ignoring_def)

lemma keeps_tryProc [keeps_rules]: "keeps I m \<Longrightarrow> keeps I (tryProc m)"
  by (simp add: keeps_def tryProc_def)

lemma keeps_mapError [keeps_rules]: "keeps I m \<Longrightarrow> keeps I (mapError g m)"
  by (auto simp: keeps_def mapError_def split: prod.splits sum.splits)

lemma keeps_if [keeps_rules]:
  "(b \<Longrightarrow> keeps I m) \<Longrightarrow> (\<not> b \<Longrightarrow> keeps I k) \<Longrightarrow> keeps I (if b then m else k)"
  by simp

lemma keeps_option [keeps_rules]:
  "keeps I m \<Longrightarrow> (\<And>x. v = Some x \<Longrightarrow> keeps I (f x)) \<Longrightarrow> keeps I (case v of None \<Rightarrow> m | Some x \<Rightarrow> f x)"
  by (cases v) auto

lemma keeps_sum [keeps_rules]:
  "(\<And>e. v = Inl e \<Longrightarrow> keeps I (f e)) \<Longrightarrow> (\<And>x. v = Inr x \<Longrightarrow> keeps I (g x)) \<Longrightarrow> keeps I (case v of Inl e \<Rightarrow> f e | Inr x \<Rightarrow> g x)"
  by (cases v) auto

lemma keeps_prod [keeps_rules]:
  "(\<And>x y. v = (x, y) \<Longrightarrow> keeps I (f x y)) \<Longrightarrow> keeps I (case v of (x, y) \<Rightarrow> f x y)"
  by (cases v) auto

lemma keeps_Let [keeps_rules]: "(\<And>x. x = v \<Longrightarrow> keeps I (f x)) \<Longrightarrow> keeps I (let x = v in f x)"
  by simp

lemma keeps_modify: "(\<And>w. I w \<Longrightarrow> I (f w)) \<Longrightarrow> keeps I (modify f)"
  by (simp add: keeps_def modify_def)

text \<open>
  A read that is followed by the rest of the handler: the rest may use what it read,
  so the invariant is carried at the state that was read.
\<close>

lemma keeps_bind_get:
  "(\<And>w. I w \<Longrightarrow> I (snd (f (g w) w))) \<Longrightarrow> keeps I (bind (get g) f)"
  by (simp add: keeps_def bind_def get_def)

lemma bind_Inr_iff:
  "bind m f w = (Inr y, w'') \<longleftrightarrow> (\<exists>x w'. m w = (Inr x, w') \<and> f x w' = (Inr y, w''))"
  by (auto simp: bind_def split: prod.splits sum.splits)

lemma andThen_Inr_iff:
  "andThen m k w = (Inr y, w'') \<longleftrightarrow> (\<exists>x w'. m w = (Inr x, w') \<and> k w' = (Inr y, w''))"
  by (simp add: andThen_def bind_Inr_iff)

lemmas proc_success = bind_Inr_iff andThen_Inr_iff

end
