(* ===== verification/GoLib.thy ===== *)
theory GoLib
  imports Prelude
begin

section \<open>The parts of the Go standard library the runner relies on\<close>

text \<open>
  Go strings and byte slices are byte sequences; both are modelled by HOL's
  \<open>string\<close> (lists of 8-bit characters), so \<open>length\<close> is Go's \<open>len\<close>.
  Instants are nanoseconds since Go's zero time (1 January of year 1), so that
  \<open>IsZero\<close> is equality with 0 and \<open>Truncate\<close> works on the same origin.
\<close>

type_synonym bytes = string
type_synonym time = int
type_synonym duration = int

subsection \<open>Characters\<close>

definition char_between :: "nat \<Rightarrow> nat \<Rightarrow> char \<Rightarrow> bool" where
  "char_between lo hi c \<longleftrightarrow> lo \<le> of_char c \<and> (of_char c :: nat) \<le> hi"

definition ascii_digit :: "char \<Rightarrow> bool" where
  "ascii_digit = char_between 48 57"

definition ascii_upper :: "char \<Rightarrow> bool" where
  "ascii_upper = char_between 65 90"

definition ascii_lower :: "char \<Rightarrow> bool" where
  "ascii_lower = char_between 97 122"

definition ascii_alnum :: "char \<Rightarrow> bool" where
  "ascii_alnum c \<longleftrightarrow> ascii_upper c \<or> ascii_lower c \<or> ascii_digit c"

definition lower_hex_char :: "char \<Rightarrow> bool" where
  "lower_hex_char c \<longleftrightarrow> ascii_digit c \<or> char_between 97 102 c"

definition hex_char :: "char \<Rightarrow> bool" where
  "hex_char c \<longleftrightarrow> lower_hex_char c \<or> char_between 65 70 c"

lemmas char_class_defs = char_between_def ascii_digit_def ascii_upper_def ascii_lower_def
  ascii_alnum_def lower_hex_char_def hex_char_def

definition lower_char :: "char \<Rightarrow> char" where
  "lower_char c = (if ascii_upper c then char_of (of_char c + 32 :: nat) else c)"

text \<open>
  \<open>strings.ToLower\<close>. Besides the ASCII letters, exactly two code points have an ASCII
  lower case: U+0130 (bytes C4 B0) and U+212A (bytes E2 84 AA). Every other code point
  folds to a code point outside ASCII; it is left as it is, since the callers only
  compare the result with ASCII text or test it for ASCII characters.
\<close>

fun to_lower :: "string \<Rightarrow> string" where
  "to_lower [] = []"
| "to_lower (c # cs) =
     (if c = CHR 0xC4 \<and> take 1 cs = [CHR 0xB0] then CHR ''i'' # to_lower (drop 1 cs)
      else if c = CHR 0xE2 \<and> take 2 cs = [CHR 0x84, CHR 0xAA] then CHR ''k'' # to_lower (drop 2 cs)
      else lower_char c # to_lower cs)"

text \<open>
  \<open>strings.EqualFold(s, t)\<close> for an ASCII \<open>t\<close>: besides case, simple folding identifies
  U+017F (bytes C5 BF) with s and U+212A (bytes E2 84 AA) with k.
\<close>

fun fold_case :: "string \<Rightarrow> string" where
  "fold_case [] = []"
| "fold_case (c # cs) =
     (if c = CHR 0xC5 \<and> take 1 cs = [CHR 0xBF] then CHR ''s'' # fold_case (drop 1 cs)
      else if c = CHR 0xE2 \<and> take 2 cs = [CHR 0x84, CHR 0xAA] then CHR ''k'' # fold_case (drop 2 cs)
      else lower_char c # fold_case cs)"

definition equal_fold :: "string \<Rightarrow> string \<Rightarrow> bool" where
  "equal_fold s t \<longleftrightarrow> fold_case s = fold_case t"

subsection \<open>Substrings\<close>

definition has_prefix :: "string \<Rightarrow> string \<Rightarrow> bool" where
  "has_prefix s p \<longleftrightarrow> take (length p) s = p"

definition has_suffix :: "string \<Rightarrow> string \<Rightarrow> bool" where
  "has_suffix s p \<longleftrightarrow> length p \<le> length s \<and> drop (length s - length p) s = p"

text \<open>\<open>s[lo:hi]\<close> for \<open>lo \<le> hi \<le> len(s)\<close>.\<close>

definition substring :: "string \<Rightarrow> nat \<Rightarrow> nat \<Rightarrow> string" where
  "substring s lo hi = take (hi - lo) (drop lo s)"

fun contains_sub :: "string \<Rightarrow> string \<Rightarrow> bool" where
  "contains_sub [] p \<longleftrightarrow> p = []"
| "contains_sub (c # cs) p \<longleftrightarrow> has_prefix (c # cs) p \<or> contains_sub cs p"

text \<open>\<open>strings.LastIndexByte\<close>; \<open>None\<close> stands for -1.\<close>

definition last_index_byte :: "string \<Rightarrow> char \<Rightarrow> nat option" where
  "last_index_byte s c =
     (if c \<in> set s then Some (length s - 1 - length (takeWhile (\<lambda>x. x \<noteq> c) (rev s))) else None)"

lemma last_index_byte_snoc:
  assumes "c \<notin> set t"
  shows "last_index_byte (s @ c # t) c = Some (length s)"
proof -
  have "takeWhile (\<lambda>x. x \<noteq> c) (rev t @ c # rev s) = rev t"
    using assms by (auto simp: takeWhile_tail)
  then show ?thesis by (simp add: last_index_byte_def)
qed

text \<open>\<open>strings.Split(s, sep)\<close> with a one-byte separator.\<close>

fun split_on :: "char \<Rightarrow> string \<Rightarrow> string list" where
  "split_on sep [] = [[]]"
| "split_on sep (c # cs) =
     (if c = sep then [] # split_on sep cs
      else (case split_on sep cs of [] \<Rightarrow> [[c]] | w # ws \<Rightarrow> (c # w) # ws))"

lemma split_on_nonempty [simp]: "split_on sep s \<noteq> []"
  by (induction s) (auto split: list.splits)

lemma length_split_on: "length w \<le> length s" if "w \<in> set (split_on sep s)"
  using that by (induction s arbitrary: w) (fastforce split: if_splits list.splits)+

subsection \<open>UTF-8\<close>

definition continuation :: "char \<Rightarrow> bool" where
  "continuation = char_between 128 191"

text \<open>
  The number of bytes of the well-formed code point a string starts with, 0 if it does
  not start with one (RFC 3629, as \<open>unicode/utf8\<close> decides it: no overlong forms, no
  surrogates, nothing above U+10FFFF).
\<close>

definition rune_length :: "string \<Rightarrow> nat" where
  "rune_length s =
     (case s of
        [] \<Rightarrow> 0
      | a # r \<Rightarrow>
          if char_between 0 127 a then 1
          else (case r of
             [] \<Rightarrow> 0
           | b # r2 \<Rightarrow>
               if char_between 194 223 a then (if continuation b then 2 else 0)
               else (case r2 of
                  [] \<Rightarrow> 0
                | c # r3 \<Rightarrow>
                    if char_between 224 239 a then
                      (if continuation b \<and> continuation c \<and> (a = CHR 0xE0 \<longrightarrow> char_between 160 191 b)
                          \<and> (a = CHR 0xED \<longrightarrow> char_between 128 159 b)
                       then 3 else 0)
                    else (case r3 of
                       [] \<Rightarrow> 0
                     | d # _ \<Rightarrow>
                         if char_between 240 244 a \<and> continuation b \<and> continuation c \<and> continuation d
                            \<and> (a = CHR 0xF0 \<longrightarrow> char_between 144 191 b)
                            \<and> (a = CHR 0xF4 \<longrightarrow> char_between 128 143 b)
                         then 4 else 0))))"

lemma rune_length_le: "rune_length s \<le> length s"
  by (auto simp: rune_length_def split: list.splits)

lemma rune_length_pos_nonempty: "0 < rune_length s \<Longrightarrow> s \<noteq> []"
  by (auto simp: rune_length_def)

text \<open>\<open>utf8.Valid\<close> and \<open>utf8.ValidString\<close>.\<close>

function utf8_valid :: "string \<Rightarrow> bool" where
  "utf8_valid s =
     (if s = [] then True
      else if 0 < rune_length s then utf8_valid (drop (rune_length s) s) else False)"
  by pat_completeness auto
termination
  by (relation "measure length") (auto dest: rune_length_pos_nonempty intro: diff_less)

declare utf8_valid.simps [simp del]

lemma utf8_valid_Nil [simp]: "utf8_valid []"
  by (simp add: utf8_valid.simps)

lemma utf8_valid_ascii: "list_all (char_between 0 127) s \<Longrightarrow> utf8_valid s"
proof (induction s)
  case Nil
  then show ?case by simp
next
  case (Cons c cs)
  then have "rune_length (c # cs) = 1" by (simp add: rune_length_def)
  with Cons show ?case by (subst utf8_valid.simps) simp
qed

lemma short_or_long:
  obtains "s = []" | a where "s = [a]" | a b where "s = [a, b]" | a b c where "s = [a, b, c]"
  | a b c d r where "s = a # b # c # d # r"
  by (metis list.exhaust)

lemma rune_length_append: "0 < rune_length a \<Longrightarrow> rune_length (a @ b) = rune_length a"
  by (rule short_or_long [of a]) (simp_all add: rune_length_def split: if_splits)

lemma rune_length_take: "rune_length (take (rune_length s) s) = rune_length s"
  by (rule short_or_long [of s]) (simp_all add: rune_length_def)

lemma rune_length_le_4: "rune_length s \<le> 4"
  by (rule short_or_long [of s]) (simp_all add: rune_length_def)

lemma utf8_valid_append: "utf8_valid a \<Longrightarrow> utf8_valid (a @ b) = utf8_valid b"
proof (induction a rule: utf8_valid.induct)
  case (1 s)
  show ?case
  proof (cases "s = []")
    case False
    then have r: "0 < rune_length s" "utf8_valid (drop (rune_length s) s)"
      using "1.prems" by (simp_all add: utf8_valid.simps [of s] split: if_splits)
    then have "utf8_valid (s @ b) = utf8_valid (drop (rune_length s) s @ b)"
      using False rune_length_le [of s] by (simp add: utf8_valid.simps [of "s @ b"] rune_length_append)
    with 1 False r show ?thesis by simp
  qed simp
qed

lemma utf8_valid_first_rune: "utf8_valid s \<Longrightarrow> s \<noteq> [] \<Longrightarrow> 0 < rune_length s \<and> utf8_valid (take (rune_length s) s)"
  using rune_length_take [of s] rune_length_le [of s]
  by (simp add: utf8_valid.simps [of s] utf8_valid.simps [of "take (rune_length s) s"] split: if_splits)

lemma utf8_valid_drop: "utf8_valid s \<Longrightarrow> utf8_valid (take n s) \<Longrightarrow> utf8_valid (drop n s)"
  using utf8_valid_append [of "take n s" "drop n s"] by simp

text \<open>
  \<open>value = value[:len(value)-1]\<close> until \<open>utf8.ValidString(value)\<close>: the longest valid
  prefix not longer than the string. The empty string is valid, so the loop stops.
\<close>

fun shrink_to_valid :: "nat \<Rightarrow> string \<Rightarrow> string" where
  "shrink_to_valid 0 s = []"
| "shrink_to_valid (Suc n) s = (if utf8_valid (take (Suc n) s) then take (Suc n) s else shrink_to_valid n s)"

lemma shrink_to_valid_valid: "utf8_valid (shrink_to_valid n s)"
  by (induction n) auto

lemma shrink_to_valid_length: "length (shrink_to_valid n s) \<le> n"
  by (induction n) auto

lemma shrink_to_valid_prefix: "\<exists>k\<le>n. shrink_to_valid n s = take k s"
  by (induction n) (auto intro: le_SucI)

lemma shrink_to_valid_maximal:
  "k \<le> n \<Longrightarrow> utf8_valid (take k s) \<Longrightarrow> k \<le> length s \<Longrightarrow> k \<le> length (shrink_to_valid n s)"
proof (induction n)
  case 0
  then show ?case by simp
next
  case (Suc n)
  then show ?case by (cases "k = Suc n") auto
qed

subsection \<open>White space\<close>

text \<open>
  The UTF-8 encodings of the code points for which \<open>unicode.IsSpace\<close> holds.
\<close>

definition space_encodings :: "string list" where
  "space_encodings =
     [[CHR 0x09], [CHR 0x0A], [CHR 0x0B], [CHR 0x0C], [CHR 0x0D], [CHR 0x20],
      [CHR 0xC2, CHR 0x85], [CHR 0xC2, CHR 0xA0], [CHR 0xE1, CHR 0x9A, CHR 0x80]]
     @ map (\<lambda>n. [CHR 0xE2, CHR 0x80, char_of (128 + n :: nat)]) [0..<11]
     @ [[CHR 0xE2, CHR 0x80, CHR 0xA8], [CHR 0xE2, CHR 0x80, CHR 0xA9], [CHR 0xE2, CHR 0x80, CHR 0xAF],
        [CHR 0xE2, CHR 0x81, CHR 0x9F], [CHR 0xE3, CHR 0x80, CHR 0x80]]"

definition leading_space :: "string \<Rightarrow> nat" where
  "leading_space s = (case find (has_prefix s) space_encodings of None \<Rightarrow> 0 | Some p \<Rightarrow> length p)"

lemma space_encodings_nonempty: "p \<in> set space_encodings \<Longrightarrow> p \<noteq> []"
  by (auto simp: space_encodings_def)

lemma leading_space_le: "leading_space s \<le> length s"
proof (cases "find (has_prefix s) space_encodings")
  case None
  then show ?thesis by (simp add: leading_space_def)
next
  case (Some p)
  then have "has_prefix s p" by (auto simp: find_Some_iff)
  then have "length p \<le> length s"
    by (metis has_prefix_def length_take min.cobounded1)
  with Some show ?thesis by (simp add: leading_space_def)
qed

lemma leading_space_nonempty: "0 < leading_space s \<Longrightarrow> s \<noteq> []"
  using leading_space_le [of s] by auto

function trim_left :: "string \<Rightarrow> string" where
  "trim_left s = (if 0 < leading_space s then trim_left (drop (leading_space s) s) else s)"
  by pat_completeness auto
termination
  by (relation "measure length") (auto dest: leading_space_nonempty intro: diff_less)

declare trim_left.simps [simp del]

text \<open>
  From the right the code points are matched backwards, so the reversed string is
  trimmed with the reversed encodings.
\<close>

definition trailing_space :: "string \<Rightarrow> nat" where
  "trailing_space s = (case find (has_suffix s) space_encodings of None \<Rightarrow> 0 | Some p \<Rightarrow> length p)"

lemma trailing_space_le: "trailing_space s \<le> length s"
  by (auto simp: trailing_space_def has_suffix_def find_Some_iff split: option.splits)

function trim_right :: "string \<Rightarrow> string" where
  "trim_right s =
     (if 0 < trailing_space s then trim_right (take (length s - trailing_space s) s) else s)"
  by pat_completeness auto
termination
proof (relation "measure length")
  fix s :: string
  assume "0 < trailing_space s"
  then show "(take (length s - trailing_space s) s, s) \<in> measure length"
    using trailing_space_le [of s] by (auto simp: min_def)
qed simp

declare trim_right.simps [simp del]

text \<open>\<open>strings.TrimSpace\<close>.\<close>

definition trim_space :: "string \<Rightarrow> string" where
  "trim_space s = trim_right (trim_left s)"

lemma length_trim_left: "length (trim_left s) \<le> length s"
proof (induction s rule: trim_left.induct)
  case (1 s)
  then show ?case by (subst trim_left.simps) (auto intro: le_trans)
qed

lemma length_trim_right: "length (trim_right s) \<le> length s"
proof (induction s rule: trim_right.induct)
  case (1 s)
  then show ?case by (subst trim_right.simps) (auto intro: le_trans)
qed

lemma length_trim_space: "length (trim_space s) \<le> length s"
  unfolding trim_space_def by (rule le_trans [OF length_trim_right length_trim_left])

subsection \<open>Hexadecimal numbers\<close>

definition hex_digit :: "nat \<Rightarrow> char" where
  "hex_digit n = (if n < 10 then char_of (48 + n) else char_of (87 + n))"

text \<open>\<open>fmt.Sprintf\<close> with a zero-padded lower-case verb of the given width, for values that fit.\<close>

fun hex_fixed :: "nat \<Rightarrow> nat \<Rightarrow> string" where
  "hex_fixed 0 n = []"
| "hex_fixed (Suc k) n = hex_fixed k (n div 16) @ [hex_digit (n mod 16)]"

definition hex_value :: "char \<Rightarrow> nat option" where
  "hex_value c =
     (if ascii_digit c then Some (of_char c - 48)
      else if char_between 97 102 c then Some (of_char c - 87)
      else if char_between 65 70 c then Some (of_char c - 55)
      else None)"

fun parse_hex_from :: "nat \<Rightarrow> string \<Rightarrow> nat option" where
  "parse_hex_from acc [] = Some acc"
| "parse_hex_from acc (c # cs) =
     (case hex_value c of None \<Rightarrow> None | Some d \<Rightarrow> parse_hex_from (16 * acc + d) cs)"

text \<open>\<open>strconv.ParseUint(s, 16, 64)\<close>; \<open>None\<close> is a syntax or a range error.\<close>

text \<open>\<open>hex.DecodeString\<close>.\<close>

fun hex_decode :: "string \<Rightarrow> string option" where
  "hex_decode [] = Some []"
| "hex_decode [_] = None"
| "hex_decode (a # b # cs) =
     (case (hex_value a, hex_value b, hex_decode cs) of
        (Some x, Some y, Some rest) \<Rightarrow> Some (char_of (16 * x + y) # rest)
      | _ \<Rightarrow> None)"

text \<open>\<open>hex.EncodeToString\<close> and the verb \<open>%x\<close> of a byte string.\<close>

fun hex_encode :: "string \<Rightarrow> string" where
  "hex_encode [] = []"
| "hex_encode (c # cs) = hex_digit (of_char c div 16) # hex_digit (of_char c mod 16) # hex_encode cs"

definition parse_uint_hex :: "string \<Rightarrow> nat option" where
  "parse_uint_hex s =
     (if s = [] then None
      else (case parse_hex_from 0 s of None \<Rightarrow> None | Some n \<Rightarrow> if n < 2 ^ 64 then Some n else None))"

lemma hex_value_digit: "n < 16 \<Longrightarrow> hex_value (hex_digit n) = Some n"
  by (auto simp: hex_value_def hex_digit_def char_class_defs)

lemma hex_digit_lower: "n < 16 \<Longrightarrow> lower_hex_char (hex_digit n)"
  by (auto simp: hex_digit_def char_class_defs)

lemma nibbles: "of_char c div 16 < (16 :: nat)" "of_char c mod 16 < (16 :: nat)"
proof -
  have "of_char c mod 256 < (256 :: nat)" by (rule mod_less_divisor) simp
  then have "of_char c < (16 * 16 :: nat)" by simp
  then show "of_char c div 16 < (16 :: nat)" by (rule less_mult_imp_div_less)
qed simp

lemma hex_decode_encode: "hex_decode (hex_encode s) = Some s"
  by (induction s) (simp_all add: hex_value_digit nibbles)

lemma length_hex_encode [simp]: "length (hex_encode s) = 2 * length s"
  by (induction s) simp_all

lemma hex_encode_lower: "list_all lower_hex_char (hex_encode s)"
  by (induction s) (simp_all add: hex_digit_lower nibbles)

lemma length_hex_fixed [simp]: "length (hex_fixed k n) = k"
  by (induction k arbitrary: n) auto

lemma hex_fixed_lower: "list_all lower_hex_char (hex_fixed k n)"
  by (induction k arbitrary: n) (auto simp: hex_digit_lower)

lemma parse_hex_from_append:
  "parse_hex_from acc (s @ t) = (case parse_hex_from acc s of None \<Rightarrow> None | Some a \<Rightarrow> parse_hex_from a t)"
  by (induction s arbitrary: acc) (auto split: option.splits)

lemma parse_hex_from_fixed: "n < 16 ^ k \<Longrightarrow> parse_hex_from acc (hex_fixed k n) = Some (acc * 16 ^ k + n)"
proof (induction k arbitrary: n)
  case 0
  then show ?case by simp
next
  case (Suc k)
  then have "n div 16 < 16 ^ k" by (simp add: less_mult_imp_div_less mult.commute)
  with Suc.IH have "parse_hex_from acc (hex_fixed k (n div 16)) = Some (acc * 16 ^ k + n div 16)"
    by blast
  then show ?case
    by (simp add: parse_hex_from_append hex_value_digit algebra_simps)
qed

lemma parse_uint_hex_fixed:
  assumes "n < 16 ^ Suc k" and "n < 2 ^ 64"
  shows "parse_uint_hex (hex_fixed (Suc k) n) = Some n"
proof -
  have "parse_hex_from 0 (hex_fixed (Suc k) n) = Some (0 * 16 ^ Suc k + n)"
    using assms(1) by (rule parse_hex_from_fixed)
  moreover have "hex_fixed (Suc k) n \<noteq> []" by simp
  ultimately show ?thesis using assms(2) unfolding parse_uint_hex_def by (simp del: hex_fixed.simps)
qed

lemma hex_fixed_inject:
  assumes "n < 16 ^ k" and "m < 16 ^ k"
  shows "hex_fixed k n = hex_fixed k m \<longleftrightarrow> n = m"
proof
  assume "hex_fixed k n = hex_fixed k m"
  then have "parse_hex_from 0 (hex_fixed k n) = parse_hex_from 0 (hex_fixed k m)" by simp
  then show "n = m" by (simp only: parse_hex_from_fixed [OF assms(1)] parse_hex_from_fixed [OF assms(2)]) simp
qed simp

lemma dash_not_hex: "CHR ''-'' \<notin> set (hex_fixed k n)"
proof
  assume "CHR ''-'' \<in> set (hex_fixed k n)"
  with hex_fixed_lower [of k n] have "lower_hex_char (CHR ''-'')" by (auto simp: list_all_iff)
  then show False by (simp add: char_class_defs)
qed

subsection \<open>Clock\<close>

definition nanosecond :: duration where "nanosecond = 1"
definition microsecond :: duration where "microsecond = 1000"
definition millisecond :: duration where "millisecond = 1000000"
definition second :: duration where "second = 1000000000"
definition minute :: duration where "minute = 60 * second"
definition hour :: duration where "hour = 60 * minute"

lemmas duration_defs = nanosecond_def microsecond_def millisecond_def second_def minute_def hour_def

definition max_duration :: duration where "max_duration = 2 ^ 63 - 1"
definition min_duration :: duration where "min_duration = - (2 ^ 63)"

text \<open>\<open>Time.Sub\<close> saturates at the ends of the \<open>Duration\<close> range.\<close>

definition time_sub :: "time \<Rightarrow> time \<Rightarrow> duration" where
  "time_sub t u = max min_duration (min max_duration (t - u))"

definition truncate_to :: "duration \<Rightarrow> time \<Rightarrow> time" where
  "truncate_to d t = t - t mod d"

lemma time_sub_le_iff: "d < max_duration \<Longrightarrow> min_duration \<le> d \<Longrightarrow> time_sub t u \<le> d \<longleftrightarrow> t - u \<le> d"
  by (auto simp: time_sub_def max_def min_def)

lemma truncate_to_le: "0 < d \<Longrightarrow> truncate_to d t \<le> t"
  by (simp add: truncate_to_def)

lemma truncate_to_mono: "0 < d \<Longrightarrow> t \<le> u \<Longrightarrow> truncate_to d t \<le> truncate_to d u"
  by (simp add: truncate_to_def minus_mod_eq_mult_div zdiv_mono1 mult_left_mono)

end
