(* ===== verification/Wire.thy ===== *)
theory Wire
  imports GoLib
begin

section \<open>Gateway protocol messages and the libraries that handle them\<close>

text \<open>
  The generated protocol package and the protobuf runtime are not part of the
  repository. Their messages are modelled by the fields the runner reads or writes, a
  message pointer that may be nil by \<open>option\<close>. Enumerations are open in protobuf:
  each has a constructor for the numbers the runner does not name. Encoding, decoding,
  size, timestamp conversion, digests and URL or JSON parsing are functions of the record
  \<open>lib\<close>, an argument of every definition that uses them; \<open>lib_ok\<close> states what the
  runner relies on.
\<close>

subsection \<open>Well-known types\<close>

record timestamp =
  ts_seconds :: int
  ts_nanos :: int

record pduration =
  pd_seconds :: int
  pd_nanos :: int

datatype digest_algorithm = DIGEST_SHA256 | DIGEST_OTHER int

record digest =
  digestAlgorithm :: digest_algorithm
  digestValue :: bytes

subsection \<open>Lease and attempt identity\<close>

record lease_identity =
  leaseId :: string
  jobId :: string
  executionId :: string
  leaseExpiresAt :: "timestamp option"

record attempt_identity =
  attemptId :: string
  attemptNumber :: nat
  releaseCandidateId :: string
  matrixEntryId :: string

datatype job_phase = PHASE_UNSPECIFIED | PHASE_ACCEPTED | PHASE_PREPARING | PHASE_RUNNING
  | PHASE_CANCELLING | PHASE_OTHER int

datatype lease_status = STATUS_UNSPECIFIED | STATUS_OFFERED | STATUS_ACCEPTED | STATUS_ACTIVE
  | STATUS_COMPLETED | STATUS_CANCELLED | STATUS_EXPIRED | STATUS_RELEASED | STATUS_OTHER int

datatype disposition = DISPOSITION_APPLIED | DISPOSITION_ALREADY_APPLIED | DISPOSITION_STALE
  | DISPOSITION_OTHER int

datatype protocol_feature = FEATURE_DURABLE_LEASE_ACKNOWLEDGEMENTS | FEATURE_CREDENTIAL_ROTATION
  | FEATURE_JOB_CORRELATION_V1 | FEATURE_RESTART_UPLOAD_RECOVERY | FEATURE_OBJECT_UPLOAD_IDENTITY
  | FEATURE_TERMINAL_EVIDENCE_V1 | FEATURE_TERMINAL_EVIDENCE_V2 | FEATURE_TEST_SECRETS_V1
  | FEATURE_NETWORK_POLICY_V2 | FEATURE_NETWORK_AUTHORITY_V2 | FEATURE_OTHER int

subsection \<open>Job specification\<close>

record job_correlation =
  traceparent :: string
  correlationOrganizationId :: string
  projectId :: string
  workflowId :: string
  correlationUnknown :: bytes

datatype organization_scope = SCOPE_UNSET | SCOPE_PLATFORM | SCOPE_ORGANIZATION string

record object_download =
  downloadUri :: string
  downloadFilename :: string
  downloadDigest :: "digest option"
  downloadSizeBytes :: int
  downloadExpiresAt :: "timestamp option"

record dependency_input =
  dependencyId :: string
  dependencyPluginName :: string
  dependencyObject :: "object_download option"

record dependency_hash =
  hashDependencyId :: string
  hashFilename :: string
  hashDigest :: "digest option"

record job_hashes =
  hashArtifact :: "digest option"
  hashConfiguration :: "digest option"
  hashEnvironment :: "digest option"
  hashPolicy :: "digest option"
  hashDependencies :: "dependency_hash option list"

datatype server_provider = PROVIDER_PAPER | PROVIDER_OTHER int
datatype operating_system = OS_LINUX | OS_OTHER int
datatype architecture = ARCH_AMD64 | ARCH_OTHER int
datatype sandbox_kind = SANDBOX_GVISOR | SANDBOX_OTHER int
datatype network_mode = NETWORK_NONE | NETWORK_OTHER int
datatype env_requirement = REQUIREMENT_REQUIRED | REQUIREMENT_INFORMATIONAL | REQUIREMENT_OTHER int

record resolved_environment =
  envProvider :: server_provider
  envOperatingSystem :: operating_system
  envArchitecture :: architecture
  gameVersion :: string
  serverVersion :: string
  serverBuild :: nat
  javaDistribution :: string
  javaVersion :: string
  catalogSnapshotId :: string
  runnerImage :: "digest option"
  serverBinary :: "digest option"

record resource_limits =
  limitCpuMillis :: "32 word"
  limitMemoryBytes :: "64 word"
  limitDiskBytes :: "64 word"
  limitProcessCount :: "32 word"

record network_policy =
  networkMode :: network_mode
  networkAllowlist :: "string list"
  networkMaximumConnections :: nat

text \<open>Of a version 2 network policy only the mode is read here; the rest stays opaque.\<close>

record network_policy_v2 =
  networkModeV2 :: network_mode
  networkBodyV2 :: bytes

record effective_policy =
  policySandbox :: sandbox_kind
  policyNetwork :: "network_policy option"
  policyNetworkV2 :: "network_policy_v2 option"
  policyResources :: "resource_limits option"
  preparationTimeout :: "pduration option"
  executionTimeout :: "pduration option"
  gracefulShutdownTimeout :: "pduration option"
  policyRequirement :: env_requirement

record object_upload =
  uploadUri :: string
  uploadContentType :: string
  uploadExpiresAt :: "timestamp option"
  uploadObjectKey :: string
  uploadUnknown :: bytes

record job_spec =
  jobLease :: "lease_identity option"
  jobAttempt :: "attempt_identity option"
  jobScope :: "organization_scope option"
  jobCorrelation :: "job_correlation option"
  jobHashes :: "job_hashes option"
  normalizedConfigurationJson :: bytes
  jobEnvironment :: "resolved_environment option"
  targetPluginName :: string
  jobArtifact :: "object_download option"
  jobDependencies :: "dependency_input option list"
  jobPolicy :: "effective_policy option"
  completeLogUpload :: "object_upload option"
  testSecrets :: "string list"

record lease_offer =
  offerJob :: "job_spec option"
  offerExpiresAt :: "timestamp option"

subsection \<open>Messages of the runner\<close>

record capacity =
  concurrentJobs :: nat
  availableJobs :: nat
  capacityCpuMillis :: "32 word"
  capacityMemoryBytes :: "64 word"
  capacityDiskBytes :: "64 word"

record heartbeat_lease =
  hbLease :: "lease_identity option"
  hbAttempt :: "attempt_identity option"
  hbPhase :: job_phase

record heartbeat =
  hbSequence :: "64 word"
  hbCapacity :: "capacity option"
  hbActiveLeases :: "heartbeat_lease list"
  hbObservedAt :: "timestamp option"

datatype rejection_reason = REASON_UNSUPPORTED | REASON_POLICY | REASON_OFFER_EXPIRED
  | REASON_AT_CAPACITY | REASON_DRAINING

datatype failure_category = CATEGORY_INFRASTRUCTURE | CATEGORY_POLICY | CATEGORY_PLUGIN

datatype failure_stage = STAGE_LEASE | STAGE_PREPARATION | STAGE_STARTUP | STAGE_EXECUTION
  | STAGE_CLEANUP | STAGE_RESULT_UPLOAD

record failure_detail =
  failureCategory :: failure_category
  failureStageOf :: failure_stage
  failureCode :: string
  failureSummary :: string
  failureRetryable :: bool

record resource_usage_message =
  usageCpuTime :: "pduration option"
  usagePeakMemoryBytes :: "64 word"
  usageDiskReadBytes :: "64 word"
  usageDiskWriteBytes :: "64 word"
  usageNetworkReceiveBytes :: "64 word"
  usageNetworkTransmitBytes :: "64 word"

record log_object =
  logRedacted :: bool
  logObjectKey :: string
  logDigest :: "digest option"
  logCompressedSizeBytes :: "64 word"
  logContentType :: string

text \<open>The frozen proof a terminal event may carry (built by package \<open>terminalevidence\<close>).\<close>

type_synonym execution_evidence = bytes

record structured_result =
  resultPassed :: bool
  resultUsage :: "resource_usage_message option"
  resultCompleteLog :: "log_object option"
  resultStartedAt :: timestamp
  resultCompletedAt :: timestamp
  resultExitCode :: "32 word option"

record lease_accepted =
  acceptedLease :: "lease_identity option"
  acceptedAttempt :: "attempt_identity option"
  acceptedAt :: timestamp

record lease_rejected =
  rejectedLease :: "lease_identity option"
  rejectedAttempt :: "attempt_identity option"
  rejectedReason :: rejection_reason
  rejectedSummary :: string

record lease_renewal =
  renewalLease :: "lease_identity option"
  renewalAttempt :: "attempt_identity option"
  requestedExtension :: pduration
  renewalObservedAt :: timestamp

record job_preparing =
  preparingLease :: "lease_identity option"
  preparingAttempt :: "attempt_identity option"
  preparingStartedAt :: timestamp

record job_started =
  startedLease :: "lease_identity option"
  startedAttempt :: "attempt_identity option"
  startedAtTime :: timestamp

record job_completed =
  completedLease :: "lease_identity option"
  completedAttempt :: "attempt_identity option"
  completedResult :: structured_result
  completedEvidence :: "execution_evidence option"

record job_failed =
  failedLease :: "lease_identity option"
  failedAttempt :: "attempt_identity option"
  failedAt :: timestamp
  failedFailure :: failure_detail
  failedUsage :: "resource_usage_message option"
  failedCompleteLog :: "log_object option"
  failedEvidence :: "execution_evidence option"

record job_cancelled =
  cancelledLease :: "lease_identity option"
  cancelledAttempt :: "attempt_identity option"
  cancelledCancellationId :: string
  cancelledAt :: timestamp
  cleanupCompleted :: bool
  cleanupFailure :: "failure_detail option"

datatype log_stream = STREAM_STDOUT | STREAM_STDERR

record log_entry =
  entrySequence :: "64 word"
  entryObservedAt :: timestamp
  entryStream :: log_stream
  entryData :: bytes
  entryPartial :: bool
  entryRedacted :: bool

record log_batch =
  batchLease :: "lease_identity option"
  batchAttempt :: "attempt_identity option"
  batchEntries :: "log_entry list"
  batchDropped :: "64 word"

record usage_report =
  reportLease :: "lease_identity option"
  reportAttempt :: "attempt_identity option"
  reportSequence :: "64 word"
  reportObservedAt :: timestamp
  reportCumulative :: resource_usage_message

record rotation_ack =
  ackRotationId :: string
  ackFingerprint :: bytes
  ackPersistedAt :: timestamp

record authenticate =
  authnRunnerId :: string
  authnInstanceId :: string
  authnCredential :: bytes
  authnProtocolVersion :: string

record runner_policy =
  runnerSandboxes :: "sandbox_kind list"
  maximumNetwork :: "network_policy option"
  maximumNetworkV2 :: "network_policy_v2 option"
  maximumResourcesPerJob :: resource_limits
  maximumConcurrentJobs :: nat

record capabilities_message =
  capRunnerVersion :: string
  capProtocolVersions :: "string list"
  capOperatingSystem :: operating_system
  capArchitecture :: architecture
  capSandboxes :: "sandbox_kind list"
  capProviders :: "server_provider list"
  capCapacity :: capacity
  capPolicy :: runner_policy
  capFeatures :: "protocol_feature list"

datatype runner_payload =
    P_Authenticate authenticate
  | P_Capabilities capabilities_message
  | P_Heartbeat heartbeat
  | P_LeaseAccepted lease_accepted
  | P_LeaseRejected lease_rejected
  | P_LeaseRenewal lease_renewal
  | P_JobPreparing job_preparing
  | P_JobStarted job_started
  | P_Completed job_completed
  | P_Failed job_failed
  | P_Cancelled job_cancelled
  | P_LogBatch log_batch
  | P_Usage usage_report
  | P_RotationAcknowledgement rotation_ack
  | P_TestSecretsRequest "lease_identity option" "attempt_identity option"
  | P_OtherPayload

record runner_message =
  runnerMessageId :: string
  runnerSentAt :: "timestamp option"
  runnerPayload :: "runner_payload option"

subsection \<open>Messages of the gateway\<close>

record lease_reconciliation =
  recLease :: "lease_identity option"
  recAttempt :: "attempt_identity option"
  recDisposition :: disposition
  recStatus :: lease_status
  recPhase :: job_phase
  recTerminalMessageId :: string
  recCancellationId :: string
  recCompleteLogUpload :: "object_upload option"
  recNetworkAuthority :: "bytes option"

record event_ack =
  ackRunnerMessageId :: string
  ackCommittedAt :: "timestamp option"
  ackReconciliation :: "lease_reconciliation option"

record heartbeat_ack =
  hbAckRunnerMessageId :: string
  hbAckSequence :: "64 word"
  hbAckCommittedAt :: "timestamp option"
  hbAckReconciliations :: "lease_reconciliation option list"

record cancel_command =
  cancelLease :: "lease_identity option"
  cancelAttempt :: "attempt_identity option"
  cancelCancellationId :: string
  cancelReason :: string
  cancelDeadline :: "timestamp option"

record control_command =
  controlId :: string
  controlReason :: string
  controlDeadline :: "timestamp option"

record rotate_credential =
  rotationIdOf :: string
  connectionCredential :: bytes
  credentialFingerprint :: bytes
  rotationIssuedAt :: "timestamp option"
  rotationExpiresAt :: "timestamp option"
  reconnectBeforeOf :: "timestamp option"

record authenticated =
  authRunnerId :: string
  authConnectionId :: string
  authProtocolVersion :: string
  authScope :: "organization_scope option"
  authCredentialExpiresAt :: "timestamp option"
  authHeartbeatInterval :: "pduration option"
  authLeaseDuration :: "pduration option"
  authServerTime :: "timestamp option"

datatype gateway_payload =
    G_Authenticated authenticated
  | G_Offer lease_offer
  | G_Cancel cancel_command
  | G_EventAck event_ack
  | G_HeartbeatAck heartbeat_ack
  | G_Drain control_command
  | G_Shutdown control_command
  | G_PolicyUpdate
  | G_CredentialRotation rotate_credential
  | G_TestSecretsDelivery bytes
  | G_Unsupported

record gateway_message =
  gatewayMessageId :: string
  gatewaySentAt :: "timestamp option"
  gatewayPayload :: "gateway_payload option"

subsection \<open>Libraries and collaborating packages\<close>

text \<open>What \<open>url.ParseRequestURI\<close> returns, as far as it is read.\<close>

record uri =
  uriScheme :: string
  uriHost :: string
  uriHostname :: string
  uriPort :: string
  uriHasUser :: bool
  uriFragment :: string
  uriOpaque :: string
  uriEscapedPath :: string

text \<open>
  The decoded normalized configuration: whether it is exactly one JSON object, and the
  number of entries of \<open>tests.secrets\<close> if that part decodes. \<open>gunzipMember\<close> below gives the
  contents of the first gzip member of its input and the bytes that follow it.
\<close>

record config_document =
  documentIsObject :: bool
  documentSecrets :: "nat option"

text \<open>
  The first group of functions is the protobuf runtime, the second the standard
  library's hashing and parsing, the third the runner's own packages that are not
  modelled in this development (\<open>terminalevidence\<close>, \<open>testsecrets\<close>,
  \<open>networkpolicy\<close>); a result of type \<open>bool\<close> says that no error is returned.
\<close>

record lib =
  tsCheckValid :: "timestamp \<Rightarrow> bool"
  tsAsTime :: "timestamp \<Rightarrow> time"
  tsNew :: "time \<Rightarrow> timestamp"
  pdCheckValid :: "pduration \<Rightarrow> bool"
  pdAsDuration :: "pduration \<Rightarrow> duration"
  pdNew :: "duration \<Rightarrow> pduration"
  marshalRunner :: "runner_message \<Rightarrow> bytes option"
  unmarshalRunner :: "bytes \<Rightarrow> runner_message option"
  sizeRunner :: "runner_message \<Rightarrow> nat"
  marshalJob :: "job_spec \<Rightarrow> bytes option"
  unmarshalJob :: "bytes \<Rightarrow> job_spec option"
  marshalGateway :: "gateway_message \<Rightarrow> bytes option"
  marshalCancel :: "cancel_command \<Rightarrow> bytes option"
  marshalEnvironment :: "resolved_environment \<Rightarrow> bytes option"
  sizeOffer :: "lease_offer \<Rightarrow> nat"
  sha256Sum :: "bytes \<Rightarrow> bytes"
  parseRequestURI :: "string \<Rightarrow> uri option"
  parsesAsIP :: "string \<Rightarrow> bool"
  pathUnescape :: "string \<Rightarrow> string option"
  gunzipMember :: "bytes \<Rightarrow> (bytes \<times> bytes) option"
  decodeConfiguration :: "bytes \<Rightarrow> config_document option"
  frozenVersion :: "execution_evidence \<Rightarrow> string option"
  validateFrozen :: "execution_evidence \<Rightarrow> job_spec \<Rightarrow> string \<Rightarrow> bool"
  validateFrozenV2 :: "execution_evidence \<Rightarrow> job_spec \<Rightarrow> string \<Rightarrow> bool"
  validateSelection :: "bytes \<Rightarrow> string list \<Rightarrow> bool"
  validateWireV2 :: "network_policy_v2 \<Rightarrow> bool"
  withinLocalMaximumV2 :: "network_policy_v2 option \<Rightarrow> network_policy_v2 \<Rightarrow> bool"
  newContextV2 :: "job_spec \<Rightarrow> bool"

text \<open>
  Documented behaviour the runner relies on: decoding what was encoded gives the message
  back, an instant survives the conversion to a timestamp, a message with a non-empty
  identifier has a non-empty encoding, and a SHA-256 digest has 32 bytes.
\<close>

definition lib_ok :: "lib \<Rightarrow> bool" where
  "lib_ok L \<longleftrightarrow>
     (\<forall>m b. marshalRunner L m = Some b \<longrightarrow> unmarshalRunner L b = Some m)
     \<and> (\<forall>m b. marshalRunner L m = Some b \<longrightarrow> runnerMessageId m \<noteq> [] \<longrightarrow> b \<noteq> [])
     \<and> (\<forall>j b. marshalJob L j = Some b \<longrightarrow> unmarshalJob L b = Some j)
     \<and> (\<forall>t. tsAsTime L (tsNew L t) = t)
     \<and> (\<forall>d. length (sha256Sum L d) = 32)"

lemma lib_ok_runner: "lib_ok L \<Longrightarrow> marshalRunner L m = Some b \<Longrightarrow> unmarshalRunner L b = Some m"
  by (simp add: lib_ok_def)

lemma lib_ok_runner_nonempty:
  "lib_ok L \<Longrightarrow> marshalRunner L m = Some b \<Longrightarrow> runnerMessageId m \<noteq> [] \<Longrightarrow> b \<noteq> []"
  by (auto simp: lib_ok_def)

lemma lib_ok_job: "lib_ok L \<Longrightarrow> marshalJob L j = Some b \<Longrightarrow> unmarshalJob L b = Some j"
  by (simp add: lib_ok_def)

lemma lib_ok_time: "lib_ok L \<Longrightarrow> tsAsTime L (tsNew L t) = t"
  by (simp add: lib_ok_def)

lemma lib_ok_sha256: "lib_ok L \<Longrightarrow> length (sha256Sum L d) = 32"
  by (simp add: lib_ok_def)

end
