(* ===== verification/Identifiers.thy ===== *)
theory Identifiers
  imports Wire
begin

section \<open>Identifiers, plugin names and job correlation\<close>

text \<open>
  The syntactic checks of \<open>gatewayclient/config.go\<close>, \<open>pluginname/paper.go\<close> and
  \<open>gatewayclient/job_correlation.go\<close>: which identifiers, UUIDs, W3C trace parents and
  advertised protocol features the runner accepts. Field names, which only occur in
  error texts, are dropped; a checker returns whether there is no error.
\<close>

subsection \<open>config.go\<close>

definition maximumMessageBytes :: nat where "maximumMessageBytes = 65536"
definition maximumIdentifierBytes :: nat where "maximumIdentifierBytes = 128"
definition maximumAttemptNumber :: nat where "maximumAttemptNumber = 1000000"

definition identifier_rest :: "char \<Rightarrow> bool" where
  "identifier_rest c \<longleftrightarrow> ascii_alnum c \<or> c \<in> set ''._:/-''"

definition identifierPattern :: "string \<Rightarrow> bool" where
  "identifierPattern s \<longleftrightarrow> (case s of [] \<Rightarrow> False | c # cs \<Rightarrow> ascii_alnum c \<and> list_all identifier_rest cs)"

definition version_rest :: "char \<Rightarrow> bool" where
  "version_rest c \<longleftrightarrow> ascii_alnum c \<or> c \<in> set ''._+:/-''"

definition versionPattern :: "string \<Rightarrow> bool" where
  "versionPattern s \<longleftrightarrow> (case s of [] \<Rightarrow> False | c # cs \<Rightarrow> ascii_alnum c \<and> list_all version_rest cs)"

definition uuidPattern :: "string \<Rightarrow> bool" where
  "uuidPattern s \<longleftrightarrow>
     length s = 36 \<and>
     list_all (\<lambda>(i, c). if i \<in> {8, 13, 18, 23} then c = CHR ''-'' else hex_char c) (enumerate 0 s)"

definition validateUUID :: "string \<Rightarrow> bool" where
  "validateUUID value = uuidPattern value"

definition validateIdentifier :: "string \<Rightarrow> nat \<Rightarrow> bool" where
  "validateIdentifier value maximum =
     (if value = [] then False
      else if length value > maximum then False
      else identifierPattern value)"

definition validateBoundedText :: "string \<Rightarrow> nat \<Rightarrow> nat \<Rightarrow> bool" where
  "validateBoundedText value minimum maximum =
     (\<not> (\<not> utf8_valid value \<or> length value < minimum \<or> length value > maximum \<or> trim_space value \<noteq> value))"

datatype scope_kind = ScopePlatform | ScopeOrganization | ScopeOther string

record expected_scope =
  scopeKind :: scope_kind
  scopeOrganizationId :: string

record resources =
  resCpuMillis :: "32 word"
  resMemoryBytes :: "64 word"
  resDiskBytes :: "64 word"
  resProcessCount :: "32 word"

text \<open>\<open>validateTimestamp\<close> and its relatives of \<open>client.go\<close>.\<close>

definition maximumClockSkew :: duration where "maximumClockSkew = 10 * minute"

text \<open>\<open>AsTime\<close> of a nil timestamp is the Unix epoch, \<open>AsDuration\<close> of a nil duration is zero.\<close>

definition unixEpoch :: time where "unixEpoch = 62135596800 * second"

definition asTime :: "lib \<Rightarrow> timestamp option \<Rightarrow> time" where
  "asTime L t = (case t of None \<Rightarrow> unixEpoch | Some ts \<Rightarrow> tsAsTime L ts)"

definition asDuration :: "lib \<Rightarrow> pduration option \<Rightarrow> duration" where
  "asDuration L d = (case d of None \<Rightarrow> 0 | Some pd \<Rightarrow> pdAsDuration L pd)"

definition validateTimestamp :: "lib \<Rightarrow> timestamp option \<Rightarrow> bool" where
  "validateTimestamp L value = (case value of None \<Rightarrow> False | Some t \<Rightarrow> tsCheckValid L t)"

definition validateTimestampNear :: "lib \<Rightarrow> timestamp option \<Rightarrow> time \<Rightarrow> bool" where
  "validateTimestampNear L value now =
     (case value of
        None \<Rightarrow> False
      | Some t \<Rightarrow>
          if \<not> tsCheckValid L t then False
          else (let difference = time_sub (tsAsTime L t) now
                in \<not> (difference < - maximumClockSkew \<or> difference > maximumClockSkew)))"

definition validateDuration :: "lib \<Rightarrow> pduration option \<Rightarrow> duration \<Rightarrow> duration \<Rightarrow> bool" where
  "validateDuration L value minimum maximum =
     (case value of
        None \<Rightarrow> False
      | Some d \<Rightarrow>
          if \<not> pdCheckValid L d then False
          else \<not> (pdAsDuration L d < minimum \<or> pdAsDuration L d > maximum))"

subsection \<open>pluginname/paper.go\<close>

definition asciiAlphanumeric :: "char \<Rightarrow> bool" where
  "asciiAlphanumeric value \<longleftrightarrow> char_between 65 90 value \<or> char_between 97 122 value \<or> char_between 48 57 value"

definition ValidPaper :: "string \<Rightarrow> bool" where
  "ValidPaper value =
     (if length value = 0 \<or> length value > 64 \<or> \<not> asciiAlphanumeric (value ! 0) then False
      else if \<exists>character \<in> set (tl value). \<not> asciiAlphanumeric character \<and> character \<noteq> CHR ''_''
                \<and> character \<noteq> CHR ''.'' \<and> character \<noteq> CHR ''-''
      then False
      else to_lower value \<notin> {''bukkit'', ''minecraft'', ''mojang'', ''spigot'', ''paper''})"

subsection \<open>job\_correlation.go\<close>

datatype offer_rejection = OfferRejection (rejectReason: rejection_reason) (rejectCode: string) (rejectMessage: string)

text \<open>\<open>reject\<close> panics on an empty or over-long code or message; every call passes literals in range.\<close>

definition rejectUnsupported :: "string \<Rightarrow> string \<Rightarrow> offer_rejection" where
  "rejectUnsupported code message = OfferRejection REASON_UNSUPPORTED code message"

definition rejectPolicy :: "string \<Rightarrow> string \<Rightarrow> offer_rejection" where
  "rejectPolicy code message = OfferRejection REASON_POLICY code message"

definition zeroUUID :: string where "zeroUUID = ''00000000-0000-0000-0000-000000000000''"

definition lowerHex :: "string \<Rightarrow> bool" where
  "lowerHex value = list_all lower_hex_char value"

definition allZeroHex :: "string \<Rightarrow> bool" where
  "allZeroHex value = list_all (\<lambda>c. c = CHR ''0'') value"

definition validCanonicalNonzeroUUID :: "string \<Rightarrow> bool" where
  "validCanonicalNonzeroUUID value \<longleftrightarrow> value \<noteq> zeroUUID \<and> value = to_lower value \<and> validateUUID value"

definition validTraceparent :: "string \<Rightarrow> bool" where
  "validTraceparent value =
     (if length value \<noteq> 55 \<or> substring value 0 3 \<noteq> ''00-'' \<or> value ! 35 \<noteq> CHR ''-'' \<or> value ! 52 \<noteq> CHR ''-''
      then False
      else if \<not> lowerHex (substring value 3 35) \<or> \<not> lowerHex (substring value 36 52) \<or> \<not> lowerHex (substring value 53 55)
      then False
      else if allZeroHex (substring value 3 35) \<or> allZeroHex (substring value 36 52) then False
      else substring value 53 55 = ''00'' \<or> substring value 53 55 = ''01'')"

definition jobCorrelationWorkflowPrefix :: string where "jobCorrelationWorkflowPrefix = ''release/''"

definition attempt_candidate :: "job_spec \<Rightarrow> string" where
  "attempt_candidate job = (case jobAttempt job of None \<Rightarrow> [] | Some a \<Rightarrow> releaseCandidateId a)"

definition validateOfferJobCorrelation :: "job_spec \<Rightarrow> expected_scope \<Rightarrow> bool \<Rightarrow> offer_rejection option" where
  "validateOfferJobCorrelation job expected negotiated =
     (if \<not> negotiated then
        (case jobCorrelation job of
           Some _ \<Rightarrow> Some (rejectUnsupported ''unexpected_job_correlation'' ''job correlation was not negotiated'')
         | None \<Rightarrow> None)
      else (case jobCorrelation job of
          None \<Rightarrow> Some (rejectUnsupported ''missing_job_correlation'' ''negotiated job correlation is required'')
        | Some correlation \<Rightarrow>
            let workflow = workflowId correlation;
                workflowCandidateID =
                  (if length workflow = 44 \<and> has_prefix workflow jobCorrelationWorkflowPrefix
                   then drop (length jobCorrelationWorkflowPrefix) workflow else [])
            in if length (correlationUnknown correlation) \<noteq> 0
                  \<or> \<not> validTraceparent (traceparent correlation)
                  \<or> \<not> validCanonicalNonzeroUUID (correlationOrganizationId correlation)
                  \<or> \<not> validCanonicalNonzeroUUID (projectId correlation)
                  \<or> \<not> validCanonicalNonzeroUUID workflowCandidateID
                  \<or> workflowCandidateID \<noteq> attempt_candidate job
               then Some (rejectUnsupported ''invalid_job_correlation'' ''job correlation is malformed or conflicts with attempt identity'')
               else if scopeKind expected = ScopeOrganization
                       \<and> correlationOrganizationId correlation \<noteq> scopeOrganizationId expected
               then Some (rejectPolicy ''job_correlation_scope_mismatch'' ''job correlation organization conflicts with runner scope'')
               else None))"

subsection \<open>Advertised features\<close>

datatype feature_error = UnknownFeature | DuplicateFeature | MissingNetworkRequirement

definition known_feature :: "protocol_feature \<Rightarrow> bool" where
  "known_feature f = (case f of FEATURE_OTHER _ \<Rightarrow> False | _ \<Rightarrow> True)"

definition advertisedFeature :: "protocol_feature list \<Rightarrow> protocol_feature \<Rightarrow> bool" where
  "advertisedFeature features wanted = list_ex (\<lambda>f. f = wanted) features"

fun check_features :: "protocol_feature set \<Rightarrow> protocol_feature list \<Rightarrow> feature_error option" where
  "check_features seen [] = None"
| "check_features seen (f # fs) =
     (if \<not> known_feature f then Some UnknownFeature
      else if f \<in> seen then Some DuplicateFeature
      else check_features (insert f seen) fs)"

definition network_required_features :: "protocol_feature list" where
  "network_required_features =
     [FEATURE_DURABLE_LEASE_ACKNOWLEDGEMENTS, FEATURE_JOB_CORRELATION_V1, FEATURE_TERMINAL_EVIDENCE_V2,
      FEATURE_NETWORK_POLICY_V2, FEATURE_NETWORK_AUTHORITY_V2]"

definition validateAdvertisedFeatures :: "protocol_feature list \<Rightarrow> feature_error option" where
  "validateAdvertisedFeatures features =
     (case check_features {} features of
        Some e \<Rightarrow> Some e
      | None \<Rightarrow>
          if (advertisedFeature features FEATURE_NETWORK_POLICY_V2 \<or> advertisedFeature features FEATURE_NETWORK_AUTHORITY_V2)
             \<and> \<not> list_all (advertisedFeature features) network_required_features
          then Some MissingNetworkRequirement else None)"

text \<open>
  \<open>testsecrets.ValidateSelection\<close> reads the normalized configuration and the secret references of a job; the
  check itself is a function of \<open>lib\<close>.
\<close>

definition ValidateSelection :: "lib \<Rightarrow> job_spec \<Rightarrow> bool" where
  "ValidateSelection L job = validateSelection L (normalizedConfigurationJson job) (testSecrets job)"

lemma asTime_Some [simp]: "asTime L (Some t) = tsAsTime L t"
  by (simp add: asTime_def)

lemma asDuration_Some [simp]: "asDuration L (Some d) = pdAsDuration L d"
  by (simp add: asDuration_def)


subsection \<open>Properties\<close>

lemma check_features_iff:
  "check_features seen fs = None \<longleftrightarrow> list_all known_feature fs \<and> distinct fs \<and> set fs \<inter> seen = {}"
  by (induction fs arbitrary: seen) auto

lemma advertisedFeature_iff [simp]: "advertisedFeature fs f \<longleftrightarrow> f \<in> set fs"
  by (auto simp: advertisedFeature_def list_ex_iff)

text \<open>
  C5. An advertised feature list is valid exactly if every feature is known, none is repeated, and the two network
  features occur only together with everything network policies need.
\<close>

theorem advertised_features_valid:
  "validateAdvertisedFeatures fs = None \<longleftrightarrow>
     list_all known_feature fs \<and> distinct fs
     \<and> (set fs \<inter> {FEATURE_NETWORK_POLICY_V2, FEATURE_NETWORK_AUTHORITY_V2} = {} \<or> set network_required_features \<subseteq> set fs)"
  using check_features_iff [of "{}" fs]
  by (cases "check_features {} fs") (auto simp: validateAdvertisedFeatures_def list_all_iff)

lemma split_at:
  "length v = n + m \<Longrightarrow> \<exists>x y. v = x @ y \<and> length x = n \<and> length y = m"
  by (metis append_take_drop_id length_append add_diff_cancel_left' length_drop length_take min.absorb2 le_add1)

lemma traceparent_split:
  assumes "length v = 55"
  shows "\<exists>p t d1 s d2 f. v = p @ t @ d1 # s @ d2 # f \<and> length p = 3 \<and> length t = 32 \<and> length s = 16 \<and> length f = 2"
proof -
  obtain p r1 where 1: "v = p @ r1" "length p = 3" "length r1 = 52"
    using split_at [of v 3 52] assms by auto
  obtain t r2 where 2: "r1 = t @ r2" "length t = 32" "length r2 = 20"
    using split_at [of r1 32 20] 1 by auto
  obtain d1 r3 where 3: "r2 = d1 # r3" "length r3 = 19"
    using 2 by (cases r2) auto
  obtain s r4 where 4: "r3 = s @ r4" "length s = 16" "length r4 = 3"
    using split_at [of r3 16 3] 3 by auto
  obtain d2 f where 5: "r4 = d2 # f" "length f = 2"
    using 4 by (cases r4) auto
  show ?thesis
    by (intro exI [of _ p] exI [of _ t] exI [of _ d1] exI [of _ s] exI [of _ d2] exI [of _ f])
       (simp add: 1 2 3 4 5)
qed

lemma traceparent_parts:
  assumes "length p = 3" "length t = 32" "length s = 16" "length f = 2"
    and "v = p @ t @ d1 # s @ d2 # f"
  shows "length v = 55" "substring v 0 3 = p" "substring v 3 35 = t" "substring v 36 52 = s" "substring v 53 55 = f"
    "v ! 35 = d1" "v ! 52 = d2"
  using assms by (simp_all add: substring_def nth_append)


end
