(* ===== verification/Samples.thy ===== *)
theory Samples
  imports Identifiers
begin

section \<open>A concrete instance of the libraries\<close>

text \<open>
  An instance of \<open>lib\<close> on which the hypotheses about third-party code are
  satisfied and every function computes. A codec is given by a finite table of messages
  and their encodings: it encodes exactly the messages of the table. The examples that
  show the theorems are not vacuous evaluate the model with it.
\<close>

definition encodeTable :: "(bytes \<times> 'm) list \<Rightarrow> 'm \<Rightarrow> bytes option" where
  "encodeTable table m = map_of (map prod.swap table) m"

definition decodeTable :: "(bytes \<times> 'm) list \<Rightarrow> bytes \<Rightarrow> 'm option" where
  "decodeTable table b = map_of table b"

definition sampleTimestamp :: "time \<Rightarrow> timestamp" where
  "sampleTimestamp t = \<lparr>ts_seconds = t div 1000000000, ts_nanos = t mod 1000000000\<rparr>"

definition sampleTime :: "timestamp \<Rightarrow> time" where
  "sampleTime ts = ts_seconds ts * 1000000000 + ts_nanos ts"

definition sampleDigest :: "bytes \<Rightarrow> bytes" where
  "sampleDigest b = take 32 (b @ replicate 32 CHR ''0'')"

definition sampleUri :: uri where
  "sampleUri =
     \<lparr>uriScheme = ''https'', uriHost = ''a.example'', uriHostname = ''a.example'', uriPort = [], uriHasUser = False,
      uriFragment = [], uriOpaque = [], uriEscapedPath = ''/logs/1''\<rparr>"

definition sampleLib :: "(bytes \<times> runner_message) list \<Rightarrow> (bytes \<times> job_spec) list \<Rightarrow> lib" where
  "sampleLib messages jobs =
     \<lparr>tsCheckValid = (\<lambda>_. True), tsAsTime = sampleTime, tsNew = sampleTimestamp,
      pdCheckValid = (\<lambda>_. True), pdAsDuration = (\<lambda>d. pd_seconds d * 1000000000 + pd_nanos d),
      pdNew = (\<lambda>d. \<lparr>pd_seconds = d div 1000000000, pd_nanos = d mod 1000000000\<rparr>),
      marshalRunner = encodeTable messages, unmarshalRunner = decodeTable messages, sizeRunner = (\<lambda>_. 512),
      marshalJob = encodeTable jobs, unmarshalJob = decodeTable jobs,
      marshalGateway = (\<lambda>m. Some (gatewayMessageId m)), marshalCancel = (\<lambda>c. Some (cancelCancellationId c)),
      marshalEnvironment = (\<lambda>_. Some ''environment''), sizeOffer = (\<lambda>_. 512), sha256Sum = sampleDigest,
      parseRequestURI = (\<lambda>_. Some sampleUri), parsesAsIP = (\<lambda>_. False), pathUnescape = (\<lambda>s. Some s),
      gunzipMember = (\<lambda>b. Some (b, [])),
      decodeConfiguration = (\<lambda>_. Some \<lparr>documentIsObject = True, documentSecrets = Some 0\<rparr>),
      frozenVersion = (\<lambda>_. None), validateFrozen = (\<lambda>_ _ _. False), validateFrozenV2 = (\<lambda>_ _ _. False),
      validateSelection = (\<lambda>_ _. False), validateWireV2 = (\<lambda>_. False), withinLocalMaximumV2 = (\<lambda>_ _. False),
      newContextV2 = (\<lambda>_. False)\<rparr>"

definition sampleUUID :: string where
  "sampleUUID = ''0a000000-0000-4000-8000-000000000001''"

lemma sampleUUID_valid [simp]: "validateUUID sampleUUID" "to_lower sampleUUID = sampleUUID"
  by code_simp+

lemma decode_encode_table:
  "distinct (map fst table) \<Longrightarrow> encodeTable table m = Some b \<Longrightarrow> decodeTable table b = Some m"
  by (induction table) (auto simp: encodeTable_def decodeTable_def split: if_splits dest: map_of_SomeD intro: rev_image_eqI)

lemma encode_table_mem: "encodeTable table m = Some b \<Longrightarrow> b \<in> set (map fst table)"
  by (auto simp: encodeTable_def dest!: map_of_SomeD intro: rev_image_eqI)

lemma sampleTime_Timestamp [simp]: "sampleTime (sampleTimestamp t) = t"
  by (simp add: sampleTime_def sampleTimestamp_def)

lemma length_sampleDigest [simp]: "length (sampleDigest b) = 32"
  by (simp add: sampleDigest_def)

lemma sampleLib_ok:
  assumes "distinct (map fst messages)" "[] \<notin> set (map fst messages)" "distinct (map fst jobs)"
  shows "lib_ok (sampleLib messages jobs)"
  using assms by (auto simp: lib_ok_def sampleLib_def decode_encode_table dest: encode_table_mem)

end
