(* ===== verification/LogUpload.thy ===== *)
theory LogUpload
  imports Samples
begin

section \<open>Complete log upload\<close>

text \<open>
  \<open>gatewayclient/complete_log_upload.go\<close>: which upload capability the runner takes from the
  gateway, which addresses it may be dialled at, which archive is uploaded, and the
  retry loop. The outcome of each HTTP request is an argument of the loop.
\<close>

definition completeLogUploadContentType :: string where "completeLogUploadContentType = ''application/gzip''"
definition completeLogSourceContentType :: string where "completeLogSourceContentType = ''text/plain; charset=utf-8''"
definition completeLogSourceEncoding :: string where "completeLogSourceEncoding = ''gzip''"
definition maximumUploadURIBytes :: nat where "maximumUploadURIBytes = 4096"
definition maximumObjectKeyBytes :: nat where "maximumObjectKeyBytes = 1024"
definition maximumCompleteLogBytes :: nat where "maximumCompleteLogBytes = 268435456"
definition maximumCompressedUploadBytes :: nat where "maximumCompressedUploadBytes = 269484032"
definition completeLogUploadAttempts :: nat where "completeLogUploadAttempts = 3"
definition minimumLeaseDuration :: duration where "minimumLeaseDuration = second"
definition maximumLeaseDuration :: duration where "maximumLeaseDuration = 24 * hour"

subsection \<open>The upload capability\<close>

record complete_log_target =
  targetUri :: string
  targetObjectKey :: string
  targetExpiresAt :: time

record active_upload =
  upLeaseID :: string
  upAttemptID :: string
  upTarget :: complete_log_target
  upRecovery :: bool

definition setCompleteLogTargetKind ::
  "job_spec option \<Rightarrow> complete_log_target option \<Rightarrow> bool \<Rightarrow> active_upload option" where
  "setCompleteLogTargetKind job target recovery =
     (case (target, job) of
        (Some t, Some j) \<Rightarrow> (case (jobLease j, jobAttempt j) of
            (Some l, Some a) \<Rightarrow> Some \<lparr>upLeaseID = leaseId l, upAttemptID = attemptId a, upTarget = t, upRecovery = recovery\<rparr>
          | _ \<Rightarrow> None)
      | _ \<Rightarrow> None)"

definition completeLogTarget ::
  "active_upload option \<Rightarrow> lease_identity option \<Rightarrow> attempt_identity option \<Rightarrow> complete_log_target option" where
  "completeLogTarget upload lease attempt =
     (case (upload, lease, attempt) of
        (Some u, Some l, Some a) \<Rightarrow>
          if upLeaseID u \<noteq> leaseId l \<or> upAttemptID u \<noteq> attemptId a then None else Some (upTarget u)
      | _ \<Rightarrow> None)"

definition clearRecoveryCompleteLogTarget :: "active_upload option \<Rightarrow> active_upload option" where
  "clearRecoveryCompleteLogTarget upload =
     (case upload of Some u \<Rightarrow> if upRecovery u then None else Some u | None \<Rightarrow> None)"

definition hostname_label :: "string \<Rightarrow> bool" where
  "hostname_label label =
     (if length label = 0 \<or> length label > 63 \<or> hd label = CHR ''-'' \<or> last label = CHR ''-'' then False
      else list_all (\<lambda>c. char_between 97 122 c \<or> char_between 48 57 c \<or> c = CHR ''-'') label)"

definition validUploadHostname :: "string \<Rightarrow> bool" where
  "validUploadHostname hostname =
     (if hostname = [] \<or> length hostname > 253 then False
      else list_all hostname_label (split_on CHR ''.'' hostname))"

text \<open>
  A control character in valid UTF-8: U+0000 to U+001F, U+007F, and U+0080 to U+009F, which
  are encoded with the lead byte C2.
\<close>

fun has_control :: "string \<Rightarrow> bool" where
  "has_control [] = False"
| "has_control (c # cs) =
     (char_between 0 31 c \<or> c = CHR 0x7F
      \<or> (c = CHR 0xC2 \<and> (case cs of [] \<Rightarrow> False | d # _ \<Rightarrow> char_between 128 159 d))
      \<or> has_control cs)"

definition validateUploadObjectKey :: "string \<Rightarrow> bool" where
  "validateUploadObjectKey key =
     (if key = [] \<or> length key > maximumObjectKeyBytes \<or> \<not> utf8_valid key \<or> has_prefix key ''/''
         \<or> contains_sub key [CHR 0x5C] then False
      else list_all (\<lambda>segment. \<not> (segment = [] \<or> segment = ''.'' \<or> segment = ''..'') \<and> \<not> has_control segment)
             (split_on CHR ''/'' key))"

definition trim_prefix :: "string \<Rightarrow> string \<Rightarrow> string" where
  "trim_prefix s p = (if has_prefix s p then drop (length p) s else s)"

definition trim_suffix :: "string \<Rightarrow> string \<Rightarrow> string" where
  "trim_suffix s p = (if has_suffix s p then take (length s - length p) s else s)"

definition legacyUploadObjectKey :: "lib \<Rightarrow> uri \<Rightarrow> string option" where
  "legacyUploadObjectKey L parsed =
     (if contains_sub (uriEscapedPath parsed) ''%'' then None
      else (case pathUnescape L (uriEscapedPath parsed) of
          None \<Rightarrow> None
        | Some path \<Rightarrow>
            let key = trim_prefix path ''/'' in if \<not> validateUploadObjectKey key then None else Some key))"

definition invalidUpload :: "string \<Rightarrow> offer_rejection + 'a" where
  "invalidUpload message = Inl (rejectUnsupported ''invalid_complete_log_upload'' message)"

definition validateCompleteLogUpload ::
  "lib \<Rightarrow> object_upload option \<Rightarrow> time \<Rightarrow> time \<Rightarrow> time \<Rightarrow> bool \<Rightarrow> offer_rejection + complete_log_target option" where
  "validateCompleteLogUpload L upload now offerExpires leaseExpires authoritativeIdentity =
     (case upload of
        None \<Rightarrow> Inr None
      | Some u \<Rightarrow>
          if length (uploadUnknown u) \<noteq> 0 then invalidUpload ''unsupported fields''
          else if length (uploadUri u) = 0 \<or> length (uploadUri u) > maximumUploadURIBytes \<or> \<not> utf8_valid (uploadUri u)
          then invalidUpload ''URI is missing or invalid''
          else (case parseRequestURI L (uploadUri u) of
              None \<Rightarrow> invalidUpload ''must be an absolute HTTPS URL''
            | Some parsed \<Rightarrow>
                if uriScheme parsed \<noteq> ''https'' \<or> uriHost parsed = [] \<or> uriOpaque parsed \<noteq> [] \<or> uriHasUser parsed
                   \<or> uriFragment parsed \<noteq> []
                then invalidUpload ''must be an absolute HTTPS URL''
                else let hostname = trim_suffix (to_lower (uriHostname parsed)) ''.''
                in if \<not> validUploadHostname hostname \<or> hostname = ''localhost'' \<or> parsesAsIP L hostname
                      \<or> (uriPort parsed \<noteq> [] \<and> uriPort parsed \<noteq> ''443'')
                   then invalidUpload ''destination is not supported''
                   else if uploadContentType u \<noteq> completeLogUploadContentType then invalidUpload ''content type''
                   else if \<not> validateTimestamp L (uploadExpiresAt u) then invalidUpload ''expiration is missing or invalid''
                   else let expires = asTime L (uploadExpiresAt u)
                   in if \<not> expires > now \<or> expires < offerExpires \<or> \<not> expires > leaseExpires
                         \<or> expires > now + maximumLeaseDuration
                      then invalidUpload ''expiration is outside the lease window''
                      else if authoritativeIdentity then
                        (if \<not> validateUploadObjectKey (uploadObjectKey u) then invalidUpload ''object key''
                         else Inr (Some \<lparr>targetUri = uploadUri u, targetObjectKey = uploadObjectKey u, targetExpiresAt = expires\<rparr>))
                      else if uploadObjectKey u \<noteq> [] then invalidUpload ''object identity was not negotiated''
                      else (case legacyUploadObjectKey L parsed of
                          None \<Rightarrow> invalidUpload ''object key''
                        | Some key \<Rightarrow> Inr (Some \<lparr>targetUri = uploadUri u, targetObjectKey = key, targetExpiresAt = expires\<rparr>))))"

subsection \<open>Addresses\<close>

text \<open>\<open>netip.Addr\<close>: an address by its value, 32 or 128 bits.\<close>

datatype addr = V4 nat | V6 nat

fun bytes_value :: "nat list \<Rightarrow> nat" where
  "bytes_value bs = foldl (\<lambda>v b. 256 * v + b) 0 bs"

definition AddrFromSlice :: "nat list \<Rightarrow> addr option" where
  "AddrFromSlice bs = (if length bs = 4 then Some (V4 (bytes_value bs))
                       else if length bs = 16 then Some (V6 (bytes_value bs)) else None)"

definition Unmap :: "addr \<Rightarrow> addr" where
  "Unmap a = (case a of V6 v \<Rightarrow> if v div 2 ^ 32 = 0xFFFF then V4 (v mod 2 ^ 32) else V6 v | V4 v \<Rightarrow> V4 v)"

definition IsGlobalUnicast :: "addr \<Rightarrow> bool" where
  "IsGlobalUnicast a =
     (case a of
        V4 v \<Rightarrow> \<not> (v = 0 \<or> v = 2 ^ 32 - 1) \<and> \<not> v div 2 ^ 24 = 127 \<and> \<not> v div 2 ^ 28 = 0xE \<and> \<not> v div 2 ^ 16 = 0xA9FE
      | V6 v \<Rightarrow> v \<noteq> 0 \<and> v \<noteq> 1 \<and> \<not> v div 2 ^ 120 = 0xFF \<and> \<not> v div 2 ^ 118 = 0x3FA)"

definition prefix_contains :: "addr \<times> nat \<Rightarrow> addr \<Rightarrow> bool" where
  "prefix_contains p a =
     (case (p, a) of
        ((V4 base, n), V4 v) \<Rightarrow> v div 2 ^ (32 - n) = base div 2 ^ (32 - n)
      | ((V6 base, n), V6 v) \<Rightarrow> v div 2 ^ (128 - n) = base div 2 ^ (128 - n)
      | _ \<Rightarrow> False)"

definition quad :: "nat \<Rightarrow> nat \<Rightarrow> nat \<Rightarrow> nat \<Rightarrow> addr" where
  "quad a b c d = V4 (bytes_value [a, b, c, d])"

text \<open>The first four groups of an IPv6 prefix; the others are zero except where given.\<close>

definition groups :: "nat \<Rightarrow> nat \<Rightarrow> nat \<Rightarrow> nat \<Rightarrow> addr" where
  "groups a b c d = V6 (((a * 2 ^ 48 + b * 2 ^ 32 + c * 2 ^ 16 + d)) * 2 ^ 64)"

definition nonPublicUploadPrefixes :: "(addr \<times> nat) list" where
  "nonPublicUploadPrefixes =
     [(quad 0 0 0 0, 8), (quad 10 0 0 0, 8), (quad 100 64 0 0, 10), (quad 127 0 0 0, 8), (quad 169 254 0 0, 16),
      (quad 172 16 0 0, 12), (quad 192 0 0 0, 24), (quad 192 0 2 0, 24), (quad 192 31 196 0, 24),
      (quad 192 52 193 0, 24), (quad 192 88 99 0, 24), (quad 192 168 0 0, 16), (quad 192 175 48 0, 24),
      (quad 198 18 0 0, 15), (quad 198 51 100 0, 24), (quad 203 0 113 0, 24), (quad 240 0 0 0, 4),
      (groups 0 0 0 0, 96), (V6 (0xFFFF * 2 ^ 48), 96), (groups 0x64 0xFF9B 0 0, 96), (groups 0x64 0xFF9B 1 0, 48),
      (groups 0x100 0 0 0, 64), (groups 0x100 0 0 1, 64), (groups 0x2001 0 0 0, 23), (groups 0x2001 0xDB8 0 0, 32),
      (groups 0x2002 0 0 0, 16), (groups 0x2620 0x4F 0x8000 0, 48), (groups 0x3FFF 0 0 0, 20), (groups 0x5F00 0 0 0, 16),
      (groups 0xFC00 0 0 0, 7), (groups 0xFEC0 0 0 0, 10), (groups 0xFE80 0 0 0, 10)]"

definition publicUploadIP :: "nat list \<Rightarrow> bool" where
  "publicUploadIP ip =
     (case AddrFromSlice ip of
        None \<Rightarrow> False
      | Some a \<Rightarrow>
          let address = Unmap a
          in if \<not> IsGlobalUnicast address then False
             else \<not> list_ex (\<lambda>prefix. prefix_contains prefix address) nonPublicUploadPrefixes)"

subsection \<open>The archive\<close>

text \<open>
  The open archive file: what \<open>Stat\<close> reports (regular, size), or a failure, and its bytes, or a read
  failure. \<open>complete_log\<close> is \<open>execution.CompleteLog\<close>.
\<close>

record archive =
  archiveStat :: "(bool \<times> int) option"
  archiveBytes :: "bytes option"

record complete_log =
  clArchive :: "archive option"
  clState :: string
  clTruncated :: bool
  clError :: string
  clContentType :: string
  clContentEncoding :: string
  clCompressedBytes :: int
  clUncompressedBytes :: int
  clSHA256 :: string
  clRedacted :: bool

definition validateUploadArchive :: "lib \<Rightarrow> complete_log option \<Rightarrow> (bytes \<times> int) option" where
  "validateUploadArchive L log =
     (case log of
        None \<Rightarrow> None
      | Some c \<Rightarrow> (case clArchive c of
          None \<Rightarrow> None
        | Some a \<Rightarrow>
            if clState c \<noteq> ''complete'' \<or> clTruncated c \<or> clError c \<noteq> [] then None
            else if clContentType c \<noteq> completeLogSourceContentType \<or> clContentEncoding c \<noteq> completeLogSourceEncoding then None
            else if clCompressedBytes c < 0 \<or> clCompressedBytes c > int maximumCompressedUploadBytes
                    \<or> clUncompressedBytes c < 0 \<or> clUncompressedBytes c > int maximumCompleteLogBytes then None
            else if archiveStat a \<noteq> Some (True, clCompressedBytes c) then None
            else (case archiveBytes a of
                None \<Rightarrow> None
              | Some whole \<Rightarrow>
                  let data = take (nat (clCompressedBytes c)) whole; digestBytes = sha256Sum L data
                  in (case hex_decode (clSHA256 c) of
                        None \<Rightarrow> None
                      | Some declared \<Rightarrow>
                          if length declared \<noteq> 32 \<or> declared \<noteq> digestBytes then None
                          else (case gunzipMember L data of
                              None \<Rightarrow> None
                            | Some (contents, rest) \<Rightarrow>
                                let uncompressed = min (length contents) (maximumCompleteLogBytes + 1)
                                in if uncompressed > maximumCompleteLogBytes \<or> int uncompressed \<noteq> clUncompressedBytes c then None
                                   else if rest \<noteq> [] then None
                                   else Some (digestBytes, clCompressedBytes c))))))"

subsection \<open>The upload loop\<close>

text \<open>
  How one request ends: the request cannot be built, the transport fails, the body cannot be consumed, or
  a status arrives after so many bytes of the archive were read.
\<close>

datatype http_outcome = RequestInvalid | TransportError | BodyError | HttpStatus nat int

datatype upload_error = UploadUnavailable | CapabilityExpired | ArchiveInvalid | RequestCreation
  | RequestFailed | ResponseUnreadable | NotConsumed | StatusError nat | UploadFailed

definition log_object_of :: "complete_log_target \<Rightarrow> complete_log \<Rightarrow> bytes \<Rightarrow> int \<Rightarrow> log_object" where
  "log_object_of target c dg sz =
     \<lparr>logRedacted = clRedacted c, logObjectKey = targetObjectKey target,
      logDigest = Some \<lparr>digestAlgorithm = DIGEST_SHA256, digestValue = dg\<rparr>,
      logCompressedSizeBytes = of_int sz, logContentType = completeLogUploadContentType\<rparr>"

text \<open>
  The loop from attempt \<open>i\<close> on with \<open>k\<close> attempts left; \<open>clock\<close> and \<open>http\<close> give the time read before and the outcome
  of each attempt. The second component of the result counts the requests that were sent.
\<close>

primrec upload_attempts ::
  "nat \<Rightarrow> nat \<Rightarrow> complete_log_target \<Rightarrow> complete_log \<Rightarrow> bytes \<Rightarrow> int \<Rightarrow> (nat \<Rightarrow> time) \<Rightarrow> (nat \<Rightarrow> http_outcome)
   \<Rightarrow> upload_error \<Rightarrow> (upload_error + log_object) \<times> nat" where
  "upload_attempts 0 i target c dg sz clock http lastErr = (Inl lastErr, i)"
| "upload_attempts (Suc k) i target c dg sz clock http lastErr =
     (if \<not> targetExpiresAt target > clock i then (Inl CapabilityExpired, i)
      else (case http i of
          RequestInvalid \<Rightarrow> (Inl RequestCreation, i)
        | TransportError \<Rightarrow> upload_attempts k (Suc i) target c dg sz clock http RequestFailed
        | BodyError \<Rightarrow> upload_attempts k (Suc i) target c dg sz clock http ResponseUnreadable
        | HttpStatus status consumed \<Rightarrow>
            if status \<ge> 200 \<and> status < 300 then
              (if consumed \<noteq> sz then (Inl NotConsumed, Suc i) else (Inr (log_object_of target c dg sz), Suc i))
            else if status < 500 \<or> status > 599 then (Inl (StatusError status), Suc i)
            else upload_attempts k (Suc i) target c dg sz clock http (StatusError status)))"

definition Upload ::
  "lib \<Rightarrow> complete_log_target option \<Rightarrow> complete_log option \<Rightarrow> time \<Rightarrow> (nat \<Rightarrow> time) \<Rightarrow> (nat \<Rightarrow> http_outcome)
   \<Rightarrow> (upload_error + log_object) \<times> nat" where
  "Upload L target log now clock http =
     (case target of
        None \<Rightarrow> (Inl UploadUnavailable, 0)
      | Some t \<Rightarrow>
          if \<not> targetExpiresAt t > now then (Inl CapabilityExpired, 0)
          else (case (validateUploadArchive L log, log) of
              (Some (dg, sz), Some c) \<Rightarrow>
                upload_attempts completeLogUploadAttempts 0 t c dg sz clock http UploadFailed
            | _ \<Rightarrow> (Inl ArchiveInvalid, 0)))"

text \<open>The dotted-quad reading of the deny list, with multicast and broadcast.\<close>

definition special_purpose_v4 :: "nat \<Rightarrow> nat \<Rightarrow> nat \<Rightarrow> nat \<Rightarrow> bool" where
  "special_purpose_v4 a b c d \<longleftrightarrow>
     a = 0 \<or> a = 10 \<or> a = 127 \<or> a \<ge> 224
     \<or> (a = 100 \<and> 64 \<le> b \<and> b < 128) \<or> (a = 169 \<and> b = 254) \<or> (a = 172 \<and> 16 \<le> b \<and> b < 32)
     \<or> (a = 192 \<and> (b = 168 \<or> (b = 0 \<and> (c = 0 \<or> c = 2)) \<or> (b = 31 \<and> c = 196) \<or> (b = 52 \<and> c = 193)
                  \<or> (b = 88 \<and> c = 99) \<or> (b = 175 \<and> c = 48)))
     \<or> (a = 198 \<and> (b = 18 \<or> b = 19 \<or> (b = 51 \<and> c = 100))) \<or> (a = 203 \<and> b = 0 \<and> c = 113)"


subsection \<open>Addresses: lemmas\<close>

lemma bytes_value_4: "bytes_value [a, b, c, d] = a * 2 ^ 24 + b * 2 ^ 16 + c * 2 ^ 8 + d"
  by simp

lemma quad_parts:
  assumes "a < 256" "b < 256" "c < 256" "d < (256 :: nat)"
  defines "v \<equiv> a * 2 ^ 24 + b * 2 ^ 16 + c * 2 ^ 8 + d"
  shows "v div 2 ^ 24 = a" "v div 2 ^ 16 = 256 * a + b" "v div 2 ^ 8 = 65536 * a + 256 * b + c" "v < 2 ^ 32"
proof -
  have "v = d + 2 ^ 8 * (65536 * a + 256 * b + c)" by (simp add: v_def)
  then show 1: "v div 2 ^ 8 = 65536 * a + 256 * b + c" using assms by simp
  have "v div 2 ^ 16 = v div 2 ^ 8 div 2 ^ 8" by (simp flip: div_mult2_eq)
  also have "\<dots> = (c + 256 * (256 * a + b)) div 256" unfolding 1 by simp
  also have "\<dots> = 256 * a + b" using assms by simp
  finally show 2: "v div 2 ^ 16 = 256 * a + b" .
  have "v div 2 ^ 24 = v div 2 ^ 16 div 2 ^ 8" by (simp flip: div_mult2_eq)
  also have "\<dots> = (b + 256 * a) div 256" unfolding 2 by simp
  also have "\<dots> = a" using assms by simp
  finally show "v div 2 ^ 24 = a" .
  show "v < 2 ^ 32" using assms by (simp add: v_def)
qed

lemma div_chain: "(v :: nat) div 2 ^ (m + k) = v div 2 ^ m div 2 ^ k"
  by (simp add: power_add div_mult2_eq)

lemma pair_eq: "b < n \<Longrightarrow> b' < n \<Longrightarrow> n * a + b = n * a' + b' \<longleftrightarrow> a = a' \<and> b = (b' :: nat)"
  by (metis add.commute add_left_cancel div_less div_mult_self2 gr_zeroI add_0 not_less0)

lemma div_eq_range: "0 < n \<Longrightarrow> b div n = k \<longleftrightarrow> n * k \<le> b \<and> b < n * k + (n :: nat)"
  by (metis add.commute div_nat_eqI dividend_less_times_div mult.commute mult_Suc_right times_div_less_eq_dividend)

lemma prefix_reads:
  assumes "b < (256 :: nat)"
  shows "(256 * a + b) div 64 = 401 \<longleftrightarrow> a = 100 \<and> 64 \<le> b \<and> b < 128"
    "(256 * a + b) div 16 = 2753 \<longleftrightarrow> a = 172 \<and> 16 \<le> b \<and> b < 32"
    "(256 * a + b) div 2 = 25353 \<longleftrightarrow> a = 198 \<and> (b = 18 \<or> b = 19)"
    "256 * a + b = 43518 \<longleftrightarrow> a = 169 \<and> b = 254" "256 * a + b = 49320 \<longleftrightarrow> a = 192 \<and> b = 168"
proof -
  have l: "b div 64 < 4" "b div 16 < 16" "b div 2 < 128" using assms by auto
  have "(256 * a + b) div 64 = 4 * a + b div 64" by simp
  then show "(256 * a + b) div 64 = 401 \<longleftrightarrow> a = 100 \<and> 64 \<le> b \<and> b < 128"
    using pair_eq [OF l(1), of 1 a 100] div_eq_range [of 64 b 1] by simp
  have "(256 * a + b) div 16 = 16 * a + b div 16" by simp
  then show "(256 * a + b) div 16 = 2753 \<longleftrightarrow> a = 172 \<and> 16 \<le> b \<and> b < 32"
    using pair_eq [OF l(2), of 1 a 172] div_eq_range [of 16 b 1] by simp
  have "(256 * a + b) div 2 = 128 * a + b div 2" by simp
  moreover have "18 \<le> b \<and> b < 20 \<longleftrightarrow> b = 18 \<or> b = 19" by linarith
  ultimately show "(256 * a + b) div 2 = 25353 \<longleftrightarrow> a = 198 \<and> (b = 18 \<or> b = 19)"
    using pair_eq [OF l(3), of 9 a 198] div_eq_range [of 2 b 9] by simp
  show "256 * a + b = 43518 \<longleftrightarrow> a = 169 \<and> b = 254" "256 * a + b = 49320 \<longleftrightarrow> a = 192 \<and> b = 168"
    using pair_eq [of b 256 254 a 169] pair_eq [of b 256 168 a 192] assms by simp_all
qed

lemma v4_denied:
  assumes "a < 256" "b < 256" "c < 256" "d < (256 :: nat)"
  shows "(\<not> IsGlobalUnicast (V4 (bytes_value [a, b, c, d]))
          \<or> list_ex (\<lambda>p. prefix_contains p (V4 (bytes_value [a, b, c, d]))) nonPublicUploadPrefixes)
         \<longleftrightarrow> special_purpose_v4 a b c d"
proof -
  define v where "v = a * 2 ^ 24 + b * 2 ^ 16 + c * 2 ^ 8 + d"
  note p = quad_parts [OF assms, folded v_def]
  have v: "bytes_value [a, b, c, d] = v" by (simp add: v_def)
  have d: "v div 2 ^ 28 = a div 16" "v div 2 ^ 22 = (256 * a + b) div 64" "v div 2 ^ 20 = (256 * a + b) div 16"
    "v div 2 ^ 17 = (256 * a + b) div 2"
    using div_chain [of v 24 4, unfolded p(1)] div_chain [of v 16 6, unfolded p(2)]
      div_chain [of v 16 4, unfolded p(2)] div_chain [of v 16 1, unfolded p(2)] by simp_all
  have x: "a div 16 = 14 \<longleftrightarrow> 224 \<le> a \<and> a < 240" "a div 16 = 15 \<longleftrightarrow> 240 \<le> a"
    using assms by auto
  have y: "65536 * a + 256 * b + c = 65536 * a' + 256 * b' + c' \<longleftrightarrow> a = a' \<and> b = b' \<and> c = c'"
    if "b' < 256" "c' < 256" for a' b' c'
    using pair_eq [of c 256 c' "256 * a + b" "256 * a' + b'"] pair_eq [of b 256 b' a a'] assms that
    by (simp add: algebra_simps)
  have z: "v = 0 \<Longrightarrow> a = 0" "v = 2 ^ 32 - 1 \<Longrightarrow> 240 \<le> a"
    using assms by (auto simp: v_def)
  have u: "\<not> IsGlobalUnicast (V4 v) \<longleftrightarrow>
      v = 0 \<or> v = 2 ^ 32 - 1 \<or> a = 127 \<or> (224 \<le> a \<and> a < 240) \<or> (a = 169 \<and> b = 254)"
    by (simp add: IsGlobalUnicast_def p [simplified] d [simplified] x prefix_reads [OF assms(2)])
  have l: "list_ex (\<lambda>p. prefix_contains p (V4 v)) nonPublicUploadPrefixes \<longleftrightarrow>
      a = 0 \<or> a = 10 \<or> (a = 100 \<and> 64 \<le> b \<and> b < 128) \<or> a = 127 \<or> (a = 169 \<and> b = 254)
      \<or> (a = 172 \<and> 16 \<le> b \<and> b < 32) \<or> (a = 192 \<and> b = 0 \<and> c = 0) \<or> (a = 192 \<and> b = 0 \<and> c = 2)
      \<or> (a = 192 \<and> b = 31 \<and> c = 196) \<or> (a = 192 \<and> b = 52 \<and> c = 193) \<or> (a = 192 \<and> b = 88 \<and> c = 99)
      \<or> (a = 192 \<and> b = 168) \<or> (a = 192 \<and> b = 175 \<and> c = 48) \<or> (a = 198 \<and> (b = 18 \<or> b = 19))
      \<or> (a = 198 \<and> b = 51 \<and> c = 100) \<or> (a = 203 \<and> b = 0 \<and> c = 113) \<or> 240 \<le> a"
    by (simp add: nonPublicUploadPrefixes_def prefix_contains_def quad_def groups_def p [simplified] d [simplified] x
        prefix_reads [OF assms(2)] y [of 0 0 192, simplified] y [of 0 2 192, simplified] y [of 31 196 192, simplified]
        y [of 52 193 192, simplified] y [of 88 99 192, simplified] y [of 175 48 192, simplified]
        y [of 51 100 198, simplified] y [of 0 113 203, simplified])
  have "a \<ge> 224 \<longleftrightarrow> (224 \<le> a \<and> a < 240) \<or> 240 \<le> a" by linarith
  then show ?thesis
    unfolding v u l special_purpose_v4_def using z by satx
qed

lemma unmap_mapped:
  assumes "v < 2 ^ 32"
  shows "Unmap (V6 (0xFFFF * 2 ^ 32 + v)) = V4 v"
proof -
  have "(0xFFFF * 2 ^ 32 + v) div 2 ^ 32 = 0xFFFF"
    by (subst div_mult_self3) (use assms in simp_all)
  moreover have "(0xFFFF * 2 ^ 32 + v) mod 2 ^ 32 = v"
    by (subst mod_mult_self3) (use assms in simp_all)
  ultimately show ?thesis by (simp add: Unmap_def)
qed

lemma publicUploadIP_unmapped:
  "AddrFromSlice ip = Some x \<Longrightarrow> Unmap x = y \<Longrightarrow>
     publicUploadIP ip \<longleftrightarrow> \<not> (\<not> IsGlobalUnicast y \<or> list_ex (\<lambda>p. prefix_contains p y) nonPublicUploadPrefixes)"
  by (simp add: publicUploadIP_def Let_def)

lemma public_v4:
  assumes "a < 256" "b < 256" "c < 256" "d < (256 :: nat)"
  shows "publicUploadIP [a, b, c, d] \<longleftrightarrow> \<not> special_purpose_v4 a b c d"
proof -
  have s: "AddrFromSlice [a, b, c, d] = Some (V4 (bytes_value [a, b, c, d]))"
    by (simp add: AddrFromSlice_def)
  have u: "Unmap (V4 (bytes_value [a, b, c, d])) = V4 (bytes_value [a, b, c, d])"
    by (simp add: Unmap_def)
  show ?thesis
    unfolding publicUploadIP_unmapped [OF s u] v4_denied [OF assms] by (rule refl)
qed

lemma public_v4_mapped:
  assumes "a < 256" "b < 256" "c < 256" "d < (256 :: nat)"
  shows "publicUploadIP (replicate 10 0 @ [255, 255, a, b, c, d]) \<longleftrightarrow> \<not> special_purpose_v4 a b c d"
proof -
  let ?v = "bytes_value [a, b, c, d]"
  have "foldl (\<lambda>v b. 256 * v + b) 0 (replicate n (0 :: nat)) = 0" for n
    by (induction n) simp_all
  then have "bytes_value (replicate 10 0 @ [255, 255, a, b, c, d]) = 0xFFFF * 2 ^ 32 + ?v"
    by simp
  then have s: "AddrFromSlice (replicate 10 0 @ [255, 255, a, b, c, d]) = Some (V6 (0xFFFF * 2 ^ 32 + ?v))"
    by (simp only: AddrFromSlice_def) simp
  have u: "Unmap (V6 (0xFFFF * 2 ^ 32 + ?v)) = V4 ?v"
    by (rule unmap_mapped) (unfold bytes_value_4, rule quad_parts(4) [OF assms])
  show ?thesis
    unfolding publicUploadIP_unmapped [OF s u] v4_denied [OF assms] by (rule refl)
qed

lemma upload_attempts_sound:
  assumes "upload_attempts k i t c dg sz clock http e = (r, n)"
  shows "i \<le> n \<and> n \<le> i + k \<and> (\<forall>x. i \<le> x \<and> x < n \<longrightarrow> clock x < targetExpiresAt t)
         \<and> (\<forall>obj. r = Inr obj \<longrightarrow> obj = log_object_of t c dg sz
              \<and> (\<exists>status. 200 \<le> status \<and> status < 300 \<and> 0 < n \<and> http (n - 1) = HttpStatus status sz))"
  using assms
proof (induction k arbitrary: i e)
  case (Suc k)
  show ?case
  proof (cases "\<not> targetExpiresAt t > clock i")
    case True
    then show ?thesis using Suc.prems by auto
  next
    case False
    have step: "upload_attempts k (Suc i) t c dg sz clock http e' = (r, n) \<Longrightarrow> ?thesis" for e'
      using Suc.IH [of "Suc i" e'] False
      by (simp add: Suc_le_eq) (metis le_eq_less_or_eq less_imp_le_nat linorder_not_le)
    show ?thesis
    proof (cases "http i")
      case (HttpStatus status consumed)
      show ?thesis
        using Suc.prems False HttpStatus step
        by (auto simp: le_antisym dest: le_neq_implies_less split: if_splits)
    qed (use Suc.prems False step in auto)
  qed
qed auto


lemma validateUploadArchive_sound:
  assumes "validateUploadArchive L log = Some (dg, sz)"
  shows "\<exists>c a data. log = Some c \<and> clArchive c = Some a \<and> archiveBytes a = Some data \<and> sz = clCompressedBytes c
           \<and> 0 \<le> sz \<and> archiveStat a = Some (True, sz) \<and> dg = sha256Sum L (take (nat sz) data)
           \<and> hex_decode (clSHA256 c) = Some dg \<and> length dg = 32
           \<and> (\<exists>contents. gunzipMember L (take (nat sz) data) = Some (contents, [])
                \<and> int (length contents) = clUncompressedBytes c \<and> length contents \<le> maximumCompleteLogBytes)"
  using assms
  by (auto simp: validateUploadArchive_def Let_def split: option.splits if_splits prod.splits)

lemma Upload_Inr:
  assumes "Upload L target log now clock http = (Inr obj, n)"
  obtains t c dg sz where "target = Some t" "log = Some c" "validateUploadArchive L log = Some (dg, sz)"
    "obj = log_object_of t c dg sz"
    "\<exists>status. 200 \<le> status \<and> status < 300 \<and> 0 < n \<and> http (n - 1) = HttpStatus status sz"
  using assms
  by (auto simp: Upload_def split: option.splits if_splits prod.splits dest!: upload_attempts_sound)

lemma Upload_requests:
  assumes "Upload L target log now clock http = (r, n)"
  shows "n \<le> completeLogUploadAttempts \<and> (\<forall>i<n. \<exists>t. target = Some t \<and> clock i < targetExpiresAt t)"
  using assms
  by (auto simp: Upload_def split: option.splits if_splits prod.splits dest!: upload_attempts_sound)

lemma invalidUpload_not_Inr [simp]: "invalidUpload m \<noteq> Inr x"
  by (simp add: invalidUpload_def)

lemma target_sound:
  assumes "validateCompleteLogUpload L upload now offerExpires leaseExpires identity = Inr (Some t)"
  shows "now < targetExpiresAt t \<and> leaseExpires < targetExpiresAt t \<and> offerExpires \<le> targetExpiresAt t
         \<and> targetExpiresAt t \<le> now + maximumLeaseDuration \<and> validateUploadObjectKey (targetObjectKey t)
         \<and> (\<exists>u parsed. upload = Some u \<and> targetUri t = uploadUri u \<and> parseRequestURI L (uploadUri u) = Some parsed
              \<and> uriScheme parsed = ''https'' \<and> uriPort parsed \<in> {[], ''443''} \<and> \<not> uriHasUser parsed
              \<and> \<not> parsesAsIP L (trim_suffix (to_lower (uriHostname parsed)) ''.'')
              \<and> (if identity then targetObjectKey t = uploadObjectKey u else uploadObjectKey u = []))"
  using assms
  by (auto simp: validateCompleteLogUpload_def legacyUploadObjectKey_def Let_def
      split: option.splits if_splits)

subsection \<open>Examples\<close>

definition sampleTarget :: complete_log_target where
  "sampleTarget = \<lparr>targetUri = ''https://a.example/logs/1'', targetObjectKey = ''logs/1'', targetExpiresAt = 10\<rparr>"

definition sampleLog :: complete_log where
  "sampleLog =
     \<lparr>clArchive = Some \<lparr>archiveStat = Some (True, 2), archiveBytes = Some ''gz''\<rparr>, clState = ''complete'',
      clTruncated = False, clError = [], clContentType = completeLogSourceContentType,
      clContentEncoding = completeLogSourceEncoding, clCompressedBytes = 2, clUncompressedBytes = 2,
      clSHA256 = hex_encode (sampleDigest ''gz''), clRedacted = True\<rparr>"

definition sampleUpload :: object_upload where
  "sampleUpload =
     \<lparr>uploadUri = ''https://a.example/logs/1'', uploadContentType = completeLogUploadContentType,
      uploadExpiresAt = Some (sampleTimestamp (2 * minute)), uploadObjectKey = [], uploadUnknown = []\<rparr>"

subsection \<open>Properties\<close>

text \<open>
  C7. The upload dialer's address filter, read as dotted quads: an IPv4 address is dialled exactly if it is in none of the
  special-purpose ranges (private, loopback, link-local, shared, documentation, benchmarking, multicast, reserved),
  and writing the address as an IPv4-mapped IPv6 address does not evade the filter.
\<close>

theorem upload_addresses:
  assumes "a < 256" "b < 256" "c < 256" "d < (256 :: nat)"
  shows "(publicUploadIP [a, b, c, d] \<longleftrightarrow> \<not> special_purpose_v4 a b c d)
    \<and> (publicUploadIP (replicate 10 0 @ [255, 255, a, b, c, d]) \<longleftrightarrow> \<not> special_purpose_v4 a b c d)"
  using public_v4 [OF assms] public_v4_mapped [OF assms] by simp

theorem upload_addresses_witness:
  "publicUploadIP [8, 8, 8, 8] \<and> \<not> publicUploadIP (replicate 10 0 @ [255, 255, 169, 254, 169, 254])"
  using upload_addresses [of 8 8 8 8] upload_addresses [of 169 254 169 254]
  by (simp add: special_purpose_v4_def)

text \<open>
  C8. An upload sends at most three requests, each while the capability is unexpired, and reports a log object
  only if the last request was answered with a success status after the whole archive was read; the object's digest is the
  SHA-256 of exactly the archive bytes that were declared, and its key is the capability's.
\<close>

theorem upload_result:
  assumes "Upload L target log now clock http = (r, n)"
  shows "n \<le> 3 \<and> (\<forall>i<n. \<exists>t. target = Some t \<and> clock i < targetExpiresAt t)
    \<and> (\<forall>obj. r = Inr obj \<longrightarrow>
          (\<exists>t c a data sz status. target = Some t \<and> log = Some c \<and> clArchive c = Some a \<and> archiveBytes a = Some data
             \<and> logObjectKey obj = targetObjectKey t
             \<and> logDigest obj = Some \<lparr>digestAlgorithm = DIGEST_SHA256, digestValue = sha256Sum L (take (nat sz) data)\<rparr>
             \<and> hex_decode (clSHA256 c) = Some (sha256Sum L (take (nat sz) data)) \<and> archiveStat a = Some (True, sz)
             \<and> 200 \<le> status \<and> status < 300 \<and> 0 < n \<and> http (n - 1) = HttpStatus status sz))"
proof -
  have "\<exists>t c a data sz status. target = Some t \<and> log = Some c \<and> clArchive c = Some a \<and> archiveBytes a = Some data
      \<and> logObjectKey obj = targetObjectKey t
      \<and> logDigest obj = Some \<lparr>digestAlgorithm = DIGEST_SHA256, digestValue = sha256Sum L (take (nat sz) data)\<rparr>
      \<and> hex_decode (clSHA256 c) = Some (sha256Sum L (take (nat sz) data)) \<and> archiveStat a = Some (True, sz)
      \<and> 200 \<le> status \<and> status < 300 \<and> 0 < n \<and> http (n - 1) = HttpStatus status sz"
    if "r = Inr obj" for obj
  proof -
    from assms that have "Upload L target log now clock http = (Inr obj, n)" by simp
    then obtain t c dg sz where u: "target = Some t" "log = Some c" "validateUploadArchive L log = Some (dg, sz)"
      "obj = log_object_of t c dg sz"
      "\<exists>status. 200 \<le> status \<and> status < 300 \<and> 0 < n \<and> http (n - 1) = HttpStatus status sz"
      by (rule Upload_Inr)
    then show ?thesis
      using validateUploadArchive_sound [OF u(3)] by (auto simp: log_object_of_def)
  qed
  then show ?thesis
    using Upload_requests [OF assms] by (simp add: completeLogUploadAttempts_def)
qed

theorem upload_result_witness:
  "Upload (sampleLib [] []) (Some sampleTarget) (Some sampleLog) 1 (\<lambda>i. 2)
     (\<lambda>i. if i = 0 then HttpStatus 503 2 else HttpStatus 200 2)
     = (Inr (log_object_of sampleTarget sampleLog (sampleDigest ''gz'') 2), 2)
   \<and> (2 :: nat) \<le> 3"
proof -
  have d: "hex_decode (clSHA256 sampleLog) = Some (sampleDigest ''gz'')"
    by (simp add: sampleLog_def hex_decode_encode)
  have "validateUploadArchive (sampleLib [] []) (Some sampleLog) = Some (sampleDigest ''gz'', 2)"
    using d
    by (simp add: validateUploadArchive_def sampleLog_def sampleLib_def maximumCompressedUploadBytes_def
        maximumCompleteLogBytes_def)
  then have u: "Upload (sampleLib [] []) (Some sampleTarget) (Some sampleLog) 1 (\<lambda>i. 2)
     (\<lambda>i. if i = 0 then HttpStatus 503 2 else HttpStatus 200 2)
     = (Inr (log_object_of sampleTarget sampleLog (sampleDigest ''gz'') 2), 2)"
    by (simp add: Upload_def sampleTarget_def completeLogUploadAttempts_def numeral_eq_Suc)
  show ?thesis
    using upload_result [OF u] u by blast
qed

text \<open>
  C3. A capability taken from the gateway is an https URL on port 443 whose host is not an IP literal, outlives the lease but no
  longer than a day, and names an object by a key without absolute, empty, \<open>.\<close> or \<open>..\<close> path segments; an object key of the
  gateway is used exactly if that was negotiated.
\<close>

theorem upload_capability:
  assumes "validateCompleteLogUpload L upload now offerExpires leaseExpires identity = Inr (Some t)"
  shows "leaseExpires < targetExpiresAt t \<and> targetExpiresAt t \<le> now + 24 * hour
    \<and> targetObjectKey t \<noteq> [] \<and> hd (targetObjectKey t) \<noteq> CHR ''/'' \<and> utf8_valid (targetObjectKey t)
    \<and> (\<forall>segment \<in> set (split_on CHR ''/'' (targetObjectKey t)). segment \<notin> {[], ''.'', ''..''} \<and> \<not> has_control segment)
    \<and> (\<exists>u parsed. upload = Some u \<and> parseRequestURI L (uploadUri u) = Some parsed \<and> uriScheme parsed = ''https''
         \<and> uriPort parsed \<in> {[], ''443''} \<and> \<not> parsesAsIP L (trim_suffix (to_lower (uriHostname parsed)) ''.'')
         \<and> (identity \<longrightarrow> targetObjectKey t = uploadObjectKey u) \<and> (\<not> identity \<longrightarrow> uploadObjectKey u = []))"
proof -
  note s = target_sound [OF assms]
  then have k: "validateUploadObjectKey (targetObjectKey t)" by simp
  have "hd (targetObjectKey t) \<noteq> CHR ''/''" "targetObjectKey t \<noteq> []"
    using k by (auto simp: validateUploadObjectKey_def has_prefix_def neq_Nil_conv split: if_splits)
  moreover have "\<forall>segment \<in> set (split_on CHR ''/'' (targetObjectKey t)). segment \<notin> {[], ''.'', ''..''} \<and> \<not> has_control segment"
    "utf8_valid (targetObjectKey t)"
    using k by (auto simp: validateUploadObjectKey_def list_all_iff split: if_splits)
  ultimately show ?thesis
    using s by (auto simp: maximumLeaseDuration_def split: if_splits)
qed

theorem upload_capability_witness:
  "\<exists>t. validateCompleteLogUpload (sampleLib [] []) (Some sampleUpload) 0 second minute False = Inr (Some t)
       \<and> targetObjectKey t = ''logs/1'' \<and> minute < targetExpiresAt t"
proof -
  have u: "utf8_valid (uploadUri sampleUpload)" "utf8_valid ''logs/1''"
    by (rule utf8_valid_ascii, code_simp)+
  have h: "validUploadHostname (trim_suffix (to_lower ''a.example'') ''.'')" "trim_suffix (to_lower ''a.example'') ''.'' \<noteq> ''localhost''"
    by code_simp+
  have k: "validateUploadObjectKey ''logs/1''"
    by (simp add: validateUploadObjectKey_def u(2) maximumObjectKeyBytes_def has_prefix_def char_class_defs)
  have v: "validateCompleteLogUpload (sampleLib [] []) (Some sampleUpload) 0 second minute False
          = Inr (Some \<lparr>targetUri = uploadUri sampleUpload, targetObjectKey = ''logs/1'', targetExpiresAt = 2 * minute\<rparr>)"
    using u(1) h k
    by (simp add: validateCompleteLogUpload_def sampleUpload_def sampleLib_def sampleUri_def maximumUploadURIBytes_def
        validateTimestamp_def legacyUploadObjectKey_def trim_prefix_def has_prefix_def maximumLeaseDuration_def duration_defs)
  show ?thesis
    using upload_capability [OF v] v by simp
qed

end
