(* ===== verification/OfferValidation.thy ===== *)
theory OfferValidation
  imports LogUpload
begin

section \<open>Validation of lease offers\<close>

text \<open>
  \<open>gatewayclient/offer_validation.go\<close> and the parts of \<open>config.go\<close> it reads: every bounded check a hostile job
  specification passes before an offer is persisted. A check returns the rejection, or \<open>None\<close>; a check that
  also computes a value returns a sum. Rejection texts are shortened; codes and reasons are the source's.
\<close>

subsection \<open>Configuration\<close>

record config =
  cfgSchemaVersion :: string
  cfgRunnerID :: string
  cfgInstanceID :: string
  cfgCredentialFile :: string
  cfgIdentityKeyFile :: string
  cfgExpectedScope :: expected_scope
  cfgResources :: resources
  cfgRunnerVersion :: string
  cfgDisableObjectUploadIdentity :: bool
  cfgDisableTerminalEvidence :: bool
  cfgEnableTerminalEvidenceV2 :: bool
  cfgEnableTestSecrets :: bool
  cfgEnableNetworkPolicyV2 :: bool
  cfgCredential :: bytes
  cfgHasCredentialStore :: bool

definition maximumOfferDependencies :: nat where "maximumOfferDependencies = 128"
definition maximumDownloadURIBytes :: nat where "maximumDownloadURIBytes = 4096"
definition maximumFilenameBytes :: nat where "maximumFilenameBytes = 255"
definition maximumTimeout :: duration where "maximumTimeout = hour"

subsection \<open>Digests, filenames and durations\<close>

definition validSHA256 :: "digest option \<Rightarrow> bool" where
  "validSHA256 d = (case d of None \<Rightarrow> False | Some v \<Rightarrow> digestAlgorithm v = DIGEST_SHA256 \<and> length (digestValue v) = 32)"

definition digest_bytes :: "digest option \<Rightarrow> bytes" where
  "digest_bytes d = (case d of None \<Rightarrow> [] | Some v \<Rightarrow> digestValue v)"

definition sameDigest :: "digest option \<Rightarrow> digest option \<Rightarrow> bool" where
  "sameDigest left right \<longleftrightarrow> validSHA256 left \<and> validSHA256 right \<and> digest_bytes left = digest_bytes right"

definition validPluginFilename :: "string \<Rightarrow> bool" where
  "validPluginFilename name \<longleftrightarrow>
     utf8_valid name \<and> length name > 0 \<and> length name \<le> maximumFilenameBytes \<and> trim_space name = name
     \<and> name \<noteq> ''.'' \<and> name \<noteq> ''..'' \<and> \<not> list_ex (\<lambda>c. c \<in> {CHR ''/'', CHR 0x5C, CHR 0x00}) name
     \<and> has_suffix (to_lower name) ''.jar''"

definition validJobDuration :: "lib \<Rightarrow> pduration option \<Rightarrow> bool" where
  "validJobDuration L d =
     (case d of
        None \<Rightarrow> False
      | Some pd \<Rightarrow>
          if \<not> pdCheckValid L pd then False
          else pdAsDuration L pd > 0 \<and> pdAsDuration L pd \<le> maximumTimeout \<and> pdAsDuration L pd mod millisecond = 0)"

subsection \<open>Identity, scope and expiry\<close>

definition offerExpiration :: "lib \<Rightarrow> timestamp option \<Rightarrow> time \<Rightarrow> duration \<Rightarrow> offer_rejection + time" where
  "offerExpiration L t now leaseDuration =
     (if \<not> validateTimestamp L t then Inl (rejectUnsupported ''invalid_offer_expiration'' ''missing or invalid'')
      else let expires = asTime L t
      in if \<not> expires > now then Inl (OfferRejection REASON_OFFER_EXPIRED ''offer_expired'' ''lease offer has expired'')
         else if expires > now + leaseDuration
         then Inl (rejectUnsupported ''invalid_offer_expiration'' ''exceeds the negotiated lease window'')
         else Inr expires)"

definition invalidIdentity :: "string \<Rightarrow> offer_rejection + 'a" where
  "invalidIdentity message = Inl (rejectUnsupported ''invalid_identity'' message)"

definition validateOfferIdentity :: "lib \<Rightarrow> job_spec \<Rightarrow> time \<Rightarrow> time \<Rightarrow> duration \<Rightarrow> offer_rejection + time" where
  "validateOfferIdentity L job now offerExpires leaseDuration =
     (case jobLease job of
        None \<Rightarrow> invalidIdentity ''lease identity is required''
      | Some lease \<Rightarrow>
          if \<not> list_all validateUUID [leaseId lease, jobId lease, executionId lease] then invalidIdentity ''lease''
          else if jobId lease \<noteq> executionId lease then invalidIdentity ''job and execution''
          else if \<not> validateTimestamp L (leaseExpiresAt lease)
          then Inl (rejectUnsupported ''invalid_lease_expiration'' ''missing or invalid'')
          else let leaseExpires = asTime L (leaseExpiresAt lease)
          in if \<not> leaseExpires > offerExpires \<or> leaseExpires > now + leaseDuration
             then Inl (rejectUnsupported ''invalid_lease_expiration'' ''outside the negotiated lease window'')
             else (case jobAttempt job of
                 None \<Rightarrow> invalidIdentity ''attempt identity is required''
               | Some att \<Rightarrow>
                   if \<not> list_all validateUUID [attemptId att, releaseCandidateId att, matrixEntryId att]
                   then invalidIdentity ''attempt''
                   else if attemptNumber att = 0 \<or> attemptNumber att > maximumAttemptNumber
                   then invalidIdentity ''attempt number''
                   else Inr leaseExpires))"

definition validateOfferScope :: "organization_scope option \<Rightarrow> expected_scope \<Rightarrow> offer_rejection option" where
  "validateOfferScope scope expected =
     (case scope of
        None \<Rightarrow> Some (rejectPolicy ''invalid_scope'' ''required'')
      | Some s \<Rightarrow>
          (case scopeKind expected of
             ScopePlatform \<Rightarrow>
               (case s of SCOPE_PLATFORM \<Rightarrow> None | _ \<Rightarrow> Some (rejectPolicy ''scope_mismatch'' ''platform''))
           | ScopeOrganization \<Rightarrow>
               (case s of
                  SCOPE_ORGANIZATION i \<Rightarrow>
                    if \<not> validateUUID i \<or> i \<noteq> scopeOrganizationId expected
                    then Some (rejectPolicy ''scope_mismatch'' ''organization'') else None
                | _ \<Rightarrow> Some (rejectPolicy ''scope_mismatch'' ''organization''))
           | ScopeOther _ \<Rightarrow> Some (rejectPolicy ''invalid_scope'' ''runner'')))"

subsection \<open>Hashes and configuration\<close>

fun check_dependency_hashes ::
  "string set \<Rightarrow> string set \<Rightarrow> dependency_hash option list \<Rightarrow> offer_rejection option" where
  "check_dependency_hashes seenIDs seenFilenames [] = None"
| "check_dependency_hashes seenIDs seenFilenames (dep # deps) =
     (case dep of
        None \<Rightarrow> Some (rejectUnsupported ''invalid_dependency_hash'' ''entry is invalid'')
      | Some d \<Rightarrow>
          if \<not> validateIdentifier (hashDependencyId d) maximumIdentifierBytes
             \<or> \<not> validPluginFilename (hashFilename d) \<or> \<not> validSHA256 (hashDigest d)
          then Some (rejectUnsupported ''invalid_dependency_hash'' ''entry is invalid'')
          else if hashDependencyId d \<in> seenIDs then Some (rejectUnsupported ''duplicate_dependency'' ''identities'')
          else if hashFilename d \<in> seenFilenames then Some (rejectUnsupported ''duplicate_dependency'' ''filenames'')
          else check_dependency_hashes (insert (hashDependencyId d) seenIDs) (insert (hashFilename d) seenFilenames) deps)"

definition validateOfferHashes :: "job_hashes option \<Rightarrow> offer_rejection option" where
  "validateOfferHashes hashes =
     (case hashes of
        None \<Rightarrow> Some (rejectUnsupported ''invalid_hashes'' ''required'')
      | Some h \<Rightarrow>
          if \<not> list_all validSHA256 [hashArtifact h, hashConfiguration h, hashEnvironment h, hashPolicy h]
          then Some (rejectUnsupported ''invalid_hashes'' ''SHA-256'')
          else if length (hashDependencies h) > maximumOfferDependencies
          then Some (rejectUnsupported ''too_many_dependencies'' ''count'')
          else check_dependency_hashes {} {} (hashDependencies h))"

definition hash_dependencies :: "job_spec \<Rightarrow> dependency_hash option list" where
  "hash_dependencies job = (case jobHashes job of None \<Rightarrow> [] | Some h \<Rightarrow> hashDependencies h)"

definition validateOfferConfigurationWithSecrets ::
  "lib \<Rightarrow> bytes \<Rightarrow> digest option \<Rightarrow> bool \<Rightarrow> offer_rejection option" where
  "validateOfferConfigurationWithSecrets L configuration expected enabled =
     (if length configuration = 0 \<or> length configuration > maximumMessageBytes \<or> \<not> utf8_valid configuration
      then Some (rejectUnsupported ''invalid_configuration'' ''missing or invalid'')
      else (case decodeConfiguration L configuration of
          None \<Rightarrow> Some (rejectUnsupported ''invalid_configuration'' ''one JSON object'')
        | Some document \<Rightarrow>
            if \<not> documentIsObject document then Some (rejectUnsupported ''invalid_configuration'' ''one JSON object'')
            else if \<not> validSHA256 expected \<or> sha256Sum L configuration \<noteq> digest_bytes expected
            then Some (rejectUnsupported ''configuration_hash_mismatch'' ''declared hash'')
            else (case documentSecrets document of
                None \<Rightarrow> Some (rejectUnsupported ''invalid_configuration'' ''test selection'')
              | Some n \<Rightarrow>
                  if n \<noteq> 0 \<and> \<not> enabled then Some (rejectUnsupported ''test_secrets_unavailable'' ''not enabled'')
                  else None)))"

definition validateOfferEnvironment :: "resolved_environment option \<Rightarrow> offer_rejection option" where
  "validateOfferEnvironment environment =
     (case environment of
        None \<Rightarrow> Some (rejectUnsupported ''invalid_environment'' ''required'')
      | Some e \<Rightarrow>
          if envProvider e \<noteq> PROVIDER_PAPER \<or> envOperatingSystem e \<noteq> OS_LINUX \<or> envArchitecture e \<noteq> ARCH_AMD64
          then Some (rejectUnsupported ''unsupported_environment'' ''not supported'')
          else if \<not> list_all (\<lambda>v. \<not> (length v = 0 \<or> length v > maximumIdentifierBytes \<or> \<not> versionPattern v))
                     [gameVersion e, serverVersion e, javaDistribution e, javaVersion e]
          then Some (rejectUnsupported ''invalid_environment'' ''identity'')
          else if serverVersion e \<noteq> gameVersion e \<or> serverBuild e = 0
          then Some (rejectUnsupported ''invalid_environment'' ''version and build'')
          else if \<not> validateUUID (catalogSnapshotId e) \<or> \<not> validSHA256 (runnerImage e) \<or> \<not> validSHA256 (serverBinary e)
          then Some (rejectUnsupported ''invalid_environment'' ''pins'')
          else None)"

subsection \<open>Plugin names and policy\<close>

fun check_plugin_names :: "string set \<Rightarrow> dependency_input option list \<Rightarrow> offer_rejection option" where
  "check_plugin_names seen [] = None"
| "check_plugin_names seen (dep # deps) =
     (case dep of
        None \<Rightarrow> Some (rejectUnsupported ''invalid_dependency_plugin_name'' ''missing'')
      | Some d \<Rightarrow>
          if \<not> ValidPaper (dependencyPluginName d)
          then Some (rejectUnsupported ''invalid_dependency_plugin_name'' ''invalid'')
          else let key = to_lower (dependencyPluginName d)
          in if key \<in> seen then Some (rejectUnsupported ''duplicate_plugin_name'' ''must be unique'')
             else check_plugin_names (insert key seen) deps)"

definition validateOfferPluginNames :: "job_spec \<Rightarrow> offer_rejection option" where
  "validateOfferPluginNames job =
     (if \<not> ValidPaper (targetPluginName job)
      then Some (rejectUnsupported ''invalid_target_plugin_name'' ''missing or invalid'')
      else check_plugin_names {to_lower (targetPluginName job)} (jobDependencies job))"

definition validateOfferPolicyVersion ::
  "lib \<Rightarrow> effective_policy option \<Rightarrow> resources \<Rightarrow> network_policy_v2 option \<Rightarrow> offer_rejection option" where
  "validateOfferPolicyVersion L policy maximum networkMaximum =
     (case policy of
        None \<Rightarrow> Some (rejectPolicy ''invalid_policy'' ''required'')
      | Some p \<Rightarrow> (case policyResources p of
          None \<Rightarrow> Some (rejectPolicy ''invalid_policy'' ''required'')
        | Some r \<Rightarrow>
            if policySandbox p \<noteq> SANDBOX_GVISOR then Some (rejectPolicy ''unsupported_sandbox'' ''sandbox'')
            else if (case networkMaximum of
                       Some m \<Rightarrow> policyNetwork p \<noteq> None \<or> \<not> withinLocalMaximumV2 L (policyNetworkV2 p) m
                     | None \<Rightarrow> policyNetworkV2 p \<noteq> None \<or>
                         (case policyNetwork p of
                            None \<Rightarrow> True
                          | Some n \<Rightarrow> networkMode n \<noteq> NETWORK_NONE \<or> networkAllowlist n \<noteq> [] \<or> networkMaximumConnections n \<noteq> 0))
            then Some (rejectPolicy ''unsupported_network'' ''exceeds the maximum'')
            else if limitCpuMillis r = 0 \<or> limitMemoryBytes r = 0 \<or> limitDiskBytes r = 0 \<or> limitProcessCount r = 0
            then Some (rejectPolicy ''invalid_resources'' ''must be positive'')
            else if limitCpuMillis r > resCpuMillis maximum \<or> limitMemoryBytes r > resMemoryBytes maximum
                    \<or> limitDiskBytes r > resDiskBytes maximum \<or> limitProcessCount r > resProcessCount maximum
            then Some (rejectPolicy ''resources_exceed_capacity'' ''capacity'')
            else if \<not> list_all (validJobDuration L) [preparationTimeout p, executionTimeout p, gracefulShutdownTimeout p]
            then Some (rejectPolicy ''invalid_timeout'' ''timeouts'')
            else if policyRequirement p \<noteq> REQUIREMENT_REQUIRED \<and> policyRequirement p \<noteq> REQUIREMENT_INFORMATIONAL
            then Some (rejectPolicy ''invalid_requirement'' ''requirement'')
            else None))"

subsection \<open>Downloads\<close>

text \<open>\<open>uint64(object.GetSizeBytes())\<close> of a signed 64-bit size.\<close>

definition download_size :: "object_download option \<Rightarrow> 64 word" where
  "download_size object = (case object of None \<Rightarrow> 0 | Some o1 \<Rightarrow> word_of_int (downloadSizeBytes o1))"

definition download_filename :: "object_download option \<Rightarrow> string" where
  "download_filename object = (case object of None \<Rightarrow> [] | Some o1 \<Rightarrow> downloadFilename o1)"

definition download_digest :: "object_download option \<Rightarrow> digest option" where
  "download_digest object = (case object of None \<Rightarrow> None | Some o1 \<Rightarrow> downloadDigest o1)"

definition invalidDownload :: "string \<Rightarrow> offer_rejection option" where
  "invalidDownload message = Some (rejectUnsupported ''invalid_download'' message)"

definition validateObjectDownload ::
  "lib \<Rightarrow> object_download option \<Rightarrow> time \<Rightarrow> time \<Rightarrow> 64 word \<Rightarrow> offer_rejection option" where
  "validateObjectDownload L object offerExpires leaseExpires maximumBytes =
     (case object of
        None \<Rightarrow> invalidDownload ''metadata''
      | Some o1 \<Rightarrow>
          if downloadSizeBytes o1 \<le> 0 \<or> \<not> validSHA256 (downloadDigest o1) \<or> \<not> validPluginFilename (downloadFilename o1)
          then invalidDownload ''metadata''
          else if download_size object > maximumBytes
          then Some (rejectPolicy ''downloads_exceed_disk'' ''disk limit'')
          else if length (downloadUri o1) = 0 \<or> length (downloadUri o1) > maximumDownloadURIBytes
                  \<or> \<not> utf8_valid (downloadUri o1)
          then invalidDownload ''URI''
          else (case parseRequestURI L (downloadUri o1) of
              None \<Rightarrow> invalidDownload ''URI''
            | Some parsed \<Rightarrow>
                if uriScheme parsed \<noteq> ''https'' \<or> uriHost parsed = [] \<or> uriHasUser parsed \<or> uriFragment parsed \<noteq> []
                   \<or> uriOpaque parsed \<noteq> [] \<or> uriHostname parsed = [] \<or> parsesAsIP L (uriHostname parsed)
                   \<or> equal_fold (uriHostname parsed) ''localhost'' \<or> (uriPort parsed \<noteq> [] \<and> uriPort parsed \<noteq> ''443'')
                then invalidDownload ''URI''
                else if \<not> validateTimestamp L (downloadExpiresAt o1)
                then Some (rejectUnsupported ''invalid_download_expiration'' ''missing or invalid'')
                else if \<not> asTime L (downloadExpiresAt o1) > offerExpires \<or> \<not> asTime L (downloadExpiresAt o1) > leaseExpires
                then Some (rejectUnsupported ''download_expired'' ''before the initial lease'')
                else None))"

definition hash_entry_id :: "dependency_hash option \<Rightarrow> string" where
  "hash_entry_id h = (case h of None \<Rightarrow> [] | Some d \<Rightarrow> hashDependencyId d)"

definition hash_entry_filename :: "dependency_hash option \<Rightarrow> string" where
  "hash_entry_filename h = (case h of None \<Rightarrow> [] | Some d \<Rightarrow> hashFilename d)"

definition hash_entry_digest :: "dependency_hash option \<Rightarrow> digest option" where
  "hash_entry_digest h = (case h of None \<Rightarrow> None | Some d \<Rightarrow> hashDigest d)"

fun check_downloads ::
  "lib \<Rightarrow> time \<Rightarrow> time \<Rightarrow> 64 word \<Rightarrow> 64 word \<Rightarrow> string set \<Rightarrow> (dependency_input option \<times> dependency_hash option) list
   \<Rightarrow> offer_rejection option" where
  "check_downloads L offerExpires leaseExpires maximumBytes remaining seen [] = None"
| "check_downloads L offerExpires leaseExpires maximumBytes remaining seen ((input, hash) # rest) =
     (case input of
        None \<Rightarrow> Some (rejectUnsupported ''dependency_mismatch'' ''order'')
      | Some d \<Rightarrow>
          if dependencyId d \<noteq> hash_entry_id hash then Some (rejectUnsupported ''dependency_mismatch'' ''order'')
          else (case validateObjectDownload L (dependencyObject d) offerExpires leaseExpires maximumBytes of
              Some r \<Rightarrow> Some r
            | None \<Rightarrow>
                if download_filename (dependencyObject d) \<noteq> hash_entry_filename hash
                   \<or> \<not> sameDigest (download_digest (dependencyObject d)) (hash_entry_digest hash)
                then Some (rejectUnsupported ''dependency_hash_mismatch'' ''declared hash'')
                else if download_filename (dependencyObject d) \<in> seen
                then Some (rejectUnsupported ''duplicate_filename'' ''must be unique'')
                else if download_size (dependencyObject d) > remaining
                then Some (rejectPolicy ''downloads_exceed_disk'' ''disk limit'')
                else check_downloads L offerExpires leaseExpires maximumBytes
                       (remaining - download_size (dependencyObject d))
                       (insert (download_filename (dependencyObject d)) seen) rest))"

definition policy_disk :: "job_spec \<Rightarrow> 64 word" where
  "policy_disk job =
     (case jobPolicy job of
        None \<Rightarrow> 0
      | Some p \<Rightarrow> (case policyResources p of None \<Rightarrow> 0 | Some r \<Rightarrow> limitDiskBytes r))"

definition hashes_artifact :: "job_spec \<Rightarrow> digest option" where
  "hashes_artifact job = (case jobHashes job of None \<Rightarrow> None | Some h \<Rightarrow> hashArtifact h)"

definition validateOfferDownloads :: "lib \<Rightarrow> job_spec \<Rightarrow> time \<Rightarrow> time \<Rightarrow> offer_rejection option" where
  "validateOfferDownloads L job offerExpires leaseExpires =
     (if length (jobDependencies job) > maximumOfferDependencies
         \<or> length (jobDependencies job) \<noteq> length (hash_dependencies job)
      then Some (rejectUnsupported ''dependency_mismatch'' ''order'')
      else (case validateObjectDownload L (jobArtifact job) offerExpires leaseExpires (policy_disk job) of
          Some r \<Rightarrow> Some r
        | None \<Rightarrow>
            if \<not> sameDigest (download_digest (jobArtifact job)) (hashes_artifact job)
            then Some (rejectUnsupported ''artifact_hash_mismatch'' ''declared hash'')
            else check_downloads L offerExpires leaseExpires (policy_disk job)
                   (policy_disk job - download_size (jobArtifact job))
                   {download_filename (jobArtifact job)}
                   (zip (jobDependencies job) (hash_dependencies job))))"

subsection \<open>The whole offer\<close>

definition hashes_configuration :: "job_spec \<Rightarrow> digest option" where
  "hashes_configuration job = (case jobHashes job of None \<Rightarrow> None | Some h \<Rightarrow> hashConfiguration h)"

definition hashes_environment :: "job_spec \<Rightarrow> digest option" where
  "hashes_environment job = (case jobHashes job of None \<Rightarrow> None | Some h \<Rightarrow> hashEnvironment h)"

definition orElse :: "'a option \<Rightarrow> 'a option \<Rightarrow> 'a option" where
  "orElse r k = (case r of Some x \<Rightarrow> Some x | None \<Rightarrow> k)"

definition sum_rejection :: "offer_rejection + 'a \<Rightarrow> offer_rejection option" where
  "sum_rejection r = (case r of Inl x \<Rightarrow> Some x | Inr _ \<Rightarrow> None)"

text \<open>The checks between the lease expiry and the end, in order; each runs only if the ones before passed.\<close>

definition validate_job ::
  "lib \<Rightarrow> job_spec \<Rightarrow> config \<Rightarrow> time \<Rightarrow> time \<Rightarrow> time \<Rightarrow> bool \<Rightarrow> bool \<Rightarrow> network_policy_v2 option \<Rightarrow> offer_rejection option" where
  "validate_job L job cfg now offerExpires leaseExpires jobCorrelationV1 objectUploadIdentity networkMaximum =
     orElse (validateOfferScope (jobScope job) (cfgExpectedScope cfg))
    (orElse (validateOfferJobCorrelation job (cfgExpectedScope cfg) jobCorrelationV1)
    (orElse (validateOfferHashes (jobHashes job))
    (orElse (validateOfferConfigurationWithSecrets L (normalizedConfigurationJson job) (hashes_configuration job)
               (cfgEnableTestSecrets cfg \<and> jobCorrelationV1))
    (orElse (if cfgEnableTestSecrets cfg \<and> \<not> ValidateSelection L job
             then Some (rejectUnsupported ''invalid_test_secret_selection'' ''references'') else None)
    (orElse (validateOfferEnvironment (jobEnvironment job))
    (orElse (validateOfferPluginNames job)
    (orElse (validateOfferPolicyVersion L (jobPolicy job) (cfgResources cfg) networkMaximum)
    (orElse (validateOfferDownloads L job offerExpires leaseExpires)
            (sum_rejection (validateCompleteLogUpload L (completeLogUpload job) now offerExpires leaseExpires
               objectUploadIdentity))))))))))"

definition validateOfferVersion ::
  "lib \<Rightarrow> lease_offer \<Rightarrow> config \<Rightarrow> time \<Rightarrow> duration \<Rightarrow> bool \<Rightarrow> bool \<Rightarrow> network_policy_v2 option \<Rightarrow> offer_rejection option" where
  "validateOfferVersion L offer cfg now leaseDuration jobCorrelationV1 objectUploadIdentity networkMaximum =
     (case offerJob offer of
        None \<Rightarrow> Some (rejectUnsupported ''invalid_offer'' ''required'')
      | Some job \<Rightarrow>
          if testSecrets job \<noteq> [] \<and> (\<not> cfgEnableTestSecrets cfg \<or> \<not> jobCorrelationV1)
          then Some (rejectUnsupported ''test_secrets_unavailable'' ''not enabled'')
          else if length (normalizedConfigurationJson job) > maximumMessageBytes
          then Some (rejectUnsupported ''offer_too_large'' ''message size limit'')
          else if length (jobDependencies job) > maximumOfferDependencies
                  \<or> length (hash_dependencies job) > maximumOfferDependencies
          then Some (rejectUnsupported ''too_many_dependencies'' ''supported limit'')
          else if sizeOffer L offer > maximumMessageBytes
          then Some (rejectUnsupported ''offer_too_large'' ''message size limit'')
          else if leaseDuration < minimumLeaseDuration \<or> leaseDuration > maximumLeaseDuration
          then Some (rejectUnsupported ''invalid_lease_duration'' ''invalid'')
          else (case offerExpiration L (offerExpiresAt offer) now leaseDuration of
              Inl r \<Rightarrow> Some r
            | Inr offerExpires \<Rightarrow>
                (case validateOfferIdentity L job now offerExpires leaseDuration of
                   Inl r \<Rightarrow> Some r
                 | Inr leaseExpires \<Rightarrow>
                     validate_job L job cfg now offerExpires leaseExpires jobCorrelationV1 objectUploadIdentity
                       networkMaximum)))"

definition validateOffer ::
  "lib \<Rightarrow> lease_offer \<Rightarrow> config \<Rightarrow> time \<Rightarrow> duration \<Rightarrow> bool \<Rightarrow> bool \<Rightarrow> offer_rejection option" where
  "validateOffer L offer cfg now leaseDuration jobCorrelationV1 objectUploadIdentity =
     validateOfferVersion L offer cfg now leaseDuration jobCorrelationV1 objectUploadIdentity None"

definition unavailableV2 :: "offer_rejection option" where
  "unavailableV2 = Some (rejectUnsupported ''network_v2_unavailable'' ''negotiation'')"

definition validateNetworkV2Offer ::
  "lib \<Rightarrow> lease_offer \<Rightarrow> config \<Rightarrow> time \<Rightarrow> duration \<Rightarrow> protocol_feature list \<Rightarrow> network_policy_v2 option
   \<Rightarrow> offer_rejection option" where
  "validateNetworkV2Offer L offer cfg now leaseDuration features maximum =
     (if check_features {} features \<noteq> None then unavailableV2
      else if \<not> list_all (advertisedFeature features) network_required_features then unavailableV2
      else if \<not> cfgEnableTerminalEvidenceV2 cfg \<or> cfgDisableTerminalEvidence cfg
              \<or> (case maximum of None \<Rightarrow> True | Some m \<Rightarrow> \<not> validateWireV2 L m)
      then unavailableV2
      else let cfg1 = cfg\<lparr>cfgEnableTestSecrets := cfgEnableTestSecrets cfg \<and> advertisedFeature features FEATURE_TEST_SECRETS_V1\<rparr>
      in orElse (validateOfferVersion L offer cfg1 now leaseDuration True
                   (advertisedFeature features FEATURE_OBJECT_UPLOAD_IDENTITY) maximum)
         (case offerJob offer of
            None \<Rightarrow> None
          | Some job \<Rightarrow>
              if \<not> ValidateSelection L job
              then Some (rejectUnsupported ''invalid_test_secret_selection'' ''references'')
              else if \<not> newContextV2 L job
              then Some (rejectUnsupported ''invalid_network_v2_context'' ''identity'')
              else (case jobEnvironment job of
                  None \<Rightarrow> None
                | Some e \<Rightarrow> (case marshalEnvironment L e of
                    None \<Rightarrow> Some (rejectUnsupported ''environment_hash_mismatch'' ''declared hash'')
                  | Some bytes \<Rightarrow>
                      if sha256Sum L bytes \<noteq> digest_bytes (hashes_environment job)
                      then Some (rejectUnsupported ''environment_hash_mismatch'' ''declared hash'')
                      else None))))"

subsection \<open>Examples\<close>

definition sampleConfig :: config where
  "sampleConfig =
     \<lparr>cfgSchemaVersion = [], cfgRunnerID = sampleUUID, cfgInstanceID = ''host'', cfgCredentialFile = ''credential'',
      cfgIdentityKeyFile = [], cfgExpectedScope = \<lparr>scopeKind = ScopePlatform, scopeOrganizationId = []\<rparr>,
      cfgResources = \<lparr>resCpuMillis = 2000, resMemoryBytes = 4096, resDiskBytes = 8192, resProcessCount = 64\<rparr>,
      cfgRunnerVersion = ''1'', cfgDisableObjectUploadIdentity = False, cfgDisableTerminalEvidence = True,
      cfgEnableTerminalEvidenceV2 = False, cfgEnableTestSecrets = False, cfgEnableNetworkPolicyV2 = False,
      cfgCredential = ''secret'', cfgHasCredentialStore = False\<rparr>"

definition sampleNow :: time where "sampleNow = 1000 * second"

definition sampleSha :: "digest option" where
  "sampleSha = Some \<lparr>digestAlgorithm = DIGEST_SHA256, digestValue = sampleDigest ''{}''\<rparr>"

definition sampleDownload :: "string \<Rightarrow> int \<Rightarrow> object_download" where
  "sampleDownload name bytes =
     \<lparr>downloadUri = ''https://a.example/x'', downloadFilename = name, downloadDigest = sampleSha,
      downloadSizeBytes = bytes, downloadExpiresAt = Some (sampleTimestamp (sampleNow + 2 * minute))\<rparr>"

definition sampleLease :: lease_identity where
  "sampleLease =
     \<lparr>leaseId = sampleUUID, jobId = sampleUUID, executionId = sampleUUID,
      leaseExpiresAt = Some (sampleTimestamp (sampleNow + minute))\<rparr>"

definition sampleAttempt :: attempt_identity where
  "sampleAttempt =
     \<lparr>attemptId = sampleUUID, attemptNumber = 1, releaseCandidateId = sampleUUID, matrixEntryId = sampleUUID\<rparr>"

definition samplePolicy :: effective_policy where
  "samplePolicy =
     \<lparr>policySandbox = SANDBOX_GVISOR,
      policyNetwork = Some \<lparr>networkMode = NETWORK_NONE, networkAllowlist = [], networkMaximumConnections = 0\<rparr>,
      policyNetworkV2 = None,
      policyResources = Some \<lparr>limitCpuMillis = 1000, limitMemoryBytes = 1024, limitDiskBytes = 4096, limitProcessCount = 8\<rparr>,
      preparationTimeout = Some \<lparr>pd_seconds = 60, pd_nanos = 0\<rparr>, executionTimeout = Some \<lparr>pd_seconds = 60, pd_nanos = 0\<rparr>,
      gracefulShutdownTimeout = Some \<lparr>pd_seconds = 5, pd_nanos = 0\<rparr>, policyRequirement = REQUIREMENT_REQUIRED\<rparr>"

definition sampleEnvironment :: resolved_environment where
  "sampleEnvironment =
     \<lparr>envProvider = PROVIDER_PAPER, envOperatingSystem = OS_LINUX, envArchitecture = ARCH_AMD64,
      gameVersion = ''1.21'', serverVersion = ''1.21'', serverBuild = 7, javaDistribution = ''temurin'', javaVersion = ''21'',
      catalogSnapshotId = sampleUUID, runnerImage = sampleSha, serverBinary = sampleSha\<rparr>"

definition sampleJob :: job_spec where
  "sampleJob =
     \<lparr>jobLease = Some sampleLease, jobAttempt = Some sampleAttempt, jobScope = Some SCOPE_PLATFORM, jobCorrelation = None,
      jobHashes = Some \<lparr>hashArtifact = sampleSha, hashConfiguration = sampleSha, hashEnvironment = sampleSha, hashPolicy = sampleSha,
        hashDependencies = [Some \<lparr>hashDependencyId = ''d1'', hashFilename = ''d.jar'', hashDigest = sampleSha\<rparr>]\<rparr>,
      normalizedConfigurationJson = ''{}'', jobEnvironment = Some sampleEnvironment, targetPluginName = ''Plug'',
      jobArtifact = Some (sampleDownload ''a.jar'' 1000),
      jobDependencies = [Some \<lparr>dependencyId = ''d1'', dependencyPluginName = ''Dep'',
                              dependencyObject = Some (sampleDownload ''d.jar'' 2000)\<rparr>],
      jobPolicy = Some samplePolicy, completeLogUpload = None, testSecrets = []\<rparr>"

definition sampleOffer :: lease_offer where
  "sampleOffer = \<lparr>offerJob = Some sampleJob, offerExpiresAt = Some (sampleTimestamp (sampleNow + 30 * second))\<rparr>"

subsection \<open>Sizes as the gateway declares them\<close>

definition declared_size :: "object_download option \<Rightarrow> int" where
  "declared_size object = (case object of None \<Rightarrow> 0 | Some o1 \<Rightarrow> downloadSizeBytes o1)"

definition int64_size :: "object_download option \<Rightarrow> bool" where
  "int64_size object \<longleftrightarrow> - (2 ^ 63) \<le> declared_size object \<and> declared_size object < 2 ^ 63"

definition dependency_download :: "dependency_input option \<Rightarrow> object_download option" where
  "dependency_download d = (case d of None \<Rightarrow> None | Some i \<Rightarrow> dependencyObject i)"

subsection \<open>Lemmas\<close>

lemma orElse_None [simp]: "orElse r k = None \<longleftrightarrow> r = None \<and> k = None"
  by (simp add: orElse_def split: option.splits)

lemma sum_rejection_None [simp]: "sum_rejection r = None \<longleftrightarrow> (\<exists>x. r = Inr x)"
  by (cases r) (auto simp: sum_rejection_def)

lemma invalidDownload_not_None [simp]: "invalidDownload m \<noteq> None"
  by (simp add: invalidDownload_def)

lemma validateObjectDownload_sound:
  assumes "validateObjectDownload L object offerExpires leaseExpires maximumBytes = None"
  shows "\<exists>o1. object = Some o1 \<and> 0 < downloadSizeBytes o1 \<and> validSHA256 (downloadDigest o1)
           \<and> validPluginFilename (downloadFilename o1) \<and> download_size object \<le> maximumBytes
           \<and> offerExpires < asTime L (downloadExpiresAt o1) \<and> leaseExpires < asTime L (downloadExpiresAt o1)"
  using assms
  by (auto simp: validateObjectDownload_def split: option.splits if_splits)

lemma download_size_exact:
  "validateObjectDownload L object oe le m = None \<Longrightarrow> int64_size object \<Longrightarrow>
     uint (download_size object) = declared_size object"
  by (auto dest!: validateObjectDownload_sound simp: download_size_def declared_size_def int64_size_def
      uint_word_of_int split: option.splits)

text \<open>The running total never passes the limit and never wraps.\<close>

lemma check_downloads_total:
  assumes "check_downloads L oe le m remaining seen pairs = None"
    "\<forall>(input, hash) \<in> set pairs. int64_size (dependency_download input)"
  shows "(\<Sum>(input, hash)\<leftarrow>pairs. declared_size (dependency_download input)) \<le> uint remaining"
  using assms
proof (induction pairs arbitrary: remaining seen)
  case (Cons p pairs)
  obtain input hash where p: "p = (input, hash)" by force
  from Cons.prems obtain d where d: "input = Some d"
    "validateObjectDownload L (dependencyObject d) oe le m = None" "download_size (dependencyObject d) \<le> remaining"
    "check_downloads L oe le m (remaining - download_size (dependencyObject d))
       (insert (download_filename (dependencyObject d)) seen) pairs = None"
    by (auto simp: p split: option.splits if_splits)
  have "uint (download_size (dependencyObject d)) = declared_size (dependencyObject d)"
    using download_size_exact [OF d(2)] Cons.prems(2) by (simp add: p d(1) dependency_download_def)
  moreover have "uint (remaining - download_size (dependencyObject d)) = uint remaining - uint (download_size (dependencyObject d))"
    using d(3) by (simp add: uint_sub_lem word_le_def)
  ultimately show ?case
    using Cons.IH [OF d(4)] Cons.prems(2) by (simp add: p d(1) dependency_download_def)
qed simp

lemma check_downloads_filenames:
  assumes "check_downloads L oe le m remaining seen pairs = None"
  shows "distinct (map (\<lambda>(input, hash). download_filename (dependency_download input)) pairs)
         \<and> (\<forall>(input, hash) \<in> set pairs. download_filename (dependency_download input) \<notin> seen
              \<and> sameDigest (download_digest (dependency_download input)) (hash_entry_digest hash))"
  using assms
proof (induction pairs arbitrary: remaining seen)
  case (Cons p pairs)
  obtain input hash where p: "p = (input, hash)" by force
  from Cons.prems obtain d where d: "input = Some d" "download_filename (dependencyObject d) \<notin> seen"
    "sameDigest (download_digest (dependencyObject d)) (hash_entry_digest hash)"
    "check_downloads L oe le m (remaining - download_size (dependencyObject d))
       (insert (download_filename (dependencyObject d)) seen) pairs = None"
    by (auto simp: p split: option.splits if_splits)
  show ?case
    using Cons.IH [OF d(4)] d(1-3) by (auto simp: p dependency_download_def)
qed simp

lemma check_plugin_names_distinct:
  assumes "check_plugin_names seen deps = None"
  shows "list_all (\<lambda>d. \<exists>i. d = Some i \<and> ValidPaper (dependencyPluginName i)) deps
         \<and> distinct (map (\<lambda>d. to_lower (dependencyPluginName (the d))) deps)
         \<and> (\<forall>d \<in> set deps. to_lower (dependencyPluginName (the d)) \<notin> seen)"
  using assms
proof (induction deps arbitrary: seen)
  case (Cons d deps)
  from Cons.prems obtain i where i: "d = Some i" "ValidPaper (dependencyPluginName i)"
    "to_lower (dependencyPluginName i) \<notin> seen"
    "check_plugin_names (insert (to_lower (dependencyPluginName i)) seen) deps = None"
    by (auto simp: Let_def split: option.splits if_splits)
  then show ?case using Cons.IH [OF i(4)] by auto
qed simp

lemma correlation_scope_free:
  "validateOfferJobCorrelation job expected v1 = None \<Longrightarrow>
     validateOfferJobCorrelation job \<lparr>scopeKind = ScopeOther [], scopeOrganizationId = []\<rparr> v1 = None"
  by (auto simp: validateOfferJobCorrelation_def Let_def split: option.splits if_splits)

lemma correlation_upload_free [simp]:
  "validateOfferJobCorrelation (job\<lparr>completeLogUpload := u\<rparr>) expected v1 = validateOfferJobCorrelation job expected v1"
proof -
  have "attempt_candidate (job\<lparr>completeLogUpload := u\<rparr>) = attempt_candidate job"
    by (simp add: attempt_candidate_def)
  then show ?thesis by (simp add: validateOfferJobCorrelation_def split: option.split)
qed

lemma invalidIdentity_not_Inr [simp]: "invalidIdentity m \<noteq> Inr x"
  by (simp add: invalidIdentity_def)

lemma validateOfferIdentity_sound:
  assumes "validateOfferIdentity L job now offerExpires d = Inr leaseExpires"
  shows "\<exists>l a. jobLease job = Some l \<and> jobAttempt job = Some a
           \<and> list_all validateUUID [leaseId l, jobId l, executionId l, attemptId a, releaseCandidateId a, matrixEntryId a]
           \<and> jobId l = executionId l \<and> validateTimestamp L (leaseExpiresAt l) \<and> leaseExpires = asTime L (leaseExpiresAt l)
           \<and> offerExpires < leaseExpires \<and> leaseExpires \<le> now + d
           \<and> attemptNumber a \<noteq> 0 \<and> attemptNumber a \<le> maximumAttemptNumber"
  using assms by (auto simp: validateOfferIdentity_def Let_def split: option.splits if_splits)

lemma offerExpiration_sound:
  assumes "offerExpiration L t now d = Inr offerExpires"
  shows "validateTimestamp L t \<and> offerExpires = asTime L t \<and> now < offerExpires \<and> offerExpires \<le> now + d"
  using assms by (auto simp: offerExpiration_def Let_def split: if_splits)

lemma validateOfferVersion_None:
  assumes "validateOfferVersion L offer cfg now d v1 oui nm = None"
  obtains job offerExpires leaseExpires where "offerJob offer = Some job"
    "offerExpiration L (offerExpiresAt offer) now d = Inr offerExpires"
    "validateOfferIdentity L job now offerExpires d = Inr leaseExpires"
    "testSecrets job \<noteq> [] \<longrightarrow> cfgEnableTestSecrets cfg \<and> v1"
    "minimumLeaseDuration \<le> d" "d \<le> maximumLeaseDuration" "sizeOffer L offer \<le> maximumMessageBytes"
    "length (jobDependencies job) \<le> maximumOfferDependencies"
    "validate_job L job cfg now offerExpires leaseExpires v1 oui nm = None"
  using assms by (auto simp: validateOfferVersion_def split: option.splits if_splits sum.splits)


lemma sample_texts:
  "utf8_valid ''{}''" "utf8_valid ''https://a.example/x''" "validPluginFilename ''a.jar''" "validPluginFilename ''d.jar''"
  "ValidPaper ''Plug''" "ValidPaper ''Dep''" "to_lower ''Plug'' = ''plug''" "to_lower ''Dep'' = ''dep''"
  "validateIdentifier ''d1'' 128" "versionPattern ''1.21''" "versionPattern ''temurin''" "versionPattern ''21''"
  "\<not> equal_fold ''a.example'' ''localhost''"
  by code_simp+

lemmas sample_defs = sampleConfig_def sampleNow_def sampleSha_def sampleDownload_def sampleLease_def sampleAttempt_def
  samplePolicy_def sampleEnvironment_def sampleJob_def sampleOffer_def duration_defs

lemma sampleLib_simps [simp]:
  "tsCheckValid (sampleLib ms js) = (\<lambda>_. True)" "tsAsTime (sampleLib ms js) = sampleTime"
  "sizeOffer (sampleLib ms js) = (\<lambda>_. 512)" "sha256Sum (sampleLib ms js) = sampleDigest"
  "parseRequestURI (sampleLib ms js) = (\<lambda>_. Some sampleUri)" "parsesAsIP (sampleLib ms js) = (\<lambda>_. False)"
  "decodeConfiguration (sampleLib ms js) = (\<lambda>_. Some \<lparr>documentIsObject = True, documentSecrets = Some 0\<rparr>)"
  "pdCheckValid (sampleLib ms js) = (\<lambda>_. True)"
  "pdAsDuration (sampleLib ms js) = (\<lambda>d. pd_seconds d * 1000000000 + pd_nanos d)"
  by (simp_all add: sampleLib_def)

lemma sampleSha_valid [simp]: "validSHA256 sampleSha"
  by (simp add: validSHA256_def sampleSha_def)

lemma sampleDownload_valid:
  assumes "validPluginFilename n" "0 < k" "word_of_int k \<le> m"
  shows "validateObjectDownload (sampleLib ms js) (Some (sampleDownload n k)) (sampleNow + 30 * second) (sampleNow + minute) m = None"
  using assms
  by (simp add: validateObjectDownload_def sampleDownload_def download_size_def sample_texts
        maximumDownloadURIBytes_def sampleUri_def validateTimestamp_def duration_defs)

lemma sample_scalars:
  "offerExpiration (sampleLib ms js) (offerExpiresAt sampleOffer) sampleNow minute = Inr (sampleNow + 30 * second)"
  "validateOfferIdentity (sampleLib ms js) sampleJob sampleNow (sampleNow + 30 * second) minute = Inr (sampleNow + minute)"
  "validateOfferScope (jobScope sampleJob) (cfgExpectedScope sampleConfig) = None"
  "validateOfferJobCorrelation sampleJob (cfgExpectedScope sampleConfig) False = None"
  by (simp_all add: offerExpiration_def validateTimestamp_def sampleOffer_def duration_defs validateOfferIdentity_def
      sampleJob_def sampleLease_def sampleAttempt_def maximumAttemptNumber_def validateOfferScope_def sampleConfig_def
      validateOfferJobCorrelation_def)

lemma sample_contents:
  "validateOfferHashes (jobHashes sampleJob) = None"
  "validateOfferConfigurationWithSecrets (sampleLib ms js) (normalizedConfigurationJson sampleJob)
     (hashes_configuration sampleJob) e = None"
  "validateOfferEnvironment (jobEnvironment sampleJob) = None"
  "validateOfferPluginNames sampleJob = None"
  by (simp_all add: validateOfferHashes_def sampleJob_def maximumOfferDependencies_def sample_texts maximumIdentifierBytes_def
      validateOfferConfigurationWithSecrets_def maximumMessageBytes_def hashes_configuration_def digest_bytes_def
      sampleSha_def validSHA256_def validateOfferEnvironment_def sampleEnvironment_def validateOfferPluginNames_def)

lemma sample_limits:
  "validateOfferPolicyVersion (sampleLib ms js) (jobPolicy sampleJob) (cfgResources sampleConfig) None = None"
  by (simp add: validateOfferPolicyVersion_def sampleJob_def samplePolicy_def sampleConfig_def validJobDuration_def
      maximumTimeout_def duration_defs)

lemma sample_downloads:
  "validateOfferDownloads (sampleLib ms js) sampleJob (sampleNow + 30 * second) (sampleNow + minute) = None"
proof -
  have d: "policy_disk sampleJob = 4096"
    by (simp add: policy_disk_def sampleJob_def samplePolicy_def)
  have f: "download_size (Some (sampleDownload n k)) = word_of_int k" "download_filename (Some (sampleDownload n k)) = n"
    "download_digest (Some (sampleDownload n k)) = sampleSha" for n k
    by (simp_all add: download_size_def download_filename_def download_digest_def sampleDownload_def)
  have "sameDigest sampleSha sampleSha" by (simp add: sameDigest_def)
  then show ?thesis
    unfolding validateOfferDownloads_def d
    by (simp add: sampleJob_def hash_dependencies_def maximumOfferDependencies_def sampleDownload_valid sample_texts f
        hashes_artifact_def hash_entry_id_def hash_entry_filename_def hash_entry_digest_def)
qed

lemma sampleOffer_valid: "validateOffer (sampleLib ms js) sampleOffer sampleConfig sampleNow minute False False = None"
proof -
  have j: "offerJob sampleOffer = Some sampleJob" "completeLogUpload sampleJob = None" "testSecrets sampleJob = []"
    "length (normalizedConfigurationJson sampleJob) = 2" "length (jobDependencies sampleJob) = 1"
    "length (hash_dependencies sampleJob) = 1" "\<not> cfgEnableTestSecrets sampleConfig"
    by (simp_all add: sampleOffer_def sampleJob_def hash_dependencies_def sampleConfig_def)
  have m: "minimumLeaseDuration \<le> minute" "minute \<le> maximumLeaseDuration"
    by (simp_all add: minimumLeaseDuration_def maximumLeaseDuration_def duration_defs)
  show ?thesis
    using m
    by (simp add: validateOffer_def validateOfferVersion_def validate_job_def j sample_scalars sample_contents sample_limits
        sample_downloads maximumMessageBytes_def maximumOfferDependencies_def validateCompleteLogUpload_def)
qed


lemma policy_disk_bound:
  assumes "validateOfferPolicyVersion L (jobPolicy job) maximum nm = None"
  shows "policy_disk job \<le> resDiskBytes maximum"
  using assms
  by (auto simp: validateOfferPolicyVersion_def policy_disk_def split: option.splits if_splits)

lemma map_zip_left: "length xs = length ys \<Longrightarrow> map (\<lambda>(x, y). f x) (zip xs ys) = map f xs"
  by (induction xs ys rule: list_induct2) auto

lemma downloads_total:
  assumes "validateOfferDownloads L job oe le = None" "int64_size (jobArtifact job)"
    "\<forall>d \<in> set (jobDependencies job). int64_size (dependency_download d)"
  shows "declared_size (jobArtifact job) + (\<Sum>d\<leftarrow>jobDependencies job. declared_size (dependency_download d))
         \<le> uint (policy_disk job)"
proof -
  let ?pairs = "zip (jobDependencies job) (hash_dependencies job)"
  let ?a = "download_size (jobArtifact job)"
  have len: "length (jobDependencies job) = length (hash_dependencies job)"
    and art: "validateObjectDownload L (jobArtifact job) oe le (policy_disk job) = None"
    and deps: "check_downloads L oe le (policy_disk job) (policy_disk job - ?a) {download_filename (jobArtifact job)} ?pairs = None"
    using assms(1) by (auto simp: validateOfferDownloads_def split: option.splits if_splits)
  have "(\<Sum>(input, hash)\<leftarrow>?pairs. declared_size (dependency_download input)) \<le> uint (policy_disk job - ?a)"
    using assms(3) by (intro check_downloads_total [OF deps]) (auto dest: set_zip_leftD)
  moreover have "(\<Sum>(input, hash)\<leftarrow>?pairs. declared_size (dependency_download input))
      = (\<Sum>d\<leftarrow>jobDependencies job. declared_size (dependency_download d))"
    using map_zip_left [OF len, of "\<lambda>d. declared_size (dependency_download d)"] by simp
  moreover have "uint (policy_disk job - ?a) = uint (policy_disk job) - declared_size (jobArtifact job)"
  proof -
    have "?a \<le> policy_disk job" using validateObjectDownload_sound [OF art] by auto
    then have "uint (policy_disk job - ?a) = uint (policy_disk job) - uint ?a"
      by (simp add: uint_sub_lem word_le_def)
    then show ?thesis using download_size_exact [OF art assms(2)] by simp
  qed
  ultimately show ?thesis by simp
qed

subsection \<open>Properties\<close>

text \<open>
  C10. The downloads of an accepted offer, artifact and dependencies together, fit the job's disk limit and that
  limit fits the runner: the running 64-bit subtraction of the code never wraps.
\<close>

theorem offer_downloads_fit_disk:
  assumes "validateOffer L offer cfg now leaseDuration v1 identity = None" "offerJob offer = Some job"
    "int64_size (jobArtifact job)" "\<forall>d \<in> set (jobDependencies job). int64_size (dependency_download d)"
  shows "declared_size (jobArtifact job) + (\<Sum>d\<leftarrow>jobDependencies job. declared_size (dependency_download d))
           \<le> uint (policy_disk job)
         \<and> uint (policy_disk job) \<le> uint (resDiskBytes (cfgResources cfg))"
proof -
  obtain oe le where "validate_job L job cfg now oe le v1 identity None = None"
    using assms(1,2) by (auto simp: validateOffer_def elim!: validateOfferVersion_None)
  then show ?thesis
    using downloads_total [OF _ assms(3,4)] policy_disk_bound
    by (auto simp: validate_job_def word_le_def)
qed

theorem offer_downloads_fit_disk_witness:
  "validateOffer (sampleLib [] []) sampleOffer sampleConfig sampleNow minute False False = None
   \<and> declared_size (jobArtifact sampleJob) + (\<Sum>d\<leftarrow>jobDependencies sampleJob. declared_size (dependency_download d)) = 3000
   \<and> 3000 \<le> uint (policy_disk sampleJob)"
proof -
  have "int64_size (jobArtifact sampleJob)" "\<forall>d \<in> set (jobDependencies sampleJob). int64_size (dependency_download d)"
    "declared_size (jobArtifact sampleJob) + (\<Sum>d\<leftarrow>jobDependencies sampleJob. declared_size (dependency_download d)) = 3000"
    by (simp_all add: int64_size_def declared_size_def dependency_download_def sampleJob_def sampleDownload_def)
  then show ?thesis
    using offer_downloads_fit_disk [OF sampleOffer_valid, of sampleJob] sampleOffer_valid by (simp add: sampleOffer_def)
qed

text \<open>
  C11. What acceptance of an offer guarantees: the offer is live, the lease outlives the offer but not the negotiated
  duration (at most a day), every download outlives the lease, plugin names are pairwise different up to case, file
  names are pairwise different, and the artifact and the configuration match their declared SHA-256 hashes.
\<close>

theorem offer_accepted_guarantees:
  assumes "validateOffer L offer cfg now leaseDuration v1 identity = None" "offerJob offer = Some job"
  shows "\<exists>lease art. jobLease job = Some lease \<and> jobArtifact job = Some art
     \<and> now < asTime L (offerExpiresAt offer) \<and> asTime L (offerExpiresAt offer) < asTime L (leaseExpiresAt lease)
     \<and> asTime L (leaseExpiresAt lease) \<le> now + leaseDuration \<and> leaseDuration \<le> 24 * hour
     \<and> asTime L (leaseExpiresAt lease) < asTime L (downloadExpiresAt art)
     \<and> distinct (to_lower (targetPluginName job) # map (\<lambda>d. to_lower (dependencyPluginName (the d))) (jobDependencies job))
     \<and> distinct (downloadFilename art # map (\<lambda>d. download_filename (dependency_download d)) (jobDependencies job))
     \<and> sameDigest (downloadDigest art) (hashes_artifact job)
     \<and> sha256Sum L (normalizedConfigurationJson job) = digest_bytes (hashes_configuration job)"
proof -
  obtain oe le where e: "offerExpiration L (offerExpiresAt offer) now leaseDuration = Inr oe"
    and i: "validateOfferIdentity L job now oe leaseDuration = Inr le"
    and d: "leaseDuration \<le> maximumLeaseDuration"
    and j: "validate_job L job cfg now oe le v1 identity None = None"
    using validateOfferVersion_None [OF assms(1) [unfolded validateOffer_def]] assms(2) by (metis option.inject)
  from i obtain lease where lease: "jobLease job = Some lease" "le = asTime L (leaseExpiresAt lease)" "oe < le" "le \<le> now + leaseDuration"
    using validateOfferIdentity_sound by blast
  have dl: "validateOfferDownloads L job oe le = None"
    and names: "validateOfferPluginNames job = None"
    and configuration: "validateOfferConfigurationWithSecrets L (normalizedConfigurationJson job) (hashes_configuration job)
      (cfgEnableTestSecrets cfg \<and> v1) = None"
    using j by (simp_all add: validate_job_def)
  have len: "length (jobDependencies job) = length (hash_dependencies job)"
    and av: "validateObjectDownload L (jobArtifact job) oe le (policy_disk job) = None"
    and same: "sameDigest (download_digest (jobArtifact job)) (hashes_artifact job)"
    and deps: "check_downloads L oe le (policy_disk job) (policy_disk job - download_size (jobArtifact job))
       {download_filename (jobArtifact job)} (zip (jobDependencies job) (hash_dependencies job)) = None"
    using dl by (auto simp: validateOfferDownloads_def split: option.splits if_splits)
  from validateObjectDownload_sound [OF av] obtain art where art: "jobArtifact job = Some art" "le < asTime L (downloadExpiresAt art)"
    by blast
  have "distinct (to_lower (targetPluginName job) # map (\<lambda>d. to_lower (dependencyPluginName (the d))) (jobDependencies job))"
    using names check_plugin_names_distinct [of "{to_lower (targetPluginName job)}" "jobDependencies job"]
    by (auto simp: validateOfferPluginNames_def split: if_splits)
  moreover have "distinct (downloadFilename art # map (\<lambda>d. download_filename (dependency_download d)) (jobDependencies job))"
  proof -
    let ?f = "\<lambda>d. download_filename (dependency_download d)"
    have m: "map (\<lambda>(input, hash). ?f input) (zip (jobDependencies job) (hash_dependencies job)) = map ?f (jobDependencies job)"
      using map_zip_left [OF len, of ?f] .
    have "download_filename (jobArtifact job) \<notin> set (map (\<lambda>(input, hash). ?f input) (zip (jobDependencies job) (hash_dependencies job)))"
      using check_downloads_filenames [OF deps] by auto
    then show ?thesis
      using check_downloads_filenames [OF deps] art(1) unfolding m by (simp add: download_filename_def)
  qed
  moreover have "sha256Sum L (normalizedConfigurationJson job) = digest_bytes (hashes_configuration job)"
    using configuration by (auto simp: validateOfferConfigurationWithSecrets_def split: if_splits option.splits)
  ultimately show ?thesis
    using offerExpiration_sound [OF e] lease art same d by (auto simp: download_digest_def maximumLeaseDuration_def)
qed

theorem offer_accepted_guarantees_witness:
  "distinct (to_lower (targetPluginName sampleJob) # map (\<lambda>d. to_lower (dependencyPluginName (the d))) (jobDependencies sampleJob))
   \<and> sha256Sum (sampleLib [] []) (normalizedConfigurationJson sampleJob) = digest_bytes (hashes_configuration sampleJob)"
  using offer_accepted_guarantees [OF sampleOffer_valid [of "[]" "[]"], of sampleJob] by (auto simp: sampleOffer_def)

end
