(* ===== verification/Journal.thy ===== *)
theory Journal
  imports Samples
begin

section \<open>The private one-job journal\<close>

text \<open>
  \<open>gatewayclient/journal.go\<close>: the state a runner keeps on disk beside its connect
  configuration, the checks every state must pass before it is written, and the
  write itself. The file system is an argument: \<open>persist_io\<close> says how each system call
  of one write ends, and \<open>env\<close> gives one such outcome per write.

  Go errors are values. \<open>Permanent\<close> is the wrapper \<open>permanentError\<close> of
  \<open>client.go\<close>, which stops the client; \<open>Plain\<close> is any other error the package creates, and
  \<open>Panic\<close> a run-time panic (a nil dereference). \<open>NetworkFailure\<close> is a \<open>net.Error\<close> with whether it
  is a timeout or temporary, \<open>StreamStatus\<close> a gRPC status with its code, and \<open>OutOfFuel\<close> says that a loop
  of the model reached its bound.
  The error texts are abbreviated to short names.
\<close>

datatype go_error =
    Permanent string
  | Plain string
  | Panic string
  | CredentialRotationReconnect
  | HostedSessionRenewal
  | ContextCanceled
  | DeadlineExceeded
  | ServerShutdown
  | StreamEOF
  | NetworkFailure bool
  | StreamStatus nat
  | OutOfFuel

subsection \<open>State\<close>

record journal_job =
  specificationBytes :: bytes
  offerMessageID :: string
  offerDigest :: bytes
  activeCorrelationV1 :: bool
  activeEvidenceV2 :: bool
  phase :: job_phase
  expiresAt :: time
  cancellationID :: string
  cancellationDeadline :: time
  cancellationDigest :: bytes

record journal_rotation =
  rotRunnerID :: string
  rotRotationID :: string
  rotFingerprint :: bytes
  rotIssuedAt :: time
  rotExpiresAt :: time
  rotReconnectBefore :: time
  rotPersistedAt :: time

record committed_credential =
  comRunnerID :: string
  comRotationID :: string
  comFingerprint :: bytes
  comIssuedAt :: time
  comExpiresAt :: time
  comPersistedAt :: time

record journal_state =
  schemaVersion :: string
  messageSequence :: "64 word"
  heartbeatSequence :: "64 word"
  active :: "journal_job option"
  pendingMessage :: bytes
  pendingHeartbeat :: bytes
  credentialRotation :: "journal_rotation option"
  committedCredential :: "committed_credential option"

definition journalSchemaVersion :: string where
  "journalSchemaVersion = ''provenance.runner-journal/v1alpha1''"

definition maximumJournalBytes :: nat where "maximumJournalBytes = 262144"

definition empty_journal :: journal_state where
  "empty_journal =
     \<lparr>schemaVersion = journalSchemaVersion, messageSequence = 0, heartbeatSequence = 0, active = None,
      pendingMessage = [], pendingHeartbeat = [], credentialRotation = None, committedCredential = None\<rparr>"

subsection \<open>Identities carried by runner messages (supervisor.go)\<close>

definition sameLeaseAttempt ::
  "lease_identity option \<Rightarrow> attempt_identity option \<Rightarrow> lease_identity option \<Rightarrow> attempt_identity option \<Rightarrow> bool" where
  "sameLeaseAttempt leftLease leftAttempt rightLease rightAttempt =
     (case (leftLease, leftAttempt, rightLease, rightAttempt) of
        (Some ll, Some la, Some rl, Some ra) \<Rightarrow>
          leaseId ll = leaseId rl \<and> jobId ll = jobId rl \<and> executionId ll = executionId rl
          \<and> attemptId la = attemptId ra \<and> attemptNumber la = attemptNumber ra
          \<and> releaseCandidateId la = releaseCandidateId ra \<and> matrixEntryId la = matrixEntryId ra
      | _ \<Rightarrow> False)"

definition activeMatchesIdentity ::
  "lib \<Rightarrow> journal_job option \<Rightarrow> lease_identity option \<Rightarrow> attempt_identity option \<Rightarrow> bool" where
  "activeMatchesIdentity L act lease attempt =
     (case act of
        None \<Rightarrow> False
      | Some a \<Rightarrow> (case unmarshalJob L (specificationBytes a) of
           None \<Rightarrow> False
         | Some job \<Rightarrow> sameLeaseAttempt (jobLease job) (jobAttempt job) lease attempt))"

definition runnerMessageIdentity :: "runner_message \<Rightarrow> lease_identity option \<times> attempt_identity option" where
  "runnerMessageIdentity message =
     (case runnerPayload message of
        Some (P_LeaseAccepted v) \<Rightarrow> (acceptedLease v, acceptedAttempt v)
      | Some (P_LeaseRejected v) \<Rightarrow> (rejectedLease v, rejectedAttempt v)
      | Some (P_LeaseRenewal v) \<Rightarrow> (renewalLease v, renewalAttempt v)
      | Some (P_JobPreparing v) \<Rightarrow> (preparingLease v, preparingAttempt v)
      | Some (P_JobStarted v) \<Rightarrow> (startedLease v, startedAttempt v)
      | Some (P_Completed v) \<Rightarrow> (completedLease v, completedAttempt v)
      | Some (P_Failed v) \<Rightarrow> (failedLease v, failedAttempt v)
      | Some (P_Cancelled v) \<Rightarrow> (cancelledLease v, cancelledAttempt v)
      | _ \<Rightarrow> (None, None))"

definition activeIdentity ::
  "lib \<Rightarrow> journal_state \<Rightarrow> go_error + (lease_identity option \<times> attempt_identity option)" where
  "activeIdentity L state =
     (case active state of
        None \<Rightarrow> Inl (Plain ''active_missing'')
      | Some a \<Rightarrow> (case unmarshalJob L (specificationBytes a) of
           None \<Rightarrow> Inl (Plain ''unmarshal'')
         | Some job \<Rightarrow> Inr (jobLease job, jobAttempt job)))"

subsection \<open>Terminal evidence bound to the active job (terminal\_evidence.go)\<close>

definition terminalProof :: "runner_message \<Rightarrow> execution_evidence option" where
  "terminalProof message =
     (case runnerPayload message of
        Some (P_Completed v) \<Rightarrow> completedEvidence v
      | Some (P_Failed v) \<Rightarrow> failedEvidence v
      | _ \<Rightarrow> None)"

definition evidenceV1 :: string where "evidenceV1 = ''provenance.execution-evidence/v1''"
definition evidenceV2 :: string where "evidenceV2 = ''provenance.execution-evidence/v2''"

definition validateTerminalProof :: "lib \<Rightarrow> runner_message \<Rightarrow> journal_state \<Rightarrow> string \<Rightarrow> bool" where
  "validateTerminalProof L message state runnerID =
     (case terminalProof message of
        None \<Rightarrow> True
      | Some proof \<Rightarrow> (case active state of
           None \<Rightarrow> False
         | Some a \<Rightarrow> (case unmarshalJob L (specificationBytes a) of
              None \<Rightarrow> False
            | Some job \<Rightarrow> (case frozenVersion L proof of
                 None \<Rightarrow> False
               | Some version \<Rightarrow>
                   if (version = evidenceV2) \<noteq> activeEvidenceV2 a then False
                   else if version = evidenceV2 then validateFrozenV2 L proof job runnerID
                   else validateFrozen L proof job runnerID))))"

definition terminalMessageBound :: "lib \<Rightarrow> runner_message \<Rightarrow> bool" where
  "terminalMessageBound L message =
     (\<not> (terminalProof message \<noteq> None \<and> sizeRunner L message > maximumMessageBytes))"

subsection \<open>Validation\<close>

definition validateJournalRunnerEnvelope :: "lib \<Rightarrow> runner_message \<Rightarrow> 64 word \<Rightarrow> bool" where
  "validateJournalRunnerEnvelope L message limit =
     (let i = runnerMessageId message
      in if \<not> validateIdentifier i maximumIdentifierBytes \<or> \<not> validateTimestamp L (runnerSentAt message)
            \<or> sizeRunner L message > maximumMessageBytes
         then False
         else (case last_index_byte i CHR ''-'' of
             None \<Rightarrow> False
           | Some separator \<Rightarrow>
               if length i - separator - 1 \<noteq> 16 then False
               else (case parse_uint_hex (drop (separator + 1) i) of
                   None \<Rightarrow> False
                 | Some sequence \<Rightarrow> \<not> (sequence = 0 \<or> sequence > unat limit))))"

definition durableRunnerMessage :: "runner_message \<Rightarrow> bool" where
  "durableRunnerMessage message =
     (case runnerPayload message of
        Some (P_LeaseAccepted _) \<Rightarrow> True | Some (P_LeaseRejected _) \<Rightarrow> True
      | Some (P_LeaseRenewal _) \<Rightarrow> True | Some (P_JobPreparing _) \<Rightarrow> True
      | Some (P_JobStarted _) \<Rightarrow> True | Some (P_Completed _) \<Rightarrow> True
      | Some (P_Failed _) \<Rightarrow> True | Some (P_Cancelled _) \<Rightarrow> True
      | _ \<Rightarrow> False)"

definition is_rejection :: "runner_message \<Rightarrow> bool" where
  "is_rejection message = (case runnerPayload message of Some (P_LeaseRejected _) \<Rightarrow> True | _ \<Rightarrow> False)"

definition rotation_valid :: "journal_rotation \<Rightarrow> bool" where
  "rotation_valid r =
     (\<not> ((rotRunnerID r \<noteq> [] \<and> (\<not> validateUUID (rotRunnerID r) \<or> rotRunnerID r \<noteq> to_lower (rotRunnerID r)))
         \<or> \<not> validateUUID (rotRotationID r) \<or> rotRotationID r \<noteq> to_lower (rotRotationID r)
         \<or> length (rotFingerprint r) \<noteq> 32
         \<or> rotIssuedAt r = 0 \<or> \<not> rotExpiresAt r > rotIssuedAt r
         \<or> time_sub (rotExpiresAt r) (rotIssuedAt r) > hour
         \<or> \<not> rotReconnectBefore r > rotIssuedAt r \<or> \<not> rotReconnectBefore r < rotExpiresAt r
         \<or> time_sub (rotReconnectBefore r) (rotIssuedAt r) > 5 * minute
         \<or> (rotPersistedAt r \<noteq> 0 \<and> rotPersistedAt r < rotIssuedAt r - maximumClockSkew)))"

definition committed_valid :: "committed_credential \<Rightarrow> bool" where
  "committed_valid c =
     (\<not> (\<not> validateUUID (comRunnerID c) \<or> comRunnerID c \<noteq> to_lower (comRunnerID c)
         \<or> \<not> validateUUID (comRotationID c) \<or> comRotationID c \<noteq> to_lower (comRotationID c)
         \<or> length (comFingerprint c) \<noteq> 32
         \<or> comIssuedAt c = 0 \<or> comExpiresAt c = 0 \<or> comPersistedAt c = 0
         \<or> \<not> comExpiresAt c > comIssuedAt c \<or> time_sub (comExpiresAt c) (comIssuedAt c) > hour
         \<or> comPersistedAt c < comIssuedAt c - maximumClockSkew \<or> \<not> comExpiresAt c > comPersistedAt c))"

definition committed_conflicts :: "committed_credential \<Rightarrow> journal_rotation \<Rightarrow> bool" where
  "committed_conflicts c r =
     (rotPersistedAt r \<noteq> 0 \<and>
      (comRunnerID c \<noteq> rotRunnerID r \<or> comRotationID c \<noteq> rotRotationID r
       \<or> comFingerprint c \<noteq> rotFingerprint r \<or> comIssuedAt c \<noteq> rotIssuedAt r
       \<or> comExpiresAt c \<noteq> rotExpiresAt r \<or> comPersistedAt c \<noteq> rotPersistedAt r))"

definition validate_credentials :: "journal_state \<Rightarrow> string option" where
  "validate_credentials state =
     (if (case credentialRotation state of None \<Rightarrow> False | Some r \<Rightarrow> \<not> rotation_valid r)
      then Some ''rotation_invalid''
      else (case committedCredential state of
          None \<Rightarrow> None
        | Some c \<Rightarrow>
            if \<not> committed_valid c then Some ''committed_invalid''
            else if (case credentialRotation state of None \<Rightarrow> False | Some r \<Rightarrow> committed_conflicts c r)
            then Some ''committed_conflict'' else None))"

definition validate_heartbeat :: "lib \<Rightarrow> journal_state \<Rightarrow> string option" where
  "validate_heartbeat L state =
     (if pendingHeartbeat state = [] then None
      else (case unmarshalRunner L (pendingHeartbeat state) of
          None \<Rightarrow> Some ''heartbeat_undecodable''
        | Some message \<Rightarrow>
            (case runnerPayload message of
               Some (P_Heartbeat h) \<Rightarrow>
                 if \<not> validateJournalRunnerEnvelope L message (messageSequence state)
                    \<or> hbSequence h = 0 \<or> hbSequence h > heartbeatSequence state
                    \<or> length (hbActiveLeases h) > 1 \<or> hbCapacity h = None
                    \<or> \<not> validateTimestamp L (hbObservedAt h)
                 then Some ''heartbeat_invalid'' else None
             | _ \<Rightarrow> Some ''heartbeat_invalid'')))"

definition identity_uuids :: "lease_identity \<Rightarrow> attempt_identity \<Rightarrow> bool" where
  "identity_uuids l a =
     list_all validateUUID [leaseId l, jobId l, executionId l, attemptId a, releaseCandidateId a, matrixEntryId a]"

definition validate_specification :: "lib \<Rightarrow> journal_job \<Rightarrow> string option" where
  "validate_specification L a =
     (if specificationBytes a = [] \<or> length (specificationBytes a) > maximumMessageBytes then Some ''specification_missing''
      else (case unmarshalJob L (specificationBytes a) of
          None \<Rightarrow> Some ''specification_undecodable''
        | Some job \<Rightarrow> (case (jobLease job, jobAttempt job) of
             (Some l, Some att) \<Rightarrow>
               if \<not> validateTimestamp L (leaseExpiresAt l)
                  \<or> Some (expiresAt a) \<noteq> map_option (tsAsTime L) (leaseExpiresAt l)
                  \<or> \<not> identity_uuids l att
               then Some ''specification_identity''
               else if attemptNumber att = 0 \<or> attemptNumber att > maximumAttemptNumber
                       \<or> \<not> ValidPaper (targetPluginName job)
               then Some ''specification_attempt''
               else if validateOfferJobCorrelation job \<lparr>scopeKind = ScopeOther [], scopeOrganizationId = []\<rparr>
                         (activeCorrelationV1 a) \<noteq> None
               then Some ''specification_correlation''
               else if testSecrets job \<noteq> [] \<and> (\<not> activeCorrelationV1 a \<or> \<not> ValidateSelection L job)
               then Some ''selection_invalid''
               else if list_ex (\<lambda>d. case d of None \<Rightarrow> True | Some i \<Rightarrow> \<not> ValidPaper (dependencyPluginName i))
                         (jobDependencies job)
               then Some ''dependency_name''
               else None
           | _ \<Rightarrow> Some ''specification_identity'')))"

definition validate_cancellation :: "journal_job \<Rightarrow> string option" where
  "validate_cancellation a =
     (if cancellationID a = [] then
        (if cancellationDigest a \<noteq> [] \<or> cancellationDeadline a \<noteq> 0 then Some ''cancellation_fields'' else None)
      else if cancellationDigest a = [] then
        (if cancellationDeadline a \<noteq> 0 then Some ''cancellation_payload'' else None)
      else if length (cancellationDigest a) \<noteq> 32 \<or> cancellationDeadline a = 0 then Some ''cancellation_command''
      else None)"

definition validate_pending_active :: "lib \<Rightarrow> journal_state \<Rightarrow> journal_job \<Rightarrow> string option" where
  "validate_pending_active L state a =
     (if pendingMessage state = [] then None
      else (case unmarshalRunner L (pendingMessage state) of
          None \<Rightarrow> Some ''pending_undecodable''
        | Some message \<Rightarrow>
            if \<not> validateJournalRunnerEnvelope L message (messageSequence state) \<or> \<not> durableRunnerMessage message
            then Some ''pending_not_durable''
            else if \<not> validateTerminalProof L message state [] then Some ''pending_evidence''
            else if \<not> is_rejection message
                    \<and> \<not> activeMatchesIdentity L (Some a) (fst (runnerMessageIdentity message)) (snd (runnerMessageIdentity message))
            then Some ''pending_mismatch'' else None))"

definition first_fault :: "string option list \<Rightarrow> string option" where
  "first_fault xs = (case filter (\<lambda>x. x \<noteq> None) xs of [] \<Rightarrow> None | x # _ \<Rightarrow> x)"

definition validate_active :: "lib \<Rightarrow> journal_state \<Rightarrow> journal_job \<Rightarrow> string option" where
  "validate_active L state a =
     first_fault
       [validate_specification L a,
        (if \<not> validateIdentifier (offerMessageID a) maximumIdentifierBytes \<or> length (offerDigest a) \<noteq> 32
         then Some ''offer_identity'' else None),
        (if phase a \<in> {PHASE_ACCEPTED, PHASE_PREPARING, PHASE_RUNNING, PHASE_CANCELLING}
         then None else Some ''phase_invalid''),
        validate_cancellation a,
        (if cancellationID a \<noteq> [] \<and> \<not> validateIdentifier (cancellationID a) maximumIdentifierBytes
         then Some ''cancellation_id'' else None),
        validate_pending_active L state a]"

definition validate_idle :: "lib \<Rightarrow> journal_state \<Rightarrow> string option" where
  "validate_idle L state =
     (if pendingMessage state = [] then None
      else (case unmarshalRunner L (pendingMessage state) of
          None \<Rightarrow> Some ''pending_undecodable''
        | Some message \<Rightarrow>
            if \<not> validateJournalRunnerEnvelope L message (messageSequence state) \<or> \<not> is_rejection message
            then Some ''pending_must_reject'' else None))"

definition validateJournalState :: "lib \<Rightarrow> journal_state \<Rightarrow> string option" where
  "validateJournalState L state =
     first_fault
       [(if schemaVersion state \<noteq> journalSchemaVersion then Some ''schema'' else None),
        validate_credentials state,
        validate_heartbeat L state,
        (case active state of None \<Rightarrow> validate_idle L state | Some a \<Rightarrow> validate_active L state a)]"

abbreviation journal_valid :: "lib \<Rightarrow> journal_state \<Rightarrow> bool" where
  "journal_valid L state \<equiv> validateJournalState L state = None"

subsection \<open>Files (config.go)\<close>

text \<open>
  A directory entry as \<open>os.Lstat\<close> reports it. \<open>fileOwned\<close> is the result of the
  platform's \<open>privateFileMetadata\<close>; \<open>fileId\<close> is what \<open>os.SameFile\<close> compares.
\<close>

record file_entry =
  fileSymlink :: bool
  fileRegular :: bool
  filePerm :: "32 word"
  fileOwned :: bool
  fileId :: nat
  fileSize :: nat
  fileContents :: bytes

definition privateFileMode :: "32 word \<Rightarrow> bool" where
  "privateFileMode mode \<longleftrightarrow> and mode 0x100 \<noteq> 0 \<and> and mode (not 0x180) = 0"

datatype read_error = NotExist | ReadFailed string

text \<open>
  One read: what \<open>Lstat\<close> saw, what the opened descriptor shows, and whether reading
  its contents succeeded. The two entries may differ, as on a real file system.
\<close>

record read_io =
  rioBefore :: "read_error + file_entry"
  rioOpened :: "read_error + file_entry"
  rioReadable :: bool

definition readRegularFile :: "read_io \<Rightarrow> nat \<Rightarrow> bool \<Rightarrow> read_error + bytes" where
  "readRegularFile io maximum private =
     (case rioBefore io of
        Inl e \<Rightarrow> Inl e
      | Inr before \<Rightarrow>
          if fileSymlink before \<or> \<not> fileRegular before then Inl (ReadFailed ''not_regular'')
          else if private \<and> (\<not> privateFileMode (filePerm before) \<or> \<not> fileOwned before)
          then Inl (ReadFailed ''permissions'')
          else (case rioOpened io of
              Inl e \<Rightarrow> Inl e
            | Inr after \<Rightarrow>
                if \<not> fileRegular after \<or> fileId before \<noteq> fileId after then Inl (ReadFailed ''changed'')
                else if private \<and> (\<not> privateFileMode (filePerm after) \<or> \<not> fileOwned after)
                then Inl (ReadFailed ''permissions'')
                else if fileSize after > maximum then Inl (ReadFailed ''size'')
                else if \<not> rioReadable io then Inl (ReadFailed ''read'')
                else (let data = take (maximum + 1) (fileContents after)
                      in if length data > maximum then Inl (ReadFailed ''size'') else Inr data)))"

subsection \<open>Persistence\<close>

text \<open>
  \<open>persist_io\<close>: which system calls of one write succeed. \<open>env\<close> holds the libraries,
  the JSON codec of the journal state (\<open>encoding/json\<close>: the decoder returns the first
  value and whether the input ends after it) and the outcome of each write, numbered.
\<close>

record persist_io =
  pioCreate :: bool
  pioChmod :: bool
  pioWrite :: bool
  pioSync :: bool
  pioClose :: bool
  pioLstat :: bool
  pioRename :: bool
  pioOpenDir :: bool
  pioSyncDir :: bool
  pioNewId :: nat

record env =
  library :: lib
  jsonEncode :: "journal_state \<Rightarrow> bytes option"
  jsonDecode :: "bytes \<Rightarrow> (journal_state \<times> bool) option"
  persistIO :: "nat \<Rightarrow> persist_io"

record journal =
  jPath :: string
  jState :: journal_state
  jDisk :: "file_entry option"
  jWrites :: nat

text \<open>
  \<open>persistLocked\<close> returns whether the file was replaced and the error, and leaves the
  journal with its new directory entry.
\<close>

definition persistLocked :: "env \<Rightarrow> journal \<Rightarrow> (bool \<times> go_error option) \<times> journal" where
  "persistLocked E j =
     (if jPath j = [] then ((True, None), j)
      else
        let io = persistIO E (jWrites j); j1 = j\<lparr>jWrites := jWrites j + 1\<rparr>;
            failed = (\<lambda>what. ((False, Some (Plain what)), j1))
        in (case jsonEncode E (jState j) of
              None \<Rightarrow> failed ''encode''
            | Some data \<Rightarrow>
                if length data > maximumJournalBytes then failed ''exceeds''
                else if \<not> pioCreate io then failed ''create''
                else if \<not> pioChmod io then failed ''secure''
                else if \<not> pioWrite io then failed ''write''
                else if \<not> pioSync io then failed ''sync''
                else if \<not> pioClose io then failed ''close''
                else if \<not> pioLstat io then failed ''inspect''
                else if (case jDisk j of
                           None \<Rightarrow> False
                         | Some existing \<Rightarrow> fileSymlink existing \<or> \<not> fileRegular existing
                                            \<or> \<not> privateFileMode (filePerm existing))
                then failed ''not_private''
                else if \<not> pioRename io then failed ''replace''
                else
                  let entry = \<lparr>fileSymlink = False, fileRegular = True, filePerm = 0x180, fileOwned = True,
                               fileId = pioNewId io, fileSize = length data, fileContents = data\<rparr>;
                      j2 = j1\<lparr>jDisk := Some entry\<rparr>
                  in if \<not> pioOpenDir io then ((True, Some (Plain ''open_directory'')), j2)
                     else if \<not> pioSyncDir io then ((True, Some (Plain ''sync_directory'')), j2)
                     else ((True, None), j2)))"

text \<open>
  \<open>update\<close>: the closure is a procedure on the state. An error of the closure returns at
  once; a state that does not validate or was not written is replaced by the previous one.
\<close>

definition update :: "env \<Rightarrow> (journal_state, go_error, 'a) proc \<Rightarrow> (journal, go_error, 'a) proc" where
  "update E f j =
     (let previous = jState j
      in (case f previous of
            (Inl e, state) \<Rightarrow> (Inl e, j\<lparr>jState := state\<rparr>)
          | (Inr x, state) \<Rightarrow>
              (case validateJournalState (library E) state of
                 Some reason \<Rightarrow> (Inl (Plain reason), j\<lparr>jState := previous\<rparr>)
               | None \<Rightarrow>
                   (case persistLocked E (j\<lparr>jState := state\<rparr>) of
                      ((committed, Some e), j') \<Rightarrow>
                        (Inl e, if \<not> committed then j'\<lparr>jState := previous\<rparr> else j')
                    | ((committed, None), j') \<Rightarrow> (Inr x, j')))))"

definition nextMessageSequence :: "env \<Rightarrow> (journal, go_error, 64 word) proc" where
  "nextMessageSequence E =
     update E (bind (get messageSequence) (\<lambda>sequence.
       if sequence = not 0 then fail (Plain ''message_sequence_exhausted'')
       else andThen (modify (\<lambda>state. state\<lparr>messageSequence := messageSequence state + 1\<rparr>))
                    (get messageSequence)))"

definition nextHeartbeatSequence :: "env \<Rightarrow> (journal, go_error, 64 word) proc" where
  "nextHeartbeatSequence E =
     update E (bind (get heartbeatSequence) (\<lambda>sequence.
       if sequence = not 0 then fail (Plain ''heartbeat_sequence_exhausted'')
       else andThen (modify (\<lambda>state. state\<lparr>heartbeatSequence := heartbeatSequence state + 1\<rparr>))
                    (get heartbeatSequence)))"

text \<open>
  \<open>openJournal\<close> on the directory entry \<open>disk\<close>, with the outcome of the read and of
  \<open>MkdirAll\<close> as arguments.
\<close>

definition openJournal :: "env \<Rightarrow> string \<Rightarrow> file_entry option \<Rightarrow> nat \<Rightarrow> read_io \<Rightarrow> bool \<Rightarrow> go_error + journal" where
  "openJournal E path disk writes io mkdirOk =
     (let value = \<lparr>jPath = path, jState = empty_journal, jDisk = disk, jWrites = writes\<rparr>
      in if path = [] then Inr value
         else (case readRegularFile io maximumJournalBytes True of
             Inl NotExist \<Rightarrow>
               if \<not> mkdirOk then Inl (Plain ''create_directory'')
               else (case persistLocked E value of
                   ((_, Some e), _) \<Rightarrow> Inl e
                 | ((_, None), value') \<Rightarrow> Inr value')
           | Inl (ReadFailed e) \<Rightarrow> Inl (Plain e)
           | Inr data \<Rightarrow> (case jsonDecode E data of
                 None \<Rightarrow> Inl (Plain ''decode'')
               | Some (state, atEnd) \<Rightarrow>
                   if \<not> atEnd then Inl (Plain ''trailing'')
                   else (case validateJournalState (library E) state of
                       Some reason \<Rightarrow> Inl (Plain reason)
                     | None \<Rightarrow> Inr (value\<lparr>jState := state\<rparr>)))))"

subsection \<open>Credentials recorded in the journal\<close>

definition validCredentialPredecessor :: "committed_credential option \<Rightarrow> journal_rotation option \<Rightarrow> bool" where
  "validCredentialPredecessor committed pending =
     (case (committed, pending) of
        (Some c, Some p) \<Rightarrow>
          if comRunnerID c \<noteq> rotRunnerID p \<or> comRotationID c = rotRotationID p
             \<or> comFingerprint c = rotFingerprint p then False
          else \<not> rotIssuedAt p < comIssuedAt c - maximumClockSkew
               \<and> \<not> rotIssuedAt p < comPersistedAt c - maximumClockSkew
      | _ \<Rightarrow> False)"

text \<open>The part of \<open>credentialMatchesCommittedRotation\<close> after the journal is open.\<close>

definition state_matches_credential :: "lib \<Rightarrow> journal_state \<Rightarrow> string \<Rightarrow> bytes \<Rightarrow> time \<Rightarrow> bool" where
  "state_matches_credential L state runnerID credential now =
     (let digest = sha256Sum L credential;
          committed_case =
            (case committedCredential state of
               None \<Rightarrow> False
             | Some c \<Rightarrow>
                 if comRunnerID c \<noteq> runnerID \<or> \<not> now < comExpiresAt c then False
                 else if (case credentialRotation state of
                            None \<Rightarrow> False
                          | Some r \<Rightarrow> rotRunnerID r \<noteq> runnerID \<or> rotRotationID r \<noteq> comRotationID c
                                      \<or> rotFingerprint r \<noteq> comFingerprint c) then False
                 else digest = comFingerprint c)
      in (case credentialRotation state of
            None \<Rightarrow> committed_case
          | Some r \<Rightarrow>
              if rotPersistedAt r \<noteq> 0 then committed_case
              else if rotRunnerID r \<noteq> runnerID \<or> \<not> now < rotExpiresAt r then False
              else (case committedCredential state of
                  None \<Rightarrow> digest = rotFingerprint r
                | Some c \<Rightarrow>
                    if \<not> validCredentialPredecessor (Some c) (Some r) then False
                    else digest = rotFingerprint r \<or> (now < comExpiresAt c \<and> digest = comFingerprint c))))"

definition credentialMatchesCommittedRotation ::
  "env \<Rightarrow> string \<Rightarrow> file_entry option \<Rightarrow> bool \<Rightarrow> read_io \<Rightarrow> bool \<Rightarrow> string \<Rightarrow> bytes \<Rightarrow> time \<Rightarrow> bool" where
  "credentialMatchesCommittedRotation E path disk statOk io mkdirOk runnerID credential now =
     (if path = [] \<or> credential = [] then False
      else if \<not> statOk then False
      else (case openJournal E path disk 0 io mkdirOk of
          Inl _ \<Rightarrow> False
        | Inr j \<Rightarrow> state_matches_credential (library E) (jState j) runnerID credential now))"

subsection \<open>Reading a journal back\<close>

text \<open>
  What the next process finds: the directory entry, read without interference. A
  missing entry gives nothing to recover.
\<close>

definition undisturbed :: "file_entry \<Rightarrow> read_io" where
  "undisturbed f = \<lparr>rioBefore = Inr f, rioOpened = Inr f, rioReadable = True\<rparr>"

definition reopen :: "env \<Rightarrow> journal \<Rightarrow> go_error + journal" where
  "reopen E j =
     (case jDisk j of
        None \<Rightarrow> Inl (Plain ''missing'')
      | Some f \<Rightarrow> openJournal E (jPath j) (Some f) (jWrites j) (undisturbed f) True)"

definition recovered :: "env \<Rightarrow> journal \<Rightarrow> journal_state option" where
  "recovered E j = (case reopen E j of Inl _ \<Rightarrow> None | Inr j' \<Rightarrow> Some (jState j'))"

text \<open>What the journal relies on in \<open>encoding/json\<close>: a valid state survives encoding and decoding.\<close>

definition json_ok :: "env \<Rightarrow> bool" where
  "json_ok E \<longleftrightarrow>
     (\<forall>s b. journal_valid (library E) s \<longrightarrow> jsonEncode E s = Some b \<longrightarrow> jsonDecode E b = Some (s, True))"

definition persistent :: "env \<Rightarrow> journal \<Rightarrow> bool" where
  "persistent E j \<longleftrightarrow> json_ok E \<and> jPath j \<noteq> []"

text \<open>Use of a counter: numbers are drawn, and the process may be restarted in between.\<close>

primrec drawn :: "('s \<Rightarrow> ('e + 64 word) \<times> 's) \<Rightarrow> nat \<Rightarrow> 's \<Rightarrow> 64 word list" where
  "drawn draw 0 s = []"
| "drawn draw (Suc n) s = (case draw s of (Inr k, s') \<Rightarrow> k # drawn draw n s' | (Inl _, s') \<Rightarrow> drawn draw n s')"

datatype use_event = Draw | Restart

primrec issued ::
  "('s \<Rightarrow> ('e + 64 word) \<times> 's) \<Rightarrow> ('s \<Rightarrow> 'e + 's) \<Rightarrow> use_event list \<Rightarrow> 's \<Rightarrow> 64 word list" where
  "issued draw restart [] s = []"
| "issued draw restart (e # es) s =
     (case e of
        Draw \<Rightarrow> (case draw s of
            (Inr n, s') \<Rightarrow> n # issued draw restart es s'
          | (Inl _, s') \<Rightarrow> issued draw restart es s')
      | Restart \<Rightarrow> (case restart s of Inl _ \<Rightarrow> [] | Inr s' \<Rightarrow> issued draw restart es s'))"

lemma first_fault_None: "first_fault xs = None \<longleftrightarrow> list_all (\<lambda>x. x = None) xs"
  by (induction xs) (auto simp: first_fault_def split: list.splits)

lemma privateFileMode_0600 [simp]: "privateFileMode 0x180"
  by (simp add: privateFileMode_def)

text \<open>A path that is already open with mode 0600 is the only thing the writer replaces.\<close>

lemma persistLocked_path [simp]: "jPath (snd (persistLocked E j)) = jPath j"
  by (simp add: persistLocked_def Let_def split: option.splits)

lemma persistLocked_state [simp]: "jState (snd (persistLocked E j)) = jState j"
  by (simp add: persistLocked_def Let_def split: option.splits)

lemma persistLocked_uncommitted:
  "persistLocked E j = ((False, e), j') \<Longrightarrow> e \<noteq> None \<and> jDisk j' = jDisk j"
  by (auto simp: persistLocked_def Let_def split: option.splits if_splits)

lemma persistLocked_committed:
  assumes "persistLocked E j = ((True, e), j')" "persistent E j" "journal_valid (library E) (jState j)"
  shows "recovered E j' = Some (jState j)"
proof -
  obtain data where enc: "jsonEncode E (jState j) = Some data" and len: "length data \<le> maximumJournalBytes"
    and disk: "jDisk j' = Some \<lparr>fileSymlink = False, fileRegular = True, filePerm = 0x180, fileOwned = True,
                 fileId = pioNewId (persistIO E (jWrites j)), fileSize = length data, fileContents = data\<rparr>"
    using assms(1,2) by (auto simp: persistLocked_def Let_def persistent_def split: option.splits if_splits)
  have path: "jPath j' \<noteq> []"
    using assms(1,2) persistLocked_path [of E j] by (simp add: persistent_def)
  have "jsonDecode E data = Some (jState j, True)"
    using assms(2,3) enc by (simp add: persistent_def json_ok_def)
  then show ?thesis
    using disk len path assms(3)
    by (simp add: recovered_def reopen_def undisturbed_def openJournal_def readRegularFile_def)
qed

lemma undisturbed_exists: "readRegularFile (undisturbed f) m p \<noteq> Inl NotExist"
  by (simp add: readRegularFile_def undisturbed_def Let_def)

lemma recovered_cong: "jDisk j' = jDisk j \<Longrightarrow> jPath j' = jPath j \<Longrightarrow> recovered E j' = recovered E j"
  using undisturbed_exists
  by (simp add: recovered_def reopen_def openJournal_def Let_def split: option.splits sum.splits prod.splits read_error.splits)

lemma recovered_valid: "recovered E j = Some s \<Longrightarrow> jPath j \<noteq> [] \<Longrightarrow> journal_valid (library E) s"
  using undisturbed_exists
  by (auto simp: recovered_def reopen_def openJournal_def Let_def
      split: option.splits sum.splits prod.splits if_splits read_error.splits)

lemma recovered_reopen:
  "recovered E j = Some s \<Longrightarrow> jPath j \<noteq> [] \<Longrightarrow> reopen E j = Inr (j\<lparr>jState := s\<rparr>)"
  using undisturbed_exists
  by (auto simp: recovered_def reopen_def openJournal_def Let_def
      split: option.splits sum.splits prod.splits if_splits read_error.splits)

subsection \<open>The contract of a durable cell\<close>

text \<open>
  A cell holds a value in memory and a durable copy of it. Committing a change either
  confirms it in both places, or leaves the durable copy as it was or as the change
  made it. Clients that change nothing when they fail keep both copies equal.
\<close>

locale durable_cell =
  fixes commit :: "('s \<Rightarrow> ('e + 'a) \<times> 's) \<Rightarrow> 'c \<Rightarrow> ('e + 'a) \<times> 'c"
    and mem :: "'c \<Rightarrow> 's"
    and durable :: "'c \<Rightarrow> 's option"
    and accepted_state :: "'s \<Rightarrow> bool"
    and usable :: "'c \<Rightarrow> bool"
  assumes commit_usable: "usable c \<Longrightarrow> usable (snd (commit f c))"
    and commit_success:
      "usable c \<Longrightarrow> commit f c = (Inr x, c') \<Longrightarrow>
         f (mem c) = (Inr x, mem c') \<and> accepted_state (mem c') \<and> durable c' = Some (mem c')"
    and commit_failure:
      "usable c \<Longrightarrow> commit f c = (Inl e, c') \<Longrightarrow>
         (f (mem c) = (Inl e, mem c') \<and> durable c' = durable c)
         \<or> (mem c' = mem c \<and> durable c' = durable c)
         \<or> (\<exists>x. f (mem c) = (Inr x, mem c') \<and> accepted_state (mem c') \<and> durable c' = Some (mem c'))"
begin

definition sound :: "'c \<Rightarrow> bool" where
  "sound c \<longleftrightarrow> usable c \<and> (\<exists>s. durable c = Some s \<and> accepted_state s)"

definition in_step :: "'c \<Rightarrow> bool" where
  "in_step c \<longleftrightarrow> usable c \<and> accepted_state (mem c) \<and> durable c = Some (mem c)"

definition disciplined :: "('s \<Rightarrow> ('e + 'a) \<times> 's) \<Rightarrow> bool" where
  "disciplined f \<longleftrightarrow> (\<forall>s e s'. f s = (Inl e, s') \<longrightarrow> s' = s)"

lemma in_step_sound: "in_step c \<Longrightarrow> sound c"
  by (auto simp: in_step_def sound_def)

lemma commit_sound: "sound c \<Longrightarrow> sound (snd (commit f c))"
proof (cases "commit f c")
  case (Pair r c')
  assume "sound c"
  then obtain s where u: "usable c" and s: "durable c = Some s" "accepted_state s"
    by (auto simp: sound_def)
  have "\<exists>s. durable c' = Some s \<and> accepted_state s"
    using Pair commit_success [OF u] commit_failure [OF u] s by (cases r) (metis, metis)
  then show ?thesis
    using commit_usable [OF u, of f] Pair by (simp add: sound_def)
qed

lemma commit_in_step: "in_step c \<Longrightarrow> disciplined f \<Longrightarrow> in_step (snd (commit f c))"
proof (cases "commit f c")
  case (Pair r c')
  assume c: "in_step c" and f: "disciplined f"
  then have u: "usable c" by (simp add: in_step_def)
  have "accepted_state (mem c') \<and> durable c' = Some (mem c')"
    using Pair commit_success [OF u] commit_failure [OF u] c f
    unfolding in_step_def disciplined_def by (cases r) (metis, metis)
  then show ?thesis
    using commit_usable [OF u, of f] Pair by (simp add: in_step_def)
qed

lemma commits_sound: "sound c \<Longrightarrow> sound (fold (\<lambda>f c. snd (commit f c)) fs c)"
  by (induction fs arbitrary: c) (auto intro: commit_sound)

lemma commit_durable:
  assumes "usable c" "durable (snd (commit f c)) = Some s"
  shows "durable c = Some s \<or> (\<exists>x. f (mem c) = (Inr x, s))"
proof (cases "commit f c")
  case (Pair r c')
  then show ?thesis
    using commit_success [OF assms(1)] commit_failure [OF assms(1)] assms(2)
    by (cases r) (metis option.inject snd_conv, metis option.inject snd_conv)
qed

text \<open>The durable copy is the one at the start or what some change of the sequence produced.\<close>

lemma commits_durable:
  "usable c \<Longrightarrow> durable (fold (\<lambda>f c. snd (commit f c)) fs c) = Some s \<Longrightarrow>
     durable c = Some s \<or> (\<exists>f\<in>set fs. \<exists>t x. f t = (Inr x, s))"
proof (induction fs arbitrary: c)
  case (Cons f fs)
  then show ?case
    using commit_usable [OF Cons.prems(1), of f] commit_durable [OF Cons.prems(1), of f s] by fastforce
qed simp

lemma commits_in_step:
  "in_step c \<Longrightarrow> list_all disciplined fs \<Longrightarrow> in_step (fold (\<lambda>f c. snd (commit f c)) fs c)"
  by (induction fs arbitrary: c) (auto intro: commit_in_step)

end

lemma update_failed:
  assumes "update E f j = (Inl e, j')" "persistent E j"
  shows "(f (jState j) = (Inl e, jState j') \<and> recovered E j' = recovered E j)
         \<or> (jState j' = jState j \<and> recovered E j' = recovered E j)
         \<or> (\<exists>x. f (jState j) = (Inr x, jState j') \<and> journal_valid (library E) (jState j') \<and> recovered E j' = Some (jState j'))"
proof (cases "f (jState j)")
  case (Pair r s)
  let ?j = "j\<lparr>jState := s\<rparr>"
  obtain c err j2 where p: "persistLocked E ?j = ((c, err), j2)"
    by (metis prod.exhaust)
  have j2: "jState j2 = s" "jPath j2 = jPath j"
    using persistLocked_state [of E ?j] persistLocked_path [of E ?j] p by simp_all
  have cong: "recovered E (j\<lparr>jState := t\<rparr>) = recovered E j" for t
    by (rule recovered_cong) simp_all
  show ?thesis
  proof (cases r)
    case (Inl e')
    then show ?thesis using assms Pair cong by (auto simp: update_def)
  next
    case (Inr x)
    show ?thesis
    proof (cases "journal_valid (library E) s")
      case False
      then show ?thesis using assms Pair Inr cong by (auto simp: update_def)
    next
      case valid: True
      have j': "j' = (if c then j2 else j2\<lparr>jState := jState j\<rparr>)"
        using assms(1) Pair Inr valid p by (auto simp: update_def split: option.splits)
      show ?thesis
      proof (cases c)
        case True
        have "recovered E j2 = Some s"
          using persistLocked_committed [of E ?j err j2] p True valid assms(2) by (simp add: persistent_def)
        then show ?thesis using True j' j2 valid Pair Inr by simp
      next
        case False
        have "jDisk j2 = jDisk j"
          using persistLocked_uncommitted [of E ?j err j2] p False by simp
        then have "recovered E (j2\<lparr>jState := jState j\<rparr>) = recovered E j"
          by (intro recovered_cong) (simp_all add: j2)
        then show ?thesis using False j' by simp
      qed
    qed
  qed
qed

lemma update_confirmed:
  assumes "update E f j = (Inr x, j')" "persistent E j"
  shows "f (jState j) = (Inr x, jState j') \<and> journal_valid (library E) (jState j') \<and> recovered E j' = Some (jState j')"
proof -
  obtain s c where f: "f (jState j) = (Inr x, s)" and valid: "journal_valid (library E) s"
    and p: "persistLocked E (j\<lparr>jState := s\<rparr>) = ((c, None), j')"
    using assms(1) by (auto simp: update_def Let_def split: prod.splits sum.splits option.splits)
  have c: "c = True"
    using persistLocked_uncommitted p by (cases c) auto
  have "jState j' = s"
    using persistLocked_state [of E "j\<lparr>jState := s\<rparr>"] p by simp
  then show ?thesis
    using f valid persistLocked_committed [OF p [unfolded c]] assms(2) by (simp add: persistent_def)
qed

lemma persistLocked_state': "persistLocked E j = (r, j') \<Longrightarrow> jState j' = jState j"
  using persistLocked_state [of E j] by simp

lemma persistLocked_path': "persistLocked E j = (r, j') \<Longrightarrow> jPath j' = jPath j"
  using persistLocked_path [of E j] by simp

lemma update_path [simp]: "jPath (snd (update E f j)) = jPath j"
  by (auto simp: update_def Let_def split: prod.splits sum.splits option.splits dest: persistLocked_path')

interpretation jc: durable_cell "update E" jState "recovered E" "journal_valid (library E)" "persistent E" for E
proof (unfold_locales, goal_cases)
  case (1 c f) then show ?case by (simp add: persistent_def)
next
  case (2 c f x c') then show ?case by (simp add: update_confirmed)
next
  case (3 c f e c') then show ?case using update_failed [of E f c e c'] by blast
qed

subsection \<open>Sequence numbers\<close>

text \<open>
  A source of 64-bit numbers: a successful draw returns the advanced counter, a failed one
  never moves it back, and the counter does not wrap.
\<close>

locale sequence_source =
  fixes draw :: "'s \<Rightarrow> ('e + 64 word) \<times> 's"
    and counter :: "'s \<Rightarrow> 64 word"
    and ready :: "'s \<Rightarrow> bool"
  assumes draw_success:
      "ready s \<Longrightarrow> draw s = (Inr n, s') \<Longrightarrow> ready s' \<and> counter s' = n \<and> unat n = Suc (unat (counter s))"
    and draw_failure:
      "ready s \<Longrightarrow> draw s = (Inl e, s') \<Longrightarrow> ready s' \<and> counter s \<le> counter s'"

text \<open>Numbers drawn one after the other strictly increase.\<close>

context sequence_source
begin

lemma drawn_increasing:
  "ready s \<Longrightarrow> sorted_wrt (<) (counter s # drawn draw n s)"
proof (induction n arbitrary: s)
  case (Suc n)
  obtain r s' where d: "draw s = (r, s')" by force
  show ?case
  proof (cases r)
    case (Inl e)
    then have "ready s'" "counter s \<le> counter s'" using draw_failure d Suc.prems by blast+
    then show ?thesis using Suc.IH [of s'] d Inl by auto
  next
    case (Inr k)
    then have k: "ready s'" "counter s' = k" "unat k = Suc (unat (counter s))"
      using draw_success d Suc.prems by blast+
    then have "counter s < k" by (simp add: word_less_nat_alt)
    then show ?thesis using Suc.IH [of s'] k d Inr by auto
  qed
qed simp

end

locale durable_sequence = sequence_source draw counter ready
  for draw :: "'s \<Rightarrow> ('e + 64 word) \<times> 's" and counter :: "'s \<Rightarrow> 64 word" and ready :: "'s \<Rightarrow> bool" +
  fixes restart :: "'s \<Rightarrow> 'e + 's"
  assumes restart_ready: "ready s \<Longrightarrow> \<exists>s'. restart s = Inr s' \<and> ready s' \<and> counter s \<le> counter s'"
begin

lemma issued_above:
  "ready s \<Longrightarrow> n \<in> set (issued draw restart es s) \<Longrightarrow> counter s < n"
proof (induction es arbitrary: s)
  case (Cons e es)
  show ?case
  proof (cases e)
    case Draw
    obtain r s' where d: "draw s = (r, s')" by force
    show ?thesis
    proof (cases r)
      case (Inl err)
      then have "ready s'" "counter s \<le> counter s'" using draw_failure d Cons.prems(1) by blast+
      then show ?thesis using Cons.IH [of s'] Cons.prems(2) d Inl Draw by auto
    next
      case (Inr k)
      then have k: "ready s'" "counter s' = k" "unat k = Suc (unat (counter s))"
        using draw_success d Cons.prems(1) by blast+
      then have "counter s < k" by (simp add: word_less_nat_alt)
      then show ?thesis using Cons.IH [of s'] Cons.prems(2) d Inr Draw k by auto
    qed
  next
    case Restart
    then show ?thesis using restart_ready [OF Cons.prems(1)] Cons by force
  qed
qed simp

lemma issued_increasing: "ready s \<Longrightarrow> sorted_wrt (<) (issued draw restart es s)"
proof (induction es arbitrary: s)
  case (Cons e es)
  obtain r s' where d: "draw s = (r, s')" by force
  show ?case
  proof (cases e)
    case Draw
    show ?thesis
    proof (cases r)
      case (Inl err)
      then show ?thesis using Cons draw_failure d Draw by auto
    next
      case (Inr k)
      then show ?thesis using Cons draw_success d Draw issued_above [of s'] by auto
    qed
  next
    case Restart
    then show ?thesis using restart_ready [OF Cons.prems] Cons.IH by force
  qed
qed simp

end

abbreviation synced :: "env \<Rightarrow> journal \<Rightarrow> bool" where
  "synced E j \<equiv> persistent E j \<and> journal_valid (library E) (jState j) \<and> recovered E j = Some (jState j)"

lemma reopen_synced: "synced E j \<Longrightarrow> reopen E j = Inr j"
  using recovered_reopen [of E j "jState j"] by (simp add: persistent_def)

lemma update_synced:
  assumes "synced E j" "\<And>s e s'. f s = (Inl e, s') \<Longrightarrow> s' = s"
  shows "synced E (snd (update E f j))"
  using jc.commit_in_step [of E j f] assms by (simp add: jc.in_step_def jc.disciplined_def)

lemma word_Suc_no_wrap: "w \<noteq> (- 1 :: 64 word) \<Longrightarrow> unat (w + 1) = Suc (unat w)"
  using unatSuc [of w] add_eq_0_iff [of 1 w] by (simp add: add.commute)

lemma nextMessageSequence_synced: "synced E j \<Longrightarrow> synced E (snd (nextMessageSequence E j))"
  unfolding nextMessageSequence_def
  by (rule update_synced) (auto simp: proc_defs split: if_splits)

lemma nextHeartbeatSequence_synced: "synced E j \<Longrightarrow> synced E (snd (nextHeartbeatSequence E j))"
  unfolding nextHeartbeatSequence_def
  by (rule update_synced) (auto simp: proc_defs split: if_splits)

lemma nextMessageSequence_success:
  assumes "synced E j" "nextMessageSequence E j = (Inr n, j')"
  shows "messageSequence (jState j') = n \<and> unat n = Suc (unat (messageSequence (jState j)))"
  using update_confirmed [OF assms(2) [unfolded nextMessageSequence_def]] assms(1)
  by (auto simp: proc_defs word_Suc_no_wrap dest!: sym [where t = "jState j'"] split: if_splits)

lemma nextHeartbeatSequence_success:
  assumes "synced E j" "nextHeartbeatSequence E j = (Inr n, j')"
  shows "heartbeatSequence (jState j') = n \<and> unat n = Suc (unat (heartbeatSequence (jState j)))"
  using update_confirmed [OF assms(2) [unfolded nextHeartbeatSequence_def]] assms(1)
  by (auto simp: proc_defs word_Suc_no_wrap dest!: sym [where t = "jState j'"] split: if_splits)

lemma word_le_Suc: "w \<noteq> (- 1 :: 64 word) \<Longrightarrow> w \<le> w + 1"
  by (simp add: word_le_nat_alt word_Suc_no_wrap)

lemma nextMessageSequence_failure:
  assumes "synced E j" "nextMessageSequence E j = (Inl e, j')"
  shows "messageSequence (jState j) \<le> messageSequence (jState j')"
  using update_failed [OF assms(2) [unfolded nextMessageSequence_def]] assms(1)
  by (auto simp: proc_defs word_le_Suc dest!: sym [where t = "jState j'"] split: if_splits)

lemma nextHeartbeatSequence_failure:
  assumes "synced E j" "nextHeartbeatSequence E j = (Inl e, j')"
  shows "heartbeatSequence (jState j) \<le> heartbeatSequence (jState j')"
  using update_failed [OF assms(2) [unfolded nextHeartbeatSequence_def]] assms(1)
  by (auto simp: proc_defs word_le_Suc dest!: sym [where t = "jState j'"] split: if_splits)

interpretation message_numbers: durable_sequence "nextMessageSequence E" "\<lambda>j. messageSequence (jState j)" "synced E" "reopen E" for E
proof (unfold_locales, goal_cases)
  case (1 s n s')
  then show ?case using nextMessageSequence_success nextMessageSequence_synced [of E s] by fastforce
next
  case (2 s e s')
  then show ?case using nextMessageSequence_failure nextMessageSequence_synced [of E s] by fastforce
next
  case (3 s)
  then show ?case by (simp add: reopen_synced)
qed

interpretation heartbeat_numbers: durable_sequence "nextHeartbeatSequence E" "\<lambda>j. heartbeatSequence (jState j)" "synced E" "reopen E" for E
proof (unfold_locales, goal_cases)
  case (1 s n s')
  then show ?case using nextHeartbeatSequence_success nextHeartbeatSequence_synced [of E s] by fastforce
next
  case (2 s e s')
  then show ?case using nextHeartbeatSequence_failure nextHeartbeatSequence_synced [of E s] by fastforce
next
  case (3 s)
  then show ?case by (simp add: reopen_synced)
qed


subsection \<open>Examples\<close>

definition sampleIO :: persist_io where
  "sampleIO =
     \<lparr>pioCreate = True, pioChmod = True, pioWrite = True, pioSync = True, pioClose = True, pioLstat = True,
      pioRename = True, pioOpenDir = True, pioSyncDir = True, pioNewId = 7\<rparr>"

definition sampleEnv :: "lib \<Rightarrow> (bytes \<times> journal_state) list \<Rightarrow> env" where
  "sampleEnv L states =
     \<lparr>library = L, jsonEncode = encodeTable states,
      jsonDecode = (\<lambda>b. map_option (\<lambda>s. (s, True)) (decodeTable states b)), persistIO = (\<lambda>_. sampleIO)\<rparr>"

definition sampleJournal :: "journal_state \<Rightarrow> bytes \<Rightarrow> journal" where
  "sampleJournal s data =
     \<lparr>jPath = ''journal'', jState = s,
      jDisk = Some \<lparr>fileSymlink = False, fileRegular = True, filePerm = 0x180, fileOwned = True,
                    fileId = 3, fileSize = length data, fileContents = data\<rparr>,
      jWrites = 0\<rparr>"

definition sampleStates :: "(bytes \<times> journal_state) list" where
  "sampleStates =
     [(''a'', empty_journal), (''b'', empty_journal\<lparr>messageSequence := 1\<rparr>),
      (''c'', empty_journal\<lparr>messageSequence := 2\<rparr>)]"

definition sampleCommitted :: committed_credential where
  "sampleCommitted =
     \<lparr>comRunnerID = sampleUUID, comRotationID = sampleUUID, comFingerprint = sampleDigest ''secret'',
      comIssuedAt = 100 * minute, comExpiresAt = 150 * minute, comPersistedAt = 101 * minute\<rparr>"

definition credentialStates :: "(bytes \<times> journal_state) list" where
  "credentialStates = [(''k'', empty_journal\<lparr>committedCredential := Some sampleCommitted\<rparr>)]"

lemma sampleEnv_ok: "distinct (map fst states) \<Longrightarrow> json_ok (sampleEnv L states)"
  by (auto simp: json_ok_def sampleEnv_def decode_encode_table)

lemma idle_state_valid [simp]:
  "journal_valid L \<lparr>schemaVersion = journalSchemaVersion, messageSequence = n, heartbeatSequence = m, active = None,
      pendingMessage = [], pendingHeartbeat = [], credentialRotation = None, committedCredential = None\<rparr>"
  by (simp add: validateJournalState_def first_fault_None validate_credentials_def
      validate_heartbeat_def validate_idle_def)

lemma sampleJournal_synced: "synced (sampleEnv (sampleLib [] []) sampleStates) (sampleJournal empty_journal ''a'')"
proof (intro conjI)
  show "persistent (sampleEnv (sampleLib [] []) sampleStates) (sampleJournal empty_journal ''a'')"
    by (simp add: persistent_def sampleJournal_def sampleEnv_ok sampleStates_def)
next
  show "journal_valid (library (sampleEnv (sampleLib [] []) sampleStates)) (jState (sampleJournal empty_journal ''a''))"
    by (simp add: sampleJournal_def empty_journal_def)
next
  show "recovered (sampleEnv (sampleLib [] []) sampleStates) (sampleJournal empty_journal ''a'')
          = Some (jState (sampleJournal empty_journal ''a''))"
    by (simp add: recovered_def reopen_def sampleJournal_def undisturbed_def openJournal_def readRegularFile_def
        maximumJournalBytes_def sampleEnv_def sampleStates_def decodeTable_def empty_journal_def)
qed

lemma state_match_sound:
  assumes "state_matches_credential L state runnerID credential now" "validate_credentials state = None"
  shows "(\<exists>r. credentialRotation state = Some r \<and> rotRunnerID r = runnerID \<and> now < rotExpiresAt r
                 \<and> rotExpiresAt r \<le> rotIssuedAt r + hour \<and> sha256Sum L credential = rotFingerprint r)
         \<or> (\<exists>c. committedCredential state = Some c \<and> comRunnerID c = runnerID \<and> now < comExpiresAt c
                 \<and> comExpiresAt c \<le> comIssuedAt c + hour \<and> sha256Sum L credential = comFingerprint c)"
proof -
  have hours: "\<not> hour < time_sub a b \<Longrightarrow> a \<le> b + hour" for a b
    using time_sub_le_iff [of hour a b]
    by (simp add: duration_defs max_duration_def min_duration_def algebra_simps linorder_not_less)
  have rot: "rotExpiresAt r \<le> rotIssuedAt r + hour" if "credentialRotation state = Some r" for r
    using assms(2) that by (auto simp: validate_credentials_def rotation_valid_def intro!: hours split: if_splits)
  have com: "comExpiresAt c \<le> comIssuedAt c + hour" if "committedCredential state = Some c" for c
    using assms(2) that by (auto simp: validate_credentials_def committed_valid_def intro!: hours split: if_splits)
  show ?thesis
    using assms(1) rot com
    by (auto simp: state_matches_credential_def validCredentialPredecessor_def Let_def split: option.splits if_splits)
qed

lemma openJournal_state:
  assumes "openJournal E path disk w io m = Inr j" "path \<noteq> []"
  shows "journal_valid (library E) (jState j)"
proof -
  have new: "journal_valid (library E) empty_journal"
    by (simp add: empty_journal_def)
  show ?thesis
    using assms new
    by (auto simp: openJournal_def Let_def dest: persistLocked_state'
        split: sum.splits read_error.splits option.splits prod.splits if_splits)
qed

lemma journal_valid_credentials: "journal_valid L s \<Longrightarrow> validate_credentials s = None"
  by (simp add: validateJournalState_def first_fault_None)

subsection \<open>Properties\<close>

text \<open>
  C2. Committing a change to the journal: on success the closure's result is in memory, it is
  a valid state, and reopening the file gives it back; on an error the file still holds
  what it held, or exactly the new valid state that is also in memory. Memory differs from the
  old state without being on disk only if the closure itself failed.
\<close>

theorem journal_update_outcomes:
  assumes "json_ok E" "jPath j \<noteq> []"
  shows "case update E f j of
           (Inr x, j') \<Rightarrow> f (jState j) = (Inr x, jState j') \<and> journal_valid (library E) (jState j')
                        \<and> recovered E j' = Some (jState j')
         | (Inl e, j') \<Rightarrow>
             (f (jState j) = (Inl e, jState j') \<and> recovered E j' = recovered E j)
             \<or> (jState j' = jState j \<and> recovered E j' = recovered E j)
             \<or> (\<exists>x. f (jState j) = (Inr x, jState j') \<and> journal_valid (library E) (jState j')
                    \<and> recovered E j' = Some (jState j'))"
  using jc.commit_success [of E j f] jc.commit_failure [of E j f] assms
  by (auto simp: persistent_def split: prod.split sum.split)

theorem journal_update_outcomes_witness:
  "json_ok (sampleEnv (sampleLib [] []) sampleStates) \<and> jPath (sampleJournal empty_journal ''a'') \<noteq> []
   \<and> (case update (sampleEnv (sampleLib [] []) sampleStates) (modify (messageSequence_update (\<lambda>_. 1)))
          (sampleJournal empty_journal ''a'') of
        (Inr _, j') \<Rightarrow> recovered (sampleEnv (sampleLib [] []) sampleStates) j' = Some (jState j')
                       \<and> messageSequence (jState j') = 1
      | (Inl _, _) \<Rightarrow> False)"
proof -
  let ?E = "sampleEnv (sampleLib [] []) sampleStates" and ?j = "sampleJournal empty_journal ''a''"
  let ?f = "modify (messageSequence_update (\<lambda>_. 1)) :: (journal_state, go_error, unit) proc"
  have h: "json_ok ?E" "jPath ?j \<noteq> []"
    using sampleJournal_synced by (auto simp: persistent_def)
  have "fst (update ?E ?f ?j) = Inr ()"
    by (simp add: update_def modify_def sampleJournal_def sampleEnv_def sampleStates_def encodeTable_def
        empty_journal_def persistLocked_def maximumJournalBytes_def sampleIO_def Let_def)
  then obtain j' where u: "update ?E ?f ?j = (Inr (), j')"
    by (metis prod.collapse)
  have "recovered ?E j' = Some (jState j')" "messageSequence (jState j') = 1"
    using journal_update_outcomes [OF h, of ?f, unfolded u, simplified] by (simp, metis Pair_inject
        journal_state.select_convs(2) journal_state.surjective journal_state.update_convs(2) modify_def)
  then show ?thesis
    using h u by simp
qed



text \<open>
  C3. Sequence numbers are never reused: the numbers drawn for messages and for heartbeats
  strictly increase, across failed writes and restarts of the process, and never wrap.
\<close>

theorem sequence_numbers_increase:
  assumes "json_ok E" "jPath j \<noteq> []" "journal_valid (library E) (jState j)" "recovered E j = Some (jState j)"
  shows "sorted_wrt (<) (messageSequence (jState j) # issued (nextMessageSequence E) (reopen E) es j)
         \<and> sorted_wrt (<) (heartbeatSequence (jState j) # issued (nextHeartbeatSequence E) (reopen E) es j)"
  using message_numbers.issued_increasing [of E j es] message_numbers.issued_above [of E j _ es]
    heartbeat_numbers.issued_increasing [of E j es] heartbeat_numbers.issued_above [of E j _ es] assms
  by (simp add: persistent_def)

theorem sequence_numbers_increase_witness:
  "issued (nextMessageSequence (sampleEnv (sampleLib [] []) sampleStates))
          (reopen (sampleEnv (sampleLib [] []) sampleStates)) [Draw, Restart, Draw] (sampleJournal empty_journal ''a'')
     = [1, 2]
   \<and> sorted_wrt (<) (0 # issued (nextMessageSequence (sampleEnv (sampleLib [] []) sampleStates))
          (reopen (sampleEnv (sampleLib [] []) sampleStates)) [Draw, Restart, Draw] (sampleJournal empty_journal ''a''))"
proof -
  let ?E = "sampleEnv (sampleLib [] []) sampleStates" and ?j = "sampleJournal empty_journal ''a''"
  have h: "json_ok ?E" "jPath ?j \<noteq> []" "journal_valid (library ?E) (jState ?j)" "recovered ?E ?j = Some (jState ?j)"
    using sampleJournal_synced by (auto simp: persistent_def)
  have "issued (nextMessageSequence ?E) (reopen ?E) [Draw, Restart, Draw] ?j = [1, 2]"
    by (simp add: nextMessageSequence_def update_def proc_defs sampleJournal_def sampleEnv_def sampleStates_def
        encodeTable_def empty_journal_def persistLocked_def maximumJournalBytes_def sampleIO_def Let_def
        reopen_def undisturbed_def openJournal_def readRegularFile_def decodeTable_def)
  moreover have "messageSequence (jState ?j) = 0"
    by (simp add: sampleJournal_def empty_journal_def)
  ultimately show ?thesis
    using sequence_numbers_increase [OF h, of "[Draw, Restart, Draw]"] by metis
qed



end
