(* ===== verification/LiveEvidence.thy ===== *)
theory LiveEvidence
  imports Journal
begin

section \<open>Live execution evidence\<close>

text \<open>
  \<open>gatewayclient/live_evidence.go\<close>: the observer a running job reports to. Log output is cut into bounded chunks,
  numbered and offered to the session without blocking; what does not fit is counted. Resource usage is
  accumulated and reported cumulatively. Whether the buffered channel takes an event and what the clock shows are
  functions of the number of the offer.
\<close>

definition maximumLiveLogEntryBytes :: nat where "maximumLiveLogEntryBytes = 16384"

definition maxInt64 :: "64 word" where "maxInt64 = 0x7FFFFFFFFFFFFFFF"

record resource_usage =
  ruCPUTime :: duration
  ruPeakMemoryBytes :: "64 word"
  ruDiskReadBytes :: "64 word"
  ruDiskWriteBytes :: "64 word"
  ruNetworkReceiveBytes :: "64 word"
  ruNetworkTransmitBytes :: "64 word"

record worker_evidence =
  evGeneration :: "64 word"
  evLease :: "lease_identity option"
  evAttempt :: "attempt_identity option"
  evLogBatch :: "log_batch option"
  evUsage :: "usage_report option"
  evTerminal :: bool

record live_observer =
  obLease :: "lease_identity option"
  obAttempt :: "attempt_identity option"
  obLogSequence :: "64 word"
  obUsageSequence :: "64 word"
  obDropped :: "64 word"
  obUsage :: resource_usage

record live_log_entry =
  llStream :: string
  llData :: bytes
  llPartial :: bool
  llRedacted :: bool

definition zeroUsage :: resource_usage where
  "zeroUsage =
     \<lparr>ruCPUTime = 0, ruPeakMemoryBytes = 0, ruDiskReadBytes = 0, ruDiskWriteBytes = 0, ruNetworkReceiveBytes = 0,
      ruNetworkTransmitBytes = 0\<rparr>"

definition newLiveExecutionObserver :: "job_spec \<Rightarrow> live_observer" where
  "newLiveExecutionObserver job =
     \<lparr>obLease = jobLease job, obAttempt = jobAttempt job, obLogSequence = 0, obUsageSequence = 0, obDropped = 0,
      obUsage = zeroUsage\<rparr>"

definition saturatingIncrement :: "64 word \<Rightarrow> 64 word" where
  "saturatingIncrement v = (if v = not 0 then v else v + 1)"

text \<open>The loop of \<open>liveLogChunkSize\<close>: the largest count up to \<open>n\<close> whose prefix is valid UTF-8, 0 if there is none.\<close>

fun shrink_count :: "nat \<Rightarrow> bytes \<Rightarrow> nat" where
  "shrink_count 0 data = 0"
| "shrink_count (Suc n) data = (if utf8_valid (take (Suc n) data) then Suc n else shrink_count n data)"

definition liveLogChunkSize :: "bytes \<Rightarrow> nat" where
  "liveLogChunkSize data =
     (let count = min (length data) maximumLiveLogEntryBytes
      in if count = length data \<or> utf8_valid (take count data) then count
         else let shrunk = shrink_count count data
         in if shrunk = 0 then min (length data) maximumLiveLogEntryBytes else shrunk)"

lemma liveLogChunkSize_bounds: "data \<noteq> [] \<Longrightarrow> 0 < liveLogChunkSize data \<and> liveLogChunkSize data \<le> length data"
proof -
  have "shrink_count n data \<le> n" for n by (induction n) auto
  then have "shrink_count (min (length data) maximumLiveLogEntryBytes) data \<le> length data"
    using min.boundedE by blast
  then show "data \<noteq> [] \<Longrightarrow> ?thesis"
    by (auto simp: liveLogChunkSize_def Let_def maximumLiveLogEntryBytes_def)
qed

definition log_event :: "live_observer \<Rightarrow> 64 word \<Rightarrow> log_entry list \<Rightarrow> worker_evidence" where
  "log_event ob generation entries =
     \<lparr>evGeneration = generation, evLease = obLease ob, evAttempt = obAttempt ob,
      evLogBatch = Some \<lparr>batchLease = obLease ob, batchAttempt = obAttempt ob, batchEntries = entries, batchDropped = obDropped ob\<rparr>,
      evUsage = None, evTerminal = False\<rparr>"

text \<open>
  The loop of \<open>ObserveLog\<close>. The result lists every event that was offered, with whether the channel took it;
  \<open>k\<close> is the number of the next offer.
\<close>

function observe_chunks ::
  "lib \<Rightarrow> (nat \<Rightarrow> time) \<Rightarrow> (nat \<Rightarrow> bool) \<Rightarrow> 64 word \<Rightarrow> log_stream \<Rightarrow> live_log_entry \<Rightarrow> nat \<Rightarrow> live_observer \<Rightarrow> bytes
   \<Rightarrow> (worker_evidence \<times> bool) list \<times> live_observer" where
  "observe_chunks L clock room generation stream entry k ob data =
     (if data = [] then ([], ob)
      else
        let count = liveLogChunkSize data; chunk = take count data; rest = drop count data
        in if obLogSequence ob = maxInt64
           then observe_chunks L clock room generation stream entry k
                  (ob\<lparr>obDropped := saturatingIncrement (obDropped ob)\<rparr>) rest
           else
             let ob1 = ob\<lparr>obLogSequence := obLogSequence ob + 1\<rparr>;
                 logEntry = \<lparr>entrySequence = obLogSequence ob1, entryObservedAt = tsNew L (clock k), entryStream = stream,
                             entryData = chunk, entryPartial = (rest \<noteq> [] \<or> llPartial entry), entryRedacted = llRedacted entry\<rparr>;
                 ob2 = ob1\<lparr>obDropped := (if room k then 0 else saturatingIncrement (obDropped ob1))\<rparr>;
                 (more, ob3) = observe_chunks L clock room generation stream entry (Suc k) ob2 rest
             in ((log_event ob1 generation [logEntry], room k) # more, ob3))"
  by pat_completeness auto
termination
  by (relation "measure (\<lambda>(L, clock, room, generation, stream, entry, k, ob, data). length data)")
     (auto dest: liveLogChunkSize_bounds)

declare observe_chunks.simps [simp del]

definition ObserveLog ::
  "lib \<Rightarrow> (nat \<Rightarrow> time) \<Rightarrow> (nat \<Rightarrow> bool) \<Rightarrow> 64 word \<Rightarrow> live_log_entry \<Rightarrow> live_observer
   \<Rightarrow> (worker_evidence \<times> bool) list \<times> live_observer" where
  "ObserveLog L clock room generation entry ob =
     (if llStream entry = ''stdout'' then observe_chunks L clock room generation STREAM_STDOUT entry 0 ob (llData entry)
      else if llStream entry = ''stderr'' then observe_chunks L clock room generation STREAM_STDERR entry 0 ob (llData entry)
      else ([], ob))"

definition finalDroppedEvent :: "64 word \<Rightarrow> live_observer \<Rightarrow> worker_evidence option \<times> live_observer" where
  "finalDroppedEvent generation ob =
     (if obDropped ob = 0 then (None, ob)
      else (Some (log_event ob generation []), ob\<lparr>obDropped := 0\<rparr>))"

definition resourceUsageMessage :: "lib \<Rightarrow> resource_usage \<Rightarrow> resource_usage_message" where
  "resourceUsageMessage L u =
     \<lparr>usageCpuTime = (if ruCPUTime u > 0 then Some (pdNew L (ruCPUTime u)) else None),
      usagePeakMemoryBytes = ruPeakMemoryBytes u, usageDiskReadBytes = ruDiskReadBytes u,
      usageDiskWriteBytes = ruDiskWriteBytes u, usageNetworkReceiveBytes = ruNetworkReceiveBytes u,
      usageNetworkTransmitBytes = ruNetworkTransmitBytes u\<rparr>"

definition mergeResourceUsage :: "resource_usage \<Rightarrow> resource_usage \<Rightarrow> resource_usage" where
  "mergeResourceUsage current measured =
     \<lparr>ruCPUTime = (if ruCPUTime measured > ruCPUTime current then ruCPUTime measured else ruCPUTime current),
      ruPeakMemoryBytes = (if ruPeakMemoryBytes measured > ruPeakMemoryBytes current then ruPeakMemoryBytes measured
                           else ruPeakMemoryBytes current),
      ruDiskReadBytes = (if ruDiskReadBytes measured > ruDiskReadBytes current then ruDiskReadBytes measured
                         else ruDiskReadBytes current),
      ruDiskWriteBytes = (if ruDiskWriteBytes measured > ruDiskWriteBytes current then ruDiskWriteBytes measured
                          else ruDiskWriteBytes current),
      ruNetworkReceiveBytes = (if ruNetworkReceiveBytes measured > ruNetworkReceiveBytes current
                               then ruNetworkReceiveBytes measured else ruNetworkReceiveBytes current),
      ruNetworkTransmitBytes = (if ruNetworkTransmitBytes measured > ruNetworkTransmitBytes current
                                then ruNetworkTransmitBytes measured else ruNetworkTransmitBytes current)\<rparr>"

definition nextUsageEventLocked ::
  "lib \<Rightarrow> time \<Rightarrow> 64 word \<Rightarrow> live_observer \<Rightarrow> worker_evidence option \<times> live_observer" where
  "nextUsageEventLocked L now generation ob =
     (if obUsageSequence ob = maxInt64 then (None, ob)
      else
        let ob1 = ob\<lparr>obUsageSequence := obUsageSequence ob + 1\<rparr>;
            report = \<lparr>reportLease = obLease ob1, reportAttempt = obAttempt ob1, reportSequence = obUsageSequence ob1,
                      reportObservedAt = tsNew L (truncate_to microsecond now),
                      reportCumulative = resourceUsageMessage L (obUsage ob1)\<rparr>
        in (Some \<lparr>evGeneration = generation, evLease = reportLease report, evAttempt = reportAttempt report,
                  evLogBatch = None, evUsage = Some report, evTerminal = False\<rparr>, ob1))"

definition ObserveUsage ::
  "lib \<Rightarrow> time \<Rightarrow> 64 word \<Rightarrow> resource_usage \<Rightarrow> live_observer \<Rightarrow> worker_evidence option \<times> live_observer" where
  "ObserveUsage L now generation measured ob =
     nextUsageEventLocked L now generation (ob\<lparr>obUsage := mergeResourceUsage (obUsage ob) measured\<rparr>)"

definition finalUsageEvent ::
  "lib \<Rightarrow> time \<Rightarrow> 64 word \<Rightarrow> resource_usage \<Rightarrow> live_observer \<Rightarrow> worker_evidence option \<times> live_observer" where
  "finalUsageEvent L now generation measured ob =
     (let (event, ob1) = nextUsageEventLocked L now generation (ob\<lparr>obUsage := mergeResourceUsage (obUsage ob) measured\<rparr>)
      in (map_option (\<lambda>e. e\<lparr>evTerminal := True\<rparr>) event, ob1))"

subsection \<open>Readings of a run\<close>

text \<open>
  The log entries of the offered events, the drops that reached the session, the offers that were not taken, the order of
  cumulative usage, and the numbering of usage reports as a draw.
\<close>

definition offered_entries :: "(worker_evidence \<times> bool) list \<Rightarrow> log_entry list" where
  "offered_entries evs =
     concat (map (\<lambda>(e, taken). case evLogBatch e of None \<Rightarrow> [] | Some b \<Rightarrow> batchEntries b) evs)"

definition reported_drops :: "(worker_evidence \<times> bool) list \<Rightarrow> nat" where
  "reported_drops evs =
     sum_list (map (\<lambda>(e, taken). if taken then (case evLogBatch e of None \<Rightarrow> 0 | Some b \<Rightarrow> unat (batchDropped b)) else 0) evs)"

definition rejected_offers :: "(worker_evidence \<times> bool) list \<Rightarrow> nat" where
  "rejected_offers evs = length (filter (\<lambda>(e, taken). \<not> taken) evs)"

definition usage_le :: "resource_usage \<Rightarrow> resource_usage \<Rightarrow> bool" where
  "usage_le u v \<longleftrightarrow>
     ruCPUTime u \<le> ruCPUTime v \<and> ruPeakMemoryBytes u \<le> ruPeakMemoryBytes v \<and> ruDiskReadBytes u \<le> ruDiskReadBytes v
     \<and> ruDiskWriteBytes u \<le> ruDiskWriteBytes v \<and> ruNetworkReceiveBytes u \<le> ruNetworkReceiveBytes v
     \<and> ruNetworkTransmitBytes u \<le> ruNetworkTransmitBytes v"

definition draw_usage :: "lib \<Rightarrow> time \<Rightarrow> 64 word \<Rightarrow> live_observer \<Rightarrow> (unit + 64 word) \<times> live_observer" where
  "draw_usage L now g ob =
     (case nextUsageEventLocked L now g ob of
        (Some e, ob1) \<Rightarrow> (case evUsage e of Some r \<Rightarrow> (Inr (reportSequence r), ob1) | None \<Rightarrow> (Inl (), ob1))
      | (None, ob1) \<Rightarrow> (Inl (), ob1))"

text \<open>Reporting a list of measurements: the events in order and the observer at the end.\<close>

fun observe_usages ::
  "lib \<Rightarrow> (nat \<Rightarrow> time) \<Rightarrow> 64 word \<Rightarrow> resource_usage list \<Rightarrow> live_observer \<Rightarrow> (resource_usage \<times> worker_evidence option) list \<times> live_observer" where
  "observe_usages L clock g [] ob = ([], ob)"
| "observe_usages L clock g (m # ms) ob =
     (let (event, ob1) = ObserveUsage L (clock (length ms)) g m ob; (more, ob2) = observe_usages L clock g ms ob1
      in ((obUsage ob1, event) # more, ob2))"


lemma unat_max_word: "unat (- 1 :: 64 word) = 2 ^ 64 - 1"
  by (simp add: unsigned_minus_1_eq_mask mask_eq_exp_minus_1)

subsection \<open>Chunks\<close>

lemma shrink_count_spec:
  "shrink_count n data \<le> n" "0 < shrink_count n data \<Longrightarrow> utf8_valid (take (shrink_count n data) data)"
  "k \<le> n \<Longrightarrow> utf8_valid (take k data) \<Longrightarrow> k \<le> shrink_count n data"
proof -
  show "shrink_count n data \<le> n" by (induction n) auto
  show "0 < shrink_count n data \<Longrightarrow> utf8_valid (take (shrink_count n data) data)" by (induction n) (auto split: if_splits)
  show "k \<le> n \<Longrightarrow> utf8_valid (take k data) \<Longrightarrow> k \<le> shrink_count n data"
    by (induction n) (auto simp: le_Suc_eq)
qed

lemma chunk_size_max: "liveLogChunkSize data \<le> maximumLiveLogEntryBytes"
proof -
  have "shrink_count (min (length data) maximumLiveLogEntryBytes) data \<le> maximumLiveLogEntryBytes"
    using shrink_count_spec(1) [of "min (length data) maximumLiveLogEntryBytes" data] by simp
  then show ?thesis by (simp add: liveLogChunkSize_def Let_def)
qed

text \<open>A chunk of valid UTF-8 ends at a code point boundary.\<close>

lemma chunk_utf8:
  assumes "utf8_valid data" "data \<noteq> []"
  shows "utf8_valid (take (liveLogChunkSize data) data) \<and> utf8_valid (drop (liveLogChunkSize data) data)"
proof -
  let ?m = "min (length data) maximumLiveLogEntryBytes"
  have "rune_length data \<le> ?m"
    using rune_length_le [of data] rune_length_le_4 [of data] by (simp add: maximumLiveLogEntryBytes_def)
  then have "0 < shrink_count ?m data"
    using shrink_count_spec(3) [of "rune_length data" ?m data] utf8_valid_first_rune [OF assms] by simp
  then have "utf8_valid (take (liveLogChunkSize data) data)"
    using assms shrink_count_spec(2) [of ?m data] by (auto simp: liveLogChunkSize_def Let_def)
  then show ?thesis using utf8_valid_drop [OF assms(1)] by blast
qed

subsection \<open>What the loop offers\<close>

lemma offered_Nil [simp]: "offered_entries [] = []" "reported_drops [] = 0" "rejected_offers [] = 0"
  by (simp_all add: offered_entries_def reported_drops_def rejected_offers_def)

lemma offered_Cons [simp]:
  "offered_entries ((log_event ob g es, t) # evs) = es @ offered_entries evs"
  "reported_drops ((log_event ob g es, t) # evs) = (if t then unat (obDropped ob) else 0) + reported_drops evs"
  "rejected_offers ((log_event ob g es, t) # evs) = (if t then 0 else 1) + rejected_offers evs"
  by (simp_all add: offered_entries_def reported_drops_def rejected_offers_def log_event_def)

lemma observe_chunks_Nil [simp]: "observe_chunks L clock room g st entry k ob [] = ([], ob)"
  by (simp add: observe_chunks.simps)

text \<open>One turn of the loop while numbers are left.\<close>

lemma observe_chunks_step:
  assumes "data \<noteq> []" "unat (obLogSequence ob) < 2 ^ 63 - 1"
  obtains evs ob2 ob3 e where
    "observe_chunks L clock room g st entry k ob data = ((log_event (ob\<lparr>obLogSequence := obLogSequence ob + 1\<rparr>) g [e], room k) # evs, ob3)"
    "observe_chunks L clock room g st entry (Suc k) ob2 (drop (liveLogChunkSize data) data) = (evs, ob3)"
    "entryData e = take (liveLogChunkSize data) data" "unat (entrySequence e) = Suc (unat (obLogSequence ob))"
    "entryPartial e \<longleftrightarrow> drop (liveLogChunkSize data) data \<noteq> [] \<or> llPartial entry" "entryStream e = st"
    "obLogSequence ob2 = entrySequence e"
    "obDropped ob2 = (if room k then 0 else saturatingIncrement (obDropped ob))"
proof -
  let ?ob1 = "ob\<lparr>obLogSequence := obLogSequence ob + 1\<rparr>"
  let ?e = "\<lparr>entrySequence = obLogSequence ob + 1, entryObservedAt = tsNew L (clock k), entryStream = st,
     entryData = take (liveLogChunkSize data) data,
     entryPartial = (drop (liveLogChunkSize data) data \<noteq> [] \<or> llPartial entry), entryRedacted = llRedacted entry\<rparr>"
  let ?ob2 = "?ob1\<lparr>obDropped := (if room k then 0 else saturatingIncrement (obDropped ob))\<rparr>"
  obtain evs ob3 where r: "observe_chunks L clock room g st entry (Suc k) ?ob2 (drop (liveLogChunkSize data) data) = (evs, ob3)"
    by force
  have "unat maxInt64 = 2 ^ 63 - 1" by (simp add: maxInt64_def)
  then have "obLogSequence ob \<noteq> maxInt64" using assms(2) by auto
  then have o: "observe_chunks L clock room g st entry k ob data = ((log_event ?ob1 g [?e], room k) # evs, ob3)"
    using assms(1) r
    by (cases "room k") (simp_all add: observe_chunks.simps [of L clock room g st entry k ob data] Let_def)
  have "obLogSequence ob \<noteq> - 1" using assms(2) by (auto simp: unat_max_word)
  then have "unat (obLogSequence ob + 1) = Suc (unat (obLogSequence ob))" by (rule word_Suc_no_wrap)
  then show thesis by (intro that [OF o r]) simp_all
qed

lemma observe_chunks_entries:
  assumes "observe_chunks L clock room g st entry k ob data = (evs, ob')"
    "unat (obLogSequence ob) + length data < 2 ^ 63"
  shows "concat (map entryData (offered_entries evs)) = data
    \<and> map (\<lambda>e. unat (entrySequence e)) (offered_entries evs)
        = [Suc (unat (obLogSequence ob)) ..< Suc (unat (obLogSequence ob) + length (offered_entries evs))]
    \<and> (\<forall>e \<in> set (offered_entries evs). 0 < length (entryData e) \<and> length (entryData e) \<le> maximumLiveLogEntryBytes
          \<and> entryStream e = st \<and> (utf8_valid data \<longrightarrow> utf8_valid (entryData e)))
    \<and> map entryPartial (offered_entries evs)
        = (if data = [] then [] else replicate (length (offered_entries evs) - 1) True @ [llPartial entry])"
  using assms
proof (induction "length data" arbitrary: k ob data evs rule: less_induct)
  case less
  show ?case
  proof (cases "data = []")
    case True
    then show ?thesis using less.prems by simp
  next
    case False
    let ?c = "liveLogChunkSize data"
    have c: "0 < ?c" "?c \<le> length data" using liveLogChunkSize_bounds [OF False] by auto
    have "unat (obLogSequence ob) < 2 ^ 63 - 1" using less.prems(2) False by (cases data) auto
    from observe_chunks_step [OF False this, of L clock room g st entry k]
    obtain evs1 ob2 ob3 e where
      o: "observe_chunks L clock room g st entry k ob data = ((log_event (ob\<lparr>obLogSequence := obLogSequence ob + 1\<rparr>) g [e], room k) # evs1, ob3)"
      and r: "observe_chunks L clock room g st entry (Suc k) ob2 (drop ?c data) = (evs1, ob3)"
      and e: "entryData e = take ?c data" "unat (entrySequence e) = Suc (unat (obLogSequence ob))"
      "entryPartial e \<longleftrightarrow> drop ?c data \<noteq> [] \<or> llPartial entry" "entryStream e = st" "obLogSequence ob2 = entrySequence e"
      by metis
    have evs: "offered_entries evs = e # offered_entries evs1" and ob': "ob' = ob3"
      using less.prems(1) o by auto
    have ih: "concat (map entryData (offered_entries evs1)) = drop ?c data
      \<and> map (\<lambda>e. unat (entrySequence e)) (offered_entries evs1)
        = [Suc (unat (obLogSequence ob2)) ..< Suc (unat (obLogSequence ob2) + length (offered_entries evs1))]
      \<and> (\<forall>e \<in> set (offered_entries evs1). 0 < length (entryData e) \<and> length (entryData e) \<le> maximumLiveLogEntryBytes
          \<and> entryStream e = st \<and> (utf8_valid (drop ?c data) \<longrightarrow> utf8_valid (entryData e)))
      \<and> map entryPartial (offered_entries evs1)
        = (if drop ?c data = [] then [] else replicate (length (offered_entries evs1) - 1) True @ [llPartial entry])"
    proof -
      have "length (drop ?c data) < length data" "unat (obLogSequence ob2) + length (drop ?c data) < 2 ^ 63"
        using less.prems(2) c e by simp_all
      then show ?thesis using less.hyps [OF _ r [folded ob']] by blast
    qed
    have "drop ?c data \<noteq> [] \<Longrightarrow> offered_entries evs1 \<noteq> []" using ih by auto
    moreover have "drop ?c data = [] \<Longrightarrow> offered_entries evs1 = []" using ih by auto
    ultimately have part: "map entryPartial (offered_entries evs) = replicate (length (offered_entries evs) - 1) True @ [llPartial entry]"
      using ih e(3) by (cases "drop ?c data = []") (auto simp: evs neq_Nil_conv)
    show ?thesis
      using ih part e c False chunk_size_max [of data] chunk_utf8 [OF _ False]
      by (auto simp: evs upt_rec)
  qed
qed


lemma observe_chunks_drops:
  assumes "observe_chunks L clock room g st entry k ob data = (evs, ob')"
    "unat (obLogSequence ob) + length data < 2 ^ 63" "unat (obDropped ob) + length data < 2 ^ 64"
  shows "unat (obDropped ob) + rejected_offers evs = reported_drops evs + unat (obDropped ob')"
  using assms
proof (induction "length data" arbitrary: k ob data evs rule: less_induct)
  case less
  show ?case
  proof (cases "data = []")
    case True
    then show ?thesis using less.prems by simp
  next
    case False
    let ?c = "liveLogChunkSize data"
    have c: "0 < ?c" "?c \<le> length data" using liveLogChunkSize_bounds [OF False] by auto
    have "unat (obLogSequence ob) < 2 ^ 63 - 1" using less.prems(2) False by (cases data) auto
    from observe_chunks_step [OF False this, of L clock room g st entry k]
    obtain evs1 ob2 ob3 e where
      o: "observe_chunks L clock room g st entry k ob data = ((log_event (ob\<lparr>obLogSequence := obLogSequence ob + 1\<rparr>) g [e], room k) # evs1, ob3)"
      and r: "observe_chunks L clock room g st entry (Suc k) ob2 (drop ?c data) = (evs1, ob3)"
      and e: "unat (entrySequence e) = Suc (unat (obLogSequence ob))" "obLogSequence ob2 = entrySequence e"
      and d: "obDropped ob2 = (if room k then 0 else saturatingIncrement (obDropped ob))"
      by metis
    have evs: "evs = (log_event (ob\<lparr>obLogSequence := obLogSequence ob + 1\<rparr>) g [e], room k) # evs1" and ob': "ob' = ob3"
      using less.prems(1) o by auto
    have "obDropped ob \<noteq> - 1"
      using less.prems(3) False by (cases data) (auto simp: unat_max_word)
    then have s: "unat (saturatingIncrement (obDropped ob)) = Suc (unat (obDropped ob))"
      by (simp add: saturatingIncrement_def word_Suc_no_wrap)
    have "unat (obDropped ob2) + rejected_offers evs1 = reported_drops evs1 + unat (obDropped ob')"
    proof -
      have "length (drop ?c data) < length data" "unat (obLogSequence ob2) + length (drop ?c data) < 2 ^ 63"
        "unat (obDropped ob2) + length (drop ?c data) < 2 ^ 64"
        using less.prems(2,3) c e d s by (simp_all split: if_splits)
      then show ?thesis using less.hyps [OF _ r [folded ob']] by blast
    qed
    then show ?thesis using d s by (cases "room k") (auto simp: evs)
  qed
qed

subsection \<open>Usage\<close>

lemma usage_le_refl [simp]: "usage_le u u"
  by (simp add: usage_le_def)

lemma usage_le_trans: "usage_le u v \<Longrightarrow> usage_le v w \<Longrightarrow> usage_le u w"
  unfolding usage_le_def by (meson order_trans)

lemma merge_upper: "usage_le u (mergeResourceUsage u v) \<and> usage_le v (mergeResourceUsage u v)"
  unfolding usage_le_def mergeResourceUsage_def by (intro conjI) (auto intro: less_imp_le)

lemma merge_least: "usage_le u w \<Longrightarrow> usage_le v w \<Longrightarrow> usage_le (mergeResourceUsage u v) w"
  by (simp add: usage_le_def mergeResourceUsage_def)

lemma nextUsage_usage: "obUsage (snd (nextUsageEventLocked L now g ob)) = obUsage ob"
  by (simp add: nextUsageEventLocked_def Let_def)

lemma ObserveUsage_usage: "obUsage (snd (ObserveUsage L now g m ob)) = mergeResourceUsage (obUsage ob) m"
  by (simp add: ObserveUsage_def nextUsage_usage)

lemma observe_usages_sound:
  assumes "observe_usages L clock g ms ob = (evs, ob')"
  shows "sorted_wrt usage_le (obUsage ob # map fst evs) \<and> length evs = length ms
    \<and> obUsage ob' = foldl mergeResourceUsage (obUsage ob) ms"
  using assms
proof (induction ms arbitrary: ob evs)
  case (Cons m ms)
  obtain ev ob1 where u: "ObserveUsage L (clock (length ms)) g m ob = (ev, ob1)" by force
  obtain evs1 where r: "observe_usages L clock g ms ob1 = (evs1, ob')" "evs = (obUsage ob1, ev) # evs1"
    using Cons.prems u by (auto split: prod.splits)
  have "obUsage ob1 = mergeResourceUsage (obUsage ob) m"
    using ObserveUsage_usage [of L "clock (length ms)" g m ob] u by simp
  then show ?case
    using Cons.IH [OF r(1)] r(2) merge_upper [of "obUsage ob" m] by (auto intro: usage_le_trans)
qed simp

lemma foldl_merge_lub:
  "usage_le u (foldl mergeResourceUsage u ms) \<and> (\<forall>m \<in> set ms. usage_le m (foldl mergeResourceUsage u ms))
   \<and> (\<forall>w. usage_le u w \<longrightarrow> (\<forall>m \<in> set ms. usage_le m w) \<longrightarrow> usage_le (foldl mergeResourceUsage u ms) w)"
proof (induction ms arbitrary: u)
  case (Cons m ms)
  have "usage_le m (foldl mergeResourceUsage (mergeResourceUsage u m) ms)"
    using usage_le_trans [OF conjunct2 [OF merge_upper [where u = u]]] Cons [of "mergeResourceUsage u m"] by blast
  moreover have "usage_le u (foldl mergeResourceUsage (mergeResourceUsage u m) ms)"
    using usage_le_trans [OF conjunct1 [OF merge_upper [where v = m]]] Cons [of "mergeResourceUsage u m"] by blast
  ultimately show ?case
    using merge_least [of u _ m] Cons [of "mergeResourceUsage u m"] by simp
qed simp

interpretation usage_numbers: sequence_source "draw_usage L now g" obUsageSequence "\<lambda>ob. obUsageSequence ob \<le> maxInt64" for L now g
proof (unfold_locales, goal_cases)
  case (1 s n s')
  then have d: "obUsageSequence s \<noteq> maxInt64" "n = obUsageSequence s + 1" "obUsageSequence s' = n"
    by (auto simp: draw_usage_def nextUsageEventLocked_def Let_def split: if_splits)
  then have l: "obUsageSequence s < maxInt64" using 1(1) by simp
  then have "obUsageSequence s \<noteq> - 1" by (auto simp: maxInt64_def)
  then have u: "unat (obUsageSequence s + 1) = Suc (unat (obUsageSequence s))" by (rule word_Suc_no_wrap)
  then have "obUsageSequence s + 1 \<le> maxInt64" using l by (simp add: word_le_nat_alt word_less_nat_alt)
  then show ?case using d u by simp
next
  case (2 s e s')
  then show ?case by (auto simp: draw_usage_def nextUsageEventLocked_def Let_def split: if_splits)
qed


subsection \<open>Examples\<close>

definition sampleEntry :: live_log_entry where
  "sampleEntry = \<lparr>llStream = ''stdout'', llData = ''hello'', llPartial = False, llRedacted = True\<rparr>"

definition sampleObserver :: live_observer where
  "sampleObserver =
     \<lparr>obLease = None, obAttempt = None, obLogSequence = 4, obUsageSequence = 0, obDropped = 2, obUsage = zeroUsage\<rparr>"

subsection \<open>Properties\<close>

lemma ObserveLog_chunks:
  assumes "llStream entry \<in> {''stdout'', ''stderr''}"
  obtains st where "ObserveLog L clock room g entry ob = observe_chunks L clock room g st entry 0 ob (llData entry)"
    "st = (if llStream entry = ''stdout'' then STREAM_STDOUT else STREAM_STDERR)"
  using assms by (auto simp: ObserveLog_def)

text \<open>
  C12. Live log output is cut without loss: the offered entries concatenate to the observed data, are numbered
  consecutively after the last number, are never empty nor longer than 16 KiB, split valid UTF-8 only between code
  points, and all but the last are marked partial.
\<close>

theorem live_log_entries:
  assumes "llStream entry \<in> {''stdout'', ''stderr''}" "unat (obLogSequence ob) + length (llData entry) < 2 ^ 63"
    "ObserveLog L clock room g entry ob = (evs, ob')"
  shows "concat (map entryData (offered_entries evs)) = llData entry
    \<and> map (\<lambda>e. unat (entrySequence e)) (offered_entries evs)
        = [Suc (unat (obLogSequence ob)) ..< Suc (unat (obLogSequence ob) + length (offered_entries evs))]
    \<and> (\<forall>e \<in> set (offered_entries evs). 0 < length (entryData e) \<and> length (entryData e) \<le> 16384
          \<and> (utf8_valid (llData entry) \<longrightarrow> utf8_valid (entryData e)))
    \<and> map entryPartial (offered_entries evs)
        = (if llData entry = [] then [] else replicate (length (offered_entries evs) - 1) True @ [llPartial entry])"
proof -
  obtain st where "observe_chunks L clock room g st entry 0 ob (llData entry) = (evs, ob')"
    using ObserveLog_chunks [OF assms(1)] assms(3) by metis
  from observe_chunks_entries [OF this assms(2)] show ?thesis
    by (simp add: maximumLiveLogEntryBytes_def)
qed

theorem live_log_entries_witness:
  "concat (map entryData (offered_entries (fst (ObserveLog (sampleLib [] []) (\<lambda>_. 0) (\<lambda>_. True) 1 sampleEntry sampleObserver)))) = ''hello''"
proof -
  obtain evs ob' where o: "ObserveLog (sampleLib [] []) (\<lambda>_. 0) (\<lambda>_. True) 1 sampleEntry sampleObserver = (evs, ob')"
    by force
  have "llStream sampleEntry \<in> {''stdout'', ''stderr''}" "unat (obLogSequence sampleObserver) + length (llData sampleEntry) < 2 ^ 63"
    by (simp_all add: sampleEntry_def sampleObserver_def)
  from live_log_entries [OF this o] show ?thesis unfolding o by (simp add: sampleEntry_def)
qed

text \<open>
  C13. Dropped log entries are accounted for: the drops known before plus the offers that were not taken equal the
  drops reported in the batches that were taken plus the drops still to be reported.
\<close>

theorem live_log_drop_accounting:
  assumes "llStream entry \<in> {''stdout'', ''stderr''}" "unat (obLogSequence ob) + length (llData entry) < 2 ^ 63"
    "unat (obDropped ob) + length (llData entry) < 2 ^ 64" "ObserveLog L clock room g entry ob = (evs, ob')"
  shows "unat (obDropped ob) + rejected_offers evs = reported_drops evs + unat (obDropped ob')"
proof -
  obtain st where "observe_chunks L clock room g st entry 0 ob (llData entry) = (evs, ob')"
    using ObserveLog_chunks [OF assms(1)] assms(4) by metis
  from observe_chunks_drops [OF this assms(2,3)] show ?thesis .
qed

theorem live_log_drop_accounting_witness:
  "2 + rejected_offers (fst (ObserveLog (sampleLib [] []) (\<lambda>_. 0) (\<lambda>_. False) 1 sampleEntry sampleObserver))
     = reported_drops (fst (ObserveLog (sampleLib [] []) (\<lambda>_. 0) (\<lambda>_. False) 1 sampleEntry sampleObserver))
       + unat (obDropped (snd (ObserveLog (sampleLib [] []) (\<lambda>_. 0) (\<lambda>_. False) 1 sampleEntry sampleObserver)))"
proof -
  obtain evs ob' where o: "ObserveLog (sampleLib [] []) (\<lambda>_. 0) (\<lambda>_. False) 1 sampleEntry sampleObserver = (evs, ob')"
    by force
  have "llStream sampleEntry \<in> {''stdout'', ''stderr''}" "unat (obLogSequence sampleObserver) + length (llData sampleEntry) < 2 ^ 63"
    "unat (obDropped sampleObserver) + length (llData sampleEntry) < 2 ^ 64"
    by (simp_all add: sampleEntry_def sampleObserver_def)
  from live_log_drop_accounting [OF this o] show ?thesis unfolding o by (simp add: sampleObserver_def)
qed





end
