(* ===== verification/Client.thy ===== *)
theory Client
  imports OfferValidation LiveEvidence
begin

section \<open>The gateway client\<close>

text \<open>
  \<open>gatewayclient/client.go\<close>: the state of a client, the messages it builds itself, what it
  advertises, and how it validates what the gateway sends first.

  The state of the process is the record \<open>client\<close>; \<open>clientSession\<close> adds the fields a stream owns. The last group of
  fields records what has left the process: messages handed to the stream (each with the journal at that moment), replies on
  the start and secret channels of the worker, and the jobs that were launched.
  \<open>host\<close> holds what a process cannot choose: its configuration, the clock, and how each call
  to the stream, the file system, the network supervisor and the uploader ends. The answers are numbered; \<open>ticks\<close> counts
  the calls, so that two calls may end differently.
\<close>

subsection \<open>Executions\<close>

datatype classification = Passed | InvalidJob | WorkloadFailure | InfrastructureFailure | TimedOut | Cancelled
  | OtherClassification string

datatype exec_phase = PhaseValidation | PhaseResolution | PhasePreparation | PhaseExecution | PhaseCollection
  | PhaseCleanup | PhaseCompleted | OtherPhase string

datatype exec_stage = NoStage | StagePreparation | StageStartup | StageExecution

record exec_failure =
  exfStage :: exec_stage
  exfCode :: string
  exfMessage :: string

text \<open>
  \<open>execution.Result\<close>, as far as the session reads it. \<open>exExecution\<close> is \<open>Some\<close> when the workload ran, with its exit
  code if it has one; \<open>exTerminalContext\<close> identifies the executed job for terminal evidence.
\<close>

record exec_result =
  exStatus :: string
  exClassification :: classification
  exPhase :: exec_phase
  exFailure :: "exec_failure option"
  exExecution :: "int option option"
  exCompleteLog :: "complete_log option"
  exCleanup :: "(bool \<times> string) option"
  exStartedAt :: time
  exCompletedAt :: time
  exMeasuredResources :: "resource_usage option"
  exMeasuredNetwork :: bool
  exTerminalContext :: "bytes option"

record secret_request =
  srId :: nat
  srGeneration :: "64 word"

text \<open>\<open>workerEvent\<close>: the start channel of a worker is known by its number.\<close>

record worker_event =
  weSecretRequest :: "secret_request option"
  weStart :: "nat option"
  weResult :: "exec_result option"
  weEvidence :: "worker_evidence option"
  weFinalEvidence :: "worker_evidence option"
  weFinalUsage :: "worker_evidence option"

subsection \<open>State\<close>

record worker_kind =
  wkExecuteV2 :: bool
  wkTestSecretSource :: bool

text \<open>\<open>workerNetworkAuthority\<close> with the job it was made for: only whether it is done is observed.\<close>

record network_guard =
  guardDone :: bool
  guardJob :: job_spec

datatype guard_outcome = GuardCurrent | GuardWithdrawn | GuardRejected

record restart_identity =
  riLeaseID :: string
  riJobID :: string
  riExecutionID :: string
  riAttemptID :: string
  riAttemptNumber :: nat
  riReleaseCandidateID :: string
  riMatrixEntryID :: string
  riBindingSHA256 :: string

record recovered_evidence =
  recoveredLog :: "complete_log option"
  recoveredUsage :: "resource_usage_message option"
  recoveredIdentity :: restart_identity

record client =
  clientJournal :: journal
  credential :: bytes
  draining :: bool
  workerRunning :: bool
  workerCancel :: bool
  workerGuard :: "network_guard option"
  workerNetworkGeneration :: "64 word"
  workerSecretCancel :: bool
  workerSecretGeneration :: "64 word"
  startResponse :: "nat option"
  recovering :: bool
  sessionGeneration :: "64 word"
  ephemeralSequence :: "64 word"
  activeUpload :: "active_upload option"
  restartEvidence :: bool
  deferredWorkerEvents :: "worker_event list"
  ticks :: nat
  sent :: "(runner_message \<times> journal) list"
  startReplies :: "(nat \<times> go_error option) list"
  secretReplies :: "(nat \<times> time option) list"
  launches :: "job_spec list"
  workerCancelled :: bool

record settled_event =
  settledMessage :: runner_message
  settledPhase :: job_phase

record pending_secret =
  psWorker :: secret_request
  psRequestID :: string
  psJob :: job_spec

record clientSession = client +
  seen :: "string \<Rightarrow> bytes option"
  seenOrder :: "string list"
  sessionHeartbeat :: "runner_message option"
  reconciled :: bool
  settledEvents :: "string \<Rightarrow> settled_event option"
  settledEventOrder :: "string list"
  acknowledgedHeartbeats :: "string \<Rightarrow> runner_message option"
  acknowledgedHBOrder :: "string list"
  heartbeatDeferred :: bool
  cancellationFinalUsage :: "lease_identity option \<times> attempt_identity option"
  pendingSecret :: "pending_secret option"

text \<open>The fields of \<open>clientSession\<close> that \<open>runSession\<close> sets once.\<close>

record stream =
  networkFeatures :: "protocol_feature list"
  networkMaximum :: "effective_policy option"
  testSecretsV1 :: bool
  streamAuthenticated :: authenticated
  jobCorrelationV1 :: bool
  restartUploadRecovery :: bool
  objectUploadIdentity :: bool
  terminalEvidenceV1 :: bool
  terminalEvidenceV2 :: bool
  streamGeneration :: "64 word"

record host =
  jenv :: env
  cfg :: config
  remoteWorker :: "worker_kind option"
  measuredMaximum :: "effective_policy option"
  hasUploader :: bool
  fuel :: nat
  clockAt :: "nat \<Rightarrow> time"
  sendOutcome :: "nat \<Rightarrow> go_error option"
  uploadClock :: "nat \<Rightarrow> nat \<Rightarrow> time"
  uploadHttp :: "nat \<Rightarrow> nat \<Rightarrow> http_outcome"
  replaceCredential :: "nat \<Rightarrow> bool"
  rotationTimerFired :: "nat \<Rightarrow> bool"
  evidenceCreate :: "nat \<Rightarrow> bool"
  evidenceRemove :: "nat \<Rightarrow> bool"
  evidenceSnapshot :: "nat \<Rightarrow> recovered_evidence option"
  identityJson :: "restart_identity \<Rightarrow> bytes option"
  guardCreate :: "nat \<Rightarrow> job_spec \<Rightarrow> bool"
  authorityValid :: "job_spec \<Rightarrow> bool"
  authorityReconcile :: "nat \<Rightarrow> job_spec \<Rightarrow> lease_reconciliation \<Rightarrow> bool"
  guardReconcile :: "nat \<Rightarrow> lease_reconciliation \<Rightarrow> guard_outcome"
  guardClose :: "nat \<Rightarrow> bool"
  guardExpired :: "nat \<Rightarrow> bool"
  requestExpired :: "nat \<Rightarrow> bool"
  secretNonce :: "nat \<Rightarrow> string"
  sealDelivery :: "nat \<Rightarrow> job_spec \<Rightarrow> string \<Rightarrow> gateway_message \<Rightarrow> time option"
  contextMatches :: "bytes \<Rightarrow> lease_identity option \<Rightarrow> attempt_identity option \<Rightarrow> bool"
  freezeTerminalEvidence :: "exec_result \<Rightarrow> string \<Rightarrow> execution_evidence option"

abbreviation libOf :: "host \<Rightarrow> lib" where "libOf H \<equiv> library (jenv H)"

abbreviation snapshot :: "'x client_scheme \<Rightarrow> journal_state" where
  "snapshot w \<equiv> jState (clientJournal w)"

type_synonym ('x, 'a) action = "('x client_scheme, go_error, 'a) proc"
type_synonym 'a handler = "(clientSession, go_error, 'a) proc"

definition maximumReasonBytes :: nat where "maximumReasonBytes = 1024"
definition protocolVersion :: string where "protocolVersion = ''1''"
definition minimumHeartbeatInterval :: duration where "minimumHeartbeatInterval = second"
definition maximumHeartbeatInterval :: duration where "maximumHeartbeatInterval = 5 * minute"
definition maximumCredentialLifetime :: duration where "maximumCredentialLifetime = 366 * 24 * hour"

subsection \<open>Calls to the outside\<close>

definition consult :: "(nat \<Rightarrow> 'a) \<Rightarrow> ('x, 'a) action" where
  "consult f = (\<lambda>w. (Inr (f (ticks w)), w\<lparr>ticks := ticks w + 1\<rparr>))"

definition onJournal :: "(journal, go_error, 'a) proc \<Rightarrow> ('x, 'a) action" where
  "onJournal p = (\<lambda>w. case p (clientJournal w) of (r, j) \<Rightarrow> (r, w\<lparr>clientJournal := j\<rparr>))"

definition send :: "host \<Rightarrow> runner_message \<Rightarrow> ('x, unit) action" where
  "send H message =
     bind (consult (sendOutcome H)) (\<lambda>outcome. case outcome of
         Some e \<Rightarrow> fail e
       | None \<Rightarrow> modify (\<lambda>w. w\<lparr>sent := sent w @ [(message, clientJournal w)]\<rparr>))"

subsection \<open>Messages of the client\<close>

definition runnerMessageIdentifier :: "lib \<Rightarrow> string \<Rightarrow> 64 word \<Rightarrow> string" where
  "runnerMessageIdentifier L instance_id sequence =
     hex_encode (take 12 (sha256Sum L instance_id)) @ ''-'' @ hex_fixed 16 (unat sequence)"

definition runnerMessage :: "host \<Rightarrow> ('x, runner_message) action" where
  "runnerMessage H =
     bind (consult (clockAt H)) (\<lambda>now.
     bind (onJournal (nextMessageSequence (jenv H))) (\<lambda>sequence.
     ret \<lparr>runnerMessageId = runnerMessageIdentifier (libOf H) (cfgInstanceID (cfg H)) sequence,
          runnerSentAt = Some (tsNew (libOf H) now), runnerPayload = None\<rparr>))"

definition capacityOf :: "host \<Rightarrow> 'x client_scheme \<Rightarrow> capacity" where
  "capacityOf H w =
     \<lparr>concurrentJobs = 1,
      availableJobs = (if draining w \<or> active (snapshot w) \<noteq> None \<or> workerRunning w then 0 else 1),
      capacityCpuMillis = resCpuMillis (cfgResources (cfg H)), capacityMemoryBytes = resMemoryBytes (cfgResources (cfg H)),
      capacityDiskBytes = resDiskBytes (cfgResources (cfg H))\<rparr>"

definition heartbeatMessage :: "host \<Rightarrow> time \<Rightarrow> heartbeat_lease list \<Rightarrow> ('x, runner_message) action" where
  "heartbeatMessage H observedAt activeLeases =
     bind (onJournal (nextHeartbeatSequence (jenv H))) (\<lambda>sequence.
     bind (get (capacityOf H)) (\<lambda>available.
     bind (runnerMessage H) (\<lambda>message.
     ret (message\<lparr>runnerPayload := Some (P_Heartbeat
            \<lparr>hbSequence = sequence, hbCapacity = Some available, hbActiveLeases = activeLeases,
             hbObservedAt = Some (tsNew (libOf H) observedAt)\<rparr>)\<rparr>))))"

definition authenticateMessage :: "host \<Rightarrow> ('x, runner_message) action" where
  "authenticateMessage H =
     bind (runnerMessage H) (\<lambda>message. bind (get credential) (\<lambda>secret.
     ret (message\<lparr>runnerPayload := Some (P_Authenticate
            \<lparr>authnRunnerId = cfgRunnerID (cfg H), authnInstanceId = cfgInstanceID (cfg H), authnCredential = secret,
             authnProtocolVersion = protocolVersion\<rparr>)\<rparr>)))"

definition canUseTestSecrets :: "config \<Rightarrow> worker_kind option \<Rightarrow> bool" where
  "canUseTestSecrets c worker \<longleftrightarrow> cfgEnableTestSecrets c \<and> (case worker of None \<Rightarrow> False | Some k \<Rightarrow> wkTestSecretSource k)"

definition capability_features :: "host \<Rightarrow> 'x client_scheme \<Rightarrow> protocol_feature list" where
  "capability_features H w =
     [FEATURE_DURABLE_LEASE_ACKNOWLEDGEMENTS]
     @ (if cfgHasCredentialStore (cfg H) then [FEATURE_CREDENTIAL_ROTATION] else [])
     @ [FEATURE_JOB_CORRELATION_V1]
     @ (if \<not> cfgDisableObjectUploadIdentity (cfg H) then [FEATURE_OBJECT_UPLOAD_IDENTITY] else [])
     @ (if active (snapshot w) = None \<or> restartEvidence w then [FEATURE_RESTART_UPLOAD_RECOVERY] else [])
     @ (if \<not> cfgDisableTerminalEvidence (cfg H)
        then [FEATURE_TERMINAL_EVIDENCE_V1]
             @ (if cfgEnableTerminalEvidenceV2 (cfg H) \<and> (case remoteWorker H of None \<Rightarrow> False | Some k \<Rightarrow> wkExecuteV2 k)
                then [FEATURE_TERMINAL_EVIDENCE_V2] else [])
        else [])
     @ (if canUseTestSecrets (cfg H) (remoteWorker H) then [FEATURE_TEST_SECRETS_V1] else [])
     @ (if measuredMaximum H \<noteq> None \<and> cfgEnableNetworkPolicyV2 (cfg H) \<and> cfgEnableTerminalEvidenceV2 (cfg H)
           \<and> \<not> cfgDisableTerminalEvidence (cfg H)
        then [FEATURE_NETWORK_POLICY_V2, FEATURE_NETWORK_AUTHORITY_V2] else [])"

definition capabilities :: "host \<Rightarrow> 'x client_scheme \<Rightarrow> capabilities_message" where
  "capabilities H w =
     (let res = cfgResources (cfg H); features = capability_features H w;
          v2 = advertisedFeature features FEATURE_NETWORK_POLICY_V2
      in \<lparr>capRunnerVersion = cfgRunnerVersion (cfg H), capProtocolVersions = [protocolVersion],
          capOperatingSystem = OS_LINUX, capArchitecture = ARCH_AMD64, capSandboxes = [SANDBOX_GVISOR],
          capProviders = [PROVIDER_PAPER], capCapacity = capacityOf H w,
          capPolicy = \<lparr>runnerSandboxes = [SANDBOX_GVISOR],
            maximumNetwork = (if v2 then None
              else Some \<lparr>networkMode = NETWORK_NONE, networkAllowlist = [], networkMaximumConnections = 0\<rparr>),
            maximumNetworkV2 = (if v2 then (case measuredMaximum H of None \<Rightarrow> None | Some m \<Rightarrow> policyNetworkV2 m) else None),
            maximumResourcesPerJob = \<lparr>limitCpuMillis = resCpuMillis res, limitMemoryBytes = resMemoryBytes res,
              limitDiskBytes = resDiskBytes res, limitProcessCount = resProcessCount res\<rparr>,
            maximumConcurrentJobs = 1\<rparr>,
          capFeatures = features\<rparr>)"

definition capabilitiesMessage :: "host \<Rightarrow> ('x, runner_message) action" where
  "capabilitiesMessage H =
     bind (get (capabilities H)) (\<lambda>caps.
     if validateAdvertisedFeatures (capFeatures caps) \<noteq> None then fail (Plain ''advertised_features'')
     else bind (runnerMessage H) (\<lambda>message. ret (message\<lparr>runnerPayload := Some (P_Capabilities caps)\<rparr>)))"

subsection \<open>What the gateway sends\<close>

definition validateGatewayEnvelope :: "lib \<Rightarrow> gateway_message \<Rightarrow> time \<Rightarrow> go_error option" where
  "validateGatewayEnvelope L message now =
     (if \<not> validateIdentifier (gatewayMessageId message) maximumIdentifierBytes then Some (Permanent ''messageId'')
      else if \<not> validateTimestampNear L (gatewaySentAt message) now then Some (Permanent ''sentAt'')
      else if gatewayPayload message = None then Some (Permanent ''payload'')
      else None)"

text \<open>\<open>GetOrganizationId()\<close> of a scope without that alternative is the empty string.\<close>

definition validateScope :: "expected_scope \<Rightarrow> organization_scope option \<Rightarrow> go_error option" where
  "validateScope expected scope =
     (case scope of
        None \<Rightarrow> Some (Plain ''scope_required'')
      | Some s \<Rightarrow> (case scopeKind expected of
          ScopePlatform \<Rightarrow> if s \<noteq> SCOPE_PLATFORM then Some (Plain ''platform_scope'') else None
        | ScopeOrganization \<Rightarrow>
            if (case s of SCOPE_ORGANIZATION i \<Rightarrow> i | _ \<Rightarrow> []) \<noteq> scopeOrganizationId expected
            then Some (Plain ''organization_scope'') else None
        | ScopeOther _ \<Rightarrow> Some (Plain ''configured_scope'')))"

definition validateAuthenticated :: "host \<Rightarrow> gateway_message \<Rightarrow> time \<Rightarrow> go_error + authenticated" where
  "validateAuthenticated H message now =
     (case validateGatewayEnvelope (libOf H) message now of
        Some e \<Rightarrow> Inl e
      | None \<Rightarrow> (case gatewayPayload message of
          Some (G_Authenticated a) \<Rightarrow>
            if authRunnerId a \<noteq> cfgRunnerID (cfg H) then Inl (Permanent ''runnerId'')
            else if \<not> validateUUID (authConnectionId a) then Inl (Permanent ''connectionId'')
            else if authProtocolVersion a \<noteq> protocolVersion then Inl (Permanent ''protocolVersion'')
            else if validateScope (cfgExpectedScope (cfg H)) (authScope a) \<noteq> None
            then Inl (Permanent ''organizationScope'')
            else if \<not> validateTimestamp (libOf H) (authCredentialExpiresAt a) then Inl (Permanent ''credentialExpiresAt'')
            else let expiration = asTime (libOf H) (authCredentialExpiresAt a)
            in if \<not> expiration > now \<or> expiration > now + maximumCredentialLifetime then Inl (Permanent ''credentialExpiresAt'')
               else if \<not> validateDuration (libOf H) (authHeartbeatInterval a) minimumHeartbeatInterval maximumHeartbeatInterval
               then Inl (Permanent ''heartbeatInterval'')
               else if \<not> validateDuration (libOf H) (authLeaseDuration a) minimumLeaseDuration maximumLeaseDuration
               then Inl (Permanent ''leaseDuration'')
               else if \<not> validateTimestampNear (libOf H) (authServerTime a) now then Inl (Permanent ''serverTime'')
               else Inr a
        | _ \<Rightarrow> Inl (Permanent ''first_message'')))"

end
