(* ===== verification/WorkerControl.thy ===== *)
theory WorkerControl
  imports Client
begin

section \<open>Worker, upload target and evidence of a client\<close>

text \<open>
  The operations of \<open>Client\<close> that the session calls (\<open>supervisor.go\<close>, \<open>network_authority.go\<close>,
  \<open>secret_exchange.go\<close>, \<open>restart_evidence.go\<close>): starting and stopping the worker, its start channel, the queue of
  deferred worker events, the upload target, and the restart evidence store, of which only its presence is kept.
  Channels that a worker listens on are buffered and used once, so a reply is an entry of a list.
\<close>

subsection \<open>Draining and worker control\<close>

definition Drain :: "('x, unit) action" where
  "Drain = modify (\<lambda>w. w\<lparr>draining := True\<rparr>)"

text \<open>\<open>guard.Withdraw()\<close> closes the guard's channel; its error is dropped.\<close>

definition withdrawGuard :: "network_guard \<Rightarrow> network_guard" where
  "withdrawGuard g = g\<lparr>guardDone := True\<rparr>"

definition stopNetworkAuthority :: "64 word \<Rightarrow> ('x, unit) action" where
  "stopNetworkAuthority gen =
     modify (\<lambda>w. if gen \<noteq> 0 \<and> gen \<noteq> workerNetworkGeneration w then w
                 else w\<lparr>workerGuard := map_option withdrawGuard (workerGuard w)\<rparr>)"

definition stopWorker :: "('x, unit) action" where
  "stopWorker =
     andThen (modify (\<lambda>w. if workerCancel w then w\<lparr>workerCancelled := True\<rparr> else w))
             (stopNetworkAuthority 0)"

definition stopSecretWorker :: "64 word \<Rightarrow> ('x, unit) action" where
  "stopSecretWorker gen =
     modify (\<lambda>w. if workerSecretCancel w \<and> workerSecretGeneration w = gen then w\<lparr>workerCancelled := True\<rparr> else w)"

definition markWorkerStopped :: "('x, unit) action" where
  "markWorkerStopped =
     modify (\<lambda>w. w\<lparr>workerRunning := False, workerCancel := False, workerSecretCancel := False, workerSecretGeneration := 0\<rparr>)"

subsection \<open>The start channel\<close>

definition replyStart :: "nat \<Rightarrow> go_error option \<Rightarrow> ('x, unit) action" where
  "replyStart ch e = modify (\<lambda>w. w\<lparr>startReplies := startReplies w @ [(ch, e)]\<rparr>)"

definition setStartResponse :: "nat \<Rightarrow> ('x, unit) action" where
  "setStartResponse ch = modify (\<lambda>w. w\<lparr>startResponse := Some ch\<rparr>)"

definition completeStartResponse :: "go_error option \<Rightarrow> ('x, unit) action" where
  "completeStartResponse e =
     bind (get startResponse) (\<lambda>response.
     andThen (modify (\<lambda>w. w\<lparr>startResponse := None\<rparr>))
       (case response of None \<Rightarrow> ret () | Some ch \<Rightarrow> replyStart ch e))"

definition failStartResponse :: "go_error \<Rightarrow> ('x, unit) action" where
  "failStartResponse e = completeStartResponse (Some e)"

definition finishSecretRequest :: "secret_request \<Rightarrow> time option \<Rightarrow> ('x, unit) action" where
  "finishSecretRequest request response =
     modify (\<lambda>w. w\<lparr>secretReplies := secretReplies w @ [(srId request, response)]\<rparr>)"

subsection \<open>Deferred worker events\<close>

definition deferWorkerEvent :: "worker_event \<Rightarrow> ('x, unit) action" where
  "deferWorkerEvent event = modify (\<lambda>w. w\<lparr>deferredWorkerEvents := deferredWorkerEvents w @ [event]\<rparr>)"

definition popDeferredWorkerEvent :: "('x, worker_event option) action" where
  "popDeferredWorkerEvent =
     (\<lambda>w. case deferredWorkerEvents w of
            [] \<Rightarrow> (Inr None, w)
          | event # rest \<Rightarrow> (Inr (Some event), w\<lparr>deferredWorkerEvents := rest\<rparr>))"

definition takeDeferredWorkerEvents :: "('x, worker_event list) action" where
  "takeDeferredWorkerEvents = (\<lambda>w. (Inr (deferredWorkerEvents w), w\<lparr>deferredWorkerEvents := []\<rparr>))"

text \<open>The body of the loops in \<open>discardDeferred\<close> and \<open>discardQueuedWorkerEvents\<close>; closing an archive has no effect here.\<close>

definition discardEvent :: "go_error \<Rightarrow> worker_event \<Rightarrow> ('x, unit) action" where
  "discardEvent reason event =
     andThen (case weSecretRequest event of None \<Rightarrow> ret () | Some r \<Rightarrow> finishSecretRequest r None)
             (case weStart event of None \<Rightarrow> ret () | Some ch \<Rightarrow> replyStart ch (Some reason))"

fun discardEvents :: "go_error \<Rightarrow> worker_event list \<Rightarrow> ('x, unit) action" where
  "discardEvents reason [] = ret ()"
| "discardEvents reason (event # events) = andThen (discardEvent reason event) (discardEvents reason events)"

definition discardDeferred :: "go_error \<Rightarrow> ('x, unit) action" where
  "discardDeferred reason = bind takeDeferredWorkerEvents (discardEvents reason)"

subsection \<open>Upload target and restart evidence\<close>

definition setTarget :: "job_spec option \<Rightarrow> complete_log_target option \<Rightarrow> bool \<Rightarrow> ('x, unit) action" where
  "setTarget job target recovery =
     modify (\<lambda>w. w\<lparr>activeUpload := setCompleteLogTargetKind job target recovery\<rparr>)"

definition clearCompleteLogTarget :: "('x, unit) action" where
  "clearCompleteLogTarget = modify (\<lambda>w. w\<lparr>activeUpload := None\<rparr>)"

definition beginRestartEvidence :: "host \<Rightarrow> ('x, unit) action" where
  "beginRestartEvidence H =
     bind (get (\<lambda>w. (jPath (clientJournal w), restartEvidence w))) (\<lambda>(path, present).
     if path = [] then ret ()
     else if present then fail (Plain ''evidence_exists'')
     else bind (consult (evidenceCreate H)) (\<lambda>ok.
       if ok then modify (\<lambda>w. w\<lparr>restartEvidence := True\<rparr>) else fail (Plain ''create_evidence'')))"

definition clearRestartEvidence :: "host \<Rightarrow> ('x, unit) action" where
  "clearRestartEvidence H =
     bind (get restartEvidence) (\<lambda>present.
     andThen (modify (\<lambda>w. w\<lparr>restartEvidence := False\<rparr>))
       (if \<not> present then ret ()
        else bind (consult (evidenceRemove H)) (\<lambda>ok. if ok then ret () else fail (Plain ''remove_evidence''))))"

subsection \<open>Starting the worker\<close>

definition jobNetworkV2 :: "job_spec \<Rightarrow> network_policy_v2 option" where
  "jobNetworkV2 job = (case jobPolicy job of None \<Rightarrow> None | Some p \<Rightarrow> policyNetworkV2 p)"

definition enabledNetworkJob :: "job_spec \<Rightarrow> bool" where
  "enabledNetworkJob job \<longleftrightarrow> (case jobNetworkV2 job of None \<Rightarrow> False | Some p \<Rightarrow> networkModeV2 p \<noteq> NETWORK_NONE)"

text \<open>
  \<open>startWorker\<close>: the goroutine it starts is an entry of \<open>launches\<close>; what it later puts on the event channel is the
  argument of \<open>handleWorkerEvent\<close>.
\<close>

definition launch :: "host \<Rightarrow> job_spec \<Rightarrow> ('x, unit) action" where
  "launch H job =
     andThen
       (if testSecrets job \<noteq> []
        then modify (\<lambda>w. w\<lparr>workerSecretGeneration := sessionGeneration w, workerSecretCancel := True\<rparr>)
        else ret ())
       (modify (\<lambda>w. w\<lparr>workerRunning := True, workerCancel := True, workerCancelled := False,
                      launches := launches w @ [job]\<rparr>))"

definition startWorker :: "host \<Rightarrow> ('x, unit) action" where
  "startWorker H =
     bind (get (\<lambda>w. (workerRunning w, active (snapshot w)))) (\<lambda>(running, act).
     if running then fail (Plain ''already_running'')
     else (case (act, remoteWorker H) of
         (Some a, Some k) \<Rightarrow>
           (case unmarshalJob (libOf H) (specificationBytes a) of
              None \<Rightarrow> fail (Plain ''unmarshal'')
            | Some job \<Rightarrow>
                if activeEvidenceV2 a \<and> \<not> wkExecuteV2 k then fail (Plain ''v2_worker'')
                else if testSecrets job \<noteq> [] \<and> \<not> canUseTestSecrets (cfg H) (remoteWorker H)
                then fail (Plain ''secret_unavailable'')
                else launch H job)
       | _ \<Rightarrow> fail (Plain ''no_active_job'')))"

text \<open>What the goroutine makes of a result after it lost the connection that delivers its secrets.\<close>

definition workerOutcome :: "bool \<Rightarrow> exec_result \<Rightarrow> exec_result" where
  "workerOutcome connectionLost result =
     (if connectionLost \<and> (case exCleanup result of None \<Rightarrow> True | Some (succeeded, _) \<Rightarrow> succeeded)
      then result\<lparr>exStatus := ''failed'', exClassification := InfrastructureFailure,
                  exFailure := Some \<lparr>exfStage = NoStage, exfCode = ''test_secret_connection_lost'',
                    exfMessage = ''test-secret execution stopped after connection loss''\<rparr>\<rparr>
      else result)"

subsection \<open>Network authority\<close>

definition networkAuthorityStopped :: "host \<Rightarrow> ('x, bool) action" where
  "networkAuthorityStopped H =
     bind (consult (guardExpired H)) (\<lambda>expired.
     bind (get (\<lambda>w. (workerGuard w, active (snapshot w)))) (\<lambda>(guard, act).
     case guard of
       None \<Rightarrow> ret False
     | Some g \<Rightarrow>
         if act = None \<or> \<not> activeMatchesIdentity (libOf H) act (jobLease (guardJob g)) (jobAttempt (guardJob g)) then ret False
         else if guardDone g then ret True
         else if expired then andThen (modify (\<lambda>w. w\<lparr>workerGuard := Some (withdrawGuard g)\<rparr>)) (ret True)
         else ret False))"

definition terminalLeaseStatus :: "lease_status \<Rightarrow> bool" where
  "terminalLeaseStatus status \<longleftrightarrow>
     status = STATUS_COMPLETED \<or> status = STATUS_CANCELLED \<or> status = STATUS_EXPIRED \<or> status = STATUS_RELEASED"

text \<open>
  \<open>Reconcile\<close> of the guard: an error that is not the report of an earlier withdrawal rejects the message. Every error of
  a live guard withdraws it, and a withdrawn guard never reports success.
\<close>

definition reconcileGuard :: "host \<Rightarrow> network_guard \<Rightarrow> lease_reconciliation \<Rightarrow> ('x, unit) action" where
  "reconcileGuard H guard value =
     bind (consult (guardReconcile H)) (\<lambda>outcome.
     case outcome value of
       GuardCurrent \<Rightarrow> ret ()
     | GuardWithdrawn \<Rightarrow> modify (\<lambda>w. w\<lparr>workerGuard := Some (withdrawGuard guard)\<rparr>)
     | GuardRejected \<Rightarrow>
         andThen (modify (\<lambda>w. w\<lparr>workerGuard := Some (withdrawGuard guard)\<rparr>)) (fail (Plain ''authority_rejected'')))"

text \<open>The guard for the active job: the one at hand, or a new one once the old one is closed.\<close>

definition newGuard :: "host \<Rightarrow> job_spec \<Rightarrow> ('x, network_guard) action" where
  "newGuard H job =
     bind (consult (guardCreate H)) (\<lambda>create.
     if \<not> create job then fail (Plain ''authority_identity'')
     else andThen (modify (\<lambda>w. w\<lparr>workerGuard := Some \<lparr>guardDone = False, guardJob = job\<rparr>\<rparr>))
                  (ret \<lparr>guardDone = False, guardJob = job\<rparr>))"

definition guardFor :: "host \<Rightarrow> job_spec \<Rightarrow> ('x, network_guard) action" where
  "guardFor H job =
     bind (get (\<lambda>w. (workerGuard w, workerRunning w))) (\<lambda>(guard, running).
     case guard of
       None \<Rightarrow> newGuard H job
     | Some g \<Rightarrow>
         if sameLeaseAttempt (jobLease (guardJob g)) (jobAttempt (guardJob g)) (jobLease job) (jobAttempt job) then ret g
         else if running then fail (Plain ''prior_cleanup_running'')
         else bind (consult (guardClose H)) (\<lambda>closed.
           andThen (modify (\<lambda>w. w\<lparr>workerGuard := Some (withdrawGuard g)\<rparr>))
             (if \<not> closed then andThen Drain (fail (Plain ''prior_cleanup_unproven''))
              else newGuard H job)))"

definition consumeNetworkAuthority :: "host \<Rightarrow> stream \<Rightarrow> lease_reconciliation \<Rightarrow> ('x, unit) action" where
  "consumeNetworkAuthority H S value =
     bind (get (\<lambda>w. active (snapshot w))) (\<lambda>act.
     if \<not> activeMatchesIdentity (libOf H) act (recLease value) (recAttempt value)
     then (if recNetworkAuthority value \<noteq> None then fail (Permanent ''authority_unmatched'') else ret ())
     else (case act of
         None \<Rightarrow> fail (Panic ''nil active'')
       | Some a \<Rightarrow> (case unmarshalJob (libOf H) (specificationBytes a) of
           None \<Rightarrow> fail (Permanent ''authority_active_identity'')
         | Some job \<Rightarrow>
             if \<not> enabledNetworkJob job
             then (if recNetworkAuthority value \<noteq> None then fail (Permanent ''authority_unexpected'') else ret ())
             else if terminalLeaseStatus (recStatus value) \<or> recCancellationId value \<noteq> []
                     \<or> recPhase value = PHASE_CANCELLING \<or> recStatus value = STATUS_OFFERED
             then andThen (stopNetworkAuthority 0)
                    (if recNetworkAuthority value \<noteq> None then fail (Permanent ''authority_during_cleanup'') else ret ())
             else if \<not> advertisedFeature (networkFeatures S) FEATURE_NETWORK_AUTHORITY_V2
             then andThen (stopNetworkAuthority 0) (fail (Plain ''authority_required''))
             else bind (get recovering) (\<lambda>isRecovering.
               if isRecovering
               then (if \<not> authorityValid H job then fail (Plain ''recovered_identity'')
                     else bind (consult (authorityReconcile H)) (\<lambda>reconcile.
                       if reconcile job value then ret () else fail (Plain ''recovered_authority'')))
               else bind (guardFor H job) (\<lambda>guard.
                 andThen (modify (\<lambda>w. w\<lparr>workerNetworkGeneration := streamGeneration S\<rparr>))
                         (reconcileGuard H guard value))))))"

end
