(* ===== verification/DurableEvents.thy ===== *)
theory DurableEvents
  imports WorkerControl
begin

section \<open>Durable events\<close>

text \<open>
  \<open>supervisor.go\<close> and \<open>terminal_evidence.go\<close>: an event that the gateway must acknowledge is written to the
  journal before it is sent, at most one at a time; and the events themselves, from the acceptance of a lease to its end.
  \<open>journal_active\<close> is an assignment through \<open>state.Active\<close>, which panics when there is none.
\<close>

definition journalUpdate :: "host \<Rightarrow> (journal_state, go_error, unit) proc \<Rightarrow> ('x, unit) action" where
  "journalUpdate H f = onJournal (update (jenv H) f)"

definition journal_active :: "(journal_job \<Rightarrow> journal_job) \<Rightarrow> (journal_state, go_error, unit) proc" where
  "journal_active f =
     (\<lambda>state. case active state of
        None \<Rightarrow> (Inl (Panic ''nil active''), state)
      | Some a \<Rightarrow> (Inr (), state\<lparr>active := Some (f a)\<rparr>))"

subsection \<open>Writing ahead\<close>

definition sendRetained :: "host \<Rightarrow> stream \<Rightarrow> runner_message \<Rightarrow> ('x, unit) action" where
  "sendRetained H S message =
     (if (case terminalProof message of
            None \<Rightarrow> False
          | Some proof \<Rightarrow> (case frozenVersion (libOf H) proof of
              None \<Rightarrow> True
            | Some version \<Rightarrow> (version = evidenceV1 \<and> \<not> terminalEvidenceV1 S) \<or> (version = evidenceV2 \<and> \<not> terminalEvidenceV2 S)))
      then fail (Permanent ''evidence_not_advertised'')
      else bind (get (\<lambda>w. snapshot w)) (\<lambda>state.
        if \<not> validateTerminalProof (libOf H) message state (cfgRunnerID (cfg H)) then fail (Permanent ''evidence_identity'')
        else send H message))"

definition journalPending ::
  "host \<Rightarrow> runner_message \<Rightarrow> bytes \<Rightarrow> (journal_state, go_error, unit) proc \<Rightarrow> (journal_state, go_error, unit) proc" where
  "journalPending H message encoded mutate =
     bind (get (\<lambda>state. state)) (\<lambda>state.
     if pendingMessage state \<noteq> [] then fail (Plain ''unacknowledged_event'')
     else if \<not> validateTerminalProof (libOf H) message state (cfgRunnerID (cfg H)) then fail (Plain ''evidence_active_job'')
     else andThen mutate (modify (\<lambda>state. state\<lparr>pendingMessage := encoded\<rparr>)))"

definition queueDurable ::
  "host \<Rightarrow> stream \<Rightarrow> runner_payload \<Rightarrow> (journal_state, go_error, unit) proc \<Rightarrow> ('x, unit) action" where
  "queueDurable H S payload mutate =
     bind (runnerMessage H) (\<lambda>m.
     let message = m\<lparr>runnerPayload := Some payload\<rparr>
     in if \<not> durableRunnerMessage message then fail (Plain ''unsupported_event'')
        else if \<not> terminalMessageBound (libOf H) message then fail (Plain ''evidence_bounds'')
        else (case marshalRunner (libOf H) message of
            None \<Rightarrow> fail (Plain ''marshal'')
          | Some encoded \<Rightarrow>
              andThen (journalUpdate H (journalPending H message encoded mutate)) (sendRetained H S message)))"

definition replayPending :: "host \<Rightarrow> stream \<Rightarrow> ('x, unit) action" where
  "replayPending H S =
     bind (get (\<lambda>w. pendingMessage (snapshot w))) (\<lambda>pending.
     if pending = [] then ret ()
     else (case unmarshalRunner (libOf H) pending of
         None \<Rightarrow> fail (Plain ''unmarshal'')
       | Some message \<Rightarrow> sendRetained H S message))"

definition clearPending :: "host \<Rightarrow> ('x, unit) action" where
  "clearPending H = journalUpdate H (modify (\<lambda>state. state\<lparr>pendingMessage := []\<rparr>))"

definition clearActive :: "host \<Rightarrow> ('x, unit) action" where
  "clearActive H = journalUpdate H (modify (\<lambda>state. state\<lparr>active := None, pendingMessage := []\<rparr>))"

subsection \<open>Summaries, stages and times\<close>

definition boundedSummary :: "string \<Rightarrow> string" where
  "boundedSummary v =
     (let trimmed = trim_space v
      in if trimmed = [] then ''runner event failed''
         else if length trimmed > maximumReasonBytes
         then shrink_to_valid maximumReasonBytes (take maximumReasonBytes trimmed)
         else trimmed)"

definition failureStage :: "exec_phase \<Rightarrow> failure_stage" where
  "failureStage p =
     (case p of
        PhaseValidation \<Rightarrow> STAGE_LEASE | PhaseResolution \<Rightarrow> STAGE_LEASE
      | PhasePreparation \<Rightarrow> STAGE_PREPARATION
      | PhaseCleanup \<Rightarrow> STAGE_CLEANUP | PhaseCollection \<Rightarrow> STAGE_CLEANUP
      | _ \<Rightarrow> STAGE_EXECUTION)"

definition resultFailure :: "exec_result \<Rightarrow> failure_detail" where
  "resultFailure result =
     (let detail = \<lparr>failureCategory = CATEGORY_INFRASTRUCTURE, failureStageOf = failureStage (exPhase result),
                    failureCode = ''runner_execution_failed'', failureSummary = ''remote execution failed'',
                    failureRetryable = True\<rparr>;
          detail1 = (case exFailure result of
              None \<Rightarrow> detail
            | Some f \<Rightarrow> detail\<lparr>failureCode := exfCode f, failureSummary := boundedSummary (exfMessage f),
                failureStageOf := (case exfStage f of
                    StagePreparation \<Rightarrow> STAGE_PREPARATION | StageStartup \<Rightarrow> STAGE_STARTUP | StageExecution \<Rightarrow> STAGE_EXECUTION
                  | NoStage \<Rightarrow> failureStageOf detail)\<rparr>)
      in (case exClassification result of
            InvalidJob \<Rightarrow> detail1\<lparr>failureCategory := CATEGORY_POLICY, failureRetryable := False\<rparr>
          | WorkloadFailure \<Rightarrow> detail1\<lparr>failureCategory := CATEGORY_PLUGIN, failureRetryable := False\<rparr>
          | Cancelled \<Rightarrow> detail1\<lparr>failureCode := ''job_cancelled'', failureRetryable := True\<rparr>
          | TimedOut \<Rightarrow> detail1\<lparr>failureCode := ''job_timed_out'', failureRetryable := False\<rparr>
          | _ \<Rightarrow> detail1))"

definition normalizedTerminalTime :: "time \<Rightarrow> time" where
  "normalizedTerminalTime v = truncate_to microsecond v"

definition normalizedTerminalTimes :: "time \<Rightarrow> time \<Rightarrow> go_error + time \<times> time" where
  "normalizedTerminalTimes startedAt completedAt =
     (if startedAt = 0 \<or> completedAt = 0 then Inl (Plain ''timestamps_required'')
      else if completedAt < startedAt then Inl (Plain ''timestamps_order'')
      else Inr (normalizedTerminalTime startedAt, normalizedTerminalTime completedAt))"

definition resultResourceUsage :: "lib \<Rightarrow> exec_result \<Rightarrow> resource_usage_message option" where
  "resultResourceUsage L result = map_option (resourceUsageMessage L) (exMeasuredResources result)"

definition infrastructureFailure :: "failure_stage \<Rightarrow> string \<Rightarrow> string \<Rightarrow> failure_detail" where
  "infrastructureFailure stage code summary =
     \<lparr>failureCategory = CATEGORY_INFRASTRUCTURE, failureStageOf = stage, failureCode = code, failureSummary = summary,
      failureRetryable = True\<rparr>"

definition restartFailureDetail :: failure_detail where
  "restartFailureDetail =
     infrastructureFailure STAGE_EXECUTION ''runner_restarted''
       ''runner restarted with an authoritative lease whose execution outcome is uncertain''"

subsection \<open>Events of a lease\<close>

definition activeIdentityNow :: "host \<Rightarrow> ('x, lease_identity option \<times> attempt_identity option) action" where
  "activeIdentityNow H = bind (get (\<lambda>w. snapshot w)) (\<lambda>state. ofSum (activeIdentity (libOf H) state))"

definition queuePreparing :: "host \<Rightarrow> stream \<Rightarrow> time \<Rightarrow> ('x, unit) action" where
  "queuePreparing H S now =
     bind (activeIdentityNow H) (\<lambda>(lease, attempt).
     queueDurable H S (P_JobPreparing \<lparr>preparingLease = lease, preparingAttempt = attempt,
                                       preparingStartedAt = tsNew (libOf H) now\<rparr>)
       (journal_active (\<lambda>a. a\<lparr>phase := PHASE_PREPARING\<rparr>)))"

definition queueRenewal :: "host \<Rightarrow> stream \<Rightarrow> time \<Rightarrow> ('x, unit) action" where
  "queueRenewal H S now =
     bind (activeIdentityNow H) (\<lambda>(lease, attempt).
     queueDurable H S (P_LeaseRenewal \<lparr>renewalLease = lease, renewalAttempt = attempt,
         requestedExtension = pdNew (libOf H) (asDuration (libOf H) (authLeaseDuration (streamAuthenticated S))),
         renewalObservedAt = tsNew (libOf H) now\<rparr>) (ret ()))"

definition failedEvent ::
  "host \<Rightarrow> lease_identity option \<times> attempt_identity option \<Rightarrow> time \<Rightarrow> failure_detail \<Rightarrow> job_failed" where
  "failedEvent H identity at detail =
     \<lparr>failedLease = fst identity, failedAttempt = snd identity, failedAt = tsNew (libOf H) at, failedFailure = detail,
      failedUsage = None, failedCompleteLog = None, failedEvidence = None\<rparr>"

definition queueLeaseExpired :: "host \<Rightarrow> stream \<Rightarrow> time \<Rightarrow> ('x, unit) action" where
  "queueLeaseExpired H S now =
     bind (activeIdentityNow H) (\<lambda>identity.
     queueDurable H S (P_Failed (failedEvent H identity (normalizedTerminalTime now)
       (infrastructureFailure STAGE_LEASE ''lease_expired'' ''authoritative runner lease expired''))) (ret ()))"

definition queueCancellation :: "host \<Rightarrow> stream \<Rightarrow> time \<Rightarrow> exec_result option \<Rightarrow> ('x, unit) action" where
  "queueCancellation H S now result =
     bind (get (\<lambda>w. snapshot w)) (\<lambda>state.
     bind (ofSum (activeIdentity (libOf H) state)) (\<lambda>(lease, attempt).
     case active state of
       None \<Rightarrow> fail (Panic ''nil active'')
     | Some a \<Rightarrow>
         let cleanup = (case result of None \<Rightarrow> None | Some r \<Rightarrow> exCleanup r)
         in queueDurable H S (P_Cancelled
              \<lparr>cancelledLease = lease, cancelledAttempt = attempt, cancelledCancellationId = cancellationID a,
               cancelledAt = tsNew (libOf H) (normalizedTerminalTime now),
               cleanupCompleted = (result = None \<or> (case cleanup of None \<Rightarrow> False | Some (succeeded, _) \<Rightarrow> succeeded)),
               cleanupFailure = (case cleanup of
                   Some (False, err) \<Rightarrow> Some (infrastructureFailure STAGE_CLEANUP ''cleanup_failed'' (boundedSummary err))
                 | _ \<Rightarrow> None)\<rparr>) (ret ())))"

text \<open>The code, summary and stage of the failure depend on whether the guard's teardown is proven.\<close>

definition queueNetworkAuthorityFailure :: "host \<Rightarrow> stream \<Rightarrow> time \<Rightarrow> ('x, unit) action" where
  "queueNetworkAuthorityFailure H S now =
     bind (get (\<lambda>w. (workerGuard w, workerRunning w))) (\<lambda>(guard, running).
     case guard of
       None \<Rightarrow> ret ()
     | Some g \<Rightarrow>
         if running then ret ()
         else bind (consult (guardClose H)) (\<lambda>closed.
           andThen (modify (\<lambda>w. w\<lparr>workerGuard := Some (withdrawGuard g)\<rparr>))
          (andThen (if closed then ret () else Drain)
          (bind (activeIdentityNow H) (\<lambda>identity.
             queueDurable H S (P_Failed (failedEvent H identity (normalizedTerminalTime now)
               (if closed then infrastructureFailure STAGE_PREPARATION ''network_authority_lost''
                                 ''network authority unavailable before execution''
                else infrastructureFailure STAGE_CLEANUP ''network_cleanup_failed''
                       ''owned network teardown could not be proven''))) (ret ()))))))"

subsection \<open>Results\<close>

definition uploadLog :: "host \<Rightarrow> complete_log_target \<Rightarrow> complete_log option \<Rightarrow> ('x, upload_error + log_object) action" where
  "uploadLog H target log =
     bind (consult (clockAt H)) (\<lambda>now. bind (consult (\<lambda>n. (uploadClock H n, uploadHttp H n))) (\<lambda>(clock, http).
     ret (fst (Upload (libOf H) (Some target) log now clock http))))"

definition beforeExecutionFailure :: "exec_result \<Rightarrow> bool" where
  "beforeExecutionFailure result \<longleftrightarrow>
     exStatus result = ''failed'' \<and> exClassification result \<noteq> Passed \<and> exFailure result \<noteq> None \<and> exExecution result = None
     \<and> exCompleteLog result = None
     \<and> (exPhase result = PhaseValidation \<or> exPhase result = PhaseResolution \<or> exPhase result = PhasePreparation)"

definition resultProof ::
  "host \<Rightarrow> stream \<Rightarrow> lease_identity option \<times> attempt_identity option \<Rightarrow> exec_result \<Rightarrow> go_error + execution_evidence option" where
  "resultProof H S identity result =
     (if exMeasuredNetwork result
         \<and> (exTerminalContext result = None \<or> \<not> terminalEvidenceV2 S
            \<or> \<not> advertisedFeature (networkFeatures S) FEATURE_NETWORK_POLICY_V2
            \<or> \<not> advertisedFeature (networkFeatures S) FEATURE_NETWORK_AUTHORITY_V2)
      then Inl (Permanent ''network_evidence'')
      else (case exTerminalContext result of
          None \<Rightarrow> Inr None
        | Some context \<Rightarrow>
            if \<not> contextMatches H context (fst identity) (snd identity)
               \<or> authRunnerId (streamAuthenticated S) \<noteq> cfgRunnerID (cfg H)
            then Inl (Permanent ''evidence_executed_identity'')
            else (case freezeTerminalEvidence H result (authRunnerId (streamAuthenticated S)) of
                None \<Rightarrow> Inl (Permanent ''evidence_frozen'')
              | Some proof \<Rightarrow> Inr (Some proof))))"

text \<open>The terminal event for a result, once the log is uploaded or known not to be needed.\<close>

definition resultEvent ::
  "host \<Rightarrow> lease_identity option \<times> attempt_identity option \<Rightarrow> exec_result \<Rightarrow> execution_evidence option \<Rightarrow> time \<Rightarrow> time
   \<Rightarrow> log_object option \<Rightarrow> runner_payload" where
  "resultEvent H identity result proof startedAt completedAt completeLog =
     (let usage = resultResourceUsage (libOf H) result
      in if exClassification result = Passed
         then P_Completed \<lparr>completedLease = fst identity, completedAttempt = snd identity,
                completedResult = \<lparr>resultPassed = True, resultUsage = usage, resultCompleteLog = completeLog,
                  resultStartedAt = tsNew (libOf H) startedAt, resultCompletedAt = tsNew (libOf H) completedAt,
                  resultExitCode = (case exExecution result of
                      Some (Some code) \<Rightarrow> Some (word_of_int code) | _ \<Rightarrow> None)\<rparr>,
                completedEvidence = proof\<rparr>
         else P_Failed \<lparr>failedLease = fst identity, failedAttempt = snd identity, failedAt = tsNew (libOf H) completedAt,
                failedFailure = resultFailure result, failedUsage = usage, failedCompleteLog = completeLog,
                failedEvidence = proof\<rparr>)"

definition uploadFailedEvent ::
  "host \<Rightarrow> lease_identity option \<times> attempt_identity option \<Rightarrow> exec_result \<Rightarrow> execution_evidence option \<Rightarrow> time \<Rightarrow> runner_payload" where
  "uploadFailedEvent H identity result proof completedAt =
     P_Failed ((failedEvent H identity completedAt
       (infrastructureFailure STAGE_RESULT_UPLOAD ''complete_log_upload_failed''
          ''complete log evidence could not be uploaded''))
       \<lparr>failedUsage := resultResourceUsage (libOf H) result, failedEvidence := proof\<rparr>)"

definition queueResult :: "host \<Rightarrow> stream \<Rightarrow> exec_result \<Rightarrow> ('x, unit) action" where
  "queueResult H S result =
     bind (activeIdentityNow H) (\<lambda>identity.
     bind (ofSum (resultProof H S identity result)) (\<lambda>proof.
     bind (ofSum (normalizedTerminalTimes (exStartedAt result) (exCompletedAt result))) (\<lambda>(startedAt, completedAt).
     bind (get (\<lambda>w. completeLogTarget (activeUpload w) (fst identity) (snd identity))) (\<lambda>target.
     case (if beforeExecutionFailure result then None else target) of
       None \<Rightarrow> queueDurable H S (resultEvent H identity result proof startedAt completedAt None) (ret ())
     | Some t \<Rightarrow>
         bind (if hasUploader H then uploadLog H t (exCompleteLog result) else ret (Inl UploadUnavailable)) (\<lambda>uploaded.
         case uploaded of
           Inl _ \<Rightarrow> queueDurable H S (uploadFailedEvent H identity result proof completedAt) (ret ())
         | Inr obj \<Rightarrow> queueDurable H S (resultEvent H identity result proof startedAt completedAt (Some obj)) (ret ()))))))"

subsection \<open>Restart\<close>

definition validateRestartLogObject :: "lib \<Rightarrow> log_object \<Rightarrow> complete_log_target \<Rightarrow> complete_log option \<Rightarrow> bool" where
  "validateRestartLogObject L obj target log =
     (case validateUploadArchive L log of
        None \<Rightarrow> False
      | Some (dg, sz) \<Rightarrow>
          logObjectKey obj = targetObjectKey target \<and> logContentType obj = completeLogUploadContentType
          \<and> logCompressedSizeBytes obj = word_of_int sz
          \<and> (case logDigest obj of None \<Rightarrow> False | Some d \<Rightarrow> digestAlgorithm d = DIGEST_SHA256 \<and> digestValue d = dg))"

definition queueRestartFailureWithoutEvidence ::
  "host \<Rightarrow> stream \<Rightarrow> time \<Rightarrow> lease_identity option \<times> attempt_identity option \<Rightarrow> ('x, unit) action" where
  "queueRestartFailureWithoutEvidence H S now identity =
     andThen clearCompleteLogTarget
    (andThen (ignoring (clearRestartEvidence H))
      (queueDurable H S (P_Failed (failedEvent H identity (normalizedTerminalTime now) restartFailureDetail)) (ret ())))"

text \<open>\<open>binary.BigEndian.PutUint64\<close>, and the identity that binds an evidence store to one attempt.\<close>

definition bigEndian64 :: "nat \<Rightarrow> bytes" where
  "bigEndian64 n = map (\<lambda>i. char_of (n div 256 ^ (7 - i) mod 256)) [0..<8]"

definition newRestartEvidenceIdentity ::
  "host \<Rightarrow> lease_identity option \<Rightarrow> attempt_identity option \<Rightarrow> restart_identity option" where
  "newRestartEvidenceIdentity H lease attempt =
     (case (lease, attempt) of
        (Some l, Some a) \<Rightarrow>
          if \<not> identity_uuids l a then None
          else if attemptNumber a = 0 \<or> attemptNumber a > maximumAttemptNumber then None
          else let identity = \<lparr>riLeaseID = leaseId l, riJobID = jobId l, riExecutionID = executionId l, riAttemptID = attemptId a,
                     riAttemptNumber = attemptNumber a, riReleaseCandidateID = releaseCandidateId a,
                     riMatrixEntryID = matrixEntryId a, riBindingSHA256 = []\<rparr>
               in (case identityJson H identity of
                     None \<Rightarrow> None
                   | Some bytes \<Rightarrow> Some (identity\<lparr>riBindingSHA256 :=
                       hex_encode (sha256Sum (libOf H) (bigEndian64 (length bytes) @ bytes))\<rparr>))
      | _ \<Rightarrow> None)"

text \<open>
  \<open>queueRestartFailure\<close>: without a store the legacy event, without a target nothing yet; otherwise the recovered log is
  uploaded first.
\<close>

definition queueRestartFailure :: "host \<Rightarrow> stream \<Rightarrow> time \<Rightarrow> ('x, unit) action" where
  "queueRestartFailure H S now =
     bind (activeIdentityNow H) (\<lambda>identity.
     bind (get (\<lambda>w. (restartEvidence w, completeLogTarget (activeUpload w) (fst identity) (snd identity)))) (\<lambda>(store, target).
     if \<not> store
     then queueDurable H S (P_Failed (failedEvent H identity (normalizedTerminalTime now) restartFailureDetail)) (ret ())
     else (case target of
         None \<Rightarrow> ret ()
       | Some t \<Rightarrow>
           bind (consult (evidenceSnapshot H)) (\<lambda>snap.
           case snap of
             None \<Rightarrow> queueRestartFailureWithoutEvidence H S now identity
           | Some evidence \<Rightarrow>
               if newRestartEvidenceIdentity H (fst identity) (snd identity) \<noteq> Some (recoveredIdentity evidence)
               then queueRestartFailureWithoutEvidence H S now identity
               else bind (uploadLog H t (recoveredLog evidence)) (\<lambda>uploaded.
                 andThen clearCompleteLogTarget
                   (case uploaded of
                      Inl _ \<Rightarrow> fail (Plain ''restart_upload'')
                    | Inr obj \<Rightarrow>
                        if \<not> validateRestartLogObject (libOf H) obj t (recoveredLog evidence)
                        then fail (Permanent ''restart_upload_result'')
                        else queueDurable H S (P_Failed ((failedEvent H identity (normalizedTerminalTime now) restartFailureDetail)
                               \<lparr>failedUsage := recoveredUsage evidence, failedCompleteLog := Some obj\<rparr>)) (ret ())))))))"

subsection \<open>Reissuing a stale event\<close>

definition reissuedEvent ::
  "lib \<Rightarrow> lease_identity option \<Rightarrow> attempt_identity option \<Rightarrow> time \<Rightarrow> runner_payload \<Rightarrow> runner_payload option" where
  "reissuedEvent L lease attempt now payload =
     (case payload of
        P_LeaseAccepted v \<Rightarrow> Some (P_LeaseAccepted (v\<lparr>acceptedLease := lease, acceptedAttempt := attempt, acceptedAt := tsNew L now\<rparr>))
      | P_LeaseRejected v \<Rightarrow> Some (P_LeaseRejected (v\<lparr>rejectedLease := lease, rejectedAttempt := attempt\<rparr>))
      | P_LeaseRenewal v \<Rightarrow> Some (P_LeaseRenewal (v\<lparr>renewalLease := lease, renewalAttempt := attempt, renewalObservedAt := tsNew L now\<rparr>))
      | P_JobPreparing v \<Rightarrow> Some (P_JobPreparing (v\<lparr>preparingLease := lease, preparingAttempt := attempt, preparingStartedAt := tsNew L now\<rparr>))
      | P_JobStarted v \<Rightarrow> Some (P_JobStarted (v\<lparr>startedLease := lease, startedAttempt := attempt, startedAtTime := tsNew L now\<rparr>))
      | P_Completed v \<Rightarrow> Some (P_Completed (v\<lparr>completedLease := lease, completedAttempt := attempt\<rparr>))
      | P_Failed v \<Rightarrow> Some (P_Failed (v\<lparr>failedLease := lease, failedAttempt := attempt\<rparr>))
      | P_Cancelled v \<Rightarrow> Some (P_Cancelled (v\<lparr>cancelledLease := lease, cancelledAttempt := attempt\<rparr>))
      | _ \<Rightarrow> None)"

definition reissueStaleEvent :: "host \<Rightarrow> stream \<Rightarrow> runner_message \<Rightarrow> time \<Rightarrow> ('x, unit) action" where
  "reissueStaleEvent H S message now =
     bind (get (\<lambda>w. snapshot w)) (\<lambda>state.
     let (lease0, attempt0) = runnerMessageIdentity message
     in bind (if activeMatchesIdentity (libOf H) (active state) lease0 attempt0
              then ofSum (activeIdentity (libOf H) state) else ret (lease0, attempt0)) (\<lambda>(lease, attempt).
        case runnerPayload message of
          None \<Rightarrow> fail (Plain ''cannot_reissue'')
        | Some payload \<Rightarrow> (case reissuedEvent (libOf H) lease attempt now payload of
            None \<Rightarrow> fail (Plain ''cannot_reissue'')
          | Some reissued \<Rightarrow> queueDurable H S reissued (ret ()))))"

end
