(* ===== verification/CredentialRotation.thy ===== *)
theory CredentialRotation
  imports DurableEvents
begin

section \<open>Credential rotation\<close>

text \<open>
  \<open>gatewayclient/credential_rotation.go\<close>: the gateway sends a new connection credential; the runner
  records the rotation, replaces the credential file, records that the file was replaced, acknowledges, and reconnects. The first
  authentication with the new credential closes the rotation. The file replacement is a call to the outside.
\<close>

subsection \<open>Base64\<close>

text \<open>
  \<open>base64.RawURLEncoding\<close>: the alphabet, the encoder, and the decoder, which ignores the unused bits of a last group.
  (Line breaks, which Go's decoder skips, cannot pass the pattern checked before.)
\<close>

definition b64_value :: "char \<Rightarrow> nat option" where
  "b64_value c =
     (if ascii_upper c then Some (of_char c - 65)
      else if ascii_lower c then Some (of_char c - 71)
      else if ascii_digit c then Some (of_char c + 4)
      else if c = CHR ''-'' then Some 62
      else if c = CHR ''_'' then Some 63
      else None)"

definition b64_char :: "nat \<Rightarrow> char" where
  "b64_char n =
     (if n < 26 then char_of (n + 65) else if n < 52 then char_of (n + 71) else if n < 62 then char_of (n - 4)
      else if n = 62 then CHR ''-'' else CHR ''_'')"

fun b64_decode :: "string \<Rightarrow> bytes option" where
  "b64_decode [] = Some []"
| "b64_decode [a] = None"
| "b64_decode [a, b] =
     (case (b64_value a, b64_value b) of
        (Some x, Some y) \<Rightarrow> Some [char_of (4 * x + y div 16)]
      | _ \<Rightarrow> None)"
| "b64_decode [a, b, c] =
     (case (b64_value a, b64_value b, b64_value c) of
        (Some x, Some y, Some z) \<Rightarrow> Some [char_of (4 * x + y div 16), char_of (16 * (y mod 16) + z div 4)]
      | _ \<Rightarrow> None)"
| "b64_decode (a # b # c # d # rest) =
     (case (b64_value a, b64_value b, b64_value c, b64_value d, b64_decode rest) of
        (Some x, Some y, Some z, Some u, Some rest_bytes) \<Rightarrow>
          Some (char_of (4 * x + y div 16) # char_of (16 * (y mod 16) + z div 4) # char_of (64 * (z mod 4) + u) # rest_bytes)
      | _ \<Rightarrow> None)"

fun b64_encode :: "bytes \<Rightarrow> string" where
  "b64_encode [] = []"
| "b64_encode [p] = [b64_char (of_char p div 4), b64_char (16 * (of_char p mod 4))]"
| "b64_encode [p, q] =
     [b64_char (of_char p div 4), b64_char (16 * (of_char p mod 4) + of_char q div 16), b64_char (4 * (of_char q mod 16))]"
| "b64_encode (p # q # r # rest) =
     b64_char (of_char p div 4) # b64_char (16 * (of_char p mod 4) + of_char q div 16)
     # b64_char (4 * (of_char q mod 16) + of_char r div 64) # b64_char (of_char r mod 64) # b64_encode rest"

subsection \<open>The command\<close>

definition credential_char :: "char \<Rightarrow> bool" where
  "credential_char c \<longleftrightarrow> ascii_alnum c \<or> c = CHR ''_'' \<or> c = CHR ''-''"

definition credentialPrefix :: string where "credentialPrefix = ''prc_v1_''"

definition canonicalConnectionCredentialPattern :: "string \<Rightarrow> bool" where
  "canonicalConnectionCredentialPattern s \<longleftrightarrow>
     length s = 50 \<and> take 7 s = credentialPrefix \<and> list_all credential_char (take 42 (drop 7 s))
     \<and> s ! 49 \<in> set ''AEIMQUYcgkosw048''"

definition validateCredentialRotation ::
  "lib \<Rightarrow> rotate_credential \<Rightarrow> time \<Rightarrow> (journal_rotation \<times> bytes) option" where
  "validateCredentialRotation L rotation now =
     (if \<not> validateUUID (rotationIdOf rotation) \<or> rotationIdOf rotation \<noteq> to_lower (rotationIdOf rotation) then None
      else let secret = connectionCredential rotation
      in if length secret \<noteq> 50 \<or> \<not> canonicalConnectionCredentialPattern secret then None
         else let encoded = drop (length credentialPrefix) secret
         in if (case b64_decode encoded of
                  None \<Rightarrow> True
                | Some decoded \<Rightarrow> length decoded \<noteq> 32 \<or> b64_encode decoded \<noteq> encoded)
            then None
            else let fingerprint = sha256Sum L secret
            in if length (credentialFingerprint rotation) \<noteq> 32 \<or> credentialFingerprint rotation \<noteq> fingerprint then None
               else if \<not> list_all (validateTimestamp L)
                          [rotationIssuedAt rotation, rotationExpiresAt rotation, reconnectBeforeOf rotation]
               then None
               else let issued = asTime L (rotationIssuedAt rotation); expires = asTime L (rotationExpiresAt rotation);
                        reconnect = asTime L (reconnectBeforeOf rotation)
               in if issued > now + maximumClockSkew \<or> \<not> expires > issued \<or> time_sub expires issued > hour
                     \<or> \<not> reconnect > issued \<or> \<not> reconnect < expires \<or> time_sub reconnect issued > 5 * minute \<or> \<not> now < reconnect
                  then None
                  else Some (\<lparr>rotRunnerID = [], rotRotationID = rotationIdOf rotation, rotFingerprint = fingerprint,
                              rotIssuedAt = issued, rotExpiresAt = expires, rotReconnectBefore = reconnect, rotPersistedAt = 0\<rparr>,
                             secret))"

definition sameCredentialRotation :: "journal_rotation \<Rightarrow> journal_rotation \<Rightarrow> bool" where
  "sameCredentialRotation l r \<longleftrightarrow>
     (rotRunnerID l = rotRunnerID r \<or> rotRunnerID l = [] \<or> rotRunnerID r = [])
     \<and> rotRotationID l = rotRotationID r \<and> rotFingerprint l = rotFingerprint r
     \<and> rotIssuedAt l = rotIssuedAt r \<and> rotExpiresAt l = rotExpiresAt r \<and> rotReconnectBefore l = rotReconnectBefore r"

definition recordRotation :: "journal_rotation \<Rightarrow> (journal_state, go_error, unit) proc" where
  "recordRotation metadata =
     bind (get credentialRotation) (\<lambda>current.
     case current of
       None \<Rightarrow> modify (\<lambda>state. state\<lparr>credentialRotation := Some metadata\<rparr>)
     | Some r \<Rightarrow>
         if \<not> sameCredentialRotation r metadata then fail (Plain ''rotation_conflict'')
         else if rotRunnerID r = []
         then modify (\<lambda>state. state\<lparr>credentialRotation := Some (r\<lparr>rotRunnerID := rotRunnerID metadata\<rparr>)\<rparr>)
         else ret ())"

definition commitRotation :: "string \<Rightarrow> journal_rotation \<Rightarrow> time \<Rightarrow> (journal_state, go_error, unit) proc" where
  "commitRotation runnerID metadata now =
     bind (get credentialRotation) (\<lambda>current.
     case current of
       None \<Rightarrow> fail (Plain ''rotation_changed'')
     | Some r \<Rightarrow>
         if \<not> sameCredentialRotation r metadata then fail (Plain ''rotation_changed'')
         else let r1 = (if rotPersistedAt r = 0 then r\<lparr>rotPersistedAt := now\<rparr> else r)
         in modify (\<lambda>state. state\<lparr>credentialRotation := Some r1,
              committedCredential := Some \<lparr>comRunnerID = runnerID, comRotationID = rotRotationID metadata,
                comFingerprint = rotFingerprint metadata, comIssuedAt = rotIssuedAt metadata, comExpiresAt = rotExpiresAt metadata,
                comPersistedAt = rotPersistedAt r1\<rparr>\<rparr>))"

definition acknowledgeRotation :: "host \<Rightarrow> ('x, unit) action" where
  "acknowledgeRotation H =
     bind (get (\<lambda>w. credentialRotation (snapshot w))) (\<lambda>committed.
     case committed of
       None \<Rightarrow> fail (Panic ''nil rotation'')
     | Some r \<Rightarrow>
         bind (runnerMessage H) (\<lambda>m.
         bind (tryProc (send H (m\<lparr>runnerPayload := Some (P_RotationAcknowledgement
                 \<lparr>ackRotationId = rotRotationID r, ackFingerprint = rotFingerprint r,
                  ackPersistedAt = tsNew (libOf H) (rotPersistedAt r)\<rparr>)\<rparr>))) (\<lambda>sending.
         case sending of
           Inl e \<Rightarrow> bind (consult (rotationTimerFired H)) (\<lambda>fired. fail (if fired then CredentialRotationReconnect else e))
         | Inr _ \<Rightarrow> fail CredentialRotationReconnect)))"

definition handleCredentialRotation :: "host \<Rightarrow> rotate_credential \<Rightarrow> time \<Rightarrow> ('x, unit) action" where
  "handleCredentialRotation H rotation now =
     (if \<not> cfgHasCredentialStore (cfg H) then fail (Permanent ''rotation_not_negotiated'')
      else (case validateCredentialRotation (libOf H) rotation now of
          None \<Rightarrow> fail (Permanent ''rotation_invalid'')
        | Some (metadata0, secret) \<Rightarrow>
            let metadata = metadata0\<lparr>rotRunnerID := cfgRunnerID (cfg H)\<rparr>
            in andThen (mapError (\<lambda>_. Permanent ''rotation_conflict'') (journalUpdate H (recordRotation metadata)))
              (bind (consult (replaceCredential H)) (\<lambda>replaced.
               if \<not> replaced then fail (Permanent ''credential_replacement'')
               else andThen (modify (\<lambda>w. w\<lparr>credential := secret\<rparr>))
                   (andThen (mapError (\<lambda>_. CredentialRotationReconnect)
                               (journalUpdate H (commitRotation (cfgRunnerID (cfg H)) metadata now)))
                            (acknowledgeRotation H))))))"

subsection \<open>After authentication\<close>

definition bytesToDigest :: "bytes \<Rightarrow> bytes" where
  "bytesToDigest v = take 32 (v @ replicate 32 (CHR 0x00))"

definition closeRotation :: "host \<Rightarrow> journal_rotation \<Rightarrow> time \<Rightarrow> (journal_state, go_error, unit) proc" where
  "closeRotation H rotation now =
     bind (get (\<lambda>state. state)) (\<lambda>state.
     case credentialRotation state of
       None \<Rightarrow> ret ()
     | Some r \<Rightarrow>
         if \<not> sameCredentialRotation r rotation then ret ()
         else if cfgIdentityKeyFile (cfg H) \<noteq> []
         then (if rotRunnerID rotation \<noteq> cfgRunnerID (cfg H) \<or> \<not> now < rotExpiresAt rotation then fail (Plain ''rotation_unbound'')
               else if rotPersistedAt rotation = 0
               then (if committedCredential state \<noteq> None \<and> \<not> validCredentialPredecessor (committedCredential state) (Some rotation)
                     then fail (Plain ''rotation_predecessor'')
                     else modify (\<lambda>state. state\<lparr>committedCredential := Some \<lparr>comRunnerID = rotRunnerID rotation,
                            comRotationID = rotRotationID rotation, comFingerprint = rotFingerprint rotation,
                            comIssuedAt = rotIssuedAt rotation, comExpiresAt = rotExpiresAt rotation, comPersistedAt = now\<rparr>,
                            credentialRotation := None\<rparr>))
               else if committedCredential state = None then fail (Plain ''rotation_uncommitted'')
               else modify (\<lambda>state. state\<lparr>credentialRotation := None\<rparr>))
         else modify (\<lambda>state. state\<lparr>credentialRotation := None\<rparr>))"

definition reconcileCredentialRotationAfterAuthentication :: "host \<Rightarrow> ('x, unit) action" where
  "reconcileCredentialRotationAfterAuthentication H =
     bind (get (\<lambda>w. (credentialRotation (snapshot w), credential w))) (\<lambda>(current, secret).
     case current of
       None \<Rightarrow> ret ()
     | Some rotation \<Rightarrow>
         if sha256Sum (libOf H) secret \<noteq> bytesToDigest (rotFingerprint rotation) then ret ()
         else bind (consult (clockAt H)) (\<lambda>now. journalUpdate H (closeRotation H rotation now)))"

end
