(* ===== verification/Session.thy ===== *)
theory Session
  imports CredentialRotation
begin

section \<open>The session supervisor\<close>

text \<open>
  \<open>gatewayclient/supervisor.go\<close> and \<open>secret_exchange.go\<close>: the handlers of one authenticated stream. Each
  handler is a procedure on the session state and returns the error that ends the session. A field of the stream that is
  set once is read from \<open>S\<close>; \<open>s.authenticated\<close> is never nil in a running session.
\<close>

definition maximumRememberedGatewayMessageIDs :: nat where "maximumRememberedGatewayMessageIDs = 4096"

subsection \<open>Remembered messages\<close>

text \<open>The table with an insertion order that the session keeps three times: at the bound the oldest key is dropped.\<close>

definition rememberIn :: "'k \<Rightarrow> 'v \<Rightarrow> ('k \<Rightarrow> 'v option) \<times> 'k list \<Rightarrow> ('k \<Rightarrow> 'v option) \<times> 'k list" where
  "rememberIn k v window =
     (let table = (fst window)(k \<mapsto> v); order = (if fst window k = None then snd window @ [k] else snd window)
      in if length order > maximumRememberedGatewayMessageIDs then (table(hd order := None), tl order) else (table, order))"

definition refuseTestSecretDelivery :: "gateway_message \<Rightarrow> go_error option" where
  "refuseTestSecretDelivery message =
     (case gatewayPayload message of
        Some (G_TestSecretsDelivery _) \<Rightarrow> Some (Permanent ''unsolicited_delivery'')
      | _ \<Rightarrow> None)"

definition rememberGatewayMessage :: "host \<Rightarrow> gateway_message \<Rightarrow> unit handler" where
  "rememberGatewayMessage H message =
     (case refuseTestSecretDelivery message of
        Some e \<Rightarrow> fail e
      | None \<Rightarrow> (case marshalGateway (libOf H) message of
          None \<Rightarrow> fail (Permanent ''encode_gateway'')
        | Some data \<Rightarrow> modify (\<lambda>w. w\<lparr>seen := (seen w)(gatewayMessageId message \<mapsto> sha256Sum (libOf H) data),
                                       seenOrder := seenOrder w @ [gatewayMessageId message]\<rparr>)))"

definition gatewayMessageDuplicate :: "host \<Rightarrow> gateway_message \<Rightarrow> bool handler" where
  "gatewayMessageDuplicate H message =
     (case refuseTestSecretDelivery message of
        Some e \<Rightarrow> fail e
      | None \<Rightarrow> bind (consult (clockAt H)) (\<lambda>now.
          case validateGatewayEnvelope (libOf H) message now of
            Some e \<Rightarrow> fail e
          | None \<Rightarrow> (case marshalGateway (libOf H) message of
              None \<Rightarrow> fail (Permanent ''encode_gateway'')
            | Some data \<Rightarrow>
                let dg = sha256Sum (libOf H) data
                in bind (get (\<lambda>w. seen w (gatewayMessageId message))) (\<lambda>previous.
                   case previous of
                     Some p \<Rightarrow> if p \<noteq> dg then fail (Permanent ''message_reused'') else ret True
                   | None \<Rightarrow>
                       andThen (modify (\<lambda>w.
                         let (table, order) = rememberIn (gatewayMessageId message) dg (seen w, seenOrder w)
                         in w\<lparr>seen := table, seenOrder := order\<rparr>)) (ret False)))))"

definition rememberSettledMessage :: "runner_message \<Rightarrow> job_phase \<Rightarrow> unit handler" where
  "rememberSettledMessage message p =
     (if runnerMessageId message = [] then ret ()
      else modify (\<lambda>w.
        let (table, order) = rememberIn (runnerMessageId message) \<lparr>settledMessage = message, settledPhase = p\<rparr>
                               (settledEvents w, settledEventOrder w)
        in w\<lparr>settledEvents := table, settledEventOrder := order\<rparr>))"

definition rememberSettledEvent :: "host \<Rightarrow> bytes \<Rightarrow> job_phase \<Rightarrow> unit handler" where
  "rememberSettledEvent H encoded p =
     (if encoded = [] then ret ()
      else (case unmarshalRunner (libOf H) encoded of None \<Rightarrow> ret () | Some message \<Rightarrow> rememberSettledMessage message p))"

definition rememberAcknowledgedHeartbeat :: "runner_message \<Rightarrow> unit handler" where
  "rememberAcknowledgedHeartbeat message =
     modify (\<lambda>w.
       let (table, order) = rememberIn (runnerMessageId message) message (acknowledgedHeartbeats w, acknowledgedHBOrder w)
       in w\<lparr>acknowledgedHeartbeats := table, acknowledgedHBOrder := order\<rparr>)"

definition clearPendingAcknowledged :: "host \<Rightarrow> runner_message \<Rightarrow> journal_job option \<Rightarrow> unit handler" where
  "clearPendingAcknowledged H pending act =
     andThen (clearPending H)
             (rememberSettledMessage pending (case act of None \<Rightarrow> PHASE_UNSPECIFIED | Some a \<Rightarrow> phase a))"

subsection \<open>Checks on reconciliations\<close>

definition jobPhaseRank :: "job_phase \<Rightarrow> nat" where
  "jobPhaseRank p =
     (case p of PHASE_ACCEPTED \<Rightarrow> 1 | PHASE_PREPARING \<Rightarrow> 2 | PHASE_RUNNING \<Rightarrow> 3 | PHASE_CANCELLING \<Rightarrow> 4 | _ \<Rightarrow> 0)"

definition validateReconciliation :: "lib \<Rightarrow> lease_reconciliation \<Rightarrow> string option" where
  "validateReconciliation L r =
     (case (recLease r, recAttempt r) of
        (Some l, Some a) \<Rightarrow>
          if recDisposition r \<noteq> DISPOSITION_APPLIED \<and> recDisposition r \<noteq> DISPOSITION_ALREADY_APPLIED
             \<and> recDisposition r \<noteq> DISPOSITION_STALE
          then Some ''disposition''
          else if \<not> (recStatus r \<in> {STATUS_OFFERED, STATUS_ACCEPTED, STATUS_ACTIVE, STATUS_COMPLETED, STATUS_CANCELLED,
                                    STATUS_EXPIRED, STATUS_RELEASED})
          then Some ''status''
          else if \<not> (recPhase r \<in> {PHASE_UNSPECIFIED, PHASE_ACCEPTED, PHASE_PREPARING, PHASE_RUNNING, PHASE_CANCELLING})
          then Some ''phase''
          else if \<not> validateTimestamp L (leaseExpiresAt l) then Some ''expiry''
          else if \<not> identity_uuids l a then Some ''identity''
          else if attemptNumber a = 0 \<or> attemptNumber a > maximumAttemptNumber then Some ''attempt''
          else if \<not> list_all (\<lambda>v. v = [] \<or> validateIdentifier v maximumIdentifierBytes)
                     [recTerminalMessageId r, recCancellationId r]
          then Some ''identifier''
          else if recCancellationId r \<noteq> [] \<and> recPhase r \<noteq> PHASE_CANCELLING then Some ''cancelling_phase''
          else if recPhase r = PHASE_CANCELLING \<and> recCancellationId r = [] \<and> \<not> terminalLeaseStatus (recStatus r)
          then Some ''cancellation_id''
          else if recCompleteLogUpload r \<noteq> None
                  \<and> (recStatus r \<noteq> STATUS_ACTIVE \<or> recPhase r = PHASE_CANCELLING \<or> recCancellationId r \<noteq> []
                     \<or> recTerminalMessageId r \<noteq> [])
          then Some ''upload''
          else None
      | _ \<Rightarrow> Some ''identity_required'')"

definition validatePendingReconciliation :: "runner_message \<Rightarrow> lease_reconciliation \<Rightarrow> journal_state \<Rightarrow> string option" where
  "validatePendingReconciliation pending r state =
     (if recDisposition r = DISPOSITION_STALE \<or> terminalLeaseStatus (recStatus r) then None
      else (case runnerPayload pending of
          Some (P_LeaseAccepted _) \<Rightarrow>
            if recStatus r \<noteq> STATUS_ACCEPTED \<or> recPhase r \<noteq> PHASE_ACCEPTED then Some ''accepted'' else None
        | Some (P_LeaseRejected _) \<Rightarrow> Some ''rejected''
        | Some (P_JobPreparing _) \<Rightarrow>
            if recStatus r \<noteq> STATUS_ACTIVE \<or> recPhase r \<noteq> PHASE_PREPARING then Some ''preparing'' else None
        | Some (P_JobStarted _) \<Rightarrow>
            if recStatus r \<noteq> STATUS_ACTIVE \<or> recPhase r \<noteq> PHASE_RUNNING then Some ''started'' else None
        | Some (P_LeaseRenewal _) \<Rightarrow>
            (case active state of
               None \<Rightarrow> Some ''renewal''
             | Some a \<Rightarrow> if recStatus r \<noteq> STATUS_ACTIVE \<or> recPhase r \<noteq> phase a
                            \<or> (recPhase r \<noteq> PHASE_PREPARING \<and> recPhase r \<noteq> PHASE_RUNNING)
                         then Some ''renewal'' else None)
        | Some (P_Completed _) \<Rightarrow> Some ''terminal'' | Some (P_Failed _) \<Rightarrow> Some ''terminal''
        | Some (P_Cancelled _) \<Rightarrow> Some ''terminal''
        | _ \<Rightarrow> Some ''unsupported''))"

definition validateSettledEventAcknowledgement :: "lib \<Rightarrow> settled_event \<Rightarrow> event_ack \<Rightarrow> string option" where
  "validateSettledEventAcknowledgement L settled ack =
     (case ackReconciliation ack of
        None \<Rightarrow> Some ''identity_required''
      | Some r \<Rightarrow>
          if validateReconciliation L r \<noteq> None then validateReconciliation L r
          else let (lease, attempt) = runnerMessageIdentity (settledMessage settled)
          in if \<not> sameLeaseAttempt lease attempt (recLease r) (recAttempt r) then Some ''identity''
             else if recDisposition r = DISPOSITION_STALE \<or> terminalLeaseStatus (recStatus r) then None
             else let regressed = (\<lambda>minimumPhase. if jobPhaseRank (recPhase r) < jobPhaseRank minimumPhase
                                                  then Some ''regressed'' else None)
             in (case runnerPayload (settledMessage settled) of
                   Some (P_LeaseRejected _) \<Rightarrow> Some ''terminal'' | Some (P_Completed _) \<Rightarrow> Some ''terminal''
                 | Some (P_Failed _) \<Rightarrow> Some ''terminal'' | Some (P_Cancelled _) \<Rightarrow> Some ''terminal''
                 | Some (P_LeaseAccepted _) \<Rightarrow>
                     if recStatus r \<noteq> STATUS_ACCEPTED \<and> recStatus r \<noteq> STATUS_ACTIVE then Some ''accepted''
                     else regressed PHASE_ACCEPTED
                 | Some (P_JobPreparing _) \<Rightarrow>
                     if recStatus r \<noteq> STATUS_ACTIVE then Some ''preparing'' else regressed PHASE_PREPARING
                 | Some (P_JobStarted _) \<Rightarrow>
                     if recStatus r \<noteq> STATUS_ACTIVE then Some ''started'' else regressed PHASE_RUNNING
                 | Some (P_LeaseRenewal _) \<Rightarrow>
                     if recStatus r \<noteq> STATUS_ACTIVE then Some ''renewal'' else regressed (settledPhase settled)
                 | _ \<Rightarrow> Some ''unsupported''))"

text \<open>
  \<open>applyAuthoritativeReconciliation\<close>: the closure changes the active job field by field and may fail at
  the end, after the lease and the phase are already assigned.
\<close>

definition authoritative :: "lib \<Rightarrow> lease_reconciliation \<Rightarrow> (journal_state, go_error, unit) proc" where
  "authoritative L r state =
     (case active state of
        None \<Rightarrow> (Inl (Plain ''active_changed''), state)
      | Some a \<Rightarrow>
          if \<not> activeMatchesIdentity L (Some a) (recLease r) (recAttempt r) then (Inl (Plain ''active_changed''), state)
          else (case (unmarshalJob L (specificationBytes a), recLease r) of
              (Some job, Some lease) \<Rightarrow>
                let expiry = asTime L (leaseExpiresAt lease);
                    (expiry1, lease1) = (if expiry < expiresAt a
                                         then (expiresAt a, lease\<lparr>leaseExpiresAt := Some (tsNew L (expiresAt a))\<rparr>)
                                         else (expiry, lease))
                in (case marshalJob L (job\<lparr>jobLease := Some lease1\<rparr>) of
                      None \<Rightarrow> (Inl (Plain ''marshal''), state)
                    | Some encoded \<Rightarrow>
                        let a1 = a\<lparr>specificationBytes := encoded, expiresAt := expiry1\<rparr>;
                            a2 = (if recPhase r \<noteq> PHASE_UNSPECIFIED \<and> jobPhaseRank (recPhase r) \<ge> jobPhaseRank (phase a1)
                                  then a1\<lparr>phase := recPhase r\<rparr> else a1)
                        in if recCancellationId r = [] then (Inr (), state\<lparr>active := Some a2\<rparr>)
                           else if cancellationID a2 \<noteq> [] \<and> cancellationID a2 \<noteq> recCancellationId r
                           then (Inl (Plain ''cancellation_changed''), state\<lparr>active := Some a2\<rparr>)
                           else (Inr (), state\<lparr>active := Some (a2\<lparr>cancellationID := recCancellationId r,
                                                                    phase := PHASE_CANCELLING\<rparr>)\<rparr>))
            | _ \<Rightarrow> (Inl (Plain ''unmarshal''), state)))"

definition applyAuthoritativeReconciliation :: "host \<Rightarrow> lease_reconciliation \<Rightarrow> unit handler" where
  "applyAuthoritativeReconciliation H r = journalUpdate H (authoritative (libOf H) r)"

definition acceptRestartCompleteLogUpload :: "host \<Rightarrow> stream \<Rightarrow> lease_reconciliation \<Rightarrow> time \<Rightarrow> unit handler" where
  "acceptRestartCompleteLogUpload H S r now =
     (case recCompleteLogUpload r of
        None \<Rightarrow> ret ()
      | Some upload \<Rightarrow>
          bind (get (\<lambda>w. (restartEvidence w, snapshot w))) (\<lambda>(store, state).
          if \<not> restartUploadRecovery S \<or> \<not> store \<or> authRunnerId (streamAuthenticated S) \<noteq> cfgRunnerID (cfg H)
          then fail (Permanent ''upload_stream'')
          else if \<not> activeMatchesIdentity (libOf H) (active state) (recLease r) (recAttempt r)
          then fail (Permanent ''upload_attempt'')
          else (case map_option specificationBytes (active state) of
              None \<Rightarrow> fail (Permanent ''upload_attempt'')
            | Some bytes \<Rightarrow>
                if (case unmarshalJob (libOf H) bytes of
                      None \<Rightarrow> True
                    | Some job \<Rightarrow> jobLease job \<noteq> recLease r \<or> jobAttempt job \<noteq> recAttempt r)
                then fail (Permanent ''upload_identity'')
                else let leaseExpires = asTime (libOf H) (case recLease r of None \<Rightarrow> None | Some l \<Rightarrow> leaseExpiresAt l)
                in if \<not> leaseExpires > now then fail (Permanent ''upload_lease_expired'')
                   else (case validateCompleteLogUpload (libOf H) (Some upload) now leaseExpires leaseExpires (objectUploadIdentity S) of
                       Inr (Some target) \<Rightarrow>
                         modify (\<lambda>w. w\<lparr>activeUpload :=
                           (case (recLease r, recAttempt r) of
                              (Some l, Some a) \<Rightarrow> Some \<lparr>upLeaseID = leaseId l, upAttemptID = attemptId a, upTarget = target, upRecovery = True\<rparr>
                            | _ \<Rightarrow> None)\<rparr>)
                     | _ \<Rightarrow> fail (Permanent ''upload_malformed'')))))"

subsection \<open>Secrets\<close>

definition refuseSecret :: "secret_request \<Rightarrow> unit handler" where
  "refuseSecret request = finishSecretRequest request None"

definition secretJob :: "host \<Rightarrow> journal_job \<Rightarrow> job_spec option" where
  "secretJob H a =
     (case unmarshalJob (libOf H) (specificationBytes a) of
        None \<Rightarrow> None
      | Some job \<Rightarrow>
          if testSecrets job = [] \<or> jobAttempt job = None
             \<or> (case jobLease job of None \<Rightarrow> True | Some l \<Rightarrow>
                  leaseExpiresAt l = None \<or> asTime (libOf H) (leaseExpiresAt l) \<noteq> expiresAt a)
             \<or> validateOfferJobCorrelation job (cfgExpectedScope (cfg H)) True \<noteq> None
             \<or> \<not> ValidateSelection (libOf H) job
          then None else Some job)"

definition secretRequestMessage :: "lib \<Rightarrow> string \<Rightarrow> time \<Rightarrow> job_spec \<Rightarrow> runner_message" where
  "secretRequestMessage L i now job =
     \<lparr>runnerMessageId = i, runnerSentAt = Some (tsNew L now),
      runnerPayload = Some (P_TestSecretsRequest (jobLease job) (jobAttempt job))\<rparr>"

definition nextEphemeral :: "64 word handler" where
  "nextEphemeral =
     andThen (modify (\<lambda>w. w\<lparr>ephemeralSequence := ephemeralSequence w + 1\<rparr>)) (get ephemeralSequence)"

definition requestSecret :: "host \<Rightarrow> stream \<Rightarrow> secret_request \<Rightarrow> job_spec \<Rightarrow> unit handler" where
  "requestSecret H S request job =
     bind nextEphemeral (\<lambda>sequence.
     if sequence = 0 \<or> sequence > maxInt64 then refuseSecret request
     else bind (consult (secretNonce H)) (\<lambda>nonce. bind (consult (clockAt H)) (\<lambda>now.
       let i = ''secret-'' @ nonce @ ''-'' @ hex_fixed 16 (unat (streamGeneration S)) @ ''-'' @ hex_fixed 16 (unat sequence);
           message = secretRequestMessage (libOf H) i now job
       in if sizeRunner (libOf H) message > maximumMessageBytes then refuseSecret request
          else andThen (modify (\<lambda>w. w\<lparr>pendingSecret := Some \<lparr>psWorker = request, psRequestID = i, psJob = job\<rparr>\<rparr>))
              (bind (tryProc (send H message)) (\<lambda>sending.
               case sending of
                 Inl e \<Rightarrow> andThen (modify (\<lambda>w. w\<lparr>pendingSecret := None\<rparr>)) (andThen (refuseSecret request) (fail e))
               | Inr _ \<Rightarrow> ret ())))))"

definition secretEvent :: "secret_request \<Rightarrow> worker_event" where
  "secretEvent request =
     \<lparr>weSecretRequest = Some request, weStart = None, weResult = None, weEvidence = None, weFinalEvidence = None,
      weFinalUsage = None\<rparr>"

definition beginSecretRequest :: "host \<Rightarrow> stream \<Rightarrow> secret_request \<Rightarrow> unit handler" where
  "beginSecretRequest H S request =
     bind (consult (requestExpired H)) (\<lambda>expired.
     bind (get (\<lambda>w. (reconciled w, pendingSecret w, snapshot w))) (\<lambda>(isReconciled, outstanding, state).
     if \<not> testSecretsV1 S \<or> \<not> jobCorrelationV1 S \<or> \<not> isReconciled \<or> expired
        \<or> srGeneration request \<noteq> streamGeneration S \<or> outstanding \<noteq> None
     then refuseSecret request
     else bind (consult (clockAt H)) (\<lambda>now.
       case active state of
         None \<Rightarrow> refuseSecret request
       | Some a \<Rightarrow>
           if phase a \<noteq> PHASE_PREPARING \<or> cancellationID a \<noteq> [] \<or> \<not> expiresAt a > now then refuseSecret request
           else if pendingMessage state \<noteq> [] then deferWorkerEvent (secretEvent request)
           else (case secretJob H a of None \<Rightarrow> refuseSecret request | Some job \<Rightarrow> requestSecret H S request job))))"

definition secretDeliverable :: "host \<Rightarrow> stream \<Rightarrow> pending_secret \<Rightarrow> clientSession \<Rightarrow> bool \<Rightarrow> time \<Rightarrow> gateway_message \<Rightarrow> bool" where
  "secretDeliverable H S pending w expired now message \<longleftrightarrow>
     testSecretsV1 S \<and> \<not> expired \<and> srGeneration (psWorker pending) = streamGeneration S \<and> reconciled w
     \<and> (case active (snapshot w) of
          None \<Rightarrow> False
        | Some a \<Rightarrow> cancellationID a = [] \<and> phase a = PHASE_PREPARING
            \<and> activeMatchesIdentity (libOf H) (Some a) (jobLease (psJob pending)) (jobAttempt (psJob pending))
            \<and> expiresAt a > now \<and> validateGatewayEnvelope (libOf H) message now = None
            \<and> (case unmarshalJob (libOf H) (specificationBytes a) of
                 None \<Rightarrow> False
               | Some current \<Rightarrow> (case (jobLease current, jobLease (psJob pending)) of
                   (Some l, Some pl) \<Rightarrow>
                     leaseExpiresAt l \<noteq> None \<and> asTime (libOf H) (leaseExpiresAt l) = expiresAt a
                     \<and> current = (psJob pending)\<lparr>jobLease := Some (pl\<lparr>leaseExpiresAt := leaseExpiresAt l\<rparr>)\<rparr>
                 | _ \<Rightarrow> False)))"

definition receiveSecretDelivery :: "host \<Rightarrow> stream \<Rightarrow> gateway_message \<Rightarrow> unit handler" where
  "receiveSecretDelivery H S message =
     bind (get pendingSecret) (\<lambda>outstanding.
     andThen (modify (\<lambda>w. w\<lparr>pendingSecret := None\<rparr>))
       (case outstanding of
          None \<Rightarrow> fail (Permanent ''unsolicited_delivery'')
        | Some pending \<Rightarrow>
            bind (consult (requestExpired H)) (\<lambda>expired. bind (consult (clockAt H)) (\<lambda>now. bind (get (\<lambda>w. w)) (\<lambda>w.
            bind (consult (sealDelivery H)) (\<lambda>seal.
            let refuse = andThen (finishSecretRequest (psWorker pending) None) (fail (Permanent ''delivery_refused''))
            in if \<not> secretDeliverable H S pending w expired now message then refuse
               else (case seal (psJob pending) (psRequestID pending) message of
                   None \<Rightarrow> refuse
                 | Some expiry \<Rightarrow>
                     if (case active (snapshot w) of None \<Rightarrow> False | Some a \<Rightarrow> expiry > expiresAt a) then refuse
                     else finishSecretRequest (psWorker pending) (Some expiry))))))))"

definition abandonSecretRequest :: "unit handler" where
  "abandonSecretRequest =
     bind (get pendingSecret) (\<lambda>outstanding.
     case outstanding of
       None \<Rightarrow> ret ()
     | Some pending \<Rightarrow> andThen (modify (\<lambda>w. w\<lparr>pendingSecret := None\<rparr>)) (finishSecretRequest (psWorker pending) None))"

subsection \<open>Live evidence (live\_evidence.go)\<close>

definition evidencePayload :: "worker_evidence \<Rightarrow> runner_payload option" where
  "evidencePayload event =
     (case evLogBatch event of
        Some batch \<Rightarrow> Some (P_LogBatch batch)
      | None \<Rightarrow> map_option P_Usage (evUsage event))"

definition sendLive :: "host \<Rightarrow> worker_evidence \<Rightarrow> unit handler" where
  "sendLive H event =
     bind (consult (clockAt H)) (\<lambda>now. bind nextEphemeral (\<lambda>sequence.
     if sequence = 0 \<or> sequence > maxInt64 then ret ()
     else (case evidencePayload event of
         None \<Rightarrow> ret ()
       | Some payload \<Rightarrow>
           let message = \<lparr>runnerMessageId = ''live-'' @ hex_fixed 16 (unat sequence), runnerSentAt = Some (tsNew (libOf H) now),
                          runnerPayload = Some payload\<rparr>
           in if sizeRunner (libOf H) message > maximumMessageBytes then ret () else send H message)))"

definition sendWorkerEvidence :: "host \<Rightarrow> stream \<Rightarrow> worker_evidence \<Rightarrow> unit handler" where
  "sendWorkerEvidence H S event =
     (if evGeneration event \<noteq> streamGeneration S then ret ()
      else bind (consult (clockAt H)) (\<lambda>now. bind (get (\<lambda>w. (active (snapshot w), cancellationFinalUsage w))) (\<lambda>(act, final).
        case act of
          None \<Rightarrow> ret ()
        | Some a \<Rightarrow>
            if \<not> expiresAt a > now \<or> \<not> activeMatchesIdentity (libOf H) (Some a) (evLease event) (evAttempt event) then ret ()
            else if cancellationID a = [] then sendLive H event
            else if \<not> evTerminal event \<or> evUsage event = None then ret ()
            else if sameLeaseAttempt (fst final) (snd final) (evLease event) (evAttempt event) then ret ()
            else andThen (modify (\<lambda>w. w\<lparr>cancellationFinalUsage := (evLease event, evAttempt event)\<rparr>)) (sendLive H event))))"

subsection \<open>Events of the worker\<close>

text \<open>Exactly one of the three terminal events for the result of the active job.\<close>

definition queueOutcome :: "host \<Rightarrow> stream \<Rightarrow> journal_job \<Rightarrow> exec_result \<Rightarrow> unit handler" where
  "queueOutcome H S a result =
     bind (consult (clockAt H)) (\<lambda>now.
     if cancellationID a \<noteq> [] then queueCancellation H S now (Some result)
     else if \<not> expiresAt a > now then bind (consult (clockAt H)) (\<lambda>later. queueLeaseExpired H S later)
     else queueResult H S result)"

definition handleResult :: "host \<Rightarrow> stream \<Rightarrow> worker_event \<Rightarrow> journal_job \<Rightarrow> exec_result \<Rightarrow> unit handler" where
  "handleResult H S event a result =
     (if cancellationID a \<noteq> [] \<and> cancellationDigest a = [] then deferWorkerEvent event
      else bind (tryProc (queueOutcome H S a result)) (\<lambda>outcome.
        bind (get (\<lambda>w. pendingMessage (snapshot w))) (\<lambda>pending.
        andThen (if pending \<noteq> [] then clearCompleteLogTarget
                 else (case outcome of Inl _ \<Rightarrow> deferWorkerEvent event | Inr _ \<Rightarrow> ret ()))
                (ofSum outcome))))"

definition handleStart :: "host \<Rightarrow> stream \<Rightarrow> nat \<Rightarrow> journal_state \<Rightarrow> journal_job \<Rightarrow> unit handler" where
  "handleStart H S ch state a =
     (if cancellationID a \<noteq> [] then replyStart ch (Some ContextCanceled)
      else (case activeIdentity (libOf H) state of
          Inl e \<Rightarrow> andThen (replyStart ch (Some e)) (fail e)
        | Inr (lease, attempt) \<Rightarrow>
            andThen (setStartResponse ch)
              (bind (consult (clockAt H)) (\<lambda>now.
               queueDurable H S (P_JobStarted \<lparr>startedLease = lease, startedAttempt = attempt,
                                               startedAtTime = tsNew (libOf H) now\<rparr>)
                 (journal_active (\<lambda>a. a\<lparr>phase := PHASE_RUNNING\<rparr>))))))"

text \<open>The part that runs for every result, whatever becomes of it.\<close>

definition workerFinished :: "host \<Rightarrow> stream \<Rightarrow> worker_event \<Rightarrow> exec_result \<Rightarrow> unit handler" where
  "workerFinished H S event result =
     andThen (case exCleanup result of Some (False, _) \<Rightarrow> Drain | _ \<Rightarrow> ret ())
    (andThen markWorkerStopped
    (andThen (case weFinalEvidence event of None \<Rightarrow> ret () | Some e \<Rightarrow> ignoring (sendWorkerEvidence H S e))
             (case weFinalUsage event of None \<Rightarrow> ret () | Some e \<Rightarrow> ignoring (sendWorkerEvidence H S e))))"

definition handleWorkerEvent :: "host \<Rightarrow> stream \<Rightarrow> worker_event \<Rightarrow> unit handler" where
  "handleWorkerEvent H S event =
     (case weSecretRequest event of
        Some request \<Rightarrow> beginSecretRequest H S request
      | None \<Rightarrow> (case weEvidence event of
          Some e \<Rightarrow> sendWorkerEvidence H S e
        | None \<Rightarrow>
            andThen (case weResult event of None \<Rightarrow> ret () | Some result \<Rightarrow> workerFinished H S event result)
              (bind (get (\<lambda>w. snapshot w)) (\<lambda>state.
               case active state of
                 None \<Rightarrow>
                   andThen (case weStart event of None \<Rightarrow> ret () | Some ch \<Rightarrow> replyStart ch (Some (Plain ''lease_inactive'')))
                           (if weResult event \<noteq> None then clearCompleteLogTarget else ret ())
               | Some a \<Rightarrow>
                   if pendingMessage state \<noteq> [] then deferWorkerEvent event
                   else (case weStart event of
                       Some ch \<Rightarrow> handleStart H S ch state a
                     | None \<Rightarrow> (case weResult event of
                         Some result \<Rightarrow> handleResult H S event a result
                       | None \<Rightarrow> fail (Plain ''empty_event'')))))))"

text \<open>\<open>drainDeferred\<close>, with a bound on the number of iterations.\<close>

fun drain_loop :: "nat \<Rightarrow> host \<Rightarrow> stream \<Rightarrow> unit handler" where
  "drain_loop 0 H S = fail OutOfFuel"
| "drain_loop (Suc n) H S =
     bind (get (\<lambda>w. pendingMessage (snapshot w))) (\<lambda>pending.
     if pending \<noteq> [] then ret ()
     else bind popDeferredWorkerEvent (\<lambda>event.
       case event of
         None \<Rightarrow> ret ()
       | Some e \<Rightarrow> andThen (handleWorkerEvent H S e) (drain_loop n H S)))"

definition drainDeferred :: "host \<Rightarrow> stream \<Rightarrow> unit handler" where
  "drainDeferred H S = drain_loop (fuel H) H S"

subsection \<open>Progress\<close>

definition stopAndFail :: "go_error \<Rightarrow> unit handler" where
  "stopAndFail e = andThen stopWorker (failStartResponse e)"

definition advance :: "host \<Rightarrow> stream \<Rightarrow> time \<Rightarrow> unit handler" where
  "advance H S now =
     bind (get (\<lambda>w. w)) (\<lambda>w0.
     let state = snapshot w0
     in (case active state of
           None \<Rightarrow> ret ()
         | Some a \<Rightarrow>
             if recovering w0 \<and> reconciled w0 \<and> pendingMessage state = [] then queueRestartFailure H S now
             else if cancellationID a \<noteq> []
             then andThen (stopAndFail ContextCanceled)
                    (if cancellationDigest a = [] \<or> pendingMessage state \<noteq> [] then ret ()
                     else bind (get (\<lambda>w. (workerRunning w, deferredWorkerEvents w))) (\<lambda>(running, deferred).
                       if running then ret ()
                       else if deferred \<noteq> [] then drainDeferred H S
                       else queueCancellation H S now None))
             else if \<not> expiresAt a > now
             then andThen (stopAndFail DeadlineExceeded)
                    (if pendingMessage state \<noteq> [] then ret ()
                     else bind (get workerRunning) (\<lambda>running.
                       if running then ret () else queueLeaseExpired H S now))
             else if pendingMessage state \<noteq> [] then ret ()
             else bind (networkAuthorityStopped H) (\<lambda>stopped.
               if stopped
               then bind (get (\<lambda>w. (workerRunning w, deferredWorkerEvents w))) (\<lambda>(running, deferred).
                      if running then ret ()
                      else if deferred \<noteq> [] then drainDeferred H S
                      else queueNetworkAuthorityFailure H S now)
               else if (phase a = PHASE_PREPARING \<or> phase a = PHASE_RUNNING)
                       \<and> time_sub (expiresAt a) now \<le> asDuration (libOf H) (authLeaseDuration (streamAuthenticated S)) div 2
               then queueRenewal H S now
               else drainDeferred H S)))"

subsection \<open>Acknowledgements\<close>

text \<open>The end of a lease that the gateway reports as terminal; \<open>remember\<close> keeps the event that was pending.\<close>

definition endLease :: "host \<Rightarrow> unit handler \<Rightarrow> unit handler" where
  "endLease H remember =
     andThen (stopAndFail (Plain ''lease_terminal''))
    (andThen (clearActive H)
    (andThen (modify (\<lambda>w. w\<lparr>recovering := False, activeUpload := None\<rparr>))
    (andThen remember
    (andThen (discardDeferred (Plain ''lease_terminal''))
             (ignoring (clearRestartEvidence H))))))"

definition applyLateReconciliation :: "host \<Rightarrow> stream \<Rightarrow> lease_reconciliation \<Rightarrow> time \<Rightarrow> unit handler" where
  "applyLateReconciliation H S r now =
     andThen (consumeNetworkAuthority H S r)
       (bind (get (\<lambda>w. snapshot w)) (\<lambda>state.
        case active state of
          None \<Rightarrow> if recCompleteLogUpload r \<noteq> None then fail (Permanent ''upload_attempt'') else ret ()
        | Some a \<Rightarrow>
            if \<not> activeMatchesIdentity (libOf H) (Some a) (recLease r) (recAttempt r)
            then (if recCompleteLogUpload r \<noteq> None then fail (Permanent ''upload_attempt'') else ret ())
            else andThen (acceptRestartCompleteLogUpload H S r now)
              (if terminalLeaseStatus (recStatus r)
               then endLease H (rememberSettledEvent H (pendingMessage state) (phase a))
               else if recCancellationId r \<noteq> []
               then andThen (applyAuthoritativeReconciliation H r) (stopAndFail ContextCanceled)
               else applyAuthoritativeReconciliation H r)))"

definition handleSettledEventAcknowledgement :: "host \<Rightarrow> stream \<Rightarrow> settled_event \<Rightarrow> event_ack \<Rightarrow> time \<Rightarrow> unit handler" where
  "handleSettledEventAcknowledgement H S settled ack now =
     (if validateSettledEventAcknowledgement (libOf H) settled ack \<noteq> None then fail (Permanent ''settled_conflict'')
      else (case ackReconciliation ack of
          None \<Rightarrow> fail (Permanent ''settled_conflict'')
        | Some r \<Rightarrow> andThen (applyLateReconciliation H S r now) (advance H S now)))"

definition terminalEvent :: "runner_message \<Rightarrow> bool" where
  "terminalEvent message =
     (case runnerPayload message of
        Some (P_Completed _) \<Rightarrow> True | Some (P_Failed _) \<Rightarrow> True | Some (P_Cancelled _) \<Rightarrow> True | _ \<Rightarrow> False)"

text \<open>After the pending event is cleared: a recovering client reports the restart, others go on with \<open>next\<close>.\<close>

definition unlessRecovering :: "host \<Rightarrow> stream \<Rightarrow> time \<Rightarrow> unit handler \<Rightarrow> unit handler" where
  "unlessRecovering H S now next =
     bind (get recovering) (\<lambda>isRecovering. if isRecovering then queueRestartFailure H S now else next)"

definition unlessCancelled :: "host \<Rightarrow> stream \<Rightarrow> time \<Rightarrow> unit handler \<Rightarrow> unit handler" where
  "unlessCancelled H S now next =
     bind (get (\<lambda>w. active (snapshot w))) (\<lambda>act.
     case act of
       None \<Rightarrow> fail (Panic ''nil active'')
     | Some a \<Rightarrow> if cancellationID a \<noteq> [] then advance H S now else next)"

definition acknowledgedEvent :: "host \<Rightarrow> stream \<Rightarrow> runner_message \<Rightarrow> journal_state \<Rightarrow> time \<Rightarrow> unit handler" where
  "acknowledgedEvent H S pending state now =
     (let clear = clearPendingAcknowledged H pending (active state)
      in (case runnerPayload pending of
            Some (P_LeaseAccepted _) \<Rightarrow>
              andThen clear (unlessRecovering H S now (unlessCancelled H S now (queuePreparing H S now)))
          | Some (P_JobPreparing _) \<Rightarrow>
              andThen clear (unlessRecovering H S now (unlessCancelled H S now (startWorker H)))
          | Some (P_JobStarted _) \<Rightarrow>
              andThen clear (unlessRecovering H S now (andThen (completeStartResponse None) (drainDeferred H S)))
          | Some (P_LeaseRenewal _) \<Rightarrow> andThen clear (unlessRecovering H S now (drainDeferred H S))
          | _ \<Rightarrow>
              if terminalEvent pending
              then andThen (modify (\<lambda>w. w\<lparr>recovering := False\<rparr>))
                  (andThen (stopAndFail (Plain ''job_terminal''))
                  (andThen (clearActive H)
                  (andThen clearCompleteLogTarget
                  (case active state of
                     None \<Rightarrow> fail (Panic ''nil active'')
                   | Some a \<Rightarrow>
                       andThen (rememberSettledMessage pending (phase a))
                      (andThen (discardDeferred (Plain ''job_terminal'')) (ignoring (clearRestartEvidence H)))))))
              else fail (Permanent ''pending_unsupported'')))"

definition acknowledgePending ::
  "host \<Rightarrow> stream \<Rightarrow> runner_message \<Rightarrow> lease_reconciliation \<Rightarrow> journal_state \<Rightarrow> time \<Rightarrow> unit handler" where
  "acknowledgePending H S pending r state now =
     (let matches = activeMatchesIdentity (libOf H) (active state) (recLease r) (recAttempt r);
          terminal = terminalLeaseStatus (recStatus r);
          clear = clearPendingAcknowledged H pending (active state)
      in if \<not> terminal \<and> recCancellationId r \<noteq> []
         then andThen (if matches then andThen (applyAuthoritativeReconciliation H r) (stopAndFail ContextCanceled) else ret ())
             (andThen clear (if matches then advance H S now else ret ()))
         else if terminal \<and> matches
         then endLease H (rememberSettledMessage pending (case active state of None \<Rightarrow> PHASE_UNSPECIFIED | Some a \<Rightarrow> phase a))
         else andThen (if matches then applyAuthoritativeReconciliation H r else ret ())
             (bind (if matches \<and> \<not> terminal then networkAuthorityStopped H else ret False) (\<lambda>stopped.
              if stopped \<and> \<not> terminalEvent pending then andThen clear (advance H S now)
              else if recDisposition r = DISPOSITION_STALE then andThen clear (reissueStaleEvent H S pending now)
              else if is_rejection pending \<or> terminal then clear
              else acknowledgedEvent H S pending state now)))"

definition handleEventAcknowledgement :: "host \<Rightarrow> stream \<Rightarrow> event_ack \<Rightarrow> time \<Rightarrow> unit handler" where
  "handleEventAcknowledgement H S ack now =
     (if \<not> validateTimestamp (libOf H) (ackCommittedAt ack) then fail (Permanent ''event_ack'')
      else if (case ackReconciliation ack of None \<Rightarrow> False | Some r \<Rightarrow> recCompleteLogUpload r \<noteq> None)
      then fail (Permanent ''event_ack_upload'')
      else bind (get (\<lambda>w. settledEvents w (ackRunnerMessageId ack))) (\<lambda>settled.
        case settled of
          Some event \<Rightarrow> handleSettledEventAcknowledgement H S event ack now
        | None \<Rightarrow> bind (get (\<lambda>w. snapshot w)) (\<lambda>state.
            if pendingMessage state = [] then fail (Permanent ''event_ack_no_pending'')
            else (case unmarshalRunner (libOf H) (pendingMessage state) of
                None \<Rightarrow> fail (Permanent ''decode_pending'')
              | Some pending \<Rightarrow>
                  if ackRunnerMessageId ack \<noteq> runnerMessageId pending then fail (Permanent ''event_ack_mismatch'')
                  else (case ackReconciliation ack of
                      None \<Rightarrow> fail (Permanent ''event_ack_reconciliation'')
                    | Some r \<Rightarrow>
                        if validateReconciliation (libOf H) r \<noteq> None then fail (Permanent ''event_ack_reconciliation'')
                        else if \<not> sameLeaseAttempt (fst (runnerMessageIdentity pending)) (snd (runnerMessageIdentity pending))
                                   (recLease r) (recAttempt r)
                        then fail (Permanent ''event_ack_identity'')
                        else if validatePendingReconciliation pending r state \<noteq> None then fail (Permanent ''event_ack_state'')
                        else andThen (consumeNetworkAuthority H S r) (acknowledgePending H S pending r state now))))))"

subsection \<open>Heartbeats\<close>

definition heartbeatOf :: "runner_message \<Rightarrow> 64 word \<times> heartbeat_lease list" where
  "heartbeatOf message =
     (case runnerPayload message of Some (P_Heartbeat h) \<Rightarrow> (hbSequence h, hbActiveLeases h) | _ \<Rightarrow> (0, []))"

fun reconcileLeases ::
  "host \<Rightarrow> stream \<Rightarrow> time \<Rightarrow> (lease_reconciliation option \<times> heartbeat_lease) list \<Rightarrow> unit handler" where
  "reconcileLeases H S now [] = ret ()"
| "reconcileLeases H S now ((reconciliation, expected) # rest) =
     (case reconciliation of
        None \<Rightarrow> fail (Permanent ''heartbeat_ack_reconciliation'')
      | Some r \<Rightarrow>
          if validateReconciliation (libOf H) r \<noteq> None then fail (Permanent ''heartbeat_ack_reconciliation'')
          else if \<not> sameLeaseAttempt (hbLease expected) (hbAttempt expected) (recLease r) (recAttempt r)
          then fail (Permanent ''heartbeat_ack_identity'')
          else andThen (applyLateReconciliation H S r now) (reconcileLeases H S now rest))"

definition handleHeartbeatAcknowledgement :: "host \<Rightarrow> stream \<Rightarrow> heartbeat_ack \<Rightarrow> time \<Rightarrow> unit handler" where
  "handleHeartbeatAcknowledgement H S ack now =
     (if \<not> validateTimestamp (libOf H) (hbAckCommittedAt ack) then fail (Permanent ''heartbeat_ack'')
      else bind (get (\<lambda>w. (sessionHeartbeat w, acknowledgedHeartbeats w (hbAckRunnerMessageId ack)))) (\<lambda>(outstanding, earlier).
        let current = (case outstanding of None \<Rightarrow> False | Some m \<Rightarrow> hbAckRunnerMessageId ack = runnerMessageId m)
        in (case (if current then outstanding else earlier) of
              None \<Rightarrow> fail (Permanent ''heartbeat_ack_unknown'')
            | Some message \<Rightarrow>
                if hbAckSequence ack \<noteq> fst (heartbeatOf message) then fail (Permanent ''heartbeat_ack_sequence'')
                else if length (hbAckReconciliations ack) \<noteq> length (snd (heartbeatOf message))
                then fail (Permanent ''heartbeat_ack_cardinality'')
                else andThen (reconcileLeases H S now (zip (hbAckReconciliations ack) (snd (heartbeatOf message))))
                    (andThen
                      (if current
                       then andThen (journalUpdate H (modify (\<lambda>state. state\<lparr>pendingHeartbeat := []\<rparr>)))
                           (andThen (modify (\<lambda>w. w\<lparr>sessionHeartbeat := None, heartbeatDeferred := False\<rparr>))
                                    (rememberAcknowledgedHeartbeat message))
                       else ret ())
                    (andThen (modify (\<lambda>w. w\<lparr>reconciled := True\<rparr>)) (advance H S now))))))"

definition heartbeatLeases :: "lib \<Rightarrow> journal_state \<Rightarrow> go_error + heartbeat_lease list" where
  "heartbeatLeases L state =
     (case active state of
        None \<Rightarrow> Inr []
      | Some a \<Rightarrow>
          if pendingMessage state \<noteq> [] then Inr []
          else (case unmarshalJob L (specificationBytes a) of
              None \<Rightarrow> Inl (Plain ''unmarshal'')
            | Some job \<Rightarrow> Inr [\<lparr>hbLease = jobLease job, hbAttempt = jobAttempt job, hbPhase = phase a\<rparr>]))"

definition journalHeartbeat :: "bytes \<Rightarrow> (journal_state, go_error, unit) proc" where
  "journalHeartbeat encoded =
     bind (get pendingHeartbeat) (\<lambda>previous.
     if previous \<noteq> [] then fail (Plain ''unacknowledged_heartbeat'')
     else modify (\<lambda>state. state\<lparr>pendingHeartbeat := encoded\<rparr>))"

text \<open>A new heartbeat is journaled before it is sent; an unacknowledged one is sent again.\<close>

definition newHeartbeat :: "host \<Rightarrow> time \<Rightarrow> unit handler" where
  "newHeartbeat H observedAt =
     bind (get (\<lambda>w. snapshot w)) (\<lambda>state.
     bind (ofSum (heartbeatLeases (libOf H) state)) (\<lambda>leases.
     bind (heartbeatMessage H observedAt leases) (\<lambda>message.
     case marshalRunner (libOf H) message of
       None \<Rightarrow> fail (Plain ''marshal'')
     | Some encoded \<Rightarrow>
         andThen (journalUpdate H (journalHeartbeat encoded))
        (andThen (modify (\<lambda>w. w\<lparr>sessionHeartbeat := Some message, heartbeatDeferred := False\<rparr>)) (send H message)))))"

definition loadHeartbeat :: "host \<Rightarrow> unit handler" where
  "loadHeartbeat H =
     bind (get (\<lambda>w. (sessionHeartbeat w, pendingHeartbeat (snapshot w)))) (\<lambda>(outstanding, journaled).
     if outstanding = None \<and> journaled \<noteq> []
     then (case unmarshalRunner (libOf H) journaled of
             None \<Rightarrow> fail (Plain ''unmarshal'')
           | Some message \<Rightarrow> modify (\<lambda>w. w\<lparr>sessionHeartbeat := Some message\<rparr>))
     else ret ())"

definition sendHeartbeat :: "host \<Rightarrow> time \<Rightarrow> unit handler" where
  "sendHeartbeat H observedAt =
     andThen (loadHeartbeat H)
       (bind (get (\<lambda>w. (sessionHeartbeat w, pendingMessage (snapshot w)))) (\<lambda>(outstanding, pending).
        case outstanding of
          None \<Rightarrow> newHeartbeat H observedAt
        | Some message \<Rightarrow>
            if pending \<noteq> [] \<and> snd (heartbeatOf message) \<noteq> [] then modify (\<lambda>w. w\<lparr>heartbeatDeferred := True\<rparr>)
            else andThen (modify (\<lambda>w. w\<lparr>heartbeatDeferred := False\<rparr>)) (send H message)))"

subsection \<open>Commands of the gateway\<close>

definition recordCancellation :: "lib \<Rightarrow> cancel_command \<Rightarrow> bytes \<Rightarrow> (journal_state, go_error, unit) proc" where
  "recordCancellation L c dg =
     journal_active (\<lambda>a. a\<lparr>cancellationID := cancelCancellationId c, cancellationDeadline := asTime L (cancelDeadline c),
                           cancellationDigest := dg, phase := PHASE_CANCELLING\<rparr>)"

definition handleCancellation :: "host \<Rightarrow> stream \<Rightarrow> cancel_command \<Rightarrow> time \<Rightarrow> unit handler" where
  "handleCancellation H S c now =
     (if cancelLease c = None \<or> cancelAttempt c = None then fail (Permanent ''cancel_identity'')
      else if \<not> validateIdentifier (cancelCancellationId c) maximumIdentifierBytes then fail (Permanent ''cancel_id'')
      else if length (cancelReason c) > maximumReasonBytes \<or> \<not> validateTimestamp (libOf H) (cancelDeadline c)
      then fail (Permanent ''cancel_invalid'')
      else bind (get (\<lambda>w. active (snapshot w))) (\<lambda>act.
        if \<not> activeMatchesIdentity (libOf H) act (cancelLease c) (cancelAttempt c) then fail (Permanent ''cancel_unmatched'')
        else (case (act, marshalCancel (libOf H) c) of
            (Some a, Some encoded) \<Rightarrow>
              let dg = sha256Sum (libOf H) encoded
              in if cancellationID a \<noteq> [] \<and> \<not> (cancellationID a = cancelCancellationId c \<and> cancellationDigest a = [])
                 then (if cancellationID a = cancelCancellationId c \<and> cancellationDigest a = dg
                       then andThen (stopAndFail ContextCanceled) (advance H S now)
                       else fail (Permanent ''cancel_conflict''))
                 else andThen (journalUpdate H (recordCancellation (libOf H) c dg))
                     (andThen (stopAndFail ContextCanceled) (advance H S now))
          | _ \<Rightarrow> fail (Plain ''marshal''))))"

definition offerIdentity :: "lease_offer \<Rightarrow> lease_identity option \<times> attempt_identity option" where
  "offerIdentity offer = (case offerJob offer of None \<Rightarrow> (None, None) | Some job \<Rightarrow> (jobLease job, jobAttempt job))"

definition rejectOffer :: "host \<Rightarrow> stream \<Rightarrow> lease_offer \<Rightarrow> rejection_reason \<Rightarrow> string \<Rightarrow> unit handler" where
  "rejectOffer H S offer reason summary =
     (let (lease, attempt) = offerIdentity offer
      in if lease = None \<or> attempt = None then fail (Permanent ''reject_identity'')
         else queueDurable H S (P_LeaseRejected
                \<lparr>rejectedLease = lease, rejectedAttempt = attempt, rejectedReason = reason,
                 rejectedSummary = boundedSummary summary\<rparr>) (ret ()))"

definition offerNetworkV2 :: "lease_offer \<Rightarrow> network_policy_v2 option" where
  "offerNetworkV2 offer = (case offerJob offer of None \<Rightarrow> None | Some job \<Rightarrow> jobNetworkV2 job)"

text \<open>The offer check of \<open>handleOffer\<close>: the configuration's secret switch is what the stream negotiated.\<close>

definition offerTimeoutsExceed :: "lib \<Rightarrow> lease_offer \<Rightarrow> effective_policy \<Rightarrow> bool" where
  "offerTimeoutsExceed L offer maximum =
     (case offerJob offer of
        None \<Rightarrow> False
      | Some job \<Rightarrow> (case jobPolicy job of
          None \<Rightarrow> False
        | Some p \<Rightarrow> asDuration L (preparationTimeout p) > asDuration L (preparationTimeout maximum)
                   \<or> asDuration L (executionTimeout p) > asDuration L (executionTimeout maximum)
                   \<or> asDuration L (gracefulShutdownTimeout p) > asDuration L (gracefulShutdownTimeout maximum)))"

definition offerRejection :: "host \<Rightarrow> stream \<Rightarrow> lease_offer \<Rightarrow> time \<Rightarrow> offer_rejection option" where
  "offerRejection H S offer now =
     (let c = (cfg H)\<lparr>cfgEnableTestSecrets := testSecretsV1 S\<rparr>;
          leaseDuration = asDuration (libOf H) (authLeaseDuration (streamAuthenticated S))
      in if offerNetworkV2 offer \<noteq> None
         then (case networkMaximum S of
             None \<Rightarrow> Some (rejectUnsupported ''network_v2_unavailable'' ''maximum'')
           | Some maximum \<Rightarrow>
               if \<not> terminalEvidenceV2 S then Some (rejectUnsupported ''network_v2_unavailable'' ''maximum'')
               else orElse (validateNetworkV2Offer (libOf H) offer c now leaseDuration (networkFeatures S) (policyNetworkV2 maximum))
                      (if offerTimeoutsExceed (libOf H) offer maximum
                       then Some (rejectPolicy ''timeout_exceeds_capacity'' ''root maximum'') else None))
         else validateOffer (libOf H) offer c now leaseDuration (jobCorrelationV1 S) (objectUploadIdentity S))"

definition rejectionSummary :: "offer_rejection \<Rightarrow> string" where
  "rejectionSummary r = rejectCode r @ '': '' @ rejectMessage r"

definition acceptActive :: "journal_job \<Rightarrow> (journal_state, go_error, unit) proc" where
  "acceptActive job =
     bind (get (\<lambda>state. state)) (\<lambda>state.
     if active state \<noteq> None \<or> pendingMessage state \<noteq> [] then fail (Plain ''became_busy'')
     else modify (\<lambda>state. state\<lparr>active := Some job\<rparr>))"

definition acceptOffer ::
  "host \<Rightarrow> stream \<Rightarrow> string \<Rightarrow> bytes \<Rightarrow> job_spec \<Rightarrow> complete_log_target option \<Rightarrow> time \<Rightarrow> unit handler" where
  "acceptOffer H S messageID dg job target now =
     (case marshalJob (libOf H) (job\<lparr>completeLogUpload := None\<rparr>) of
        None \<Rightarrow> fail (Plain ''marshal'')
      | Some encoded \<Rightarrow>
          andThen (mapError (\<lambda>_. Permanent ''restart_evidence'') (beginRestartEvidence H))
         (bind (tryProc (queueDurable H S (P_LeaseAccepted
                  \<lparr>acceptedLease = jobLease job, acceptedAttempt = jobAttempt job, acceptedAt = tsNew (libOf H) now\<rparr>)
                  (acceptActive \<lparr>specificationBytes = encoded, offerMessageID = messageID, offerDigest = dg,
                     activeCorrelationV1 = jobCorrelationV1 S, activeEvidenceV2 = terminalEvidenceV2 S, phase = PHASE_ACCEPTED,
                     expiresAt = asTime (libOf H) (case jobLease job of None \<Rightarrow> None | Some l \<Rightarrow> leaseExpiresAt l),
                     cancellationID = [], cancellationDeadline = 0, cancellationDigest = []\<rparr>))) (\<lambda>outcome.
          bind (get (\<lambda>w. active (snapshot w))) (\<lambda>act.
          case (outcome, act) of
            (Inl e, None) \<Rightarrow> andThen (ignoring (clearRestartEvidence H)) (fail e)
          | _ \<Rightarrow>
              andThen (if activeMatchesIdentity (libOf H) act (jobLease job) (jobAttempt job)
                       then setTarget (Some job) target False else clearCompleteLogTarget)
                      (ofSum outcome)))))"

text \<open>An offer while a lease is active, or while the worker of the previous lease is still being cleaned up.\<close>

definition offerWhileBusy :: "host \<Rightarrow> stream \<Rightarrow> string \<Rightarrow> bytes \<Rightarrow> lease_offer \<Rightarrow> journal_job option \<Rightarrow> unit handler" where
  "offerWhileBusy H S messageID dg offer act =
     (case act of
        None \<Rightarrow> rejectOffer H S offer REASON_AT_CAPACITY ''at_capacity: prior lease cleanup is still running''
      | Some a \<Rightarrow>
          if activeMatchesIdentity (libOf H) (Some a) (fst (offerIdentity offer)) (snd (offerIdentity offer))
             \<and> unmarshalJob (libOf H) (specificationBytes a) = None
          then fail (Permanent ''decode_active'')
          else if activeMatchesIdentity (libOf H) (Some a) (fst (offerIdentity offer)) (snd (offerIdentity offer))
             \<and> map_option jobCorrelation (unmarshalJob (libOf H) (specificationBytes a))
               \<noteq> Some (case offerJob offer of None \<Rightarrow> None | Some job \<Rightarrow> jobCorrelation job)
          then fail (Permanent ''correlation_changed'')
          else if offerMessageID a = messageID \<and> offerDigest a = dg then replayPending H S
          else rejectOffer H S offer REASON_AT_CAPACITY ''at_capacity: runner already has an active lease'')"

definition handleOffer :: "host \<Rightarrow> stream \<Rightarrow> gateway_message \<Rightarrow> lease_offer \<Rightarrow> time \<Rightarrow> unit handler" where
  "handleOffer H S envelope offer now =
     (case marshalGateway (libOf H) envelope of
        None \<Rightarrow> fail (Plain ''marshal'')
      | Some encoded \<Rightarrow>
          let dg = sha256Sum (libOf H) encoded
          in bind (get (\<lambda>w. w)) (\<lambda>w0.
             let state = snapshot w0
             in if active state \<noteq> None \<or> workerRunning w0
                then offerWhileBusy H S (gatewayMessageId envelope) dg offer (active state)
                else if pendingMessage state \<noteq> [] then fail (Permanent ''unacknowledged_rejection'')
                else if draining w0 then rejectOffer H S offer REASON_DRAINING ''draining: runner is draining''
                else if remoteWorker H = None
                then rejectOffer H S offer REASON_UNSUPPORTED ''worker_unavailable: remote execution is unavailable''
                else (case (offerRejection H S offer now, offerJob offer) of
                    (Some r, _) \<Rightarrow> rejectOffer H S offer (rejectReason r) (rejectionSummary r)
                  | (None, None) \<Rightarrow> fail (Panic ''nil job'')
                  | (None, Some job) \<Rightarrow>
                      (case validateCompleteLogUpload (libOf H) (completeLogUpload job) now (asTime (libOf H) (offerExpiresAt offer))
                              (asTime (libOf H) (case jobLease job of None \<Rightarrow> None | Some l \<Rightarrow> leaseExpiresAt l))
                              (objectUploadIdentity S) of
                         Inl r \<Rightarrow> rejectOffer H S offer (rejectReason r) (rejectionSummary r)
                       | Inr target \<Rightarrow> acceptOffer H S (gatewayMessageId envelope) dg job target now))))"

definition controlInvalid :: "lib \<Rightarrow> control_command \<Rightarrow> bool" where
  "controlInvalid L c \<longleftrightarrow>
     \<not> validateIdentifier (controlId c) maximumIdentifierBytes \<or> length (controlReason c) > maximumReasonBytes
     \<or> \<not> validateTimestamp L (controlDeadline c)"

definition handleGatewayMessage :: "host \<Rightarrow> stream \<Rightarrow> gateway_message \<Rightarrow> time \<Rightarrow> unit handler" where
  "handleGatewayMessage H S message now =
     (case gatewayPayload message of
        Some (G_TestSecretsDelivery _) \<Rightarrow> fail (Permanent ''unsolicited_delivery'')
      | Some (G_Offer offer) \<Rightarrow> handleOffer H S message offer now
      | Some (G_Cancel c) \<Rightarrow> handleCancellation H S c now
      | Some (G_EventAck ack) \<Rightarrow> handleEventAcknowledgement H S ack now
      | Some (G_HeartbeatAck ack) \<Rightarrow> handleHeartbeatAcknowledgement H S ack now
      | Some (G_Drain c) \<Rightarrow>
          if controlInvalid (libOf H) c then fail (Permanent ''drain_invalid'')
          else andThen Drain (sendHeartbeat H now)
      | Some (G_Shutdown c) \<Rightarrow>
          if controlInvalid (libOf H) c then fail (Permanent ''shutdown_invalid'') else fail ServerShutdown
      | Some (G_Authenticated _) \<Rightarrow> fail (Permanent ''authenticated_again'')
      | Some G_PolicyUpdate \<Rightarrow> fail (Permanent ''policy_update'')
      | Some (G_CredentialRotation rotation) \<Rightarrow> handleCredentialRotation H rotation now
      | _ \<Rightarrow> fail (Permanent ''payload_unsupported''))"

end
