(* ===== verification/Connection.thy ===== *)
theory Connection
  imports Session
begin

section \<open>Connections\<close>

text \<open>
  \<open>client.go\<close>: opening a stream (\<open>runSession\<close> up to its loop), one turn of the loop, the end of a stream, the
  reconnect loop \<open>Run\<close>, and the restart of the process (\<open>newClientWithWorker\<close>).
  The first answer of the gateway and every later event is an argument.
\<close>

subsection \<open>Errors that reconnect\<close>

definition transient :: "go_error \<Rightarrow> bool" where
  "transient e =
     (case e of
        CredentialRotationReconnect \<Rightarrow> True
      | HostedSessionRenewal \<Rightarrow> True
      | StreamEOF \<Rightarrow> True
      | NetworkFailure temporary \<Rightarrow> temporary
      | DeadlineExceeded \<Rightarrow> True
      | StreamStatus code \<Rightarrow> code = 14 \<or> code = 4
      | _ \<Rightarrow> False)"

text \<open>
  \<open>sessionExpiration\<close>: how long the stream may last, and whether its end is a renewal.
\<close>

definition sessionExpiration :: "bytes \<Rightarrow> duration \<Rightarrow> duration \<times> bool" where
  "sessionExpiration secret remaining =
     (if has_prefix secret ''phc_v1_'' \<and> remaining > 2 * minute then (remaining - minute, True) else (remaining, False))"

subsection \<open>Opening a stream\<close>

definition streamOf :: "host \<Rightarrow> authenticated \<Rightarrow> protocol_feature list \<Rightarrow> 64 word \<Rightarrow> stream" where
  "streamOf H a features gen =
     \<lparr>networkFeatures = features, networkMaximum = measuredMaximum H,
      testSecretsV1 = advertisedFeature features FEATURE_TEST_SECRETS_V1, streamAuthenticated = a,
      jobCorrelationV1 = advertisedFeature features FEATURE_JOB_CORRELATION_V1,
      restartUploadRecovery = advertisedFeature features FEATURE_RESTART_UPLOAD_RECOVERY,
      objectUploadIdentity = advertisedFeature features FEATURE_OBJECT_UPLOAD_IDENTITY,
      terminalEvidenceV1 = advertisedFeature features FEATURE_TERMINAL_EVIDENCE_V1,
      terminalEvidenceV2 = advertisedFeature features FEATURE_TERMINAL_EVIDENCE_V2, streamGeneration = gen\<rparr>"

definition newSession :: "clientSession \<Rightarrow> clientSession" where
  "newSession w =
     w\<lparr>seen := (\<lambda>_. None), seenOrder := [], sessionHeartbeat := None, reconciled := False, settledEvents := (\<lambda>_. None),
       settledEventOrder := [], acknowledgedHeartbeats := (\<lambda>_. None), acknowledgedHBOrder := [], heartbeatDeferred := False,
       cancellationFinalUsage := (None, None), pendingSecret := None\<rparr>"

definition payloadFeatures :: "runner_message \<Rightarrow> protocol_feature list" where
  "payloadFeatures message = (case runnerPayload message of Some (P_Capabilities caps) \<Rightarrow> capFeatures caps | _ \<Rightarrow> [])"

text \<open>The handshake: authenticate, check the answer, close a credential rotation, advertise.\<close>

definition handshake :: "host \<Rightarrow> gateway_message \<Rightarrow> (stream \<times> time) handler" where
  "handshake H first =
     bind (authenticateMessage H) (\<lambda>authenticate. andThen (send H authenticate)
       (case refuseTestSecretDelivery first of
          Some e \<Rightarrow> fail e
        | None \<Rightarrow> bind (consult (clockAt H)) (\<lambda>now.
            bind (ofSum (validateAuthenticated H first now)) (\<lambda>a.
            andThen (modify (\<lambda>w. w\<lparr>activeUpload := clearRecoveryCompleteLogTarget (activeUpload w)\<rparr>))
           (andThen (mapError (\<lambda>_. Permanent ''rotation_reconnect'') (reconcileCredentialRotationAfterAuthentication H))
           (andThen (modify (\<lambda>w. w\<lparr>sessionGeneration := sessionGeneration w + 1\<rparr>))
           (bind (get sessionGeneration) (\<lambda>gen.
            bind (capabilitiesMessage H) (\<lambda>message. andThen (send H message)
              (ret (streamOf H a (payloadFeatures message) gen, now)))))))))))"

text \<open>What a new stream repeats: the pending event and the heartbeat.\<close>

definition resume :: "host \<Rightarrow> stream \<Rightarrow> gateway_message \<Rightarrow> time \<Rightarrow> unit handler" where
  "resume H S first now =
     andThen (rememberGatewayMessage H first)
    (andThen
      (bind (get (\<lambda>w. pendingMessage (snapshot w))) (\<lambda>pending.
       if pending = [] then ret ()
       else (case unmarshalRunner (libOf H) pending of
           None \<Rightarrow> fail (Permanent ''decode_pending'')
         | Some message \<Rightarrow> sendRetained H S message)))
      (sendHeartbeat H now))"

subsection \<open>The loop and the end of a stream\<close>

datatype session_event = HeartbeatTick time | MaintenanceTick | FromWorker worker_event | FromGateway gateway_message

definition isDelivery :: "gateway_message \<Rightarrow> bool" where
  "isDelivery message = (case gatewayPayload message of Some (G_TestSecretsDelivery _) \<Rightarrow> True | _ \<Rightarrow> False)"

definition receiveMessage :: "host \<Rightarrow> stream \<Rightarrow> gateway_message \<Rightarrow> unit handler" where
  "receiveMessage H S message =
     (if isDelivery message \<and> testSecretsV1 S then receiveSecretDelivery H S message
      else bind (gatewayMessageDuplicate H message) (\<lambda>duplicate.
        if duplicate then ret ()
        else bind (consult (clockAt H)) (\<lambda>now.
          andThen (handleGatewayMessage H S message now)
            (bind (get (\<lambda>w. (heartbeatDeferred w, pendingMessage (snapshot w)))) (\<lambda>(deferred, pending).
             if deferred \<and> pending = [] then bind (consult (clockAt H)) (\<lambda>later. sendHeartbeat H later) else ret ())))))"

definition handleEvent :: "host \<Rightarrow> stream \<Rightarrow> session_event \<Rightarrow> unit handler" where
  "handleEvent H S event =
     (case event of
        HeartbeatTick tick \<Rightarrow> andThen (sendHeartbeat H tick) (advance H S tick)
      | MaintenanceTick \<Rightarrow> bind (consult (clockAt H)) (\<lambda>now. advance H S now)
      | FromWorker worker \<Rightarrow> handleWorkerEvent H S worker
      | FromGateway message \<Rightarrow> receiveMessage H S message)"

definition endSession :: "stream \<Rightarrow> unit handler" where
  "endSession S =
     andThen (stopNetworkAuthority (streamGeneration S))
    (andThen (stopSecretWorker (streamGeneration S)) abandonSecretRequest)"

subsection \<open>Restart of the process\<close>

text \<open>
  \<open>newClientWithWorker\<close> on the journal that is on disk: everything in memory is new; what had left the old process
  stays recorded. The credential and the presence of an evidence store are what the files hold.
\<close>

definition newClient :: "journal \<Rightarrow> bytes \<Rightarrow> bool \<Rightarrow> clientSession \<Rightarrow> clientSession" where
  "newClient j secret store w =
     newSession (w\<lparr>clientJournal := j, credential := secret, draining := False, workerRunning := False, workerCancel := False,
       workerGuard := None, workerNetworkGeneration := 0, workerSecretCancel := False, workerSecretGeneration := 0,
       startResponse := None, recovering := (active (jState j) \<noteq> None), sessionGeneration := 0, ephemeralSequence := 0,
       activeUpload := None, restartEvidence := store, deferredWorkerEvents := [], workerCancelled := False\<rparr>)"

subsection \<open>The life of a runner\<close>

text \<open>
  A runner is connected, between two connections, or its process is gone. A session that ends with a transient
  error leaves the process running. A process may be gone at any moment; because every outcome of a write
  or a send is possible at each tick, this covers the moments inside a handler.
\<close>

datatype connection = Connected stream | Disconnected | Halted

definition afterError :: "go_error \<Rightarrow> connection" where
  "afterError e = (if transient e then Disconnected else Halted)"

inductive runner_step :: "host \<Rightarrow> connection \<times> clientSession \<Rightarrow> connection \<times> clientSession \<Rightarrow> bool" for H :: host where
  step_refused: "handshake H first w = (Inl e, w') \<Longrightarrow> runner_step H (Disconnected, w) (afterError e, w')"
| step_resumed:
    "handshake H first w = (Inr (S, now), w1) \<Longrightarrow> resume H S first now (newSession w1) = (Inr (), w') \<Longrightarrow>
     runner_step H (Disconnected, w) (Connected S, w')"
| step_not_resumed:
    "handshake H first w = (Inr (S, now), w1) \<Longrightarrow> resume H S first now (newSession w1) = (Inl e, w2) \<Longrightarrow>
     runner_step H (Disconnected, w) (afterError e, snd (endSession S w2))"
| step_event: "handleEvent H S event w = (Inr (), w') \<Longrightarrow> runner_step H (Connected S, w) (Connected S, w')"
| step_failed:
    "handleEvent H S event w = (Inl e, w1) \<Longrightarrow> runner_step H (Connected S, w) (afterError e, snd (endSession S w1))"
| step_stream_lost: "runner_step H (Connected S, w) (afterError e, snd (endSession S w))"
| step_crash: "runner_step H (c, w) (Halted, w)"
| step_restart: "reopen (jenv H) (clientJournal w) = Inr j \<Longrightarrow> runner_step H (Halted, w) (Disconnected, newClient j secret store w)"

subsection \<open>The reconnect loop\<close>

definition initialReconnectDelay :: duration where "initialReconnectDelay = 250 * millisecond"
definition maximumReconnectDelay :: duration where "maximumReconnectDelay = 30 * second"

text \<open>\<open>sanitizeStreamError\<close>; the gRPC code of an error that carries none is 2 (unknown).\<close>

definition sanitizeStreamError :: "go_error \<Rightarrow> go_error" where
  "sanitizeStreamError e =
     (case e of
        Permanent m \<Rightarrow> Permanent m
      | ServerShutdown \<Rightarrow> ServerShutdown
      | StreamStatus code \<Rightarrow> if code \<noteq> 0 then StreamStatus code else Plain ''gateway_stream_stopped''
      | _ \<Rightarrow> StreamStatus 2)"

text \<open>
  \<open>Run\<close> on the results of its sessions: whether each was established, its error, whether the context was done when it
  returned, and whether the wait after it was interrupted. The value is the list of delays it waits, and how it ends.
\<close>

record session_result =
  wasEstablished :: bool
  sessionError :: "go_error option"
  contextDone :: bool
  waitInterrupted :: bool

datatype run_end = RunReturned "go_error option" | RunContinues

definition nextDelay :: "duration \<Rightarrow> duration" where
  "nextDelay delay =
     (if delay < maximumReconnectDelay
      then (if delay * 2 > maximumReconnectDelay then maximumReconnectDelay else delay * 2) else delay)"

fun run_loop :: "duration \<Rightarrow> session_result list \<Rightarrow> duration list \<times> run_end" where
  "run_loop delay [] = ([], RunContinues)"
| "run_loop delay (r # rest) =
     (case sessionError r of
        None \<Rightarrow> ([], RunReturned None)
      | Some e \<Rightarrow>
          if contextDone r then ([], RunReturned (Some ContextCanceled))
          else if \<not> transient e then ([], RunReturned (Some (sanitizeStreamError e)))
          else if e = CredentialRotationReconnect \<or> e = HostedSessionRenewal then run_loop initialReconnectDelay rest
          else let waited = (if wasEstablished r then initialReconnectDelay else delay)
               in if waitInterrupted r then ([waited], RunReturned (Some ContextCanceled))
                  else let (delays, outcome) = run_loop (nextDelay waited) rest in (waited # delays, outcome))"

definition Run :: "session_result list \<Rightarrow> duration list \<times> run_end" where
  "Run results = run_loop initialReconnectDelay results"

end
