(* ===== verification/Calculus.thy ===== *)
theory Calculus
  imports Prelude
begin

section \<open>Triples for procedures\<close>

text \<open>
  \<open>triple P m Q X\<close>: from a state with \<open>P\<close> the procedure ends in \<open>Q\<close>, or fails in \<open>X\<close>. \<open>guards I J m\<close>
  is the case of an invariant with a weaker condition on failure. The rules follow the structure of a procedure, so that
  a handler is reduced to its primitive steps by \<open>rule\<close> and \<open>intro\<close>.
\<close>

named_theorems triple_rules \<open>rules for the structure of procedures\<close>

definition triple ::
  "('w \<Rightarrow> bool) \<Rightarrow> ('w, 'e, 'a) proc \<Rightarrow> ('a \<Rightarrow> 'w \<Rightarrow> bool) \<Rightarrow> ('e \<Rightarrow> 'w \<Rightarrow> bool) \<Rightarrow> bool" where
  "triple P m Q X \<longleftrightarrow> (\<forall>w. P w \<longrightarrow> (case m w of (Inl e, w') \<Rightarrow> X e w' | (Inr x, w') \<Rightarrow> Q x w'))"

abbreviation guards :: "('w \<Rightarrow> bool) \<Rightarrow> ('e \<Rightarrow> 'w \<Rightarrow> bool) \<Rightarrow> ('w, 'e, 'a) proc \<Rightarrow> bool" where
  "guards I J m \<equiv> triple I m (\<lambda>_. I) J"

lemma tripleI:
  "(\<And>w x w'. P w \<Longrightarrow> m w = (Inr x, w') \<Longrightarrow> Q x w') \<Longrightarrow> (\<And>w e w'. P w \<Longrightarrow> m w = (Inl e, w') \<Longrightarrow> X e w') \<Longrightarrow> triple P m Q X"
  by (auto simp: triple_def split: prod.split sum.split)

lemma triple_Inr: "triple P m Q X \<Longrightarrow> P w \<Longrightarrow> m w = (Inr x, w') \<Longrightarrow> Q x w'"
  by (auto simp: triple_def dest: spec [of _ w])

lemma triple_Inl: "triple P m Q X \<Longrightarrow> P w \<Longrightarrow> m w = (Inl e, w') \<Longrightarrow> X e w'"
  by (auto simp: triple_def dest: spec [of _ w])

lemma triple_sndI: "(\<And>w. P w \<Longrightarrow> Q (snd (m w))) \<Longrightarrow> triple P m (\<lambda>_. Q) (\<lambda>_. Q)"
  by (rule tripleI) (metis snd_conv)+

lemma triple_snd: "triple P m (\<lambda>_. Q) (\<lambda>_. Q) \<Longrightarrow> P w \<Longrightarrow> Q (snd (m w))"
  by (cases "m w"; cases "fst (m w)") (auto dest: triple_Inr triple_Inl)

lemma triple_conseq:
  "triple P m Q X \<Longrightarrow> (\<And>w. P' w \<Longrightarrow> P w) \<Longrightarrow> (\<And>x w. Q x w \<Longrightarrow> Q' x w) \<Longrightarrow> (\<And>e w. X e w \<Longrightarrow> X' e w) \<Longrightarrow> triple P' m Q' X'"
  by (rule tripleI) (blast dest: triple_Inr, blast dest: triple_Inl)

lemma triple_ret [triple_rules]: "(\<And>w. P w \<Longrightarrow> Q x w) \<Longrightarrow> triple P (ret x) Q X"
  by (simp add: triple_def ret_def)

lemma triple_fail [triple_rules]: "(\<And>w. P w \<Longrightarrow> X e w) \<Longrightarrow> triple P (fail e) Q X"
  by (simp add: triple_def fail_def)

lemma triple_get: "(\<And>w. P w \<Longrightarrow> Q (f w) w) \<Longrightarrow> triple P (get f) Q X"
  by (simp add: triple_def get_def)

lemma triple_modify [triple_rules]: "(\<And>w. P w \<Longrightarrow> Q () (f w)) \<Longrightarrow> triple P (modify f) Q X"
  by (simp add: triple_def modify_def)

lemma triple_ofSum [triple_rules]:
  "(\<And>w x. P w \<Longrightarrow> r = Inr x \<Longrightarrow> Q x w) \<Longrightarrow> (\<And>w e. P w \<Longrightarrow> r = Inl e \<Longrightarrow> X e w) \<Longrightarrow> triple P (ofSum r) Q X"
  by (auto simp: triple_def ofSum_def split: sum.split)

lemma triple_bind: "triple P m R X \<Longrightarrow> (\<And>x. triple (R x) (f x) Q X) \<Longrightarrow> triple P (bind m f) Q X"
  by (fastforce simp: triple_def bind_def split: prod.splits sum.splits)

lemma triple_andThen: "triple P m R X \<Longrightarrow> (\<And>x. triple (R x) k Q X) \<Longrightarrow> triple P (andThen m k) Q X"
  unfolding andThen_def by (rule triple_bind)

text \<open>A read: the rest may use what was read.\<close>

lemma triple_read: "(\<And>x. triple (\<lambda>w. P w \<and> f w = x) (k x) Q X) \<Longrightarrow> triple P (bind (get f) k) Q X"
  by (simp add: triple_def bind_def get_def)

lemma triple_tryProc:
  assumes "triple P m (\<lambda>x. Q (Inr x)) (\<lambda>e. Q (Inl e))"
  shows "triple P (tryProc m) Q X"
proof (rule tripleI)
  fix w x w'
  assume w: "P w" and t: "tryProc m w = (Inr x, w')"
  show "Q x w'"
  proof (cases x)
    case (Inl e)
    with t have "m w = (Inl e, w')" by (simp add: tryProc_def prod_eq_iff)
    then show ?thesis using triple_Inl [OF assms w] Inl by simp
  next
    case (Inr y)
    with t have "m w = (Inr y, w')" by (simp add: tryProc_def prod_eq_iff)
    then show ?thesis using triple_Inr [OF assms w] Inr by simp
  qed
qed (simp add: tryProc_def)

lemma triple_ignoring:
  assumes "triple P m (\<lambda>_. Q ()) (\<lambda>_. Q ())"
  shows "triple P (ignoring m) Q X"
proof (rule tripleI)
  fix w x w'
  assume w: "P w" and t: "ignoring m w = (Inr x, w')"
  then have "m w = (fst (m w), w')" by (simp add: ignoring_def prod_eq_iff)
  then show "Q x w'"
    using triple_Inl [OF assms w] triple_Inr [OF assms w] by (cases "fst (m w)") auto
qed (simp add: ignoring_def)

lemma triple_mapError: "triple P m Q (\<lambda>e. X (g e)) \<Longrightarrow> triple P (mapError g m) Q X"
  by (fastforce simp: triple_def mapError_def split: prod.splits sum.splits)

lemma triple_if [triple_rules]:
  "(b \<Longrightarrow> triple P m Q X) \<Longrightarrow> (\<not> b \<Longrightarrow> triple P k Q X) \<Longrightarrow> triple P (if b then m else k) Q X"
  by simp

lemma triple_option [triple_rules]:
  "(v = None \<Longrightarrow> triple P m Q X) \<Longrightarrow> (\<And>x. v = Some x \<Longrightarrow> triple P (f x) Q X)
   \<Longrightarrow> triple P (case v of None \<Rightarrow> m | Some x \<Rightarrow> f x) Q X"
  by (cases v) auto

lemma triple_sum [triple_rules]:
  "(\<And>e. v = Inl e \<Longrightarrow> triple P (f e) Q X) \<Longrightarrow> (\<And>x. v = Inr x \<Longrightarrow> triple P (g x) Q X)
   \<Longrightarrow> triple P (case v of Inl e \<Rightarrow> f e | Inr x \<Rightarrow> g x) Q X"
  by (cases v) auto

lemma triple_prod [triple_rules]:
  "(\<And>x y. v = (x, y) \<Longrightarrow> triple P (f x y) Q X) \<Longrightarrow> triple P (case v of (x, y) \<Rightarrow> f x y) Q X"
  by (cases v) auto

lemma triple_Let [triple_rules]: "(\<And>x. x = v \<Longrightarrow> triple P (f x) Q X) \<Longrightarrow> triple P (let x = v in f x) Q X"
  by simp

subsection \<open>Invariants\<close>

lemma guards_get [triple_rules]: "guards I J (get f)"
  by (simp add: triple_def get_def)

lemma guards_bind [triple_rules]: "guards I J m \<Longrightarrow> (\<And>x. guards I J (f x)) \<Longrightarrow> guards I J (bind m f)"
  by (rule triple_bind)

lemma guards_andThen [triple_rules]: "guards I J m \<Longrightarrow> guards I J k \<Longrightarrow> guards I J (andThen m k)"
  by (rule triple_andThen)

lemma guards_keeps: "guards I (\<lambda>_. I) m \<longleftrightarrow> keeps I m"
proof -
  have "(case m w of (Inl e, w') \<Rightarrow> I w' | (Inr x, w') \<Rightarrow> I w') \<longleftrightarrow> I (snd (m w))" for w
    by (cases "m w"; cases "fst (m w)") auto
  then show ?thesis
    by (simp add: triple_def keeps_def)
qed

lemma guards_keepsD: "guards I (\<lambda>_. I) m \<Longrightarrow> I w \<Longrightarrow> I (snd (m w))"
  by (simp add: guards_keeps keepsD)

lemma guards_weaken: "guards I (\<lambda>_. I) m \<Longrightarrow> (\<And>e w. I w \<Longrightarrow> J e w) \<Longrightarrow> guards I J m"
  by (rule triple_conseq)

lemma triple_keeps: "keeps I m \<Longrightarrow> (\<And>w. P w \<Longrightarrow> I w) \<Longrightarrow> triple P m (\<lambda>_. I) (\<lambda>_. I)"
  unfolding guards_keeps [symmetric] by (erule triple_conseq) auto

lemma triple_both:
  "keeps I m \<Longrightarrow> keeps K m \<Longrightarrow> (\<And>e w. I w \<Longrightarrow> J e w)
   \<Longrightarrow> triple (\<lambda>w. I w \<and> K w) m (\<lambda>_ w. I w \<and> K w) J"
  by (rule tripleI) (metis keepsD snd_conv)+

lemma guards_tryProc: "guards I (\<lambda>_. I) m \<Longrightarrow> guards I J (tryProc m)"
  by (rule triple_tryProc)

lemma guards_ignoring: "guards I (\<lambda>_. I) m \<Longrightarrow> guards I J (ignoring m)"
  by (rule triple_ignoring)

end
