(* ===== verification/SessionRules.thy ===== *)
theory SessionRules
  imports Connection Calculus
begin

section \<open>What every handler keeps\<close>

text \<open>
  The interface between the session and a property of it. A property \<open>I\<close> of session states that survives the primitive
  steps (the \<open>assumes\<close> of the locales) survives every handler; on a failure it may weaken to \<open>J\<close>.
  \<open>control_property\<close> is about the operations that leave the journal alone, \<open>quiet_session\<close> covers the handlers that neither accept a lease nor start a worker, \<open>session_property\<close> all of them,
  \<open>process_property\<close> also new streams, and \<open>runner_property\<close> restarts. The lemmas are proved once here and used for each property.
\<close>

text \<open>The fields that a property may talk about; the others are scratch.\<close>

definition core where
  "core w =
     (clientJournal w, draining w, workerRunning w, startResponse w, recovering w, deferredWorkerEvents w,
      (sent w, startReplies w, launches w),
      (seen w, seenOrder w), (settledEvents w, settledEventOrder w), (acknowledgedHeartbeats w, acknowledgedHBOrder w),
      sessionHeartbeat w)"

definition quiet_payload :: "runner_payload \<Rightarrow> bool" where
  "quiet_payload p = (case p of P_LeaseAccepted _ \<Rightarrow> False | P_JobPreparing _ \<Rightarrow> False | _ \<Rightarrow> True)"

text \<open>What \<open>handleCancellation\<close> checks before it records a cancellation.\<close>

definition cancellable :: "cancel_command \<Rightarrow> journal_state \<Rightarrow> bool" where
  "cancellable c s =
     (case active s of
        None \<Rightarrow> False
      | Some a \<Rightarrow> cancellationID a = [] \<or> (cancellationID a = cancelCancellationId c \<and> cancellationDigest a = []))"

lemma guards_of_keeps: "keeps I m \<Longrightarrow> (\<And>e w. I w \<Longrightarrow> J e w) \<Longrightarrow> guards I J m"
  using guards_weaken guards_keeps by blast

lemma update_returns: "update E f j = (Inr x, j') \<Longrightarrow> f (jState j) = (Inr x, jState j')"
  by (auto simp: update_def Let_def dest: persistLocked_state' split: prod.splits sum.splits option.splits)

lemma journalUpdate_returns: "journalUpdate H f w = (Inr x, w') \<Longrightarrow> f (snapshot w) = (Inr x, snapshot w')"
  by (auto simp: journalUpdate_def onJournal_def dest: update_returns split: prod.splits)

text \<open>After an update the state is the one before, or the one the closure left.\<close>

lemma update_states: "jState (snd (update E f j)) = jState j \<or> jState (snd (update E f j)) = snd (f (jState j))"
  by (auto simp: update_def Let_def dest: persistLocked_state' split: prod.splits sum.splits option.splits)

lemma onJournal_update_states:
  "\<exists>j. snd (onJournal (update (jenv H) f) w) = w\<lparr>clientJournal := j\<rparr> \<and> (jState j = snapshot w \<or> jState j = snd (f (snapshot w)))"
  using update_states [of "jenv H" f "clientJournal w"] by (auto simp: onJournal_def split_beta)

locale control_property =
  fixes I :: "clientSession \<Rightarrow> bool"
  assumes scratch: "I w \<Longrightarrow> core w' = core w \<Longrightarrow> I w'"
    and drain: "I w \<Longrightarrow> I (w\<lparr>draining := True\<rparr>)"
    and stopped: "I w \<Longrightarrow> I (w\<lparr>workerRunning := False\<rparr>)"
    and start_channel: "I w \<Longrightarrow> I (w\<lparr>startResponse := r\<rparr>)"
    and start_refused: "I w \<Longrightarrow> I (w\<lparr>startReplies := startReplies w @ [(ch, Some e)]\<rparr>)"
    and deferring: "I w \<Longrightarrow> I (w\<lparr>deferredWorkerEvents := events\<rparr>)"
begin

lemma keeps_scratch: "(\<And>w. core (f w) = core w) \<Longrightarrow> keeps I (modify f)"
  by (rule keeps_modify) (rule scratch)

lemma k_consult [keeps_rules]: "keeps I (consult f)"
  by (rule keepsI) (auto simp: consult_def core_def elim!: scratch)

lemma k_Drain [keeps_rules]: "keeps I Drain"
  unfolding Drain_def by (rule keeps_modify) (rule drain)

lemma k_stopNetworkAuthority [keeps_rules]: "keeps I (stopNetworkAuthority gen)"
  unfolding stopNetworkAuthority_def by (rule keeps_scratch) (simp add: core_def)

lemma k_stopWorker [keeps_rules]: "keeps I stopWorker"
  unfolding stopWorker_def by (intro keeps_rules keeps_scratch) (simp add: core_def)

lemma k_stopSecretWorker [keeps_rules]: "keeps I (stopSecretWorker gen)"
  unfolding stopSecretWorker_def by (rule keeps_scratch) (simp add: core_def)

lemma k_markWorkerStopped [keeps_rules]: "keeps I markWorkerStopped"
  unfolding markWorkerStopped_def
  by (rule keeps_modify) (erule stopped [THEN scratch], simp add: core_def)

lemma k_replyStart [keeps_rules]: "keeps I (replyStart ch (Some e))"
  unfolding replyStart_def by (rule keeps_modify) (rule start_refused)

lemma k_setStartResponse [keeps_rules]: "keeps I (setStartResponse ch)"
  unfolding setStartResponse_def by (rule keeps_modify) (rule start_channel)

lemma k_failStartResponse [keeps_rules]: "keeps I (failStartResponse e)"
  unfolding failStartResponse_def completeStartResponse_def
  by (intro keeps_rules keeps_modify start_channel)

lemma k_finishSecretRequest [keeps_rules]: "keeps I (finishSecretRequest r v)"
  unfolding finishSecretRequest_def by (rule keeps_scratch) (simp add: core_def)

lemma k_deferWorkerEvent [keeps_rules]: "keeps I (deferWorkerEvent event)"
  unfolding deferWorkerEvent_def by (rule keeps_modify) (rule deferring)

lemma k_popDeferredWorkerEvent [keeps_rules]: "keeps I popDeferredWorkerEvent"
  by (rule keepsI) (auto simp: popDeferredWorkerEvent_def deferring split: list.split)

lemma k_takeDeferredWorkerEvents [keeps_rules]: "keeps I takeDeferredWorkerEvents"
  by (rule keepsI) (auto simp: takeDeferredWorkerEvents_def deferring)

lemma k_discardEvents [keeps_rules]: "keeps I (discardEvents reason events)"
  by (induction events) (auto simp: discardEvent_def intro!: keeps_rules)

lemma k_discardDeferred [keeps_rules]: "keeps I (discardDeferred reason)"
  unfolding discardDeferred_def by (intro keeps_rules)

lemma k_setTarget [keeps_rules]: "keeps I (setTarget job target b)"
  unfolding setTarget_def by (rule keeps_scratch) (simp add: core_def)

lemma k_clearCompleteLogTarget [keeps_rules]: "keeps I clearCompleteLogTarget"
  unfolding clearCompleteLogTarget_def by (rule keeps_scratch) (simp add: core_def)

lemma k_beginRestartEvidence [keeps_rules]: "keeps I (beginRestartEvidence H)"
  unfolding beginRestartEvidence_def by (intro keeps_rules keeps_scratch) (simp add: core_def)

lemma k_clearRestartEvidence [keeps_rules]: "keeps I (clearRestartEvidence H)"
  unfolding clearRestartEvidence_def by (intro keeps_rules keeps_scratch) (simp add: core_def)

lemma k_networkAuthorityStopped [keeps_rules]: "keeps I (networkAuthorityStopped H)"
  unfolding networkAuthorityStopped_def by (intro keeps_rules keeps_scratch) (simp_all add: core_def)

lemma k_newGuard [keeps_rules]: "keeps I (newGuard H job)"
  unfolding newGuard_def by (intro keeps_rules keeps_scratch) (simp_all add: core_def)

lemma k_guardFor [keeps_rules]: "keeps I (guardFor H job)"
  unfolding guardFor_def by (intro keeps_rules keeps_scratch) (simp_all add: core_def)

lemma k_consumeNetworkAuthority [keeps_rules]: "keeps I (consumeNetworkAuthority H S r)"
  unfolding consumeNetworkAuthority_def reconcileGuard_def
  by (intro keeps_rules keeps_scratch) (auto simp: core_def intro!: keeps_rules keeps_scratch split: guard_outcome.split)

lemma k_nextEphemeral [keeps_rules]: "keeps I nextEphemeral"
  unfolding nextEphemeral_def by (intro keeps_rules keeps_scratch) (simp add: core_def)

lemma k_stopAndFail [keeps_rules]: "keeps I (stopAndFail e)"
  unfolding stopAndFail_def by (intro keeps_rules)

lemma k_acceptRestartCompleteLogUpload [keeps_rules]: "keeps I (acceptRestartCompleteLogUpload H S r now)"
  unfolding acceptRestartCompleteLogUpload_def
  by (intro keeps_rules keeps_scratch) (auto simp: core_def split: sum.split option.split intro!: keeps_rules keeps_scratch)

end

locale quiet_session = control_property I
  for I :: "clientSession \<Rightarrow> bool" +
  fixes H :: host
    and J :: "go_error \<Rightarrow> clientSession \<Rightarrow> bool"
  assumes failing: "I w \<Longrightarrow> J e w"
    and recovered_idle: "I w \<Longrightarrow> active (snapshot w) = None \<Longrightarrow> I (w\<lparr>recovering := False\<rparr>)"
    and seeing: "I w \<Longrightarrow> rememberIn k d (seen w, seenOrder w) = (td, ks) \<Longrightarrow> I (w\<lparr>seen := td, seenOrder := ks\<rparr>)"
    and settling: "I w \<Longrightarrow> rememberIn k s (settledEvents w, settledEventOrder w) = (ts, ks)
                   \<Longrightarrow> I (w\<lparr>settledEvents := ts, settledEventOrder := ks\<rparr>)"
    and beating: "I w \<Longrightarrow> rememberIn k b (acknowledgedHeartbeats w, acknowledgedHBOrder w) = (tb, ks)
                  \<Longrightarrow> I (w\<lparr>acknowledgedHeartbeats := tb, acknowledgedHBOrder := ks\<rparr>)"
    and beat_done: "I w \<Longrightarrow> I (w\<lparr>sessionHeartbeat := None\<rparr>)"
    and sending: "\<not> durableRunnerMessage m \<Longrightarrow> keeps I (send H m)"
    and heartbeat: "keeps I (sendHeartbeat H t)"
    and numbering: "keeps I (onJournal (nextMessageSequence (jenv H)))"
    and queueing: "quiet_payload p \<Longrightarrow> mutate = ret () \<or> mutate = journal_active (phase_update (\<lambda>_. PHASE_RUNNING))
                   \<Longrightarrow> keeps I (queueDurable H S p mutate)"
    and replaying: "keeps I (replayPending H S)"
    and clearing: "keeps I (clearPending H)"
    and ending: "keeps I (clearActive H)"
    and reconciling: "guards I J (applyAuthoritativeReconciliation H rec)"
    and cancelling: "triple (\<lambda>w. I w \<and> cancellable c (snapshot w)) (journalUpdate H (recordCancellation (libOf H) c dg)) (\<lambda>_. I) (\<lambda>_. I)"
    and beat_acknowledged: "keeps I (journalUpdate H (modify (\<lambda>state. state\<lparr>pendingHeartbeat := []\<rparr>)))"
    and rotating: "keeps I (journalUpdate H (recordRotation metadata))"
    and committing: "keeps I (journalUpdate H (commitRotation runner metadata now))"
begin

lemma k_runnerMessage [keeps_rules]: "keeps I (runnerMessage H)"
  unfolding runnerMessage_def by (intro keeps_rules numbering)

lemma k_queueDurable [keeps_rules]: "quiet_payload p \<Longrightarrow> keeps I (queueDurable H S p (ret ()))"
  by (rule queueing) simp_all

lemma quiet_resultEvent [simp]:
  "quiet_payload (resultEvent H identity result proof t1 t2 log)" "quiet_payload (uploadFailedEvent H identity result proof t2)"
  by (simp_all add: quiet_payload_def resultEvent_def uploadFailedEvent_def Let_def)

lemma quiet_simps [simp]:
  "quiet_payload (P_Failed f)" "quiet_payload (P_Cancelled c)" "quiet_payload (P_LeaseRenewal n)"
  "quiet_payload (P_LeaseRejected j)" "quiet_payload (P_JobStarted s)"
  by (simp_all add: quiet_payload_def)

lemma k_activeIdentityNow [keeps_rules]: "keeps I (activeIdentityNow H)"
  unfolding activeIdentityNow_def by (intro keeps_rules)

lemma k_queueRenewal [keeps_rules]: "keeps I (queueRenewal H S now)"
  unfolding queueRenewal_def by (intro keeps_rules) simp

lemma k_queueLeaseExpired [keeps_rules]: "keeps I (queueLeaseExpired H S now)"
  unfolding queueLeaseExpired_def by (intro keeps_rules) simp

lemma k_queueCancellation [keeps_rules]: "keeps I (queueCancellation H S now result)"
  unfolding queueCancellation_def by (intro keeps_rules) simp

lemma k_queueNetworkAuthorityFailure [keeps_rules]: "keeps I (queueNetworkAuthorityFailure H S now)"
  unfolding queueNetworkAuthorityFailure_def by (intro keeps_rules keeps_scratch) (simp_all add: core_def)

lemma k_uploadLog [keeps_rules]: "keeps I (uploadLog H target log)"
  unfolding uploadLog_def by (intro keeps_rules)

lemma k_queueResult [keeps_rules]: "keeps I (queueResult H S result)"
  unfolding queueResult_def by (intro keeps_rules) simp_all

lemma k_queueRestartFailure [keeps_rules]: "keeps I (queueRestartFailure H S now)"
  unfolding queueRestartFailure_def queueRestartFailureWithoutEvidence_def by (intro keeps_rules) simp_all

lemma k_sendLive [keeps_rules]: "keeps I (sendLive H event)"
  unfolding sendLive_def Let_def
  by (intro keeps_rules sending)
     (auto simp: durableRunnerMessage_def evidencePayload_def split: option.splits)

lemma k_sendWorkerEvidence [keeps_rules]: "keeps I (sendWorkerEvidence H S event)"
  unfolding sendWorkerEvidence_def by (intro keeps_rules keeps_scratch) (simp add: core_def)

lemma k_beginSecretRequest [keeps_rules]: "keeps I (beginSecretRequest H S request)"
  unfolding beginSecretRequest_def requestSecret_def refuseSecret_def Let_def
  by (intro keeps_rules keeps_scratch sending)
     (simp_all add: core_def durableRunnerMessage_def secretRequestMessage_def)

lemma k_receiveSecretDelivery [keeps_rules]: "keeps I (receiveSecretDelivery H S message)"
  unfolding receiveSecretDelivery_def Let_def by (intro keeps_rules keeps_scratch) (simp_all add: core_def)

lemma k_abandonSecretRequest [keeps_rules]: "keeps I abandonSecretRequest"
  unfolding abandonSecretRequest_def by (intro keeps_rules keeps_scratch) (simp_all add: core_def)

lemma k_handleResult [keeps_rules]: "keeps I (handleResult H S event a result)"
  unfolding handleResult_def queueOutcome_def by (intro keeps_rules)

lemma k_handleStart [keeps_rules]: "keeps I (handleStart H S ch state a)"
  unfolding handleStart_def by (intro keeps_rules queueing) simp_all

lemma k_workerFinished [keeps_rules]: "keeps I (workerFinished H S event result)"
  unfolding workerFinished_def by (intro keeps_rules) (auto intro!: keeps_rules split: bool.split)

lemma k_handleWorkerEvent [keeps_rules]: "keeps I (handleWorkerEvent H S event)"
  unfolding handleWorkerEvent_def by (intro keeps_rules)

lemma k_drain_loop [keeps_rules]: "keeps I (drain_loop n H S)"
  by (induction n) (auto intro!: keeps_rules)

lemma k_drainDeferred [keeps_rules]: "keeps I (drainDeferred H S)"
  unfolding drainDeferred_def by (rule k_drain_loop)

lemma k_advance [keeps_rules]: "keeps I (advance H S now)"
  unfolding advance_def by (intro keeps_rules)

lemma k_rememberSettledMessage [keeps_rules]: "keeps I (rememberSettledMessage m p)"
  unfolding rememberSettledMessage_def
  by (intro keeps_rules keeps_modify) (auto intro: settling split: prod.split)

lemma k_rememberSettledEvent [keeps_rules]: "keeps I (rememberSettledEvent H b p)"
  unfolding rememberSettledEvent_def by (intro keeps_rules)

lemma k_rememberAcknowledgedHeartbeat [keeps_rules]: "keeps I (rememberAcknowledgedHeartbeat m)"
  unfolding rememberAcknowledgedHeartbeat_def
  by (intro keeps_rules keeps_modify) (auto intro: beating split: prod.split)

lemma k_gatewayMessageDuplicate [keeps_rules]: "keeps I (gatewayMessageDuplicate H message)"
  unfolding gatewayMessageDuplicate_def
  by (intro keeps_rules keeps_modify) (auto intro: seeing split: prod.split)

lemma k_clearPendingAcknowledged [keeps_rules]: "keeps I (clearPendingAcknowledged H m act)"
  unfolding clearPendingAcknowledged_def by (intro keeps_rules clearing)

lemma k_rejectOffer [keeps_rules]: "keeps I (rejectOffer H S offer reason summary)"
  unfolding rejectOffer_def by (intro keeps_rules) simp

lemma k_offerWhileBusy [keeps_rules]: "keeps I (offerWhileBusy H S i dg offer act)"
  unfolding offerWhileBusy_def by (intro keeps_rules replaying)

lemma k_handleCancellation [keeps_rules]: "keeps I (handleCancellation H S c now)"
proof -
  have again: "keeps I (andThen (stopAndFail ContextCanceled) (advance H S now))"
    by (intro keeps_rules)
  have "triple (\<lambda>w. I w \<and> active (snapshot w) = Some a)
      (andThen (journalUpdate H (recordCancellation (libOf H) c dg)) (andThen (stopAndFail ContextCanceled) (advance H S now)))
      (\<lambda>_. I) (\<lambda>_. I)"
    if "\<not> (cancellationID a \<noteq> [] \<and> \<not> (cancellationID a = cancelCancellationId c \<and> cancellationDigest a = []))" for a dg
    by (rule triple_andThen [OF triple_conseq [OF cancelling] again [folded guards_keeps]])
       (use that in \<open>auto simp: cancellable_def\<close>)
  then show ?thesis
    unfolding handleCancellation_def guards_keeps [symmetric] Let_def
    by (intro triple_if triple_fail triple_read)
       (auto intro!: triple_if triple_fail triple_keeps [OF again] split: option.split)
qed

lemma k_handleCredentialRotation [keeps_rules]: "keeps I (handleCredentialRotation H rotation now)"
  unfolding handleCredentialRotation_def acknowledgeRotation_def
  by (intro keeps_rules keeps_scratch rotating committing sending) (simp_all add: core_def durableRunnerMessage_def)

text \<open>The handlers that apply what the gateway reports may fail in the weaker condition.\<close>

lemma g_keeps: "keeps I m \<Longrightarrow> guards I J m"
  by (erule guards_of_keeps) (rule failing)

lemma endLease_idle:
  "triple I (clearActive H) (\<lambda>_ w. I w \<and> active (snapshot w) = None) (\<lambda>_. I)"
proof (rule tripleI)
  fix w x w'
  assume "I w" and c: "clearActive H w = (Inr x, w')"
  then have "I w'" using keepsD [OF ending, of w] by simp
  from c have s: "(snapshot w)\<lparr>active := None, pendingMessage := []\<rparr> = snapshot w'"
    by (auto simp: clearActive_def modify_def dest!: journalUpdate_returns)
  show "I w' \<and> active (snapshot w') = None"
    using \<open>I w'\<close> by (simp flip: s)
qed (metis ending keepsD snd_conv)

lemma k_endLease:
  assumes "keeps I remember"
  shows "keeps I (endLease H remember)"
proof -
  have rest: "guards I (\<lambda>_. I) (andThen remember (andThen (discardDeferred (Plain ''lease_terminal''))
      (ignoring (clearRestartEvidence H))))"
    unfolding guards_keeps by (intro keeps_rules assms)
  have off: "triple (\<lambda>w. I w \<and> active (snapshot w) = None)
      (modify (\<lambda>w. w\<lparr>recovering := False, activeUpload := None\<rparr>)) (\<lambda>_. I) (\<lambda>_. I)"
    by (rule triple_modify) (rule scratch [OF recovered_idle], auto simp: core_def)
  have "guards I (\<lambda>_. I) (endLease H remember)"
    unfolding endLease_def
    by (rule triple_andThen [OF k_stopAndFail [folded guards_keeps]], rule triple_andThen [OF endLease_idle],
        rule triple_andThen [OF off rest])
  then show ?thesis by (simp add: guards_keeps)
qed

lemma g_applyLateReconciliation: "guards I J (applyLateReconciliation H S r now)"
  unfolding applyLateReconciliation_def
  by (intro triple_rules reconciling g_keeps [OF k_endLease] g_keeps [OF k_stopAndFail] g_keeps [OF k_rememberSettledEvent]
      g_keeps [OF k_consumeNetworkAuthority] g_keeps [OF k_acceptRestartCompleteLogUpload] k_rememberSettledEvent failing)

lemma g_handleSettledEventAcknowledgement: "guards I J (handleSettledEventAcknowledgement H S settled ack now)"
  unfolding handleSettledEventAcknowledgement_def
  by (intro triple_rules g_applyLateReconciliation g_keeps [OF k_advance] failing)

lemma g_reconcileLeases: "guards I J (reconcileLeases H S now pairs)"
  by (induction pairs) (auto intro!: triple_rules g_applyLateReconciliation failing)

lemma g_handleHeartbeatAcknowledgement: "guards I J (handleHeartbeatAcknowledgement H S ack now)"
proof -
  have off: "keeps I (modify (\<lambda>w. w\<lparr>sessionHeartbeat := None, heartbeatDeferred := False\<rparr>))"
    by (rule keeps_modify) (rule scratch [OF beat_done], auto simp: core_def)
  have on: "keeps I (modify (\<lambda>w. w\<lparr>reconciled := True\<rparr>))"
    by (rule keeps_scratch) (simp add: core_def)
  show ?thesis
    unfolding handleHeartbeatAcknowledgement_def Let_def
    by (intro triple_rules g_reconcileLeases g_keeps [OF k_advance] g_keeps [OF off] g_keeps [OF on]
        g_keeps [OF k_rememberAcknowledgedHeartbeat] g_keeps [OF beat_acknowledged] failing)
qed

end

text \<open>The operations without effect on the journal, as a property.\<close>

interpretation still: control_property "\<lambda>w. snapshot w = state" for state
  by unfold_locales (auto simp: core_def)

lemma snapshot_consult: "keeps (\<lambda>w. P (snapshot w)) (consult f)"
  by (rule keepsI) (auto simp: consult_def)

lemma snapshot_gatewayMessageDuplicate: "keeps (\<lambda>w. P (snapshot w)) (gatewayMessageDuplicate H message)"
  unfolding gatewayMessageDuplicate_def
  by (intro keeps_rules snapshot_consult keeps_modify) (auto split: prod.split)

text \<open>The state in which an offer may be accepted.\<close>

definition idle :: "clientSession \<Rightarrow> bool" where
  "idle w \<longleftrightarrow> active (snapshot w) = None \<and> \<not> workerRunning w \<and> pendingMessage (snapshot w) = [] \<and> \<not> draining w"

text \<open>
  \<open>A\<close> restricts the events and the journal they start from: a property of one lease uses it to exclude the acceptance of
  another, a property of all but one acknowledgement to exclude that one.
\<close>

locale session_property = quiet_session I H J
  for H :: host and I :: "clientSession \<Rightarrow> bool" and J :: "go_error \<Rightarrow> clientSession \<Rightarrow> bool" +
  fixes A :: "session_event \<Rightarrow> journal_state \<Rightarrow> bool"
  assumes accepting: "offerRejection H S offer now = None \<Longrightarrow> offerJob offer = Some job \<Longrightarrow>
          triple (\<lambda>w. I w \<and> idle w \<and> A (FromGateway message) (snapshot w)) (acceptOffer H S i dg job target now) (\<lambda>_. I) (\<lambda>_. I)"
    and acknowledging: "A (FromGateway message) state \<Longrightarrow> gatewayPayload message = Some (G_EventAck ack) \<Longrightarrow>
          ackReconciliation ack = Some r \<Longrightarrow> ackRunnerMessageId ack = runnerMessageId pending \<Longrightarrow> pendingMessage state \<noteq> [] \<Longrightarrow> unmarshalRunner (libOf H) (pendingMessage state) = Some pending \<Longrightarrow>
          validatePendingReconciliation pending r state = None \<Longrightarrow>
          triple (\<lambda>w. I w \<and> snapshot w = state) (acknowledgePending H S pending r state now) (\<lambda>_. I) J"
begin

lemma t_handleEventAcknowledgement:
  assumes "gatewayPayload message = Some (G_EventAck ack)"
  shows "triple (\<lambda>w. I w \<and> A (FromGateway message) (snapshot w)) (handleEventAcknowledgement H S ack now) (\<lambda>_. I) J"
proof -
  let ?P = "\<lambda>w. I w \<and> A (FromGateway message) (snapshot w)"
  have authority: "triple (\<lambda>w. I w \<and> snapshot w = state) (consumeNetworkAuthority H S r) (\<lambda>_ w. I w \<and> snapshot w = state) J" for r state
    using k_consumeNetworkAuthority still.k_consumeNetworkAuthority
    by (rule triple_both) (auto intro: failing)
  have weak: "triple P (fail e) (\<lambda>_. I) J" if "\<And>w. P w \<Longrightarrow> I w" for P and e :: go_error
    by (rule triple_fail) (simp add: failing that)
  have settled: "triple (\<lambda>w. ?P w \<and> settledEvents w i = x) (handleSettledEventAcknowledgement H S event ack now) (\<lambda>_. I) J" for i x event
    by (rule triple_conseq [OF g_handleSettledEventAcknowledgement]) auto
  have pending: "triple (\<lambda>w. ?P w \<and> settledEvents w i = x) (bind (get (\<lambda>w. snapshot w)) k) (\<lambda>_. I) J"
    if "\<And>s. A (FromGateway message) s \<Longrightarrow> triple (\<lambda>w. I w \<and> snapshot w = s) (k s) (\<lambda>_. I) J" for i x k
    using that by (fastforce simp: triple_def bind_def get_def)
  show ?thesis
    unfolding handleEventAcknowledgement_def
    by (intro triple_if triple_read triple_option settled pending weak)
       (auto intro!: triple_andThen [OF authority] acknowledging [OF _ assms])
qed

lemma t_handleOffer: "triple (\<lambda>w. I w \<and> A (FromGateway envelope) (snapshot w)) (handleOffer H S envelope offer now) (\<lambda>_. I) (\<lambda>_. I)"
proof -
  let ?at = "\<lambda>w0 w. I w \<and> A (FromGateway envelope) (snapshot w) \<and> w = w0"
  have k: "triple (?at w0) m (\<lambda>_. I) (\<lambda>_. I)" if "keeps I m" for m :: "unit handler" and w0
    using that [folded guards_keeps] by (rule triple_conseq) auto
  have a: "triple (?at w0) (acceptOffer H S i dg job target now) (\<lambda>_. I) (\<lambda>_. I)"
    if "offerRejection H S offer now = None" "offerJob offer = Some job"
      "\<not> (active (snapshot w0) \<noteq> None \<or> workerRunning w0)" "\<not> pendingMessage (snapshot w0) \<noteq> []" "\<not> draining w0" for i dg job target w0
    using accepting [OF that(1,2)] by (rule triple_conseq) (use that(3-5) in \<open>auto simp: idle_def\<close>)
  show ?thesis
    unfolding handleOffer_def Let_def
    by (rule triple_option, rule triple_fail, simp, rule triple_read)
       (auto intro!: triple_if triple_sum a k [OF k_offerWhileBusy] k [OF k_rejectOffer] k [OF keeps_fail] split: option.split)
qed

lemma weaken: "guards I J m \<Longrightarrow> triple (\<lambda>w. I w \<and> P w) m (\<lambda>_. I) J"
  by (erule triple_conseq) auto

lemma t_handleGatewayMessage: "triple (\<lambda>w. I w \<and> A (FromGateway message) (snapshot w)) (handleGatewayMessage H S message now) (\<lambda>_. I) J"
proof -
  have offer: "triple (\<lambda>w. I w \<and> A (FromGateway message) (snapshot w)) (handleOffer H S message offer now) (\<lambda>_. I) J" for offer
    by (rule triple_conseq [OF t_handleOffer]) (auto intro: failing)
  have drained: "guards I J (andThen Drain (sendHeartbeat H now))"
    by (intro g_keeps keeps_andThen k_Drain heartbeat)
  show ?thesis
    unfolding handleGatewayMessage_def
    by (auto intro!: triple_if triple_fail failing offer t_handleEventAcknowledgement
        weaken [OF g_handleHeartbeatAcknowledgement] weaken [OF g_keeps [OF k_handleCancellation]] weaken [OF drained]
        weaken [OF g_keeps [OF k_handleCredentialRotation]] split: option.split gateway_payload.split)
qed

lemma t_receiveMessage: "triple (\<lambda>w. I w \<and> A (FromGateway message) (snapshot w)) (receiveMessage H S message) (\<lambda>_. I) J"
proof -
  have duplicate: "triple (\<lambda>w. I w \<and> A (FromGateway message) (snapshot w)) (gatewayMessageDuplicate H message) (\<lambda>_ w. I w \<and> A (FromGateway message) (snapshot w)) J"
    by (rule triple_both [OF k_gatewayMessageDuplicate snapshot_gatewayMessageDuplicate failing])
  have clock: "triple (\<lambda>w. I w \<and> A (FromGateway message) (snapshot w)) (consult f) (\<lambda>_ w. I w \<and> A (FromGateway message) (snapshot w)) J" for f :: "nat \<Rightarrow> time"
    by (rule triple_both [OF k_consult snapshot_consult failing])
  have rest: "guards I J (bind (get (\<lambda>w. (heartbeatDeferred w, pendingMessage (snapshot w)))) (\<lambda>(deferred, pending).
      if deferred \<and> pending = [] then bind (consult (clockAt H)) (\<lambda>later. sendHeartbeat H later) else ret ()))"
    by (intro g_keeps keeps_rules heartbeat)
  show ?thesis
    unfolding receiveMessage_def
    by (intro triple_if weaken [OF g_keeps [OF k_receiveSecretDelivery]] triple_bind [OF duplicate] triple_bind [OF clock]
        triple_andThen [OF t_handleGatewayMessage rest])
       (auto intro: triple_ret)
qed

lemma t_handleEvent: "triple (\<lambda>w. I w \<and> A event (snapshot w)) (handleEvent H S event) (\<lambda>_. I) J"
proof -
  have beat: "guards I J (andThen (sendHeartbeat H tick) (advance H S tick))"
    and tick: "guards I J (bind (consult (clockAt H)) (\<lambda>now. advance H S now))" for tick
    by (intro g_keeps keeps_rules heartbeat)+
  show ?thesis
    unfolding handleEvent_def
    by (cases event) (auto intro!: t_receiveMessage weaken [OF beat] weaken [OF tick] weaken [OF g_keeps [OF k_handleWorkerEvent]])
qed

lemma k_endSession: "keeps I (endSession S)"
  unfolding endSession_def by (intro keeps_rules)

end

text \<open>The usual case: the property survives every event that is queued and every start.\<close>

locale uniform_session = quiet_session I H J
  for H :: host and I :: "clientSession \<Rightarrow> bool" and J :: "go_error \<Rightarrow> clientSession \<Rightarrow> bool" +
  assumes queueing_all: "mutate = ret () \<or> mutate = journal_active (phase_update (\<lambda>_. PHASE_PREPARING))
                         \<Longrightarrow> keeps I (queueDurable H S p mutate)"
    and accepting_any: "offerRejection H S offer now = None \<Longrightarrow> offerJob offer = Some job \<Longrightarrow>
          triple (\<lambda>w. I w \<and> idle w) (acceptOffer H S i dg job target now) (\<lambda>_. I) (\<lambda>_. I)"
    and starting: "keeps I (startWorker H)"
    and start_confirmed: "I w \<Longrightarrow> I (w\<lparr>startReplies := startReplies w @ [(ch, None)]\<rparr>)"
    and recovered_always: "I w \<Longrightarrow> I (w\<lparr>recovering := False\<rparr>)"
begin

lemma k_queuePreparing [keeps_rules]: "keeps I (queuePreparing H S now)"
  unfolding queuePreparing_def by (intro keeps_rules queueing_all) auto

lemma k_reissueStaleEvent [keeps_rules]: "keeps I (reissueStaleEvent H S m now)"
  unfolding reissueStaleEvent_def by (intro keeps_rules queueing_all) auto

lemma k_completeStartResponse [keeps_rules]: "keeps I (completeStartResponse None)"
  unfolding completeStartResponse_def replyStart_def by (intro keeps_rules keeps_modify start_channel start_confirmed)

lemma k_unlessRecovering [keeps_rules]: "keeps I next \<Longrightarrow> keeps I (unlessRecovering H S now next)"
  unfolding unlessRecovering_def by (intro keeps_rules)

lemma k_unlessCancelled [keeps_rules]: "keeps I next \<Longrightarrow> keeps I (unlessCancelled H S now next)"
  unfolding unlessCancelled_def by (intro keeps_rules)

lemma k_acknowledgedEvent [keeps_rules]: "keeps I (acknowledgedEvent H S pending state now)"
  unfolding acknowledgedEvent_def Let_def
  by (auto intro!: keeps_rules keeps_modify recovered_always starting ending split: option.split runner_payload.split)

lemma g_acknowledgePending: "guards I J (acknowledgePending H S pending r state now)"
  unfolding acknowledgePending_def Let_def
  by (intro triple_rules reconciling g_keeps [OF k_stopAndFail] g_keeps [OF k_clearPendingAcknowledged] g_keeps [OF k_advance]
      g_keeps [OF k_endLease] k_rememberSettledMessage g_keeps [OF k_networkAuthorityStopped] g_keeps [OF k_reissueStaleEvent]
      g_keeps [OF k_acknowledgedEvent])

end

sublocale uniform_session \<subseteq> session_property H I J "\<lambda>_ _. True"
proof
  fix S offer now job i dg target and message :: gateway_message
  assume "offerRejection H S offer now = None" "offerJob offer = Some job"
  then show "triple (\<lambda>w. I w \<and> idle w \<and> True) (acceptOffer H S i dg job target now) (\<lambda>_. I) (\<lambda>_. I)"
    using accepting_any by simp
next
  fix state pending r S now
  show "triple (\<lambda>w. I w \<and> snapshot w = state) (acknowledgePending H S pending r state now) (\<lambda>_. I) J"
    by (rule triple_conseq [OF g_acknowledgePending]) auto
qed

lemma endSession_core: "core (snd (endSession S w)) = core w"
  by (auto simp: endSession_def abandonSecretRequest_def stopNetworkAuthority_def stopSecretWorker_def finishSecretRequest_def
      proc_defs core_def split: option.splits)

text \<open>What a new stream sends of the pending event is what \<open>replayPending\<close> sends.\<close>

lemma resume_replay:
  "keeps I (replayPending H S) \<Longrightarrow>
   keeps I (bind (get (\<lambda>w. pendingMessage (snapshot w))) (\<lambda>pending.
     if pending = [] then ret ()
     else (case unmarshalRunner (libOf H) pending of None \<Rightarrow> fail e | Some message \<Rightarrow> sendRetained H S message)))"
  by (auto simp: keeps_def replayPending_def proc_defs split: option.splits)

text \<open>The steps of one process: up to its end, without a restart.\<close>

definition process_step :: "host \<Rightarrow> connection \<times> clientSession \<Rightarrow> connection \<times> clientSession \<Rightarrow> bool" where
  "process_step H s s' \<longleftrightarrow> runner_step H s s' \<and> fst s \<noteq> Halted"

text \<open>The steps from a journal with \<open>A\<close>.\<close>

definition step_from ::
  "(journal_state \<Rightarrow> bool) \<Rightarrow> host \<Rightarrow> connection \<times> clientSession \<Rightarrow> connection \<times> clientSession \<Rightarrow> bool" where
  "step_from P H s s' \<longleftrightarrow> runner_step H s s' \<and> P (snapshot (snd s))"

lemma step_from_True [simp]: "step_from (\<lambda>_. True) H = runner_step H"
  by (simp add: fun_eq_iff step_from_def)

locale process_property = session_property H I J "\<lambda>_. A"
  for H :: host and I :: "clientSession \<Rightarrow> bool" and J :: "go_error \<Rightarrow> clientSession \<Rightarrow> bool" and A :: "journal_state \<Rightarrow> bool" +
  fixes K :: "clientSession \<Rightarrow> bool"
  assumes renewing: "I w \<Longrightarrow> I (newSession w)"
    and first_seen: "I w \<Longrightarrow> seen w = (\<lambda>_. None) \<Longrightarrow> seenOrder w = [] \<Longrightarrow> I (w\<lparr>seen := [k \<mapsto> d], seenOrder := [k]\<rparr>)"
    and closing: "keeps I (journalUpdate H (closeRotation H rotation now))"
    and failed_scratch: "J e w \<Longrightarrow> core w' = core w \<Longrightarrow> J e w'"
    and failed_transient: "J e w \<Longrightarrow> transient e \<Longrightarrow> I w"
    and failed_halts: "J e w \<Longrightarrow> \<not> transient e \<Longrightarrow> K w"
    and crashing: "I w \<Longrightarrow> K w"
begin

lemma t_send: "triple (\<lambda>w. I w \<and> \<not> durableRunnerMessage m) (send H m) (\<lambda>_. I) (\<lambda>_. I)"
proof (cases "durableRunnerMessage m")
  case False
  then show ?thesis using sending [folded guards_keeps, of m] by (auto elim: triple_conseq)
qed (simp add: triple_def)

lemma t_authenticateMessage: "triple I (authenticateMessage H) (\<lambda>m w. I w \<and> \<not> durableRunnerMessage m) (\<lambda>_. I)"
  unfolding authenticateMessage_def
  by (rule triple_bind [OF k_runnerMessage [folded guards_keeps]], rule triple_bind [OF guards_get], rule triple_ret)
     (simp add: durableRunnerMessage_def)

lemma t_capabilitiesMessage: "triple I (capabilitiesMessage H) (\<lambda>m w. I w \<and> \<not> durableRunnerMessage m) (\<lambda>_. I)"
  unfolding capabilitiesMessage_def
  by (rule triple_bind [OF guards_get], rule triple_if, rule triple_fail, assumption,
      rule triple_bind [OF k_runnerMessage [folded guards_keeps]], rule triple_ret)
     (simp add: durableRunnerMessage_def)

lemma k_advertise: "keeps I (bind (capabilitiesMessage H) (\<lambda>m. andThen (send H m) (ret (f m))))"
  unfolding guards_keeps [symmetric]
  by (rule triple_bind [OF t_capabilitiesMessage], rule triple_andThen [OF t_send], rule triple_ret)

lemma k_handshake: "keeps I (handshake H first)"
proof -
  have up: "keeps I (modify (\<lambda>w. w\<lparr>activeUpload := clearRecoveryCompleteLogTarget (activeUpload w)\<rparr>))"
    and gen: "keeps I (modify (\<lambda>w. w\<lparr>sessionGeneration := sessionGeneration w + 1\<rparr>))"
    by (rule keeps_scratch, simp add: core_def)+
  have rotation: "keeps I (reconcileCredentialRotationAfterAuthentication H)"
    unfolding reconcileCredentialRotationAfterAuthentication_def by (intro keeps_rules closing)
  have rest: "guards I (\<lambda>_. I) (case refuseTestSecretDelivery first of
      Some e \<Rightarrow> fail e
    | None \<Rightarrow> bind (consult (clockAt H)) (\<lambda>now.
        bind (ofSum (validateAuthenticated H first now)) (\<lambda>a.
        andThen (modify (\<lambda>w. w\<lparr>activeUpload := clearRecoveryCompleteLogTarget (activeUpload w)\<rparr>))
       (andThen (mapError (\<lambda>_. Permanent ''rotation_reconnect'') (reconcileCredentialRotationAfterAuthentication H))
       (andThen (modify (\<lambda>w. w\<lparr>sessionGeneration := sessionGeneration w + 1\<rparr>))
       (bind (get sessionGeneration) (\<lambda>gen.
        bind (capabilitiesMessage H) (\<lambda>message. andThen (send H message)
          (ret (streamOf H a (payloadFeatures message) gen, now))))))))))"
    unfolding guards_keeps by (intro keeps_rules up gen rotation k_advertise)
  show ?thesis
    unfolding handshake_def guards_keeps [symmetric]
    by (rule triple_bind [OF t_authenticateMessage], rule triple_andThen [OF t_send], rule rest)
qed

lemma resume_after_handshake:
  assumes "I w"
  shows "I (snd (resume H S first now (newSession w)))"
proof -
  let ?first = "\<lambda>w. I w \<and> seen w = (\<lambda>_. None) \<and> seenOrder w = []"
  have new: "?first (newSession w)"
    using renewing [OF assms] by (simp add: newSession_def)
  have "triple ?first (rememberGatewayMessage H first) (\<lambda>_. I) (\<lambda>_. I)"
    unfolding rememberGatewayMessage_def by (intro triple_rules) (auto intro: first_seen)
  moreover have "guards I (\<lambda>_. I) (andThen
      (bind (get (\<lambda>w. pendingMessage (snapshot w))) (\<lambda>pending.
       if pending = [] then ret ()
       else (case unmarshalRunner (libOf H) pending of
           None \<Rightarrow> fail (Permanent ''decode_pending'')
         | Some message \<Rightarrow> sendRetained H S message)))
      (sendHeartbeat H now))"
    unfolding guards_keeps by (intro keeps_andThen resume_replay replaying heartbeat)
  ultimately have "triple ?first (resume H S first now) (\<lambda>_. I) (\<lambda>_. I)"
    unfolding resume_def by (rule triple_andThen)
  then show ?thesis
    using new triple_Inr triple_Inl by (cases "resume H S first now (newSession w)"; cases "fst (resume H S first now (newSession w))") fastforce+
qed

definition holds :: "connection \<times> clientSession \<Rightarrow> bool" where
  "holds s \<longleftrightarrow> (case s of (Halted, w) \<Rightarrow> K w | (_, w) \<Rightarrow> I w)"

lemma holds_afterError: "J e w \<Longrightarrow> holds (afterError e, w)"
  by (auto simp: holds_def afterError_def dest: failed_transient failed_halts)

lemma holds_process_step:
  "runner_step H s s' \<Longrightarrow> fst s \<noteq> Halted \<Longrightarrow> A (snapshot (snd s)) \<Longrightarrow> holds s \<Longrightarrow> holds s'"
proof (induction rule: runner_step.induct)
  case (step_refused first w e w')
  then have "I w'" using keepsD [OF k_handshake, of w first] by (simp add: holds_def)
  then show ?case by (rule holds_afterError [OF failing])
next
  case (step_resumed first w S now w1 w')
  then have "I w1" using keepsD [OF k_handshake, of w first] by (simp add: holds_def)
  then show ?case using resume_after_handshake [of w1 S first now] step_resumed by (simp add: holds_def)
next
  case (step_not_resumed first w S now w1 e w2)
  then have "I w1" using keepsD [OF k_handshake, of w first] by (simp add: holds_def)
  then have "I w2" using resume_after_handshake [of w1 S first now] step_not_resumed by simp
  then show ?case using keepsD [OF k_endSession] by (blast intro: holds_afterError failing)
next
  case (step_event S event w w')
  then show ?case using triple_Inr [OF t_handleEvent, of w] by (auto simp: holds_def)
next
  case (step_failed S event w e w1)
  then have "J e w1" using triple_Inl [OF t_handleEvent, of w] by (auto simp: holds_def)
  then show ?case by (intro holds_afterError failed_scratch [OF _ endSession_core])
next
  case (step_stream_lost S w e)
  then have "I (snd (endSession S w))" using keepsD [OF k_endSession] by (simp add: holds_def)
  then show ?case by (rule holds_afterError [OF failing])
next
  case (step_crash c w)
  then show ?case by (cases c) (auto simp: holds_def crashing)
qed simp

lemma holds_in_process:
  "(process_step H)\<^sup>*\<^sup>* s s' \<Longrightarrow> (\<And>state. A state) \<Longrightarrow> holds s \<Longrightarrow> holds s'"
  by (induction rule: rtranclp_induct) (auto simp: process_step_def intro: holds_process_step)

end

locale runner_property = process_property H I J A K
  for H :: host and I :: "clientSession \<Rightarrow> bool" and J :: "go_error \<Rightarrow> clientSession \<Rightarrow> bool"
    and A :: "journal_state \<Rightarrow> bool" and K :: "clientSession \<Rightarrow> bool" +
  assumes restarting: "K w \<Longrightarrow> A (snapshot w) \<Longrightarrow> reopen (jenv H) (clientJournal w) = Inr j \<Longrightarrow> I (newClient j secret store w)"
begin

lemma holds_step: "step_from A H s s' \<Longrightarrow> holds s \<Longrightarrow> holds s'"
proof (cases "fst s = Halted")
  case True
  assume "step_from A H s s'" and "holds s"
  then have "runner_step H s s'" and a: "A (snapshot (snd s))" by (auto simp: step_from_def)
  then show ?thesis
    using True \<open>holds s\<close> a by cases (auto simp: holds_def restarting)
qed (auto simp: step_from_def intro: holds_process_step)

lemma holds_always: "(step_from A H)\<^sup>*\<^sup>* s s' \<Longrightarrow> holds s \<Longrightarrow> holds s'"
  by (induction rule: rtranclp_induct) (auto intro: holds_step)

end

end
