(* ===== verification/SampleHost.thy ===== *)
theory SampleHost
  imports Connection
begin

section \<open>A concrete client\<close>

text \<open>
  A host on which every call to the outside succeeds, and a client with one lease whose preparation is not yet acknowledged. The
  examples of the session theories run the handlers on it.
\<close>

definition sampleHost :: "(bytes \<times> runner_message) list \<Rightarrow> (bytes \<times> journal_state) list \<Rightarrow> host" where
  "sampleHost messages states =
     \<lparr>jenv = sampleEnv (sampleLib messages [(''job'', sampleJob)]) states, cfg = sampleConfig,
      remoteWorker = Some \<lparr>wkExecuteV2 = False, wkTestSecretSource = False\<rparr>, measuredMaximum = None, hasUploader = True, fuel = 8,
      clockAt = (\<lambda>_. sampleNow), sendOutcome = (\<lambda>_. None), uploadClock = (\<lambda>_ _. sampleNow), uploadHttp = (\<lambda>_ _. TransportError),
      replaceCredential = (\<lambda>_. True), rotationTimerFired = (\<lambda>_. False), evidenceCreate = (\<lambda>_. True),
      evidenceRemove = (\<lambda>_. True), evidenceSnapshot = (\<lambda>_. None), identityJson = (\<lambda>_. None), guardCreate = (\<lambda>_ _. True),
      authorityValid = (\<lambda>_. True), authorityReconcile = (\<lambda>_ _ _. True), guardReconcile = (\<lambda>_ _. GuardCurrent),
      guardClose = (\<lambda>_. True), guardExpired = (\<lambda>_. False), requestExpired = (\<lambda>_. False), secretNonce = (\<lambda>_. ''nonce''),
      sealDelivery = (\<lambda>_ _ _ _. None), contextMatches = (\<lambda>_ _ _. False), freezeTerminalEvidence = (\<lambda>_ _. None)\<rparr>"

definition sampleClient :: "journal \<Rightarrow> clientSession" where
  "sampleClient j =
     \<lparr>clientJournal = j, credential = ''secret'', draining = False, workerRunning = False, workerCancel = False,
      workerGuard = None, workerNetworkGeneration = 0, workerSecretCancel = False, workerSecretGeneration = 0,
      startResponse = None, recovering = False, sessionGeneration = 1, ephemeralSequence = 0, activeUpload = None,
      restartEvidence = False, deferredWorkerEvents = [], ticks = 0, sent = [], startReplies = [], secretReplies = [],
      launches = [], workerCancelled = False, seen = (\<lambda>_. None), seenOrder = [], sessionHeartbeat = None, reconciled = True,
      settledEvents = (\<lambda>_. None), settledEventOrder = [], acknowledgedHeartbeats = (\<lambda>_. None), acknowledgedHBOrder = [],
      heartbeatDeferred = False, cancellationFinalUsage = (None, None), pendingSecret = None\<rparr>"

definition sampleStream :: stream where
  "sampleStream =
     \<lparr>networkFeatures = [], networkMaximum = None, testSecretsV1 = False,
      streamAuthenticated = \<lparr>authRunnerId = sampleUUID, authConnectionId = sampleUUID, authProtocolVersion = protocolVersion,
        authScope = Some SCOPE_PLATFORM, authCredentialExpiresAt = Some (sampleTimestamp (sampleNow + hour)),
        authHeartbeatInterval = Some \<lparr>pd_seconds = 10, pd_nanos = 0\<rparr>, authLeaseDuration = Some \<lparr>pd_seconds = 60, pd_nanos = 0\<rparr>,
        authServerTime = Some (sampleTimestamp sampleNow)\<rparr>,
      jobCorrelationV1 = False, restartUploadRecovery = False, objectUploadIdentity = False, terminalEvidenceV1 = False,
      terminalEvidenceV2 = False, streamGeneration = 1\<rparr>"

definition sampleEventId :: string where
  "sampleEventId = ''host-0000000000000001''"

definition samplePreparing :: runner_message where
  "samplePreparing =
     \<lparr>runnerMessageId = sampleEventId, runnerSentAt = Some (sampleTimestamp sampleNow),
      runnerPayload = Some (P_JobPreparing \<lparr>preparingLease = Some sampleLease, preparingAttempt = Some sampleAttempt,
        preparingStartedAt = sampleTimestamp sampleNow\<rparr>)\<rparr>"

definition sampleActive :: journal_job where
  "sampleActive =
     \<lparr>specificationBytes = ''job'', offerMessageID = ''offer'', offerDigest = sampleDigest ''offer'', activeCorrelationV1 = False,
      activeEvidenceV2 = False, phase = PHASE_PREPARING, expiresAt = sampleNow + minute, cancellationID = [],
      cancellationDeadline = 0, cancellationDigest = []\<rparr>"

definition sampleBusy :: journal_state where
  "sampleBusy = empty_journal\<lparr>messageSequence := 1, active := Some sampleActive, pendingMessage := ''preparing''\<rparr>"

abbreviation sampleMessages :: "(bytes \<times> runner_message) list" where
  "sampleMessages \<equiv> [(''preparing'', samplePreparing)]"

definition sampleGateway :: "gateway_payload \<Rightarrow> string \<Rightarrow> gateway_message" where
  "sampleGateway payload i = \<lparr>gatewayMessageId = i, gatewaySentAt = Some (sampleTimestamp sampleNow), gatewayPayload = Some payload\<rparr>"

definition sampleApplied :: "job_phase \<Rightarrow> lease_reconciliation" where
  "sampleApplied p =
     \<lparr>recLease = Some sampleLease, recAttempt = Some sampleAttempt, recDisposition = DISPOSITION_APPLIED, recStatus = STATUS_ACTIVE,
      recPhase = p, recTerminalMessageId = [], recCancellationId = [], recCompleteLogUpload = None, recNetworkAuthority = None\<rparr>"

definition sampleAck :: "job_phase \<Rightarrow> gateway_message" where
  "sampleAck p =
     sampleGateway (G_EventAck \<lparr>ackRunnerMessageId = sampleEventId, ackCommittedAt = Some (sampleTimestamp sampleNow),
       ackReconciliation = Some (sampleApplied p)\<rparr>) ''ack''"

lemmas client_samples = sampleHost_def sampleClient_def sampleStream_def samplePreparing_def sampleActive_def sampleBusy_def
  sampleGateway_def sampleApplied_def sampleAck_def

lemma sampleHost_lib [simp]: "libOf (sampleHost messages states) = sampleLib messages [(''job'', sampleJob)]"
  by (simp add: sampleHost_def sampleEnv_def)

lemma sampleMessages_ok [simp]: "lib_ok (sampleLib sampleMessages [(''job'', sampleJob)])"
  by (rule sampleLib_ok) simp_all

lemma sample_patterns: "identifierPattern sampleEventId" "identifierPattern ''offer''" "identifierPattern ''ack''"
  by code_simp+

lemma sample_ids [simp]:
  "validateIdentifier sampleEventId maximumIdentifierBytes" "validateIdentifier ''offer'' maximumIdentifierBytes"
  "validateIdentifier ''ack'' maximumIdentifierBytes"
  using sample_patterns by (simp_all add: maximumIdentifierBytes_def sampleEventId_def validateIdentifier_def)

lemma sample_digits: "hex_value CHR ''0'' = Some 0" "hex_value CHR ''1'' = Some 1"
  by code_simp+

lemma sampleEventId_sequence:
  "last_index_byte sampleEventId CHR ''-'' = Some 4" "parse_uint_hex (drop 5 sampleEventId) = Some 1"
  by (simp_all add: sampleEventId_def last_index_byte_def parse_uint_hex_def sample_digits)

lemma sampleLib_codecs [simp]:
  "tsAsTime (sampleLib messages jobs) = sampleTime" "tsNew (sampleLib messages jobs) = sampleTimestamp"
  "unmarshalJob (sampleLib messages jobs) = decodeTable jobs" "marshalJob (sampleLib messages jobs) = encodeTable jobs"
  "unmarshalRunner (sampleLib messages jobs) = decodeTable messages" "marshalRunner (sampleLib messages jobs) = encodeTable messages"
  "sizeRunner (sampleLib messages jobs) = (\<lambda>_. 512)" "tsCheckValid (sampleLib messages jobs) = (\<lambda>_. True)"
  "sha256Sum (sampleLib messages jobs) = sampleDigest" "marshalGateway (sampleLib messages jobs) = (\<lambda>m. Some (gatewayMessageId m))"
  by (simp_all add: sampleLib_def)

lemma samplePreparing_envelope: "validateJournalRunnerEnvelope (sampleLib messages jobs) samplePreparing 1"
  by (simp add: validateJournalRunnerEnvelope_def samplePreparing_def sampleEventId_sequence maximumMessageBytes_def
      validateTimestamp_def) (simp add: sampleEventId_def)

lemma decodeTable_hit [simp]: "decodeTable ((b, x) # table) b = Some x"
  by (simp add: decodeTable_def)

lemma sampleJob_fields [simp]:
  "jobLease sampleJob = Some sampleLease" "jobAttempt sampleJob = Some sampleAttempt" "jobCorrelation sampleJob = None"
  "testSecrets sampleJob = []" "completeLogUpload sampleJob = None"
  by (simp_all add: sampleJob_def)

lemma sampleJob_specification: "validate_specification (sampleLib messages [(''job'', sampleJob)]) sampleActive = None"
  by (simp add: validate_specification_def sampleActive_def maximumMessageBytes_def identity_uuids_def validateTimestamp_def
      maximumAttemptNumber_def validateOfferJobCorrelation_def sampleLease_def sampleAttempt_def)
     (simp add: sampleJob_def sample_texts)

lemma sampleActive_matches: "activeMatchesIdentity (sampleLib messages [(''job'', sampleJob)]) (Some sampleActive) (Some sampleLease) (Some sampleAttempt)"
  by (simp add: activeMatchesIdentity_def sampleActive_def sameLeaseAttempt_def)

lemma sampleActive_valid:
  "validate_pending_active (sampleLib messages [(''job'', sampleJob)]) s sampleActive = None \<Longrightarrow> schemaVersion s = journalSchemaVersion \<Longrightarrow>
   active s = Some sampleActive \<Longrightarrow> pendingHeartbeat s = [] \<Longrightarrow> credentialRotation s = None \<Longrightarrow> committedCredential s = None
   \<Longrightarrow> journal_valid (sampleLib messages [(''job'', sampleJob)]) s"
  using sampleJob_specification [of messages]
  by (simp add: validateJournalState_def first_fault_None validate_credentials_def validate_heartbeat_def validate_active_def)
     (simp add: sampleActive_def validate_cancellation_def)

lemma samplePreparing_pending:
  "validate_pending_active (sampleLib sampleMessages [(''job'', sampleJob)]) sampleBusy sampleActive = None"
  using samplePreparing_envelope sampleActive_matches
  by (simp add: validate_pending_active_def sampleBusy_def)
     (simp add: samplePreparing_def durableRunnerMessage_def is_rejection_def runnerMessageIdentity_def validateTerminalProof_def terminalProof_def)

lemma sampleBusy_valid:
  "journal_valid (sampleLib sampleMessages [(''job'', sampleJob)]) sampleBusy"
  "journal_valid (sampleLib sampleMessages [(''job'', sampleJob)]) (sampleBusy\<lparr>pendingMessage := []\<rparr>)"
  using samplePreparing_pending
  by (rule sampleActive_valid; simp add: sampleBusy_def empty_journal_def)
     (rule sampleActive_valid; simp add: sampleBusy_def empty_journal_def validate_pending_active_def)

text \<open>A journal that is only in memory.\<close>

definition memoryJournal :: "journal_state \<Rightarrow> journal" where
  "memoryJournal s = \<lparr>jPath = [], jState = s, jDisk = None, jWrites = 0\<rparr>"

lemma memory_update:
  "f s = (Inr x, s') \<Longrightarrow> journal_valid (library E) s' \<Longrightarrow> update E f (memoryJournal s) = (Inr x, memoryJournal s')"
  by (simp add: update_def memoryJournal_def persistLocked_def)

lemma journalUpdate_memory:
  assumes "clientJournal w = memoryJournal s" "f s = (Inr (), s')" "journal_valid (libOf H) s'"
  shows "journalUpdate H f w = (Inr (), w\<lparr>clientJournal := memoryJournal s'\<rparr>)"
  using assms by (simp add: journalUpdate_def onJournal_def memory_update)

lemma sampleClient_fields [simp]:
  "clientJournal (sampleClient j) = j" "ticks (sampleClient j) = 0" "seen (sampleClient j) = (\<lambda>_. None)" "seenOrder (sampleClient j) = []"
  "settledEvents (sampleClient j) = (\<lambda>_. None)" "settledEventOrder (sampleClient j) = []" "recovering (sampleClient j) = False"
  "workerRunning (sampleClient j) = False" "workerGuard (sampleClient j) = None" "launches (sampleClient j) = []"
  "heartbeatDeferred (sampleClient j) = False" "sent (sampleClient j) = []" "draining (sampleClient j) = False"
  "sessionHeartbeat (sampleClient j) = None"
  by (simp_all add: sampleClient_def)

lemma sampleHost_fields [simp]:
  "clockAt (sampleHost ms ss) = (\<lambda>_. sampleNow)" "sendOutcome (sampleHost ms ss) = (\<lambda>_. None)" "guardExpired (sampleHost ms ss) = (\<lambda>_. False)"
  "remoteWorker (sampleHost ms ss) = Some \<lparr>wkExecuteV2 = False, wkTestSecretSource = False\<rparr>" "cfg (sampleHost ms ss) = sampleConfig"
  by (simp_all add: sampleHost_def)

lemma memoryJournal_state [simp]: "jState (memoryJournal s) = s"
  by (simp add: memoryJournal_def)

lemma sample_near [simp]: "validateTimestampNear (sampleLib ms js) (Some (sampleTimestamp sampleNow)) sampleNow"
  by (simp add: validateTimestampNear_def validateTimestamp_def maximumClockSkew_def duration_defs time_sub_def
      max_duration_def min_duration_def)

lemma sample_duplicate:
  assumes "validateIdentifier i maximumIdentifierBytes" "\<And>d. payload \<noteq> G_TestSecretsDelivery d" "seen w = (\<lambda>_. None)" "seenOrder w = []"
  shows "gatewayMessageDuplicate (sampleHost ms ss) (sampleGateway payload i) w
    = (Inr False, w\<lparr>ticks := ticks w + 1, seen := [i \<mapsto> sampleDigest i], seenOrder := [i]\<rparr>)"
proof -
  have "refuseTestSecretDelivery (sampleGateway payload i) = None"
    using assms(2) by (cases payload) (auto simp: refuseTestSecretDelivery_def sampleGateway_def)
  moreover have "validateGatewayEnvelope (libOf (sampleHost ms ss)) (sampleGateway payload i) sampleNow = None"
    using assms(1) by (simp add: validateGatewayEnvelope_def sampleGateway_def)
  ultimately show ?thesis
    using assms(3,4)
    by (simp add: gatewayMessageDuplicate_def consult_def proc_defs rememberIn_def Let_def maximumRememberedGatewayMessageIDs_def)
       (simp add: sampleGateway_def)
qed


lemma sampleMessage_fields [simp]:
  "recLease (sampleApplied p) = Some sampleLease" "recAttempt (sampleApplied p) = Some sampleAttempt"
  "recDisposition (sampleApplied p) = DISPOSITION_APPLIED" "recStatus (sampleApplied p) = STATUS_ACTIVE" "recPhase (sampleApplied p) = p"
  "recCancellationId (sampleApplied p) = []" "recTerminalMessageId (sampleApplied p) = []"
  "recCompleteLogUpload (sampleApplied p) = None" "recNetworkAuthority (sampleApplied p) = None"
  "runnerMessageId samplePreparing = sampleEventId" "sampleEventId \<noteq> []"
  "runnerPayload samplePreparing = Some (P_JobPreparing \<lparr>preparingLease = Some sampleLease, preparingAttempt = Some sampleAttempt,
        preparingStartedAt = sampleTimestamp sampleNow\<rparr>)"
  by (simp_all add: sampleApplied_def samplePreparing_def sampleEventId_def)

lemma sampleState_fields [simp]:
  "active sampleBusy = Some sampleActive" "pendingMessage sampleBusy = ''preparing''" "cancellationID sampleActive = []"
  "phase sampleActive = PHASE_PREPARING" "specificationBytes sampleActive = ''job''" "activeEvidenceV2 sampleActive = False"
  "expiresAt sampleActive = sampleNow + minute" "offerMessageID sampleActive = ''offer''" "offerDigest sampleActive = sampleDigest ''offer''"
  by (simp_all add: sampleBusy_def sampleActive_def)

lemma sample_authoritative:
  "authoritative (sampleLib ms [(''job'', sampleJob)]) (sampleApplied PHASE_PREPARING) sampleBusy = (Inr (), sampleBusy)"
proof -
  have "marshalJob (sampleLib ms [(''job'', sampleJob)]) (sampleJob\<lparr>jobLease := Some sampleLease\<rparr>) = Some ''job''"
    by (simp add: encodeTable_def sampleJob_def)
  then show ?thesis
  using sampleActive_matches [of ms]
  by (simp add: authoritative_def sampleBusy_def sampleApplied_def Let_def jobPhaseRank_def)
     (simp add: sampleActive_def sampleLease_def)
qed

lemma sample_acknowledged:
  fixes w :: clientSession
  assumes "clientJournal w = memoryJournal sampleBusy" "\<not> recovering w" "\<not> workerRunning w" "workerGuard w = None"
  shows "\<exists>w'. acknowledgePending (sampleHost sampleMessages []) S samplePreparing (sampleApplied PHASE_PREPARING) sampleBusy now w = (Inr (), w')
     \<and> launches w' = launches w @ [sampleJob] \<and> heartbeatDeferred w' = heartbeatDeferred w"
proof -
  let ?H = "sampleHost sampleMessages []"
  have 1: "applyAuthoritativeReconciliation ?H (sampleApplied PHASE_PREPARING) v = (Inr (), v)" if "clientJournal v = memoryJournal sampleBusy" for v :: clientSession
    using that journalUpdate_memory [OF that, of "authoritative (sampleLib sampleMessages [(''job'', sampleJob)]) (sampleApplied PHASE_PREPARING)" sampleBusy ?H]
    by (simp add: applyAuthoritativeReconciliation_def sample_authoritative sampleBusy_valid)
  have 2: "clearPending ?H v = (Inr (), v\<lparr>clientJournal := memoryJournal (sampleBusy\<lparr>pendingMessage := []\<rparr>)\<rparr>)"
    if "clientJournal v = memoryJournal sampleBusy" for v :: clientSession
    using journalUpdate_memory [OF that, of _ _ ?H] by (simp add: clearPending_def modify_def sampleBusy_valid)
  show ?thesis
    using assms sampleActive_matches [of sampleMessages]
    by (simp add: acknowledgePending_def acknowledgedEvent_def Let_def 1 2 proc_defs networkAuthorityStopped_def terminalLeaseStatus_def
      terminalEvent_def is_rejection_def
      clearPendingAcknowledged_def rememberSettledMessage_def unlessRecovering_def unlessCancelled_def startWorker_def launch_def consult_def
      split: prod.split)
qed

lemma sample_event_acknowledged:
  fixes w :: clientSession
  assumes "snapshot w = sampleBusy" "settledEvents w sampleEventId = None"
  shows "handleEventAcknowledgement (sampleHost sampleMessages ss) S
      \<lparr>ackRunnerMessageId = sampleEventId, ackCommittedAt = Some (sampleTimestamp sampleNow), ackReconciliation = Some (sampleApplied PHASE_PREPARING)\<rparr> now w
    = acknowledgePending (sampleHost sampleMessages ss) S samplePreparing (sampleApplied PHASE_PREPARING) sampleBusy now w"
proof -
  have "validateReconciliation (sampleLib sampleMessages [(''job'', sampleJob)]) (sampleApplied PHASE_PREPARING) = None"
    by (simp add: validateReconciliation_def validateTimestamp_def identity_uuids_def sampleLease_def sampleAttempt_def maximumAttemptNumber_def)
  moreover have "validatePendingReconciliation samplePreparing (sampleApplied PHASE_PREPARING) sampleBusy = None"
    by (simp add: validatePendingReconciliation_def)
  moreover have "consumeNetworkAuthority (sampleHost sampleMessages ss) S (sampleApplied PHASE_PREPARING) w = (Inr (), w)"
    using assms sampleActive_matches [of sampleMessages]
    by (simp add: consumeNetworkAuthority_def proc_defs enabledNetworkJob_def jobNetworkV2_def)
       (simp add: sampleJob_def samplePolicy_def)
  ultimately show ?thesis
    using assms
    by (simp add: handleEventAcknowledgement_def validateTimestamp_def proc_defs runnerMessageIdentity_def sameLeaseAttempt_def)
qed

lemma sampleStream_fields [simp]:
  "testSecretsV1 sampleStream = False" "terminalEvidenceV1 sampleStream = False" "terminalEvidenceV2 sampleStream = False"
  by (simp_all add: sampleStream_def)

lemma sample_receive:
  assumes "validateIdentifier i maximumIdentifierBytes" "\<And>d. payload \<noteq> G_TestSecretsDelivery d" "seen w = (\<lambda>_. None)" "seenOrder w = []"
    "handleGatewayMessage (sampleHost ms ss) sampleStream (sampleGateway payload i) sampleNow
       (w\<lparr>seen := [i \<mapsto> sampleDigest i], seenOrder := [i], ticks := ticks w + 2\<rparr>) = (Inr (), w')" "\<not> heartbeatDeferred w'"
  shows "handleEvent (sampleHost ms ss) sampleStream (FromGateway (sampleGateway payload i)) w = (Inr (), w')"
  using assms by (simp add: handleEvent_def receiveMessage_def sample_duplicate proc_defs consult_def)

lemma sample_worker_started:
  "\<exists>w'. handleEvent (sampleHost sampleMessages []) sampleStream (FromGateway (sampleAck PHASE_PREPARING)) (sampleClient (memoryJournal sampleBusy))
      = (Inr (), w') \<and> launches w' = [sampleJob]"
proof -
  let ?w = "(sampleClient (memoryJournal sampleBusy))\<lparr>seen := [''ack'' \<mapsto> sampleDigest ''ack''], seenOrder := [''ack''], ticks := 2\<rparr>"
  obtain w' where w': "acknowledgePending (sampleHost sampleMessages []) sampleStream samplePreparing (sampleApplied PHASE_PREPARING) sampleBusy sampleNow ?w = (Inr (), w')"
    "launches w' = [sampleJob]" "\<not> heartbeatDeferred w'"
    using sample_acknowledged [of ?w sampleStream sampleNow] by auto
  have "handleGatewayMessage (sampleHost sampleMessages []) sampleStream (sampleAck PHASE_PREPARING) sampleNow ?w = (Inr (), w')"
    using w'(1) by (simp add: handleGatewayMessage_def sampleAck_def sampleGateway_def sample_event_acknowledged)
  then show ?thesis
    using w'(2,3) unfolding sampleAck_def by (intro exI [of _ w'] conjI sample_receive) (simp_all add: numeral_2_eq_2)
qed

text \<open>On a journal with a file: the offer is repeated, so the pending event is sent again.\<close>

abbreviation sampleFileHost :: host where
  "sampleFileHost \<equiv> sampleHost sampleMessages [(''busy'', sampleBusy)]"

lemma sampleBusy_synced: "synced (jenv sampleFileHost) (sampleJournal sampleBusy ''busy'')"
proof (intro conjI)
  show "persistent (jenv sampleFileHost) (sampleJournal sampleBusy ''busy'')"
    by (simp add: persistent_def sampleJournal_def sampleHost_def sampleEnv_ok)
next
  show "journal_valid (libOf sampleFileHost) (jState (sampleJournal sampleBusy ''busy''))"
    by (simp add: sampleJournal_def sampleBusy_valid)
next
  show "recovered (jenv sampleFileHost) (sampleJournal sampleBusy ''busy'') = Some (jState (sampleJournal sampleBusy ''busy''))"
    by (simp add: recovered_def reopen_def sampleJournal_def undisturbed_def openJournal_def readRegularFile_def
        maximumJournalBytes_def sampleHost_def sampleEnv_def sampleBusy_valid)
qed

lemma sample_replayed:
  "\<exists>w'. handleEvent sampleFileHost sampleStream (FromGateway (sampleGateway (G_Offer sampleOffer) ''offer'')) (sampleClient (sampleJournal sampleBusy ''busy''))
      = (Inr (), w') \<and> sent w' = [(samplePreparing, sampleJournal sampleBusy ''busy'')]"
proof -
  let ?w = "(sampleClient (sampleJournal sampleBusy ''busy''))\<lparr>seen := [''offer'' \<mapsto> sampleDigest ''offer''], seenOrder := [''offer''], ticks := 2\<rparr>"
  have s: "jState (sampleJournal sampleBusy ''busy'') = sampleBusy" by (simp add: sampleJournal_def)
  have "replayPending sampleFileHost sampleStream ?w
      = (Inr (), ?w\<lparr>ticks := 3, sent := [(samplePreparing, sampleJournal sampleBusy ''busy'')]\<rparr>)"
    by (simp add: replayPending_def sendRetained_def send_def consult_def proc_defs s terminalProof_def validateTerminalProof_def)
  then have "handleGatewayMessage sampleFileHost sampleStream (sampleGateway (G_Offer sampleOffer) ''offer'') sampleNow ?w
      = (Inr (), ?w\<lparr>ticks := 3, sent := [(samplePreparing, sampleJournal sampleBusy ''busy'')]\<rparr>)"
    by (simp add: handleGatewayMessage_def sampleGateway_def handleOffer_def offerWhileBusy_def proc_defs s Let_def)
       (simp add: sampleOffer_def offerIdentity_def)
  then have "handleEvent sampleFileHost sampleStream (FromGateway (sampleGateway (G_Offer sampleOffer) ''offer''))
        (sampleClient (sampleJournal sampleBusy ''busy''))
      = (Inr (), ?w\<lparr>ticks := 3, sent := [(samplePreparing, sampleJournal sampleBusy ''busy'')]\<rparr>)"
    by (intro sample_receive) (simp_all add: numeral_2_eq_2)
  then show ?thesis by simp
qed

end
