(* ===== verification/WriteAhead.thy ===== *)
theory WriteAhead
  imports SessionRules SampleHost
begin

section \<open>Events are journaled before they are sent\<close>

text \<open>
  The journal in memory and on disk agree in every state a running process reaches, and every durable event was
  on disk as the pending event at the moment it was handed to the stream; also across reconnects, crashes and restarts.
\<close>

definition journaled_first :: "host \<Rightarrow> clientSession \<Rightarrow> bool" where
  "journaled_first H w \<longleftrightarrow>
     (\<forall>(m, j)\<in>set (sent w). durableRunnerMessage m \<longrightarrow>
        (\<exists>s. recovered (jenv H) j = Some s \<and> unmarshalRunner (libOf H) (pendingMessage s) = Some m))"

definition plain_heartbeat :: "clientSession \<Rightarrow> bool" where
  "plain_heartbeat w \<longleftrightarrow> (\<forall>m. sessionHeartbeat w = Some m \<longrightarrow> \<not> durableRunnerMessage m)"

definition in_order :: "host \<Rightarrow> clientSession \<Rightarrow> bool" where
  "in_order H w \<longleftrightarrow> lib_ok (libOf H) \<and> synced (jenv H) (clientJournal w) \<and> journaled_first H w \<and> plain_heartbeat w"

definition recoverable :: "host \<Rightarrow> clientSession \<Rightarrow> bool" where
  "recoverable H w \<longleftrightarrow>
     lib_ok (libOf H) \<and> persistent (jenv H) (clientJournal w) \<and> (\<exists>s. recovered (jenv H) (clientJournal w) = Some s) \<and> journaled_first H w"

definition after_failure :: "host \<Rightarrow> go_error \<Rightarrow> clientSession \<Rightarrow> bool" where
  "after_failure H e w \<longleftrightarrow> recoverable H w \<and> (transient e \<longrightarrow> in_order H w)"

lemma in_order_recoverable: "in_order H w \<Longrightarrow> recoverable H w"
  by (auto simp: in_order_def recoverable_def)

lemma in_order_journal:
  "in_order H w \<Longrightarrow> synced (jenv H) j \<Longrightarrow> in_order H (w\<lparr>clientJournal := j\<rparr>)"
  by (simp add: in_order_def journaled_first_def plain_heartbeat_def)

lemma in_order_cong:
  "in_order H w \<Longrightarrow> clientJournal w' = clientJournal w \<Longrightarrow> sent w' = sent w \<Longrightarrow> sessionHeartbeat w' = sessionHeartbeat w
   \<Longrightarrow> in_order H w'"
  by (simp add: in_order_def journaled_first_def plain_heartbeat_def)

lemma keeps_update:
  assumes "\<And>s e s'. f s = (Inl e, s') \<Longrightarrow> s' = s"
  shows "keeps (in_order H) (journalUpdate H f)"
proof (rule keepsI)
  fix w assume w: "in_order H w"
  then have "synced (jenv H) (snd (update (jenv H) f (clientJournal w)))"
    by (intro update_synced assms) (simp_all add: in_order_def)
  then show "in_order H (snd (journalUpdate H f w))"
    by (simp add: journalUpdate_def onJournal_def split_beta in_order_journal [OF w])
qed

lemma keeps_numbering:
  "keeps (in_order H) (onJournal (nextMessageSequence (jenv H)))" "keeps (in_order H) (onJournal (nextHeartbeatSequence (jenv H)))"
  by (rule keepsI, simp add: onJournal_def split_beta,
      rule in_order_journal, assumption,
      rule nextMessageSequence_synced nextHeartbeatSequence_synced, simp add: in_order_def)+

lemma keeps_send:
  "\<not> durableRunnerMessage m \<or> (\<exists>s. recovered (jenv H) (clientJournal w) = Some s \<and> unmarshalRunner (libOf H) (pendingMessage s) = Some m)
   \<Longrightarrow> in_order H w \<Longrightarrow> in_order H (snd (send H m w))"
  by (auto simp: send_def consult_def proc_defs in_order_def journaled_first_def plain_heartbeat_def split: option.split)

lemma keeps_pending_send:
  "triple (\<lambda>w. in_order H w \<and> unmarshalRunner (libOf H) (pendingMessage (snapshot w)) = Some m) (sendRetained H S m)
     (\<lambda>_. in_order H) (\<lambda>_. in_order H)"
proof -
  have "triple (\<lambda>w. in_order H w \<and> unmarshalRunner (libOf H) (pendingMessage (snapshot w)) = Some m) (send H m)
      (\<lambda>_. in_order H) (\<lambda>_. in_order H)"
    by (rule triple_sndI, rule keeps_send) (auto simp: in_order_def)
  then show ?thesis
    unfolding sendRetained_def by (intro triple_rules triple_read) (auto elim: triple_conseq)
qed

lemma journalPending_disciplined:
  assumes "\<And>s e s'. mutate s = (Inl e, s') \<Longrightarrow> s' = s"
  shows "journalPending H m b mutate s = (Inl e, s') \<Longrightarrow> s' = s"
  by (auto simp: journalPending_def proc_defs dest: assms split: if_splits prod.splits sum.splits)

lemma journalPending_success: "journalPending H m b mutate s = (Inr x, s') \<Longrightarrow> pendingMessage s' = b"
  by (auto simp: journalPending_def proc_defs split: if_splits prod.splits sum.splits)

lemma g_runnerMessage: "guards (in_order H) (\<lambda>_. in_order H) (runnerMessage H)"
  unfolding guards_keeps runnerMessage_def
  by (intro keeps_rules keeps_numbering) (auto simp: keeps_def consult_def elim: in_order_cong)

lemma keeps_queueDurable:
  assumes "\<And>s e s'. mutate s = (Inl e, s') \<Longrightarrow> s' = s"
  shows "keeps (in_order H) (queueDurable H S p mutate)"
proof (cases "lib_ok (libOf H)")
  case lib: True
  have upd: "triple (in_order H) (journalUpdate H (journalPending H m b mutate))
      (\<lambda>_ w. in_order H w \<and> pendingMessage (snapshot w) = b) (\<lambda>_. in_order H)" for m b
  proof -
    have k: "keeps (in_order H) (journalUpdate H (journalPending H m b mutate))"
      by (rule keeps_update) (rule journalPending_disciplined [OF assms])
    show ?thesis
      by (rule tripleI; frule keepsD [OF k]) (auto dest!: journalUpdate_returns journalPending_success)
  qed
  have "guards (in_order H) (\<lambda>_. in_order H) (queueDurable H S p mutate)"
    unfolding queueDurable_def Let_def
  proof (rule triple_bind [OF g_runnerMessage], intro triple_if triple_option triple_fail)
    fix x b assume "marshalRunner (libOf H) (x\<lparr>runnerPayload := Some p\<rparr>) = Some b"
    then have u: "unmarshalRunner (libOf H) b = Some (x\<lparr>runnerPayload := Some p\<rparr>)"
      using lib by (rule lib_ok_runner [rotated])
    show "guards (in_order H) (\<lambda>_. in_order H)
      (andThen (journalUpdate H (journalPending H (x\<lparr>runnerPayload := Some p\<rparr>) b mutate)) (sendRetained H S (x\<lparr>runnerPayload := Some p\<rparr>)))"
      by (rule triple_andThen [OF upd], rule triple_conseq [OF keeps_pending_send]) (use u in auto)
  qed simp_all
  then show ?thesis by (simp add: guards_keeps)
qed (simp add: keeps_def in_order_def)


lemma keeps_replayPending: "keeps (in_order H) (replayPending H S)"
  unfolding guards_keeps [symmetric] replayPending_def
  by (rule triple_read, intro triple_if triple_option triple_ret triple_fail)
     (auto intro: triple_conseq [OF keeps_pending_send])

lemma t_heartbeatMessage:
  "triple (in_order H) (heartbeatMessage H t leases) (\<lambda>m w. in_order H w \<and> \<not> durableRunnerMessage m) (\<lambda>_. in_order H)"
  unfolding heartbeatMessage_def
  by (rule triple_bind [OF keeps_numbering(2) [folded guards_keeps]], rule triple_bind [OF guards_get],
      rule triple_bind [OF g_runnerMessage], rule triple_ret)
     (simp add: durableRunnerMessage_def)

lemma keeps_sendHeartbeat: "keeps (in_order H) (sendHeartbeat H t)"
proof -
  have load: "keeps (in_order H) (loadHeartbeat H)"
  proof (rule keepsI)
    fix w assume w: "in_order H w"
    then have "validate_heartbeat (libOf H) (snapshot w) = None"
      by (auto simp: in_order_def validateJournalState_def first_fault_None)
    then have "\<not> durableRunnerMessage m" if "pendingHeartbeat (snapshot w) \<noteq> []"
      "unmarshalRunner (libOf H) (pendingHeartbeat (snapshot w)) = Some m" for m
      using that by (auto simp: validate_heartbeat_def durableRunnerMessage_def split: option.splits runner_payload.splits if_splits)
    then show "in_order H (snd (loadHeartbeat H w))"
      using w by (auto simp: loadHeartbeat_def proc_defs in_order_def journaled_first_def plain_heartbeat_def split: option.split)
  qed
  have set: "triple (\<lambda>w. in_order H w \<and> \<not> durableRunnerMessage m)
      (modify (\<lambda>w. w\<lparr>sessionHeartbeat := Some m, heartbeatDeferred := False\<rparr>))
      (\<lambda>_ w. in_order H w \<and> \<not> durableRunnerMessage m) (\<lambda>_. in_order H)" for m
    by (rule triple_modify) (auto simp: in_order_def journaled_first_def plain_heartbeat_def)
  have sending: "triple (\<lambda>w. in_order H w \<and> \<not> durableRunnerMessage m) (send H m) (\<lambda>_. in_order H) (\<lambda>_. in_order H)" for m
    by (rule triple_sndI) (auto intro: keeps_send)
  have journal: "triple (\<lambda>w. in_order H w \<and> \<not> durableRunnerMessage m) (journalUpdate H (journalHeartbeat b))
      (\<lambda>_ w. in_order H w \<and> \<not> durableRunnerMessage m) (\<lambda>_. in_order H)" for m b
    by (rule tripleI; elim conjE; drule keepsD [OF keeps_update [of "journalHeartbeat b"], rotated])
       (auto simp: journalHeartbeat_def proc_defs split: if_splits)
  have new: "guards (in_order H) (\<lambda>_. in_order H) (newHeartbeat H t)"
    unfolding newHeartbeat_def
    by (rule triple_bind [OF guards_get], rule triple_bind [OF triple_ofSum], assumption, assumption,
        rule triple_bind [OF t_heartbeatMessage], rule triple_option, rule triple_fail, simp,
        rule triple_andThen [OF journal], rule triple_andThen [OF set], rule sending)
  have resend: "triple (\<lambda>w. in_order H w \<and> (sessionHeartbeat w, pendingMessage (snapshot w)) = (Some m, pending))
      (if pending \<noteq> [] \<and> snd (heartbeatOf m) \<noteq> [] then modify (\<lambda>w. w\<lparr>heartbeatDeferred := True\<rparr>)
       else andThen (modify (\<lambda>w. w\<lparr>heartbeatDeferred := False\<rparr>)) (send H m)) (\<lambda>_. in_order H) (\<lambda>_. in_order H)" for m pending
    by (rule triple_if, rule triple_modify, erule conjE, erule in_order_cong, simp_all,
        rule triple_andThen [OF triple_modify [where Q = "\<lambda>_ w. in_order H w \<and> \<not> durableRunnerMessage m"] sending])
       (auto simp: in_order_def journaled_first_def plain_heartbeat_def)
  show ?thesis
    unfolding sendHeartbeat_def guards_keeps [symmetric]
    by (rule triple_andThen [OF load [folded guards_keeps]], rule triple_read)
       (auto intro!: triple_option resend triple_conseq [OF new] simp del: prod.inject split: prod.split)
qed


text \<open>The closures of the handlers: all but the one that applies a reconciliation change nothing when they fail.\<close>

lemma disciplined_closures:
  "modify g s = (Inl e, s') \<Longrightarrow> s' = s"
  "ret x s = (Inl e, s') \<Longrightarrow> s' = s"
  "journal_active f s = (Inl e, s') \<Longrightarrow> s' = s"
  "recordRotation metadata s = (Inl e, s') \<Longrightarrow> s' = s"
  "commitRotation runner metadata now s = (Inl e, s') \<Longrightarrow> s' = s"
  "closeRotation H rotation now s = (Inl e, s') \<Longrightarrow> s' = s"
  "acceptActive job s = (Inl e, s') \<Longrightarrow> s' = s"
  by (auto simp: journal_active_def recordRotation_def commitRotation_def closeRotation_def acceptActive_def proc_defs Let_def
      split: option.splits if_splits)

lemma authoritative_plain: "authoritative L r s = (Inl e, s') \<Longrightarrow> \<exists>m. e = Plain m"
  by (auto simp: authoritative_def Let_def split: option.splits if_splits prod.splits)

lemma update_plain:
  assumes "update E f j = (Inl e, j')" "\<And>s e s'. f s = (Inl e, s') \<Longrightarrow> \<exists>m. e = Plain m"
  shows "\<exists>m. e = Plain m"
  using assms(1)
  by (auto simp: update_def Let_def persistLocked_def dest: assms(2) split: prod.splits sum.splits option.splits if_splits)

lemma g_applyAuthoritativeReconciliation:
  "guards (in_order H) (after_failure H) (applyAuthoritativeReconciliation H r)"
proof (rule tripleI)
  fix w x w'
  assume w: "in_order H w" and u: "applyAuthoritativeReconciliation H r w = (Inr x, w')"
  then obtain j where j: "update (jenv H) (authoritative (libOf H) r) (clientJournal w) = (Inr x, j)" "w' = w\<lparr>clientJournal := j\<rparr>"
    by (auto simp: applyAuthoritativeReconciliation_def journalUpdate_def onJournal_def split: prod.splits)
  have "synced (jenv H) j"
    using update_confirmed [OF j(1)] update_path [of "jenv H" "authoritative (libOf H) r" "clientJournal w"] j(1) w
    by (auto simp: in_order_def persistent_def)
  then show "in_order H w'" using w j(2) by (simp add: in_order_journal)
next
  fix w e w'
  assume w: "in_order H w" and u: "applyAuthoritativeReconciliation H r w = (Inl e, w')"
  then obtain j where j: "update (jenv H) (authoritative (libOf H) r) (clientJournal w) = (Inl e, j)" "w' = w\<lparr>clientJournal := j\<rparr>"
    by (auto simp: applyAuthoritativeReconciliation_def journalUpdate_def onJournal_def split: prod.splits)
  have "\<exists>s. recovered (jenv H) j = Some s"
    using update_failed [OF j(1)] w by (auto simp: in_order_def)
  moreover have "persistent (jenv H) j"
    using update_path [of "jenv H" "authoritative (libOf H) r" "clientJournal w"] j(1) w by (auto simp: in_order_def persistent_def)
  moreover have "\<not> transient e"
    using update_plain [OF j(1)] authoritative_plain by (fastforce simp: transient_def)
  ultimately show "after_failure H e w'"
    using w j(2) by (simp add: after_failure_def recoverable_def in_order_def journaled_first_def)
qed

lemma core_fields:
  "core w' = core w \<Longrightarrow> clientJournal w' = clientJournal w \<and> sent w' = sent w \<and> sessionHeartbeat w' = sessionHeartbeat w"
  by (simp add: core_def)

lemmas ahead_defs = in_order_def journaled_first_def plain_heartbeat_def

lemma keeps_closures:
  "keeps (in_order H) (clearPending H)"
  "keeps (in_order H) (clearActive H)"
  "keeps (in_order H) (journalUpdate H (recordCancellation (libOf H) c dg))"
  "keeps (in_order H) (journalUpdate H (modify g))"
  "keeps (in_order H) (journalUpdate H (recordRotation metadata))"
  "keeps (in_order H) (journalUpdate H (commitRotation runner metadata now))"
  "keeps (in_order H) (journalUpdate H (closeRotation H rotation now))"
  unfolding clearPending_def clearActive_def recordCancellation_def by (rule keeps_update, erule disciplined_closures)+

lemma keeps_durable:
  "keeps (in_order H) (queueDurable H S p (ret ()))"
  "keeps (in_order H) (queueDurable H S p (journal_active f))"
  "keeps (in_order H) (queueDurable H S p (acceptActive job))"
  by (rule keeps_queueDurable, erule disciplined_closures)+

lemma keeps_free_send: "\<not> durableRunnerMessage m \<Longrightarrow> keeps (in_order H) (send H m)"
  by (rule keepsI) (rule keeps_send, simp_all)

interpretation ahead: quiet_session "in_order H" H "after_failure H" for H
  by unfold_locales
     (auto simp: keeps_replayPending keeps_sendHeartbeat keeps_numbering g_applyAuthoritativeReconciliation keeps_closures
        keeps_durable keeps_free_send after_failure_def in_order_recoverable intro!: triple_keeps [OF keeps_closures(3)],
      auto simp: ahead_defs core_def)

lemma keeps_acceptOffer: "keeps (in_order H) (acceptOffer H S i dg job target now)"
  unfolding acceptOffer_def
  by (intro keeps_rules keeps_durable)

lemma keeps_startWorker: "keeps (in_order H) (startWorker H)"
  unfolding startWorker_def launch_def
  by (auto simp: ahead_defs intro!: keeps_rules keeps_modify split: option.split)

lemma restart_in_order:
  assumes "recoverable H w" "reopen (jenv H) (clientJournal w) = Inr j"
  shows "in_order H (newClient j secret store w)"
proof -
  obtain s where s: "persistent (jenv H) (clientJournal w)" "recovered (jenv H) (clientJournal w) = Some s"
    using assms(1) by (auto simp: recoverable_def)
  then have j: "j = (clientJournal w)\<lparr>jState := s\<rparr>"
    using recovered_reopen [of "jenv H" "clientJournal w" s] assms(2) by (simp add: persistent_def)
  have "recovered (jenv H) j = Some s"
    using s(2) recovered_cong [of j "clientJournal w"] by (simp add: j)
  moreover have "journal_valid (libOf H) s"
    using recovered_valid [OF s(2)] s(1) by (simp add: persistent_def)
  ultimately have "synced (jenv H) j"
    using s(1) by (simp add: j persistent_def)
  then show ?thesis
    using assms(1) by (simp add: newClient_def newSession_def ahead_defs recoverable_def)
qed

interpretation ahead_uniform: uniform_session H "in_order H" "after_failure H" for H
  by unfold_locales
     (auto simp: keeps_durable keeps_startWorker in_order_recoverable
        intro!: triple_conseq [OF keeps_acceptOffer [folded guards_keeps]],
      auto simp: ahead_defs)

interpretation write_ahead: runner_property H "in_order H" "after_failure H" "\<lambda>_. True" "recoverable H" for H
  by unfold_locales
     (auto simp: keeps_closures restart_in_order after_failure_def in_order_recoverable,
      auto simp: ahead_defs recoverable_def core_def newSession_def)

subsection \<open>Property\<close>

text \<open>
  C16. Write-ahead: whatever the gateway, the network, the file system and crashes do, an event that the gateway must acknowledge is
  on disk as the pending event of the journal at the moment it is sent, so that a restarted process finds it again; and a
  running process never works on a state that a restart would not restore.
\<close>

theorem durable_events_journaled:
  assumes "lib_ok (libOf H)" "persistent (jenv H) (clientJournal w)" "recovered (jenv H) (clientJournal w) = Some (snapshot w)"
    "journal_valid (libOf H) (snapshot w)" "sent w = []" "sessionHeartbeat w = None"
    "(runner_step H)\<^sup>*\<^sup>* (c, w) (c', w')"
  shows "(\<forall>(m, j)\<in>set (sent w'). durableRunnerMessage m \<longrightarrow>
            (\<exists>s. recovered (jenv H) j = Some s \<and> unmarshalRunner (libOf H) (pendingMessage s) = Some m))
         \<and> (c' \<noteq> Halted \<longrightarrow> recovered (jenv H) (clientJournal w') = Some (snapshot w'))"
proof -
  have "in_order H w"
    unfolding ahead_defs using assms(1-4) by (simp only: assms(5,6)) simp
  then have "write_ahead.holds H (c, w)"
    by (simp add: write_ahead.holds_def in_order_recoverable split: connection.split)
  then have "write_ahead.holds H (c', w')"
    by (rule write_ahead.holds_always [rotated]) (simp add: assms(7))
  then have "journaled_first H w'" "c' \<noteq> Halted \<longrightarrow> in_order H w'"
    by (cases c'; simp add: write_ahead.holds_def in_order_def recoverable_def)+
  then show ?thesis
    unfolding journaled_first_def [symmetric] in_order_def by blast
qed

theorem durable_events_journaled_witness:
  "\<exists>w'. (runner_step sampleFileHost)\<^sup>*\<^sup>* (Connected sampleStream, sampleClient (sampleJournal sampleBusy ''busy'')) (Connected sampleStream, w')
     \<and> map fst (sent w') = [samplePreparing] \<and> recovered (jenv sampleFileHost) (clientJournal w') = Some (snapshot w')
     \<and> (\<exists>s. recovered (jenv sampleFileHost) (snd (hd (sent w'))) = Some s
            \<and> unmarshalRunner (libOf sampleFileHost) (pendingMessage s) = Some samplePreparing)"
proof -
  let ?w = "sampleClient (sampleJournal sampleBusy ''busy'')"
  obtain w' where w': "handleEvent sampleFileHost sampleStream (FromGateway (sampleGateway (G_Offer sampleOffer) ''offer'')) ?w = (Inr (), w')"
    "sent w' = [(samplePreparing, sampleJournal sampleBusy ''busy'')]"
    using sample_replayed by blast
  have run: "(runner_step sampleFileHost)\<^sup>*\<^sup>* (Connected sampleStream, ?w) (Connected sampleStream, w')"
    by (rule r_into_rtranclp) (rule step_event [OF w'(1)])
  have lib: "lib_ok (libOf sampleFileHost)" by simp
  have h: "persistent (jenv sampleFileHost) (clientJournal ?w)"
    "recovered (jenv sampleFileHost) (clientJournal ?w) = Some (snapshot ?w)" "journal_valid (libOf sampleFileHost) (snapshot ?w)"
    "sent ?w = []" "sessionHeartbeat ?w = None"
    using sampleBusy_synced unfolding sampleClient_fields by (blast, blast, blast, simp_all)
  have "durableRunnerMessage samplePreparing" by (simp add: durableRunnerMessage_def)
  then have "\<exists>s. recovered (jenv sampleFileHost) (sampleJournal sampleBusy ''busy'') = Some s
      \<and> unmarshalRunner (libOf sampleFileHost) (pendingMessage s) = Some samplePreparing"
    and "recovered (jenv sampleFileHost) (clientJournal w') = Some (snapshot w')"
    using durable_events_journaled [OF lib h run] unfolding w'(2) by (simp_all del: sampleHost_lib)
  then show ?thesis
    using run w'(2) by (intro exI [of _ w']) (simp del: sampleHost_lib)
qed

end
