(* ===== verification/Launching.thy ===== *)
theory Launching
  imports SessionRules SampleHost
begin

section \<open>A lease starts its worker at most once\<close>

text \<open>
  While one lease is active the worker is started at most once, whatever the gateway acknowledges, repeats or declares stale, and
  also if the process is restarted in between. The argument is a credit: a pending acceptance or
  preparation of a client that is not recovering is worth one start, and no step earns more.
\<close>

definition launchKind :: "runner_payload option \<Rightarrow> bool" where
  "launchKind p = (case p of Some (P_LeaseAccepted _) \<Rightarrow> True | Some (P_JobPreparing _) \<Rightarrow> True | _ \<Rightarrow> False)"

definition armed :: "lib \<Rightarrow> journal_state \<Rightarrow> bool \<Rightarrow> bool" where
  "armed L s isRecovering \<longleftrightarrow>
     \<not> isRecovering \<and> active s \<noteq> None \<and> pendingMessage s \<noteq> []
     \<and> (case unmarshalRunner L (pendingMessage s) of None \<Rightarrow> False | Some m \<Rightarrow> launchKind (runnerPayload m))"

text \<open>\<open>base\<close> are the starts so far, \<open>k\<close> the number of starts there may be; \<open>credit\<close> leaves one start to be spent.\<close>

definition within :: "lib \<Rightarrow> job_spec list \<Rightarrow> nat \<Rightarrow> journal_state \<Rightarrow> bool \<Rightarrow> job_spec list \<Rightarrow> bool" where
  "within L base k s isRecovering starts \<longleftrightarrow>
     (lib_ok L \<longrightarrow> (\<exists>xs. starts = base @ xs) \<and> length starts + (if armed L s isRecovering then 1 else 0) \<le> k)"

definition bounded :: "host \<Rightarrow> job_spec list \<Rightarrow> nat \<Rightarrow> clientSession \<Rightarrow> bool" where
  "bounded H base k w \<longleftrightarrow> within (libOf H) base k (snapshot w) (recovering w) (launches w)"

definition credit :: "host \<Rightarrow> job_spec list \<Rightarrow> nat \<Rightarrow> clientSession \<Rightarrow> bool" where
  "credit H base k w \<longleftrightarrow>
     (lib_ok (libOf H) \<longrightarrow> (\<exists>xs. launches w = base @ xs)
       \<and> length (launches w) + (if recovering w \<or> active (snapshot w) = None then 0 else 1) \<le> k)"

lemma credit_bounded: "credit H base k w \<Longrightarrow> bounded H base k w"
  by (auto simp: credit_def bounded_def within_def armed_def split: if_splits)

subsection \<open>Changes of the journal\<close>

lemma keeps_bounded_update:
  assumes "\<And>s r ls. within (libOf H) base k s r ls \<Longrightarrow> within (libOf H) base k (snd (f s)) r ls"
  shows "keeps (bounded H base k) (onJournal (update (jenv H) f))"
proof (rule keepsI)
  fix w assume w: "bounded H base k w"
  obtain j where "snd (onJournal (update (jenv H) f) w) = w\<lparr>clientJournal := j\<rparr>" "jState j = snapshot w \<or> jState j = snd (f (snapshot w))"
    using onJournal_update_states by blast
  then show "bounded H base k (snd (onJournal (update (jenv H) f) w))"
    using w assms by (auto simp: bounded_def)
qed

lemma keeps_credit_update:
  assumes "\<And>s. active s = None \<Longrightarrow> active (snd (f s)) = None"
  shows "keeps (credit H base k) (onJournal (update (jenv H) f))"
proof (rule keepsI)
  fix w assume w: "credit H base k w"
  obtain j where "snd (onJournal (update (jenv H) f) w) = w\<lparr>clientJournal := j\<rparr>" "jState j = snapshot w \<or> jState j = snd (f (snapshot w))"
    using onJournal_update_states by blast
  then show "credit H base k (snd (onJournal (update (jenv H) f) w))"
    using w assms by (auto simp: credit_def split: if_splits)
qed

lemma within_cong:
  "within L base k s r ls \<Longrightarrow> (active s = None \<longrightarrow> active s' = None) \<Longrightarrow> pendingMessage s' = pendingMessage s \<or> pendingMessage s' = []
   \<Longrightarrow> within L base k s' r ls"
  by (auto simp: within_def armed_def split: if_splits option.splits)

text \<open>The closures that change neither the pending event nor whether a lease is active, and those that clear them.\<close>

lemma closures_within:
  assumes "within L base k s r ls"
  shows "within L base k (snd (modify (\<lambda>s. s\<lparr>pendingMessage := []\<rparr>) s)) r ls"
    "within L base k (snd (modify (\<lambda>s. s\<lparr>active := None, pendingMessage := []\<rparr>) s)) r ls"
    "within L base k (snd (modify (\<lambda>s. s\<lparr>pendingHeartbeat := b\<rparr>) s)) r ls"
    "within L base k (snd (journalHeartbeat b s)) r ls"
    "within L base k (snd (authoritative L r' s)) r ls"
    "within L base k (snd (journal_active f s)) r ls"
    "within L base k (snd (recordRotation metadata s)) r ls"
    "within L base k (snd (commitRotation runner metadata now s)) r ls"
    "within L base k (snd (closeRotation H rotation now s)) r ls"
  by (rule within_cong [OF assms]; auto simp: authoritative_def journal_active_def recordRotation_def commitRotation_def
      closeRotation_def journalHeartbeat_def proc_defs Let_def split: option.splits if_splits prod.splits)+


lemma keeps_bounded_closures:
  "keeps (bounded H base k) (clearPending H)"
  "keeps (bounded H base k) (clearActive H)"
  "keeps (bounded H base k) (journalUpdate H (modify (\<lambda>s. s\<lparr>pendingHeartbeat := []\<rparr>)))"
  "keeps (bounded H base k) (journalUpdate H (journalHeartbeat b))"
  "keeps (bounded H base k) (applyAuthoritativeReconciliation H r)"
  "keeps (bounded H base k) (journalUpdate H (recordCancellation (libOf H) c dg))"
  "keeps (bounded H base k) (journalUpdate H (recordRotation metadata))"
  "keeps (bounded H base k) (journalUpdate H (commitRotation runner metadata now))"
  "keeps (bounded H base k) (journalUpdate H (closeRotation H rotation now))"
  unfolding clearPending_def clearActive_def recordCancellation_def applyAuthoritativeReconciliation_def journalUpdate_def
  by (rule keeps_bounded_update, erule closures_within)+

lemma bounded_cong:
  "bounded H base k w \<Longrightarrow> snapshot w' = snapshot w \<Longrightarrow> recovering w' = recovering w \<Longrightarrow> launches w' = launches w \<Longrightarrow> bounded H base k w'"
  by (simp add: bounded_def)

lemma keeps_bounded_numbering:
  "keeps (bounded H base k) (onJournal (nextMessageSequence (jenv H)))"
  "keeps (bounded H base k) (onJournal (nextHeartbeatSequence (jenv H)))"
  unfolding nextMessageSequence_def nextHeartbeatSequence_def
  by (rule keeps_bounded_update, erule within_cong, auto simp: proc_defs Let_def split: if_splits)+

lemma keeps_bounded_send: "keeps (bounded H base k) (send H m)"
  by (rule keepsI) (auto simp: send_def consult_def proc_defs bounded_def split: option.split)

lemma keeps_bounded_consult: "keeps (bounded H base k) (consult f)"
  by (rule keepsI) (auto simp: consult_def bounded_def)

lemma keeps_bounded_sendRetained: "keeps (bounded H base k) (sendRetained H S m)"
  unfolding sendRetained_def by (intro keeps_rules keeps_bounded_send)

lemma keeps_bounded_runnerMessage: "keeps (bounded H base k) (runnerMessage H)"
  unfolding runnerMessage_def by (intro keeps_rules keeps_bounded_numbering keeps_bounded_consult)

lemma keeps_bounded_sendHeartbeat: "keeps (bounded H base k) (sendHeartbeat H t)"
  unfolding sendHeartbeat_def loadHeartbeat_def newHeartbeat_def heartbeatMessage_def
  by (intro keeps_rules keeps_modify keeps_bounded_numbering keeps_bounded_runnerMessage keeps_bounded_send keeps_bounded_closures)
     (simp_all add: bounded_def)


text \<open>An event that is queued: a report keeps the bound, an acceptance or a preparation needs the credit.\<close>

lemma journalPending_states:
  assumes "\<And>s. active s = None \<Longrightarrow> active (snd (mutate s)) = None" "\<And>s. pendingMessage (snd (mutate s)) = pendingMessage s"
  shows "(active s = None \<longrightarrow> active (snd (journalPending H m b mutate s)) = None)
    \<and> (pendingMessage (snd (journalPending H m b mutate s)) = pendingMessage s \<or> pendingMessage (snd (journalPending H m b mutate s)) = b)"
  using assms(1) [of s] assms(2) [of s]
  by (auto simp: journalPending_def proc_defs split: prod.split sum.split)

definition quietMutation :: "(journal_state, go_error, unit) proc \<Rightarrow> bool" where
  "quietMutation mutate \<longleftrightarrow> mutate = ret () \<or> (\<exists>f. mutate = journal_active f)"

lemma quietMutation_states:
  "quietMutation mutate \<Longrightarrow> (active s = None \<longrightarrow> active (snd (mutate s)) = None) \<and> pendingMessage (snd (mutate s)) = pendingMessage s"
  by (auto simp: quietMutation_def journal_active_def ret_def split: option.split)

lemma t_queueDurable:
  assumes journal: "\<And>m b. runnerPayload m = Some p \<Longrightarrow> lib_ok (libOf H) \<longrightarrow> unmarshalRunner (libOf H) b = Some m \<Longrightarrow>
      triple P (journalUpdate H (journalPending H m b mutate)) (\<lambda>_. bounded H base k) (\<lambda>_. bounded H base k)"
    and P: "keeps P (runnerMessage H)" "\<And>w. P w \<Longrightarrow> bounded H base k w"
  shows "triple P (queueDurable H S p mutate) (\<lambda>_. bounded H base k) (\<lambda>_. bounded H base k)"
proof -
  have number: "triple P (runnerMessage H) (\<lambda>_. P) (\<lambda>_. bounded H base k)"
    using P(1) [folded guards_keeps] by (rule triple_conseq) (auto intro: P(2))
  have send: "triple (bounded H base k) (sendRetained H S m) (\<lambda>_. bounded H base k) (\<lambda>_. bounded H base k)" for m
    using keeps_bounded_sendRetained by (simp add: guards_keeps)
  show ?thesis
    unfolding queueDurable_def Let_def
    by (rule triple_bind [OF number], intro triple_if triple_option triple_fail triple_andThen [OF journal send])
       (auto intro: P(2) dest: lib_ok_runner)
qed

lemma quiet_launchKind: "quiet_payload p \<Longrightarrow> \<not> launchKind (Some p)"
  by (simp add: quiet_payload_def launchKind_def split: runner_payload.splits)

lemma within_disarmed:
  "within L base k s r ls \<Longrightarrow> (lib_ok L \<Longrightarrow> \<not> armed L s' r) \<Longrightarrow> within L base k s' r ls"
  by (auto simp: within_def split: if_splits)

lemma keeps_bounded_queue:
  assumes "quiet_payload p" "quietMutation mutate"
  shows "keeps (bounded H base k) (queueDurable H S p mutate)"
proof -
  have "keeps (bounded H base k) (journalUpdate H (journalPending H m b mutate))"
    if m: "runnerPayload m = Some p" "lib_ok (libOf H) \<longrightarrow> unmarshalRunner (libOf H) b = Some m" for m b
    unfolding journalUpdate_def
  proof (rule keeps_bounded_update)
    fix s r ls assume w: "within (libOf H) base k s r ls"
    let ?s = "snd (journalPending H m b mutate s)"
    have "(active s = None \<longrightarrow> active ?s = None) \<and> (pendingMessage ?s = pendingMessage s \<or> pendingMessage ?s = b)"
      by (rule journalPending_states) (simp_all add: quietMutation_states [OF assms(2)])
    then consider "active s = None \<longrightarrow> active ?s = None" "pendingMessage ?s = pendingMessage s" | "pendingMessage ?s = b" by blast
    then show "within (libOf H) base k ?s r ls"
    proof cases
      case 1
      then show ?thesis by (intro within_cong [OF w]) simp_all
    next
      case 2
      then show ?thesis
        by (intro within_disarmed [OF w]) (simp add: armed_def m quiet_launchKind [OF assms(1)])
    qed
  qed
  then show ?thesis
    unfolding guards_keeps [symmetric] by (intro t_queueDurable) (auto simp: guards_keeps keeps_bounded_runnerMessage)
qed

lemma keeps_credit_runnerMessage: "keeps (credit H base k) (runnerMessage H)"
  unfolding runnerMessage_def nextMessageSequence_def
  by (intro keeps_rules keeps_credit_update) (auto simp: keeps_def consult_def credit_def proc_defs Let_def split: if_splits)

lemma t_queueCredit:
  assumes "quietMutation mutate"
  shows "triple (credit H base k) (queueDurable H S p mutate) (\<lambda>_. bounded H base k) (\<lambda>_. bounded H base k)"
proof (rule t_queueDurable)
  fix m b
  have "active (snd (journalPending H m b mutate s)) = None" if "active s = None" for s
    using journalPending_states [of mutate s H m b] quietMutation_states [OF assms] that by blast
  then have "keeps (credit H base k) (journalUpdate H (journalPending H m b mutate))"
    unfolding journalUpdate_def by (rule keeps_credit_update)
  then show "triple (credit H base k) (journalUpdate H (journalPending H m b mutate)) (\<lambda>_. bounded H base k) (\<lambda>_. bounded H base k)"
    unfolding guards_keeps [symmetric] by (rule triple_conseq) (auto intro: credit_bounded)
qed (simp_all add: keeps_credit_runnerMessage credit_bounded)

lemma keeps_bounded_replayPending: "keeps (bounded H base k) (replayPending H S)"
  unfolding replayPending_def by (intro keeps_rules keeps_bounded_sendRetained)

lemma quietMutations [simp]: "quietMutation (ret ())" "quietMutation (journal_active f)"
  by (auto simp: quietMutation_def)

lemma bounded_recovered: "bounded H base k w \<Longrightarrow> active (snapshot w) = None \<Longrightarrow> bounded H base k (w\<lparr>recovering := False\<rparr>)"
  by (simp add: bounded_def within_def armed_def)

lemma bounded_core: "bounded H base k w \<Longrightarrow> core w' = core w \<Longrightarrow> bounded H base k w'"
  by (simp add: bounded_def core_def)

interpretation starts: quiet_session "bounded H base k" H "\<lambda>_. bounded H base k" for H base k
  by unfold_locales
     (simp_all add: keeps_bounded_closures keeps_bounded_send keeps_bounded_sendHeartbeat keeps_bounded_numbering guards_keeps
        keeps_bounded_replayPending bounded_recovered,
      auto simp: bounded_def core_def intro: keeps_bounded_queue triple_keeps [OF keeps_bounded_closures(6)])

interpretation credit_control: control_property "credit H base k" for H base k
  by unfold_locales (simp_all add: credit_def core_def)

subsection \<open>Acknowledgements of an acceptance or a preparation\<close>

lemma armed_credit:
  "bounded H base k w \<Longrightarrow> pendingMessage (snapshot w) \<noteq> [] \<Longrightarrow> unmarshalRunner (libOf H) (pendingMessage (snapshot w)) = Some m
   \<Longrightarrow> launchKind (runnerPayload m) \<Longrightarrow> credit H base k w"
  by (auto simp: bounded_def within_def armed_def credit_def)

lemma keeps_credit_closures:
  "keeps (credit H base k) (clearPending H)"
  "keeps (credit H base k) (applyAuthoritativeReconciliation H r)"
  unfolding clearPending_def applyAuthoritativeReconciliation_def journalUpdate_def
  by (rule keeps_credit_update, simp add: authoritative_def modify_def)+

lemma credit_guards: "keeps (credit H base k) m \<Longrightarrow> triple (credit H base k) m (\<lambda>_. credit H base k) (\<lambda>_. bounded H base k)"
  unfolding guards_keeps [symmetric] by (erule triple_conseq) (auto intro: credit_bounded)

abbreviation cleared :: "host \<Rightarrow> job_spec list \<Rightarrow> nat \<Rightarrow> clientSession \<Rightarrow> bool" where
  "cleared H base k w \<equiv> credit H base k w \<and> pendingMessage (snapshot w) = []"

lemma t_clearPending:
  "triple (credit H base k) (clearPending H) (\<lambda>_. cleared H base k) (\<lambda>_. bounded H base k)"
proof (rule tripleI)
  fix w :: clientSession and x w'
  assume w: "credit H base k w" and u: "clearPending H w = (Inr x, w')"
  have "credit H base k w'" using keepsD [OF keeps_credit_closures(1) w] u by simp
  moreover have "(snapshot w)\<lparr>pendingMessage := []\<rparr> = snapshot w'"
    using u by (auto simp: clearPending_def modify_def dest!: journalUpdate_returns)
  then have "pendingMessage (snapshot w') = []" by (simp flip: \<open>_ = snapshot w'\<close>)
  ultimately show "cleared H base k w'" by simp
next
  fix w :: clientSession and e w'
  assume "credit H base k w" "clearPending H w = (Inl e, w')"
  then show "bounded H base k w'" using keepsD [OF keeps_credit_closures(1)] credit_bounded by (metis snd_conv)
qed

lemma t_clearPendingAcknowledged:
  "triple (credit H base k) (clearPendingAcknowledged H m act) (\<lambda>_. cleared H base k) (\<lambda>_. bounded H base k)"
proof -
  have "triple (cleared H base k) (rememberSettledMessage m p) (\<lambda>_. cleared H base k) (\<lambda>_. bounded H base k)" for p
    unfolding rememberSettledMessage_def
    by (intro triple_if triple_ret triple_modify) (auto simp: credit_def split: prod.split)
  then show ?thesis
    unfolding clearPendingAcknowledged_def by (rule triple_andThen [OF t_clearPending])
qed

lemma t_startWorker:
  "triple (\<lambda>w. cleared H base k w \<and> \<not> recovering w) (startWorker H) (\<lambda>_. bounded H base k) (\<lambda>_. bounded H base k)"
proof (rule triple_sndI)
  fix w :: clientSession
  assume w: "cleared H base k w \<and> \<not> recovering w"
  then show "bounded H base k (snd (startWorker H w))"
    by (auto simp: startWorker_def launch_def proc_defs bounded_def within_def credit_def armed_def
        split: option.split)
qed

lemma t_queuePreparing: "triple (credit H base k) (queuePreparing H S now) (\<lambda>_. bounded H base k) (\<lambda>_. bounded H base k)"
proof -
  have "keeps (credit H base k) (activeIdentityNow H)"
    unfolding activeIdentityNow_def by (intro keeps_rules)
  then show ?thesis
    unfolding queuePreparing_def by (rule triple_bind [OF credit_guards]) (auto intro: t_queueCredit split: prod.split)
qed

lemma t_reissueStaleEvent: "triple (credit H base k) (reissueStaleEvent H S m now) (\<lambda>_. bounded H base k) (\<lambda>_. bounded H base k)"
proof -
  have "keeps (credit H base k) (if b then ofSum r else ret x)" for b r and x :: "lease_identity option \<times> attempt_identity option"
    by (intro keeps_rules)
  then show ?thesis
    unfolding reissueStaleEvent_def
    by (intro triple_bind [OF credit_guards [OF keeps_get]] triple_prod triple_Let)
       (auto intro!: triple_bind [OF credit_guards] t_queueCredit triple_fail credit_bounded split: option.split prod.split)
qed

lemma t_acknowledgedEvent:
  assumes "launchKind (runnerPayload m)"
  shows "triple (credit H base k) (acknowledgedEvent H S m state now) (\<lambda>_. bounded H base k) (\<lambda>_. bounded H base k)"
proof -
  have reading: "triple (cleared H base k) (unlessRecovering H S now (unlessCancelled H S now rest)) (\<lambda>_. bounded H base k) (\<lambda>_. bounded H base k)"
    if "triple (\<lambda>w. cleared H base k w \<and> \<not> recovering w) rest (\<lambda>_. bounded H base k) (\<lambda>_. bounded H base k)" for rest
    unfolding unlessRecovering_def unlessCancelled_def
    by (rule triple_read, intro triple_if, rule triple_keeps [OF starts.k_queueRestartFailure], simp add: credit_bounded,
        rule triple_read, intro triple_option triple_if triple_fail triple_keeps [OF starts.k_advance])
       (auto intro: credit_bounded triple_conseq [OF that])
  have preparing: "triple (\<lambda>w. cleared H base k w \<and> \<not> recovering w) (queuePreparing H S now) (\<lambda>_. bounded H base k) (\<lambda>_. bounded H base k)"
    by (rule triple_conseq [OF t_queuePreparing]) auto
  show ?thesis
    using assms unfolding acknowledgedEvent_def Let_def launchKind_def
    by (auto intro!: triple_andThen [OF t_clearPendingAcknowledged] reading t_startWorker preparing split: option.splits runner_payload.splits)
qed

lemma credit_acknowledgePending:
  assumes "launchKind (runnerPayload m)"
  shows "triple (credit H base k) (acknowledgePending H S m r state now) (\<lambda>_. bounded H base k) (\<lambda>_. bounded H base k)"
proof -
  have stop: "keeps (credit H base k) (if b then andThen (applyAuthoritativeReconciliation H r) (stopAndFail e) else ret ())" for b e
    by (intro keeps_rules keeps_credit_closures)
  have authority: "keeps (credit H base k) (if b then applyAuthoritativeReconciliation H r else ret ())" for b
    by (intro keeps_rules keeps_credit_closures)
  have stopped: "keeps (credit H base k) (if b then networkAuthorityStopped H else ret False)" for b
    by (intro keeps_rules keeps_credit_closures)
  have clear: "triple (credit H base k) (clearPendingAcknowledged H m act) (\<lambda>_. bounded H base k) (\<lambda>_. bounded H base k)" for act
    by (rule triple_conseq [OF t_clearPendingAcknowledged]) (auto intro: credit_bounded)
  have after: "triple (cleared H base k) k' (\<lambda>_. bounded H base k) (\<lambda>_. bounded H base k)"
    if "triple (credit H base k) k' (\<lambda>_. bounded H base k) (\<lambda>_. bounded H base k)" for k'
    by (rule triple_conseq [OF that]) auto
  have go: "triple (credit H base k) (advance H S now) (\<lambda>_. bounded H base k) (\<lambda>_. bounded H base k)"
    "triple (credit H base k) (ret ()) (\<lambda>_. bounded H base k) (\<lambda>_. bounded H base k)"
    by (rule triple_keeps [OF starts.k_advance credit_bounded], assumption, rule triple_ret, rule credit_bounded)
  show ?thesis
    unfolding acknowledgePending_def Let_def
    by (intro triple_if triple_andThen [OF credit_guards [OF stop]] triple_andThen [OF credit_guards [OF authority]]
        triple_bind [OF credit_guards [OF stopped]] triple_andThen [OF t_clearPendingAcknowledged] after go clear
        t_reissueStaleEvent t_acknowledgedEvent [OF assms] triple_keeps [OF starts.k_endLease [OF starts.k_rememberSettledMessage]] credit_bounded)
qed

text \<open>The other events: no acknowledgement of them starts a worker.\<close>

lemma reissued_quiet: "reissuedEvent L lease attempt now p = Some q \<Longrightarrow> \<not> launchKind (Some p) \<Longrightarrow> quiet_payload q"
  by (auto simp: reissuedEvent_def launchKind_def quiet_payload_def split: runner_payload.splits)

lemma k_quiet_reissue:
  assumes "\<not> launchKind (runnerPayload m)"
  shows "keeps (bounded H base k) (reissueStaleEvent H S m now)"
  unfolding reissueStaleEvent_def
  using assms by (intro keeps_rules keeps_bounded_queue) (auto dest: reissued_quiet)

lemma k_quiet_acknowledgedEvent:
  assumes "\<not> launchKind (runnerPayload m)" "recDisposition r \<noteq> DISPOSITION_STALE" "\<not> terminalLeaseStatus (recStatus r)"
    "validatePendingReconciliation m r state = None"
  shows "keeps (bounded H base k) (acknowledgedEvent H S m state now)"
proof -
  have confirm: "keeps (bounded H base k) (completeStartResponse None)"
    unfolding completeStartResponse_def replyStart_def by (intro keeps_rules keeps_modify) (simp_all add: bounded_def)
  have after: "keeps (bounded H base k) (unlessRecovering H S now rest)" if "keeps (bounded H base k) rest" for rest
    unfolding unlessRecovering_def using that by (intro keeps_rules)
  have "keeps (bounded H base k) (andThen (clearPendingAcknowledged H m (active state)) (unlessRecovering H S now rest))"
    if "keeps (bounded H base k) rest" for rest
    by (intro keeps_rules after that)
  moreover have "\<not> terminalEvent m"
    using assms(2-4) by (auto simp: validatePendingReconciliation_def terminalEvent_def split: option.splits runner_payload.splits)
  moreover have "keeps (bounded H base k) (andThen (completeStartResponse None) (drainDeferred H S))"
    by (intro keeps_rules confirm)
  ultimately show ?thesis
    using assms(1) unfolding acknowledgedEvent_def Let_def
    by (auto simp: launchKind_def starts.k_drainDeferred split: option.splits runner_payload.splits)
qed

lemma k_quiet_acknowledgePending:
  assumes "\<not> launchKind (runnerPayload m)" "validatePendingReconciliation m r state = None"
  shows "keeps (bounded H base k) (acknowledgePending H S m r state now)"
  unfolding acknowledgePending_def Let_def
  by (intro keeps_rules keeps_bounded_closures starts.k_endLease k_quiet_reissue assms k_quiet_acknowledgedEvent [where r = r]) auto

interpretation starts: runner_property H "bounded H base k" "\<lambda>_. bounded H base k" "\<lambda>s. active s \<noteq> None" "bounded H base k" for H base k
proof
  fix S offer now job i dg target and message :: gateway_message
  show "triple (\<lambda>w. bounded H base k w \<and> idle w \<and> active (snapshot w) \<noteq> None) (acceptOffer H S i dg job target now)
      (\<lambda>_. bounded H base k) (\<lambda>_. bounded H base k)"
    by (rule tripleI) (auto simp: idle_def)
next
  fix state pending r S now
  assume "pendingMessage state \<noteq> []" "unmarshalRunner (libOf H) (pendingMessage state) = Some pending"
    "validatePendingReconciliation pending r state = None"
  then show "triple (\<lambda>w. bounded H base k w \<and> snapshot w = state) (acknowledgePending H S pending r state now)
      (\<lambda>_. bounded H base k) (\<lambda>_. bounded H base k)"
    by (cases "launchKind (runnerPayload pending)")
       (rule triple_conseq [OF credit_acknowledgePending], auto intro: armed_credit triple_keeps [OF k_quiet_acknowledgePending])
next
  fix w j secret store
  assume "bounded H base k w"
  then show "bounded H base k (newClient j secret store w)"
    by (auto simp: bounded_def within_def armed_def newClient_def newSession_def split: if_splits)
qed (simp_all add: keeps_bounded_closures, simp_all add: bounded_def core_def newSession_def)

subsection \<open>Property\<close>

text \<open>
  C17. As long as a lease is active its worker is started at most once, and only if at the beginning the acceptance or the preparation
  of the lease was still unacknowledged and the process had not been restarted: whatever the gateway sends, repeats or declares
  stale, and across reconnects, crashes and restarts.
\<close>

theorem worker_starts_once:
  assumes "lib_ok (libOf H)" "(step_from (\<lambda>s. active s \<noteq> None) H)\<^sup>*\<^sup>* (c, w) (c', w')"
  shows "launches w' = launches w
         \<or> (armed (libOf H) (snapshot w) (recovering w) \<and> (\<exists>job. launches w' = launches w @ [job]))"
proof -
  define k where "k = length (launches w) + (if armed (libOf H) (snapshot w) (recovering w) then 1 else 0)"
  then have "bounded H (launches w) k w" by (simp add: bounded_def within_def)
  then have "starts.holds H (launches w) k (c', w')"
    by (intro starts.holds_always [OF assms(2)]) (simp add: starts.holds_def split: connection.split)
  then have "bounded H (launches w) k w'" by (simp add: starts.holds_def split: connection.splits)
  then obtain xs where "launches w' = launches w @ xs" "length xs \<le> (if armed (libOf H) (snapshot w) (recovering w) then 1 else 0)"
    using assms(1) by (auto simp: bounded_def within_def k_def split: if_splits)
  then show ?thesis by (cases xs) (auto split: if_splits)
qed

theorem worker_starts_once_witness:
  "\<exists>w'. (step_from (\<lambda>s. active s \<noteq> None) (sampleHost sampleMessages []))\<^sup>*\<^sup>*
        (Connected sampleStream, sampleClient (memoryJournal sampleBusy)) (Connected sampleStream, w')
     \<and> launches w' = [sampleJob]
     \<and> armed (libOf (sampleHost sampleMessages [])) (snapshot (sampleClient (memoryJournal sampleBusy))) False"
proof -
  let ?H = "sampleHost sampleMessages []" and ?w = "sampleClient (memoryJournal sampleBusy)"
  obtain w' where w': "handleEvent ?H sampleStream (FromGateway (sampleAck PHASE_PREPARING)) ?w = (Inr (), w')" "launches w' = [sampleJob]"
    using sample_worker_started by blast
  have run: "(step_from (\<lambda>s. active s \<noteq> None) ?H)\<^sup>*\<^sup>* (Connected sampleStream, ?w) (Connected sampleStream, w')"
    by (rule r_into_rtranclp) (simp add: step_from_def step_event [OF w'(1)])
  have "lib_ok (libOf ?H)" by simp
  from worker_starts_once [OF this run] have "armed (libOf ?H) (snapshot ?w) (recovering ?w)"
    by (simp add: w'(2))
  then show ?thesis
    using run w'(2) by (intro exI [of _ w']) (simp del: sampleHost_lib)
qed

end
