(* ===== verification/Reconnecting.thy ===== *)
theory Reconnecting
  imports Connection
begin

section \<open>Reconnecting\<close>

text \<open>
  The reconnect loop: the delays it waits are bounded and grow by doubling, and it ends only for the reasons the code names.
\<close>

lemma reconnect_constants: "initialReconnectDelay = 250000000" "maximumReconnectDelay = 30000000000"
  by (simp_all add: initialReconnectDelay_def maximumReconnectDelay_def duration_defs)

definition delay_ok :: "duration \<Rightarrow> bool" where
  "delay_ok d \<longleftrightarrow> initialReconnectDelay \<le> d \<and> d \<le> maximumReconnectDelay"

lemma nextDelay_min: "nextDelay d = (if d < maximumReconnectDelay then min (2 * d) maximumReconnectDelay else d)"
  by (auto simp: nextDelay_def min_def)

lemma delay_ok_initial: "delay_ok initialReconnectDelay"
  by (simp add: delay_ok_def reconnect_constants)

lemma delay_ok_next: "delay_ok d \<Longrightarrow> delay_ok (nextDelay d)"
  by (auto simp: delay_ok_def nextDelay_min reconnect_constants)

lemma run_loop_delays: "delay_ok d \<Longrightarrow> list_all delay_ok (fst (run_loop d results))"
  by (induction d results rule: run_loop.induct)
     (auto simp: delay_ok_initial delay_ok_next Let_def split: option.splits prod.splits)

text \<open>The sessions that fail one after the other before being established, with an error that is waited for.\<close>

definition refused :: "session_result \<Rightarrow> bool" where
  "refused r \<longleftrightarrow>
     (\<exists>e. sessionError r = Some e \<and> transient e \<and> e \<noteq> CredentialRotationReconnect \<and> e \<noteq> HostedSessionRenewal)
     \<and> \<not> wasEstablished r \<and> \<not> contextDone r \<and> \<not> waitInterrupted r"

lemma run_loop_refused:
  "list_all refused results \<Longrightarrow>
   run_loop d (results @ rest)
     = (map (\<lambda>i. (nextDelay ^^ i) d) [0..<length results] @ fst (run_loop ((nextDelay ^^ length results) d) rest),
        snd (run_loop ((nextDelay ^^ length results) d) rest))"
proof (induction results arbitrary: d)
  case (Cons r results)
  then obtain e where e: "sessionError r = Some e" "transient e" "e \<noteq> CredentialRotationReconnect" "e \<noteq> HostedSessionRenewal"
    and r: "\<not> wasEstablished r" "\<not> contextDone r" "\<not> waitInterrupted r"
    by (auto simp: refused_def)
  have s: "map (\<lambda>i. (nextDelay ^^ i) d) [0..<length (r # results)]
      = d # map (\<lambda>i. (nextDelay ^^ i) (nextDelay d)) [0..<length results]"
    unfolding length_Cons upt_conv_Cons [OF zero_less_Suc] map_Suc_upt [symmetric]
    by (simp add: funpow_swap1 del: upt_Suc)
  show ?case
    using Cons.prems Cons.IH [of "nextDelay d"] e r unfolding s by (simp add: funpow_swap1)
qed simp

lemma nextDelay_power: "(nextDelay ^^ i) initialReconnectDelay = min (2 ^ i * initialReconnectDelay) maximumReconnectDelay"
proof (induction i)
  case (Suc i)
  then show ?case
    by (auto simp: nextDelay_min min_def reconnect_constants)
qed (simp add: reconnect_constants)

lemma run_loop_returns:
  "snd (run_loop d results) = RunReturned outcome \<Longrightarrow>
   \<exists>r\<in>set results. (case outcome of
       None \<Rightarrow> sessionError r = None
     | Some e \<Rightarrow> (contextDone r \<or> waitInterrupted r) \<and> e = ContextCanceled
         \<or> (\<exists>e'. sessionError r = Some e' \<and> \<not> transient e' \<and> e = sanitizeStreamError e'))"
proof (induction d results rule: run_loop.induct)
  case (2 delay r rest)
  then show ?case
    by (auto simp: Let_def split: option.splits prod.splits if_splits)
qed simp

subsection \<open>Properties\<close>


definition refusal :: session_result where
  "refusal = \<lparr>wasEstablished = False, sessionError = Some StreamEOF, contextDone = False, waitInterrupted = False\<rparr>"




end
