(* ===== verification/RotationSafety.thy ===== *)
theory RotationSafety
  imports CredentialRotation
begin

section \<open>Rotation of the connection credential\<close>

text \<open>
  The base64 codec: encoding is inverted by decoding, and on strings of the credential pattern decoding is inverted by
  encoding, so that a credential has one spelling.
\<close>

subsection \<open>Base64\<close>

lemma of_char_dash: "of_char CHR ''-'' = (45 :: nat)" "of_char CHR ''_'' = (95 :: nat)"
  by simp_all

lemma b64_value_char: "n < 64 \<Longrightarrow> b64_value (b64_char n) = Some n"
  by (auto simp: b64_value_def b64_char_def char_class_defs)

lemma b64_char_value: "credential_char c \<Longrightarrow> \<exists>n<64. b64_value c = Some n \<and> b64_char n = c"
  by (auto simp: credential_char_def b64_value_def b64_char_def char_class_defs)

lemma packed: "b < m \<Longrightarrow> (m * a + b) div m = a" "b < m \<Longrightarrow> (m * a + b) mod m = (b :: nat)"
  by simp_all

lemma byte_groups:
  fixes p q r :: nat
  assumes "p < 256" "q < 256" "r < 256"
  shows "p div 4 < 64" "16 * (p mod 4) + q div 16 < 64" "4 * (q mod 16) + r div 64 < 64" "r mod 64 < 64"
    "16 * (p mod 4) < 64" "4 * (q mod 16) < 64"
    "4 * (p div 4) + (16 * (p mod 4) + q div 16) div 16 = p" "16 * ((16 * (p mod 4) + q div 16) mod 16) + (4 * (q mod 16) + r div 64) div 4 = q"
    "64 * ((4 * (q mod 16) + r div 64) mod 4) + r mod 64 = r"
    "4 * (p div 4) + (16 * (p mod 4)) div 16 = p" "16 * ((16 * (p mod 4) + q div 16) mod 16) + (4 * (q mod 16)) div 4 = q"
proof -
  have d: "p div 4 < 64" "q div 16 < 16" "r div 64 < 4" "p mod 4 < 4" "q mod 16 < 16"
    using assms by (simp_all add: less_mult_imp_div_less)
  then show "p div 4 < 64" "16 * (p mod 4) + q div 16 < 64" "4 * (q mod 16) + r div 64 < 64" "r mod 64 < 64"
    "16 * (p mod 4) < 64" "4 * (q mod 16) < 64"
    by simp_all
  show "4 * (p div 4) + (16 * (p mod 4) + q div 16) div 16 = p" "16 * ((16 * (p mod 4) + q div 16) mod 16) + (4 * (q mod 16) + r div 64) div 4 = q"
    "64 * ((4 * (q mod 16) + r div 64) mod 4) + r mod 64 = r"
    "4 * (p div 4) + (16 * (p mod 4)) div 16 = p" "16 * ((16 * (p mod 4) + q div 16) mod 16) + (4 * (q mod 16)) div 4 = q"
    using d by (simp_all add: packed del: div_mult_self1 div_mult_self2 div_mult_self3 div_mult_self4 mod_mult_self1 mod_mult_self2)
qed

lemma sextet_groups:
  fixes x y z u :: nat
  assumes "x < 64" "y < 64" "z < 64" "u < 64"
  shows "4 * x + y div 16 < 256" "16 * (y mod 16) + z div 4 < 256" "64 * (z mod 4) + u < 256"
    "(4 * x + y div 16) div 4 = x" "16 * ((4 * x + y div 16) mod 4) + (16 * (y mod 16) + z div 4) div 16 = y"
    "4 * ((16 * (y mod 16) + z div 4) mod 16) + (64 * (z mod 4) + u) div 64 = z" "(64 * (z mod 4) + u) mod 64 = u"
    "4 * ((16 * (y mod 16) + z div 4) mod 16) = 4 * (z div 4)"
proof -
  have d: "y div 16 < 4" "z div 4 < 16" "y mod 16 < 16" "z mod 4 < 4"
    using assms by (simp_all add: less_mult_imp_div_less)
  then show "4 * x + y div 16 < 256" "16 * (y mod 16) + z div 4 < 256" "64 * (z mod 4) + u < 256"
    using assms by simp_all
  show "(4 * x + y div 16) div 4 = x" "16 * ((4 * x + y div 16) mod 4) + (16 * (y mod 16) + z div 4) div 16 = y"
    "4 * ((16 * (y mod 16) + z div 4) mod 16) + (64 * (z mod 4) + u) div 64 = z" "(64 * (z mod 4) + u) mod 64 = u"
    "4 * ((16 * (y mod 16) + z div 4) mod 16) = 4 * (z div 4)"
    using d assms(4) by (simp_all add: packed del: div_mult_self1 div_mult_self2 div_mult_self3 div_mult_self4 mod_mult_self1 mod_mult_self2)
qed

lemma b64_decode_encode: "b64_decode (b64_encode bs) = Some bs"
proof (induction bs rule: b64_encode.induct)
  case (2 p)
  show ?case using byte_groups [of "of_char p" 0 0] by (simp add: b64_value_char)
next
  case (3 p q)
  show ?case using byte_groups [of "of_char p" "of_char q" 0] by (simp add: b64_value_char)
next
  case (4 p q r rest)
  show ?case using 4 byte_groups [of "of_char p" "of_char q" "of_char r"] by (simp add: b64_value_char)
qed simp

lemma b64_encode_decode:
  assumes "list_all credential_char s" "length s mod 4 = 3" "\<And>z. b64_value (last s) = Some z \<Longrightarrow> z mod 4 = 0"
  shows "\<exists>d. b64_decode s = Some d \<and> 4 * length d = 3 * length s - 1 \<and> b64_encode d = s"
  using assms
proof (induction s rule: b64_decode.induct)
  case (4 a b c)
  then obtain x y z where v: "x < 64" "y < 64" "z < 64" "b64_value a = Some x" "b64_value b = Some y" "b64_value c = Some z"
    "b64_char x = a" "b64_char y = b" "b64_char z = c"
    using b64_char_value [of a] b64_char_value [of b] b64_char_value [of c] by auto
  then have "4 * (z div 4) = z" using 4(3) by auto
  then show ?case
    using v sextet_groups [OF v(1-3), of 0] by simp
next
  case (5 a b c d rest)
  then obtain x y z u where v: "x < 64" "y < 64" "z < 64" "u < 64" "b64_value a = Some x" "b64_value b = Some y" "b64_value c = Some z"
    "b64_value d = Some u" "b64_char x = a" "b64_char y = b" "b64_char z = c" "b64_char u = d"
    using b64_char_value [of a] b64_char_value [of b] b64_char_value [of c] b64_char_value [of d] by auto
  have l: "length rest mod 4 = 3" using 5(3) by (simp add: mod_Suc split: if_splits)
  then have "rest \<noteq> []" by auto
  then have "\<exists>e. b64_decode rest = Some e \<and> 4 * length e = 3 * length rest - 1 \<and> b64_encode e = rest"
    using 5(2,4) l by (intro 5(1)) auto
  then obtain e where e: "b64_decode rest = Some e" "4 * length e = 3 * length rest - 1" "b64_encode e = rest" by blast
  define p q r where "p = 4 * x + y div 16" and "q = 16 * (y mod 16) + z div 4" and "r = 64 * (z mod 4) + u"
  note g = sextet_groups [OF v(1-4), folded p_def q_def r_def]
  have "b64_decode (a # b # c # d # rest) = Some (char_of p # char_of q # char_of r # e)"
    using v e by (simp add: p_def q_def r_def)
  moreover have "b64_encode (char_of p # char_of q # char_of r # e) = a # b # c # d # rest"
    using v e g by simp
  moreover have "4 * (3 + length e) = 3 * (4 + length rest) - 1"
    using e(2) \<open>rest \<noteq> []\<close> by (cases rest) simp_all
  ultimately show ?case by simp
qed simp_all

text \<open>The last character of the pattern is one whose two unused bits are zero.\<close>

lemma credential_last_all:
  "list_all (\<lambda>c. credential_char c \<and> (case b64_value c of None \<Rightarrow> True | Some z \<Rightarrow> z mod 4 = 0)) ''AEIMQUYcgkosw048''"
  by (simp add: credential_char_def b64_value_def char_class_defs)

lemma credential_last:
  assumes "c \<in> set ''AEIMQUYcgkosw048''"
  shows "credential_char c \<and> (\<forall>z. b64_value c = Some z \<longrightarrow> z mod 4 = 0)"
proof -
  have "credential_char c \<and> (case b64_value c of None \<Rightarrow> True | Some z \<Rightarrow> z mod 4 = 0)"
    by (rule bspec [OF credential_last_all [unfolded list_all_iff] assms])
  then show ?thesis by (auto split: option.splits)
qed

lemma credentialPrefix_length: "length credentialPrefix = 7"
  by (simp add: credentialPrefix_def)

lemma credential_body:
  assumes "canonicalConnectionCredentialPattern s"
  shows "list_all credential_char (drop 7 s)" "length (drop 7 s) = 43" "last (drop 7 s) = s ! 49"
proof -
  have l: "length s = 50" and c: "list_all credential_char (take 42 (drop 7 s))" "credential_char (s ! 49)"
    using assms credential_last unfolding canonicalConnectionCredentialPattern_def by blast+
  have "drop 7 s = take 42 (drop 7 s) @ drop 49 s" using append_take_drop_id [of 42 "drop 7 s"] by simp
  moreover have "drop 49 s = [s ! 49]" using l by (simp add: Cons_nth_drop_Suc [of 49 s, symmetric])
  ultimately have "drop 7 s = take 42 (drop 7 s) @ [s ! 49]" by simp
  then show "list_all credential_char (drop 7 s)" "last (drop 7 s) = s ! 49"
    using c by (metis list_all_append list.pred_inject, metis last_snoc)
  show "length (drop 7 s) = 43" using l by simp
qed

text \<open>Conversely, the encoding of 32 bytes has the pattern.\<close>

lemma b64_char_credential: "n < 64 \<Longrightarrow> credential_char (b64_char n)"
  by (auto simp: credential_char_def b64_char_def char_class_defs)

lemma b64_char_last: "m < 16 \<Longrightarrow> b64_char (4 * m) \<in> set ''AEIMQUYcgkosw048''"
proof -
  have "list_all (\<lambda>m. b64_char (4 * m) \<in> set ''AEIMQUYcgkosw048'') [0, 1, 2, 3, 4, 5, 6, 7, 8, 9, 10, 11, 12, 13, 14, 15]"
    by code_simp
  moreover assume "m < 16"
  then have "m \<in> set [0, 1, 2, 3, 4, 5, 6, 7, 8, 9, 10, 11, 12, 13, 14, 15]" by simp presburger
  ultimately show ?thesis unfolding list_all_iff by (rule bspec)
qed

lemma b64_encode_chars: "list_all credential_char (b64_encode bs)"
proof (induction bs rule: b64_encode.induct)
  case (2 p)
  show ?case using byte_groups [of "of_char p" 0 0] by (simp add: b64_char_credential)
next
  case (3 p q)
  show ?case using byte_groups [of "of_char p" "of_char q" 0] by (simp add: b64_char_credential)
next
  case (4 p q r rest)
  show ?case using 4 byte_groups [of "of_char p" "of_char q" "of_char r"] by (simp add: b64_char_credential)
qed simp

lemma b64_encode_last:
  "length bs = 3 * k + 2 \<Longrightarrow> length (b64_encode bs) = 4 * k + 3 \<and> last (b64_encode bs) \<in> set ''AEIMQUYcgkosw048''"
proof (induction bs arbitrary: k rule: b64_encode.induct)
  case (3 p q)
  then show ?case using b64_char_last [of "of_char q mod 16"] by (simp del: list.set set_simps)
next
  case (4 p q r rest)
  then obtain j where k: "k = Suc j" by (cases k) auto
  then have "length rest = 3 * j + 2" using 4(2) by simp
  note 4(1) [OF this]
  moreover from this have "b64_encode rest \<noteq> []" by auto
  ultimately show ?case using k by (simp del: list.set set_simps)
qed simp_all

text \<open>The pattern is exactly the format of a 32-byte secret.\<close>

lemma credential_spelling:
  "canonicalConnectionCredentialPattern s \<longleftrightarrow>
     (\<exists>d. length d = 32 \<and> s = credentialPrefix @ b64_encode d \<and> b64_decode (drop (length credentialPrefix) s) = Some d)"
proof
  assume p: "canonicalConnectionCredentialPattern s"
  note body = credential_body [OF p]
  have "\<And>z. b64_value (s ! 49) = Some z \<Longrightarrow> z mod 4 = 0"
    using p credential_last unfolding canonicalConnectionCredentialPattern_def by blast
  then obtain d where d: "b64_decode (drop 7 s) = Some d" "4 * length d = 3 * 43 - 1" "b64_encode d = drop 7 s"
    using b64_encode_decode [of "drop 7 s"] body by auto
  have "take 7 s = credentialPrefix" using p unfolding canonicalConnectionCredentialPattern_def by blast
  then have "s = credentialPrefix @ drop 7 s" by (metis append_take_drop_id)
  then show "\<exists>d. length d = 32 \<and> s = credentialPrefix @ b64_encode d \<and> b64_decode (drop (length credentialPrefix) s) = Some d"
    using d credentialPrefix_length by (intro exI [of _ d]) simp
next
  assume "\<exists>d. length d = 32 \<and> s = credentialPrefix @ b64_encode d \<and> b64_decode (drop (length credentialPrefix) s) = Some d"
  then obtain d where d: "length d = 3 * 10 + 2" and s: "s = credentialPrefix @ b64_encode d" by auto
  have e: "length (b64_encode d) = 43" "last (b64_encode d) \<in> set ''AEIMQUYcgkosw048''"
    using b64_encode_last [OF d] by simp_all
  then have "b64_encode d \<noteq> []" by (metis list.size(3) zero_neq_numeral)
  then have "s ! 49 = last (b64_encode d)"
    using s e(1) credentialPrefix_length by (simp add: nth_append last_conv_nth)
  moreover have "list_all credential_char (take 42 (b64_encode d))"
    using b64_encode_chars [of d] by (auto simp: list_all_iff dest: in_set_takeD)
  ultimately show "canonicalConnectionCredentialPattern s"
    using e s credentialPrefix_length
    by (simp add: canonicalConnectionCredentialPattern_def del: list.set set_simps)
qed

lemma credential_decodes:
  "canonicalConnectionCredentialPattern s \<Longrightarrow>
   \<exists>d. b64_decode (drop (length credentialPrefix) s) = Some d \<and> length d = 32 \<and> b64_encode d = drop (length credentialPrefix) s"
  unfolding credential_spelling by auto

subsection \<open>Property\<close>

text \<open>
  C20. A rotation command is accepted exactly when its identifier is a lower-case UUID, its credential is the prefix followed by
  the base64 encoding of a 32-byte secret, the fingerprint is the SHA-256 of the credential, and its three
  times are valid and ordered: issued at most the clock skew in the future, reconnect after issue by at most five minutes and not yet
  passed, expiry after reconnect and at most an hour after issue. So the credential has one spelling per secret, and
  the decoding checks refuse nothing that the pattern lets through. The accepted metadata are the command's own fields.
\<close>

theorem rotation_accepted:
  "validateCredentialRotation L rotation now = Some (metadata, secret) \<longleftrightarrow>
     (validateUUID (rotationIdOf rotation) \<and> rotationIdOf rotation = to_lower (rotationIdOf rotation)
      \<and> (\<exists>d. length d = 32 \<and> connectionCredential rotation = credentialPrefix @ b64_encode d)
      \<and> length (credentialFingerprint rotation) = 32 \<and> credentialFingerprint rotation = sha256Sum L (connectionCredential rotation)
      \<and> validateTimestamp L (rotationIssuedAt rotation) \<and> validateTimestamp L (rotationExpiresAt rotation)
      \<and> validateTimestamp L (reconnectBeforeOf rotation)
      \<and> (let issued = asTime L (rotationIssuedAt rotation); expires = asTime L (rotationExpiresAt rotation);
              reconnect = asTime L (reconnectBeforeOf rotation)
          in issued \<le> now + maximumClockSkew \<and> now < reconnect \<and> issued < reconnect \<and> reconnect < expires
             \<and> time_sub reconnect issued \<le> 5 * minute \<and> time_sub expires issued \<le> hour
             \<and> metadata = \<lparr>rotRunnerID = [], rotRotationID = rotationIdOf rotation, rotFingerprint = credentialFingerprint rotation,
                  rotIssuedAt = issued, rotExpiresAt = expires, rotReconnectBefore = reconnect, rotPersistedAt = 0\<rparr>)
      \<and> secret = connectionCredential rotation)"
proof -
  let ?s = "connectionCredential rotation"
  have spelled: "(\<exists>d. length d = 32 \<and> ?s = credentialPrefix @ b64_encode d) \<longleftrightarrow> canonicalConnectionCredentialPattern ?s"
    unfolding credential_spelling using b64_decode_encode by auto
  have decoded: "\<not> (case b64_decode (drop (length credentialPrefix) ?s) of None \<Rightarrow> True
      | Some decoded \<Rightarrow> length decoded \<noteq> 32 \<or> b64_encode decoded \<noteq> drop (length credentialPrefix) ?s)"
    and "length ?s = 50" if "canonicalConnectionCredentialPattern ?s"
    using credential_decodes [OF that] that by (auto simp: canonicalConnectionCredentialPattern_def)
  then show ?thesis
    unfolding spelled validateCredentialRotation_def Let_def
    by (cases "canonicalConnectionCredentialPattern ?s") auto
qed

end
