(* ===== verification/StateRules.thy ===== *)
theory StateRules
  imports SessionRules
begin

section \<open>Properties of the journal state\<close>

text \<open>
  The interface for a property of the journal state alone: what survives the closures that the handlers pass to \<open>update\<close>
  holds in every run, in memory and for the state a restart finds. The locale reduces \<open>runner_property\<close> to that.
\<close>

lemma update_recovered:
  assumes "persistent E j"
  shows "recovered E (snd (update E f j)) = recovered E j \<or> recovered E (snd (update E f j)) = Some (jState (snd (update E f j)))"
proof (cases "update E f j")
  case (Pair r j')
  then show ?thesis
    using update_failed [of E f j _ j'] update_confirmed [of E f j _ j'] assms by (cases r) auto
qed

locale state_property =
  fixes H :: host and Q :: "journal_state \<Rightarrow> bool"
  assumes numbered: "Q s \<Longrightarrow> Q (s\<lparr>messageSequence := n\<rparr>)"
    and beat_numbered: "Q s \<Longrightarrow> Q (s\<lparr>heartbeatSequence := n\<rparr>)"
    and beat_noted: "Q s \<Longrightarrow> Q (s\<lparr>pendingHeartbeat := b\<rparr>)"
    and event_noted: "Q s \<Longrightarrow> Q (s\<lparr>pendingMessage := b\<rparr>)"
    and released: "Q s \<Longrightarrow> Q (s\<lparr>active := None\<rparr>)"
    and phased: "Q s \<Longrightarrow> active s = Some a \<Longrightarrow> Q (s\<lparr>active := Some (a\<lparr>phase := p\<rparr>)\<rparr>)"
    and rotated: "Q s \<Longrightarrow> Q (s\<lparr>credentialRotation := rotation\<rparr>)"
    and committed: "Q s \<Longrightarrow> Q (s\<lparr>committedCredential := committed_as\<rparr>)"
    and authorised: "Q s \<Longrightarrow> Q (snd (authoritative (libOf H) r s))"
    and cancelled: "Q s \<Longrightarrow> cancellable c s \<Longrightarrow> Q (snd (recordCancellation (libOf H) c dg s))"
    and accepted: "Q s \<Longrightarrow> active s = None \<Longrightarrow> marshalJob (libOf H) (job\<lparr>completeLogUpload := None\<rparr>) = Some (specificationBytes a) \<Longrightarrow>
          cancellationID a = [] \<Longrightarrow> Q (s\<lparr>active := Some a\<rparr>)"
begin

definition kept :: "clientSession \<Rightarrow> bool" where
  "kept w \<longleftrightarrow>
     persistent (jenv H) (clientJournal w) \<and> Q (snapshot w) \<and> (\<forall>s. recovered (jenv H) (clientJournal w) = Some s \<longrightarrow> Q s)"

lemma kept_update:
  assumes "kept w" "Q (snd (f (snapshot w)))"
  shows "kept (snd (onJournal (update (jenv H) f) w))"
proof -
  let ?j = "snd (update (jenv H) f (clientJournal w))"
  have "Q (jState ?j)"
    using update_states [of "jenv H" f "clientJournal w"] assms by (auto simp: kept_def)
  moreover have "persistent (jenv H) ?j"
    using assms by (simp add: kept_def persistent_def)
  ultimately show ?thesis
    using update_recovered [of "jenv H" "clientJournal w" f] assms(1) by (auto simp: kept_def onJournal_def split_beta)
qed

lemma keeps_closure: "(\<And>s. Q s \<Longrightarrow> Q (snd (f s))) \<Longrightarrow> keeps kept (onJournal (update (jenv H) f))"
  by (rule keepsI, rule kept_update) (auto simp: kept_def)

lemma kept_cong: "kept w \<Longrightarrow> clientJournal w' = clientJournal w \<Longrightarrow> kept w'"
  by (simp add: kept_def)

lemma activated: "Q s \<Longrightarrow> Q (snd (journal_active (phase_update (\<lambda>_. p)) s))"
  by (auto simp: journal_active_def phased split: option.split)

lemma kept_closures:
  "keeps kept (clearPending H)"
  "keeps kept (clearActive H)"
  "keeps kept (journalUpdate H (modify (\<lambda>s. s\<lparr>pendingHeartbeat := []\<rparr>)))"
  "keeps kept (journalUpdate H (journalHeartbeat b))"
  "keeps kept (applyAuthoritativeReconciliation H r)"
  "keeps kept (journalUpdate H (recordRotation metadata))"
  "keeps kept (journalUpdate H (commitRotation runner metadata now))"
  "keeps kept (journalUpdate H (closeRotation H' rotation now))"
  unfolding clearPending_def clearActive_def applyAuthoritativeReconciliation_def journalUpdate_def
  by (rule keeps_closure, auto simp: journalHeartbeat_def recordRotation_def commitRotation_def closeRotation_def proc_defs Let_def
      numbered beat_numbered beat_noted event_noted released rotated committed authorised split: option.split)+

lemma keeps_numbers:
  "keeps kept (onJournal (nextMessageSequence (jenv H)))" "keeps kept (onJournal (nextHeartbeatSequence (jenv H)))"
  unfolding nextMessageSequence_def nextHeartbeatSequence_def
  by (rule keeps_closure, auto simp: proc_defs Let_def numbered beat_numbered split: if_splits)+

lemma t_cancel:
  "triple (\<lambda>w. kept w \<and> cancellable c (snapshot w)) (journalUpdate H (recordCancellation (libOf H) c dg)) (\<lambda>_. kept) (\<lambda>_. kept)"
  unfolding journalUpdate_def by (rule triple_sndI, rule kept_update) (auto simp: kept_def intro: cancelled)

lemma keeps_outside: "keeps kept (consult f)" "keeps kept (send H m)" "keeps kept (modify (\<lambda>w. w\<lparr>heartbeatDeferred := d\<rparr>))"
  by (auto simp: keeps_def consult_def send_def proc_defs elim!: kept_cong split: option.split)

lemma keeps_messages: "keeps kept (runnerMessage H)" "keeps kept (sendRetained H S m)" "keeps kept (replayPending H S)"
  unfolding runnerMessage_def sendRetained_def replayPending_def by (intro keeps_rules keeps_numbers keeps_outside)+

lemma kept_sendHeartbeat: "keeps kept (sendHeartbeat H t)"
  unfolding sendHeartbeat_def loadHeartbeat_def newHeartbeat_def heartbeatMessage_def
  by (intro keeps_rules keeps_modify keeps_numbers keeps_messages keeps_outside kept_closures) (auto elim: kept_cong)

lemma pending_noted: "(\<And>s. Q s \<Longrightarrow> Q (snd (mutate s))) \<Longrightarrow> Q s \<Longrightarrow> Q (snd (journalPending H m b mutate s))"
proof -
  assume "\<And>s. Q s \<Longrightarrow> Q (snd (mutate s))" and "Q s"
  then have "Q (snd (mutate s))" by simp
  then show ?thesis
    using \<open>Q s\<close> by (cases "mutate s"; cases "fst (mutate s)") (auto simp: journalPending_def proc_defs event_noted)
qed

lemma keeps_queue:
  assumes "\<And>s. Q s \<Longrightarrow> Q (snd (mutate s))"
  shows "keeps kept (queueDurable H S p mutate)"
  unfolding queueDurable_def Let_def journalUpdate_def
  by (intro keeps_rules keeps_messages keeps_closure pending_noted) (use assms in blast)

lemma keeps_events: "keeps kept (queueDurable H S p (ret ()))" "keeps kept (queueDurable H S p (journal_active (phase_update (\<lambda>_. ph))))"
  by (rule keeps_queue; simp add: ret_def activated)+

lemma core_kept: "kept w \<Longrightarrow> core w' = core w \<Longrightarrow> kept w'"
  by (erule kept_cong) (simp add: core_def)

lemma kept_startWorker: "keeps kept (startWorker H)"
  unfolding startWorker_def launch_def
  by (auto simp: kept_def intro!: keeps_rules keeps_modify split: option.split)

end

sublocale state_property \<subseteq> state: quiet_session kept H "\<lambda>_. kept"
  by unfold_locales
     (simp_all add: core_kept guards_keeps kept_closures keeps_numbers keeps_outside keeps_messages kept_sendHeartbeat t_cancel,
      auto simp: kept_def intro: keeps_events)

context state_property
begin

lemma kept_acceptOffer: "keeps kept (acceptOffer H S i dg job target now)"
proof -
  have accept: "keeps kept (queueDurable H S p (acceptActive a))"
    if "marshalJob (libOf H) (job\<lparr>completeLogUpload := None\<rparr>) = Some (specificationBytes a)" "cancellationID a = []" for p a
    using that by (intro keeps_queue) (auto simp: acceptActive_def proc_defs intro: accepted)
  show ?thesis
    unfolding acceptOffer_def by (intro keeps_rules accept state.keeps_scratch) (simp_all add: core_def)
qed

lemma restart_kept: "kept w \<Longrightarrow> reopen (jenv H) (clientJournal w) = Inr j \<Longrightarrow> kept (newClient j secret store w)"
proof -
  assume w: "kept w" and r: "reopen (jenv H) (clientJournal w) = Inr j"
  then have s: "recovered (jenv H) (clientJournal w) = Some (jState j)" by (simp add: recovered_def)
  then have j: "j = (clientJournal w)\<lparr>jState := jState j\<rparr>"
    using recovered_reopen [of "jenv H" "clientJournal w" "jState j"] w r by (simp add: kept_def persistent_def)
  have "jPath j = jPath (clientJournal w)" "jDisk j = jDisk (clientJournal w)"
    using arg_cong [OF j, of jPath] arg_cong [OF j, of jDisk] by simp_all
  then show ?thesis
    using w s recovered_cong [of j "clientJournal w"] by (simp add: kept_def persistent_def newClient_def newSession_def)
qed

end

sublocale state_property \<subseteq> state: uniform_session H kept "\<lambda>_. kept"
  by unfold_locales
     (auto intro: keeps_events kept_startWorker triple_keeps [OF kept_acceptOffer], auto simp: kept_def)

sublocale state_property \<subseteq> state: runner_property H kept "\<lambda>_. kept" "\<lambda>_. True" kept
proof (unfold_locales, goal_cases)
  case (8 w j secret store) then show ?case by (simp add: restart_kept)
qed (simp_all add: kept_closures core_kept, simp_all add: kept_def newSession_def)

context state_property
begin

lemma kept_always:
  assumes "(runner_step H)\<^sup>*\<^sup>* (c, w) (c', w')" "kept w"
  shows "kept w'"
proof -
  have "state.holds (c, w)" using assms(2) by (simp add: state.holds_def split: connection.split)
  then have "state.holds (c', w')"
    by (rule state.holds_always [rotated]) (simp add: assms(1))
  then show ?thesis by (simp add: state.holds_def split: connection.splits)
qed

end

end
