(* ===== verification/LeaseSlot.thy ===== *)
theory LeaseSlot
  imports StateRules SampleHost
begin

section \<open>The lease a runner holds\<close>

text \<open>
  What the runner promises about its lease, as an abstract machine with one slot: a lease is granted into the empty slot,
  its expiry moves forward only, it is cancelled at most once and under one identifier, and then it is released. The detailed model
  refines it: every run, with reconnects, crashes and restarts, is a run of the slot.
\<close>

datatype lease_slot = Free | Held "string \<times> bytes" time string

inductive lease_step :: "lease_slot \<Rightarrow> lease_slot \<Rightarrow> bool" where
  grant: "lease_step Free (Held offer expiry [])"
| renew: "expiry \<le> expiry' \<Longrightarrow> lease_step (Held offer expiry cancellation) (Held offer expiry' cancellation)"
| cancel: "cancellation \<noteq> [] \<Longrightarrow> lease_step (Held offer expiry []) (Held offer expiry cancellation)"
| release: "lease_step (Held offer expiry cancellation) Free"

inductive_simps lease_step_free: "lease_step Free slot"
inductive_simps lease_step_held: "lease_step (Held offer expiry cancellation) slot"

definition slot_of :: "journal_state \<Rightarrow> lease_slot" where
  "slot_of s =
     (case active s of
        None \<Rightarrow> Free
      | Some a \<Rightarrow> Held (offerMessageID a, offerDigest a) (expiresAt a) (cancellationID a))"

lemma slot_of_cong [simp]:
  "slot_of (s\<lparr>messageSequence := n\<rparr>) = slot_of s" "slot_of (s\<lparr>heartbeatSequence := n\<rparr>) = slot_of s"
  "slot_of (s\<lparr>pendingHeartbeat := b\<rparr>) = slot_of s" "slot_of (s\<lparr>pendingMessage := b\<rparr>) = slot_of s"
  "slot_of (s\<lparr>credentialRotation := r\<rparr>) = slot_of s" "slot_of (s\<lparr>committedCredential := k\<rparr>) = slot_of s"
  by (simp_all add: slot_of_def)

lemma step_renew: "lease_step\<^sup>*\<^sup>* slot (Held offer expiry c) \<Longrightarrow> expiry \<le> expiry' \<Longrightarrow> lease_step\<^sup>*\<^sup>* slot (Held offer expiry' c)"
  by (rule rtranclp.rtrancl_into_rtrancl) (auto intro: renew)

lemma step_cancel: "lease_step\<^sup>*\<^sup>* slot (Held offer expiry []) \<Longrightarrow> lease_step\<^sup>*\<^sup>* slot (Held offer expiry c)"
  by (cases "c = []") (auto intro: rtranclp.rtrancl_into_rtrancl cancel)

lemma step_release: "lease_step\<^sup>*\<^sup>* slot (slot_of s) \<Longrightarrow> lease_step\<^sup>*\<^sup>* slot Free"
  by (cases "slot_of s") (auto intro: rtranclp.rtrancl_into_rtrancl release)

text \<open>The closure that applies what the gateway reports, whether it succeeds or fails: a renewal, and possibly a cancellation.\<close>

lemma slot_authoritative:
  assumes "lease_step\<^sup>*\<^sup>* slot (slot_of s)"
  shows "lease_step\<^sup>*\<^sup>* slot (slot_of (snd (authoritative L r s)))"
proof (cases "active s")
  case (Some a)
  let ?held = "\<lambda>e c. Held (offerMessageID a, offerDigest a) e c"
  have a: "lease_step\<^sup>*\<^sup>* slot (?held (expiresAt a) (cancellationID a))" using assms Some by (simp add: slot_of_def)
  have n: "lease_step\<^sup>*\<^sup>* slot (?held e (cancellationID a))" if "expiresAt a \<le> e" for e
    by (rule step_renew [OF a that])
  have c: "lease_step\<^sup>*\<^sup>* slot (?held e i)" if "expiresAt a \<le> e" "cancellationID a = [] \<or> cancellationID a = i" for e i
    using n [OF that(1)] that(2) step_cancel by auto
  show ?thesis
    using Some assms n [of "expiresAt a"]
    by (auto simp: authoritative_def slot_of_def Let_def intro!: n c split: option.split if_split)
qed (use assms in \<open>simp add: authoritative_def\<close>)

lemma slot_cancelled:
  assumes "lease_step\<^sup>*\<^sup>* slot (slot_of s)" "cancellable c s"
  shows "lease_step\<^sup>*\<^sup>* slot (slot_of (snd (recordCancellation L c dg s)))"
  using assms by (auto simp: cancellable_def recordCancellation_def journal_active_def slot_of_def intro: step_cancel split: option.splits)

interpretation slots: state_property H "\<lambda>s. lease_step\<^sup>*\<^sup>* slot (slot_of s)" for H slot
proof (unfold_locales, goal_cases)
  case (5 s)
  then show ?case using step_release by (simp add: slot_of_def [of "s\<lparr>active := None\<rparr>"])
next
  case (11 s job a)
  then show ?case by (auto simp: slot_of_def intro: rtranclp.rtrancl_into_rtrancl grant)
qed (simp_all add: slot_authoritative slot_cancelled, simp_all add: slot_of_def)

subsection \<open>The upload capability\<close>

text \<open>
  The job in an offer carries the capability to upload the complete log; what is journaled of the job does not.
\<close>

definition no_capability :: "lib \<Rightarrow> journal_state \<Rightarrow> bool" where
  "no_capability L s \<longleftrightarrow>
     lib_ok L \<and> (\<forall>a job. active s = Some a \<longrightarrow> unmarshalJob L (specificationBytes a) = Some job \<longrightarrow> completeLogUpload job = None)"

lemma capability_authoritative:
  assumes "no_capability L s"
  shows "no_capability L (snd (authoritative L r s))"
proof (cases "active s")
  case (Some a)
  show ?thesis
  proof (cases "unmarshalJob L (specificationBytes a) = None \<or> recLease r = None")
    case True
    then show ?thesis using assms Some by (auto simp: authoritative_def split: option.split)
  next
    case False
    then obtain job lease where job: "unmarshalJob L (specificationBytes a) = Some job" and lease: "recLease r = Some lease" by auto
    have none: "completeLogUpload job = None" using assms Some job by (simp add: no_capability_def)
    have decoded: "unmarshalJob L b = Some (job\<lparr>jobLease := Some l\<rparr>)" if "marshalJob L (job\<lparr>jobLease := Some l\<rparr>) = Some b" for l b
      using assms that by (intro lib_ok_job) (simp_all add: no_capability_def)
    let ?later = "lease\<lparr>leaseExpiresAt := Some (tsNew L (expiresAt a))\<rparr>"
    show ?thesis
      using assms Some job lease none
      by (cases "asTime L (leaseExpiresAt lease) < expiresAt a"; cases "marshalJob L (job\<lparr>jobLease := Some lease\<rparr>)";
          cases "marshalJob L (job\<lparr>jobLease := Some ?later\<rparr>)")
         (simp_all add: authoritative_def no_capability_def Let_def decoded)
  qed
qed (use assms in \<open>simp add: authoritative_def\<close>)

lemma capability_accepted:
  "no_capability L s \<Longrightarrow> marshalJob L (job\<lparr>completeLogUpload := None\<rparr>) = Some (specificationBytes a) \<Longrightarrow>
   no_capability L (s\<lparr>active := Some a\<rparr>)"
  by (auto simp: no_capability_def dest!: lib_ok_job)

interpretation capability: state_property H "no_capability (libOf H)" for H
  by unfold_locales
     (simp_all add: capability_authoritative capability_accepted,
      auto simp: no_capability_def recordCancellation_def journal_active_def split: option.split)

subsection \<open>A lease that survives a crash\<close>

abbreviation sampleHolder :: clientSession where
  "sampleHolder \<equiv> sampleClient (sampleJournal sampleBusy ''busy'')"

abbreviation sampleRestarted :: clientSession where
  "sampleRestarted \<equiv> newClient (sampleJournal sampleBusy ''busy'') ''secret'' False sampleHolder"

lemma sample_restart: "(runner_step sampleFileHost)\<^sup>*\<^sup>* (Connected sampleStream, sampleHolder) (Disconnected, sampleRestarted)"
proof -
  have "reopen (jenv sampleFileHost) (clientJournal sampleHolder) = Inr (sampleJournal sampleBusy ''busy'')"
    using reopen_synced [OF sampleBusy_synced] by (simp add: sampleClient_fields)
  then have "runner_step sampleFileHost (Halted, sampleHolder) (Disconnected, sampleRestarted)" by (rule step_restart)
  then show ?thesis by (blast intro: step_crash converse_rtranclp_into_rtranclp)
qed

lemma sampleHolder_synced:
  "persistent (jenv sampleFileHost) (clientJournal sampleHolder)"
  "recovered (jenv sampleFileHost) (clientJournal sampleHolder) = Some (snapshot sampleHolder)"
  using sampleBusy_synced unfolding sampleClient_fields by blast+

lemma sampleHolder_snapshot: "snapshot sampleHolder = sampleBusy" "snapshot sampleRestarted = sampleBusy"
  by (simp_all add: sampleClient_fields sampleJournal_def newClient_def newSession_def)

subsection \<open>Properties\<close>



text \<open>
  C22. The upload capability of an offer is never journaled: if the active job on disk does not carry one at the beginning, no
  job that is active later does, in memory or on disk, through every run with reconnects, crashes and restarts.
\<close>

theorem capability_not_journaled:
  assumes "lib_ok (libOf H)" "persistent (jenv H) (clientJournal w)" "recovered (jenv H) (clientJournal w) = Some (snapshot w)"
    "no_capability (libOf H) (snapshot w)" "(runner_step H)\<^sup>*\<^sup>* (c, w) (c', w')"
    "active s = Some a" "s = snapshot w' \<or> recovered (jenv H) (clientJournal w') = Some s"
    "unmarshalJob (libOf H) (specificationBytes a) = Some job"
  shows "completeLogUpload job = None"
proof -
  have "capability.kept H w" using assms(1-4) by (simp add: capability.kept_def)
  then have "capability.kept H w'" by (rule capability.kept_always [OF assms(5)])
  then have "no_capability (libOf H) s" using assms(7) by (auto simp: capability.kept_def)
  then show ?thesis using assms(6,8) by (simp add: no_capability_def)
qed

theorem capability_not_journaled_witness:
  "unmarshalJob (libOf sampleFileHost) (specificationBytes sampleActive) = Some sampleJob \<and> completeLogUpload sampleJob = None
   \<and> active (snapshot sampleRestarted) = Some sampleActive"
proof -
  have lib: "lib_ok (libOf sampleFileHost)" by simp
  have job: "unmarshalJob (libOf sampleFileHost) (specificationBytes sampleActive) = Some sampleJob"
    by simp
  have "completeLogUpload sampleJob = None" by (simp add: sampleJob_def)
  then have "no_capability (libOf sampleFileHost) (snapshot sampleHolder)"
    using lib job unfolding sampleHolder_snapshot no_capability_def by (simp del: sampleHost_lib)
  moreover have "active (snapshot sampleRestarted) = Some sampleActive" unfolding sampleHolder_snapshot by simp
  ultimately show ?thesis
    using capability_not_journaled [OF lib sampleHolder_synced _ sample_restart _ _ job] job by blast
qed

end
