(* ===== verification/Draining.thy ===== *)
theory Draining
  imports SessionRules SampleHost
begin

section \<open>A draining runner takes no new lease\<close>

text \<open>
  Once a runner drains and holds no lease, it stays without one for the rest of the process and starts no worker. A
  cleanup that failed makes it drain.
\<close>

definition retired :: "job_spec list \<Rightarrow> clientSession \<Rightarrow> bool" where
  "retired starts w \<longleftrightarrow> draining w \<and> active (snapshot w) = None \<and> launches w = starts"

lemma keeps_retired_update:
  assumes "\<And>s. active s = None \<Longrightarrow> active (snd (f s)) = None"
  shows "keeps (retired starts) (onJournal (update (jenv H) f))"
proof (rule keepsI)
  fix w assume w: "retired starts w"
  obtain j where "snd (onJournal (update (jenv H) f) w) = w\<lparr>clientJournal := j\<rparr>" "jState j = snapshot w \<or> jState j = snd (f (snapshot w))"
    using onJournal_update_states by blast
  then show "retired starts (snd (onJournal (update (jenv H) f) w))"
    using w assms by (auto simp: retired_def)
qed

lemma keeps_retired_closures:
  "keeps (retired starts) (clearPending H)"
  "keeps (retired starts) (clearActive H)"
  "keeps (retired starts) (journalUpdate H (modify (\<lambda>s. s\<lparr>pendingHeartbeat := []\<rparr>)))"
  "keeps (retired starts) (journalUpdate H (journalHeartbeat b))"
  "keeps (retired starts) (applyAuthoritativeReconciliation H r)"
  "keeps (retired starts) (journalUpdate H (recordCancellation (libOf H) c dg))"
  "keeps (retired starts) (journalUpdate H (recordRotation metadata))"
  "keeps (retired starts) (journalUpdate H (commitRotation runner metadata now))"
  "keeps (retired starts) (journalUpdate H (closeRotation H' rotation now))"
  unfolding clearPending_def clearActive_def recordCancellation_def applyAuthoritativeReconciliation_def journalUpdate_def
  by (rule keeps_retired_update, auto simp: authoritative_def journal_active_def recordRotation_def commitRotation_def
      closeRotation_def journalHeartbeat_def proc_defs Let_def split: option.splits if_splits)+

lemma keeps_retired_numbers:
  "keeps (retired starts) (onJournal (nextMessageSequence (jenv H)))"
  "keeps (retired starts) (onJournal (nextHeartbeatSequence (jenv H)))"
  unfolding nextMessageSequence_def nextHeartbeatSequence_def
  by (rule keeps_retired_update, auto simp: proc_defs Let_def split: if_splits)+

lemma keeps_retired_outside: "keeps (retired starts) (consult f)" "keeps (retired starts) (send H m)"
  by (auto simp: keeps_def retired_def consult_def send_def proc_defs split: option.split)

lemma keeps_retired_messages:
  "keeps (retired starts) (runnerMessage H)" "keeps (retired starts) (sendRetained H S m)" "keeps (retired starts) (replayPending H S)"
  unfolding runnerMessage_def sendRetained_def replayPending_def
  by (intro keeps_rules keeps_retired_numbers keeps_retired_outside)+

lemma keeps_retired_sendHeartbeat: "keeps (retired starts) (sendHeartbeat H t)"
  unfolding sendHeartbeat_def loadHeartbeat_def newHeartbeat_def heartbeatMessage_def
  by (intro keeps_rules keeps_modify keeps_retired_numbers keeps_retired_messages keeps_retired_outside keeps_retired_closures)
     (simp_all add: retired_def)

lemma keeps_retired_event:
  assumes "\<And>s. active s = None \<Longrightarrow> active (snd (mutate s)) = None"
  shows "keeps (retired starts) (queueDurable H S p mutate)"
proof -
  have "active (snd (journalPending H m b mutate s)) = None" if "active s = None" for m b s
    using assms [OF that] that by (cases "mutate s"; cases "fst (mutate s)") (auto simp: journalPending_def proc_defs)
  then show ?thesis
    unfolding queueDurable_def Let_def journalUpdate_def
    by (intro keeps_rules keeps_retired_messages keeps_retired_update)
qed

lemma keeps_retired_queue: "keeps (retired starts) (queueDurable H S p (ret ()))" "keeps (retired starts) (queueDurable H S p (journal_active f))"
  by (rule keeps_retired_event; simp add: ret_def journal_active_def)+

lemma keeps_retired_startWorker: "keeps (retired starts) (startWorker H)"
  by (rule keepsI) (auto simp: startWorker_def retired_def proc_defs)

interpretation retirement: quiet_session "retired starts" H "\<lambda>_. retired starts" for starts H
  by unfold_locales
     (simp_all add: guards_keeps keeps_retired_closures keeps_retired_numbers keeps_retired_outside keeps_retired_messages
        keeps_retired_sendHeartbeat,
      auto intro: keeps_retired_queue triple_keeps [OF keeps_retired_closures(6)], auto simp: retired_def core_def)

interpretation retirement: uniform_session H "retired starts" "\<lambda>_. retired starts" for starts H
  by unfold_locales
     (auto intro: keeps_retired_queue keeps_retired_startWorker, auto simp: retired_def idle_def triple_def)

interpretation retirement: process_property H "retired starts" "\<lambda>_. retired starts" "\<lambda>_. True" "retired starts" for starts H
  by unfold_locales (simp_all add: keeps_retired_closures, auto simp: retired_def core_def newSession_def)

text \<open>A runner that drains goes on draining.\<close>

definition drains :: "clientSession \<Rightarrow> bool" where "drains w \<longleftrightarrow> draining w"

lemma keeps_drains: "keeps drains (consult f)" "keeps drains (send H m)" "keeps drains (onJournal p)" "keeps drains (journalUpdate H g)"
  by (auto simp: keeps_def drains_def consult_def send_def onJournal_def journalUpdate_def proc_defs split: option.split prod.split)

lemma keeps_drains_messages:
  "keeps drains (runnerMessage H)" "keeps drains (sendRetained H S m)" "keeps drains (replayPending H S)" "keeps drains (queueDurable H S p mutate)"
  unfolding runnerMessage_def sendRetained_def replayPending_def queueDurable_def Let_def by (intro keeps_rules keeps_drains)+

lemma keeps_drains_sendHeartbeat: "keeps drains (sendHeartbeat H t)"
  unfolding sendHeartbeat_def loadHeartbeat_def newHeartbeat_def heartbeatMessage_def
  by (intro keeps_rules keeps_modify keeps_drains keeps_drains_messages) (simp_all add: drains_def)

interpretation drainage: quiet_session drains H "\<lambda>_. drains" for H
  by unfold_locales
     (simp_all add: guards_keeps keeps_drains keeps_drains_messages keeps_drains_sendHeartbeat clearPending_def clearActive_def
        applyAuthoritativeReconciliation_def,
      auto intro: triple_keeps [OF keeps_drains(4)], auto simp: drains_def core_def)

subsection \<open>Properties\<close>

text \<open>
  C25. A runner that drains and holds no lease accepts none and starts no worker until its process ends, whatever the gateway
  sends, through reconnects and errors.
\<close>

theorem drained_runner_stays_idle:
  assumes "(process_step H)\<^sup>*\<^sup>* (c, w) (c', w')" "draining w" "active (snapshot w) = None"
  shows "draining w' \<and> active (snapshot w') = None \<and> launches w' = launches w"
proof -
  have "retirement.holds (launches w) (c, w)"
    using assms(2,3) by (simp add: retirement.holds_def retired_def split: connection.split)
  then have "retirement.holds (launches w) (c', w')"
    by (rule retirement.holds_in_process [OF assms(1), rotated]) simp
  then show ?thesis by (simp add: retirement.holds_def retired_def split: connection.splits)
qed

definition sampleDrained :: clientSession where
  "sampleDrained = (sampleClient (memoryJournal empty_journal))\<lparr>draining := True\<rparr>"

theorem drained_runner_stays_idle_witness:
  "\<exists>w'. (process_step (sampleHost sampleMessages []))\<^sup>*\<^sup>* (Connected sampleStream, sampleDrained) (Disconnected, w')
     \<and> draining w' \<and> active (snapshot w') = None \<and> launches w' = []"
proof -
  let ?w = "snd (endSession sampleStream sampleDrained)"
  have run: "(process_step (sampleHost sampleMessages []))\<^sup>*\<^sup>* (Connected sampleStream, sampleDrained) (Disconnected, ?w)"
    using step_stream_lost [of "sampleHost sampleMessages []" sampleStream sampleDrained StreamEOF]
    by (intro r_into_rtranclp) (simp add: process_step_def afterError_def transient_def)
  have "draining sampleDrained" "active (snapshot sampleDrained) = None" "launches sampleDrained = []"
    by (simp_all add: sampleDrained_def sampleClient_def memoryJournal_def empty_journal_def)
  then show ?thesis using drained_runner_stays_idle [OF run] run by auto
qed

text \<open>
  C26. A worker whose cleanup failed makes the runner drain before its result is reported: after the event with such a result the
  runner drains, whether the handler succeeds or fails, so that no further lease runs on a host that was not cleaned up.
\<close>

theorem failed_cleanup_drains:
  assumes "weSecretRequest event = None" "weEvidence event = None" "weResult event = Some result" "exCleanup result = Some (False, err)"
  shows "draining (snd (handleEvent H S (FromWorker event) w))"
proof -
  have "triple (\<lambda>_. True) Drain (\<lambda>_. drains) (\<lambda>_. drains)"
    unfolding Drain_def by (rule triple_modify) (simp add: drains_def)
  moreover have "keeps drains (andThen markWorkerStopped
      (andThen (case weFinalEvidence event of None \<Rightarrow> ret () | Some e \<Rightarrow> ignoring (sendWorkerEvidence H S e))
               (case weFinalUsage event of None \<Rightarrow> ret () | Some e \<Rightarrow> ignoring (sendWorkerEvidence H S e))))"
    by (intro keeps_rules)
  ultimately have finished: "triple (\<lambda>_. True) (workerFinished H S event result) (\<lambda>_. drains) (\<lambda>_. drains)"
    unfolding workerFinished_def guards_keeps [symmetric] using assms(4) by (simp add: triple_andThen)
  have "triple (\<lambda>_. True) (handleEvent H S (FromWorker event)) (\<lambda>_. drains) (\<lambda>_. drains)"
    unfolding handleEvent_def handleWorkerEvent_def using assms(1-3)
    by (simp, intro triple_andThen [OF finished], unfold guards_keeps) (intro keeps_rules)
  from triple_snd [OF this] show ?thesis by (simp add: drains_def)
qed

text \<open>A result whose cleanup failed.\<close>

definition sampleUnclean :: worker_event where
  "sampleUnclean =
     \<lparr>weSecretRequest = None, weStart = None,
      weResult = Some \<lparr>exStatus = ''failed'', exClassification = InfrastructureFailure, exPhase = PhaseCleanup, exFailure = None,
        exExecution = None, exCompleteLog = None, exCleanup = Some (False, ''busy''), exStartedAt = 1, exCompletedAt = 2,
        exMeasuredResources = None, exMeasuredNetwork = False, exTerminalContext = None\<rparr>,
      weEvidence = None, weFinalEvidence = None, weFinalUsage = None\<rparr>"

theorem failed_cleanup_drains_witness:
  "draining (snd (handleEvent (sampleHost sampleMessages []) sampleStream (FromWorker sampleUnclean) (sampleClient (memoryJournal empty_journal))))
   \<and> \<not> draining (sampleClient (memoryJournal empty_journal))"
  using failed_cleanup_drains [of sampleUnclean] by (simp add: sampleUnclean_def sampleClient_def)

end
