(* ===== verification/DeferredEvents.thy ===== *)
theory DeferredEvents
  imports SessionRules SampleHost
begin

section \<open>Deferred worker events\<close>

text \<open>
  \<open>drainDeferred\<close> handles deferred events until one of them waits for an acknowledgement or none is left. It ends after at most
  one round per event, unless the lease was cancelled by a reconciliation whose command has not arrived: then a deferred result
  is deferred again at once and the loop does not end.
\<close>

text \<open>The lease is cancelled, but the cancel command with its digest is still to come.\<close>

definition halfCancelled :: "journal_state \<Rightarrow> bool" where
  "halfCancelled s \<longleftrightarrow> (case active s of None \<Rightarrow> False | Some a \<Rightarrow> cancellationID a \<noteq> [] \<and> cancellationDigest a = [])"

text \<open>What the handlers of worker events leave alone: the queue, and the cancellation of the lease.\<close>

definition settled :: "worker_event list \<Rightarrow> bool \<Rightarrow> clientSession \<Rightarrow> bool" where
  "settled events half w \<longleftrightarrow> deferredWorkerEvents w = events \<and> halfCancelled (snapshot w) = half"

lemma keeps_settled_update:
  assumes "\<And>s. halfCancelled (snd (f s)) = halfCancelled s"
  shows "keeps (settled events half) (onJournal (update (jenv H) f))"
proof (rule keepsI)
  fix w assume w: "settled events half w"
  obtain j where j: "snd (onJournal (update (jenv H) f) w) = w\<lparr>clientJournal := j\<rparr>" "jState j = snapshot w \<or> jState j = snd (f (snapshot w))"
    using onJournal_update_states by blast
  then have "halfCancelled (jState j) = halfCancelled (snapshot w)" using assms by metis
  then show "settled events half (snd (onJournal (update (jenv H) f) w))"
    using w unfolding j(1) by (simp add: settled_def)
qed

lemma half_pending:
  "halfCancelled (snd (mutate s)) = halfCancelled s \<Longrightarrow> halfCancelled (snd (journalPending H m b mutate s)) = halfCancelled s"
  by (cases "mutate s"; cases "fst (mutate s)") (auto simp: journalPending_def proc_defs halfCancelled_def)

lemma keeps_settled_scratch:
  "(\<And>w. deferredWorkerEvents (f w) = deferredWorkerEvents w \<and> snapshot (f w) = snapshot w) \<Longrightarrow> keeps (settled events half) (modify f)"
  by (rule keeps_modify) (simp add: settled_def)

lemma keeps_settled_outside: "keeps (settled events half) (consult f)" "keeps (settled events half) (send H m)"
  by (auto simp: keeps_def settled_def consult_def send_def proc_defs split: option.split)

lemma keeps_settled_messages: "keeps (settled events half) (runnerMessage H)" "keeps (settled events half) (sendRetained H S m)"
  unfolding runnerMessage_def sendRetained_def nextMessageSequence_def
  by (intro keeps_rules keeps_settled_update keeps_settled_outside;
      auto simp: proc_defs Let_def halfCancelled_def split: if_splits)+

lemma keeps_settled_queue:
  assumes "\<And>s. halfCancelled (snd (mutate s)) = halfCancelled s"
  shows "keeps (settled events half) (queueDurable H S p mutate)"
  unfolding queueDurable_def Let_def journalUpdate_def
  by (intro keeps_rules keeps_settled_messages keeps_settled_update half_pending) (rule assms)

lemma keeps_settled_events:
  "keeps (settled events half) (queueDurable H S p (ret ()))"
  "keeps (settled events half) (queueDurable H S p (journal_active (phase_update (\<lambda>_. ph))))"
  by (rule keeps_settled_queue; simp add: ret_def journal_active_def halfCancelled_def split: option.split)+

lemma keeps_settled_control:
  "keeps (settled events half) (replyStart ch e)" "keeps (settled events half) (setStartResponse ch)"
  "keeps (settled events half) (finishSecretRequest r v)" "keeps (settled events half) clearCompleteLogTarget"
  "keeps (settled events half) Drain" "keeps (settled events half) markWorkerStopped" "keeps (settled events half) nextEphemeral"
  unfolding replyStart_def setStartResponse_def finishSecretRequest_def clearCompleteLogTarget_def Drain_def markWorkerStopped_def
    nextEphemeral_def
  by (intro keeps_rules keeps_settled_scratch; simp)+

lemmas settled_rules = keeps_rules keeps_settled_scratch keeps_settled_outside keeps_settled_messages keeps_settled_events keeps_settled_control

lemma keeps_settled_identity: "keeps (settled events half) (activeIdentityNow H)" "keeps (settled events half) (uploadLog H t l)"
  unfolding activeIdentityNow_def uploadLog_def by (intro settled_rules)+

lemma keeps_settled_outcome: "keeps (settled events half) (queueOutcome H S a result)"
  unfolding queueOutcome_def queueCancellation_def queueLeaseExpired_def queueResult_def
  by (intro settled_rules keeps_settled_identity)

lemma keeps_settled_evidence: "keeps (settled events half) (sendWorkerEvidence H S e)"
  unfolding sendWorkerEvidence_def sendLive_def Let_def by (intro settled_rules) simp_all

lemma keeps_settled_finished: "keeps (settled events half) (workerFinished H S event result)"
  unfolding workerFinished_def by (intro settled_rules keeps_settled_evidence) (auto intro!: settled_rules split: bool.split)

lemma keeps_settled_request: "keeps (settled events half) (requestSecret H S request job)"
  unfolding requestSecret_def refuseSecret_def Let_def by (intro settled_rules) simp_all

lemma keeps_settled_start: "keeps (settled events half) (handleStart H S ch state a)"
  unfolding handleStart_def by (intro settled_rules)

text \<open>What a finished worker leaves alone: the journal in memory.\<close>

lemma snapshot_send: "keeps (\<lambda>w. snapshot w = s) (send H m)"
  by (auto simp: keeps_def consult_def send_def proc_defs split: option.split)

lemma snapshot_evidence: "keeps (\<lambda>w. snapshot w = s) (sendWorkerEvidence H S e)"
  unfolding sendWorkerEvidence_def sendLive_def Let_def
  by (intro keeps_rules snapshot_send still.keeps_scratch) (simp add: core_def)

lemma snapshot_finished: "keeps (\<lambda>w. snapshot w = s) (workerFinished H S event result)"
  unfolding workerFinished_def
  by (intro keeps_rules snapshot_evidence) (auto intro!: keeps_rules split: bool.split)

abbreviation ready :: "worker_event list \<Rightarrow> clientSession \<Rightarrow> bool" where
  "ready events w \<equiv> settled events False w \<and> pendingMessage (snapshot w) = []"

lemma to_settled:
  "keeps (settled events False) m \<Longrightarrow> (\<And>w. P w \<Longrightarrow> settled events False w)
   \<Longrightarrow> triple P m (\<lambda>_. settled events False) (\<lambda>_ _. True)"
  unfolding guards_keeps [symmetric] by (erule triple_conseq) auto

lemma failing_branch: "triple P (andThen m (fail e)) Q (\<lambda>_ _. True)"
  by (auto simp: triple_def proc_defs split: prod.split sum.split)

lemma ready_request: "triple (ready events) (beginSecretRequest H S request) (\<lambda>_. settled events False) (\<lambda>_ _. True)"
proof -
  have consult: "triple P (consult f) (\<lambda>_. P) (\<lambda>_ _. True)" if "\<And>w n. P w \<Longrightarrow> P (w\<lparr>ticks := n\<rparr>)" for P :: "clientSession \<Rightarrow> bool" and f :: "nat \<Rightarrow> 'b"
    using that by (auto simp: triple_def consult_def)
  have refuse: "keeps (settled events False) (refuseSecret request)"
    unfolding refuseSecret_def by (intro settled_rules)
  show ?thesis
    unfolding beginSecretRequest_def
    by (rule triple_bind [OF consult], simp add: settled_def, rule triple_read, rule triple_prod, rule triple_prod, rule triple_if,
        rule to_settled [OF refuse], simp, rule triple_bind [OF consult], simp add: settled_def,
        intro triple_option triple_if to_settled [OF refuse] to_settled [OF keeps_settled_request])
       (auto simp: triple_def)
qed

lemma ready_result:
  assumes "\<not> (cancellationID a \<noteq> [] \<and> cancellationDigest a = [])"
  shows "triple (settled events False) (handleResult H S event a result) (\<lambda>_. settled events False) (\<lambda>_ _. True)"
proof -
  have outcome: "triple (settled events False) (tryProc (queueOutcome H S a result)) (\<lambda>_. settled events False) (\<lambda>_ _. True)"
    by (rule to_settled [OF keeps_tryProc [OF keeps_settled_outcome]])
  have after: "triple (settled events False) (andThen (if pending \<noteq> [] then clearCompleteLogTarget
      else (case x of Inl _ \<Rightarrow> deferWorkerEvent event | Inr _ \<Rightarrow> ret ())) (ofSum x)) (\<lambda>_. settled events False) (\<lambda>_ _. True)"
    for pending :: bytes and x :: "go_error + unit"
  proof (cases x)
    case (Inl e)
    then have "ofSum x = (fail e :: unit handler)" by (simp add: ofSum_def fail_def)
    then show ?thesis by (simp only: failing_branch)
  next
    case (Inr u)
    show ?thesis unfolding Inr sum.case by (rule to_settled) (intro settled_rules)
  qed
  show ?thesis
    unfolding handleResult_def using assms
    by (simp only: if_False) (rule triple_bind [OF outcome], rule triple_bind [OF guards_get], rule after)
qed

lemma ready_event: "triple (ready events) (handleWorkerEvent H S e) (\<lambda>_. settled events False) (\<lambda>_ _. True)"
proof -
  have finished: "triple (ready events) (case weResult e of None \<Rightarrow> ret () | Some result \<Rightarrow> workerFinished H S e result)
      (\<lambda>_. ready events) (\<lambda>_ _. True)"
  proof (cases "weResult e")
    case (Some result)
    have both: "triple (\<lambda>w. settled events False w \<and> snapshot w = s) (workerFinished H S e result)
        (\<lambda>_ w. settled events False w \<and> snapshot w = s) (\<lambda>_ _. True)" for s
      by (rule triple_both [OF keeps_settled_finished snapshot_finished]) simp
    show ?thesis
      unfolding Some option.case
    proof (rule tripleI)
      fix w x w'
      assume "ready events w" and "workerFinished H S e result w = (Inr x, w')"
      then show "ready events w'" using triple_Inr [OF both [of "snapshot w"], of w x w'] by simp
    qed simp
  qed (simp add: triple_def ret_def)
  have inactive: "keeps (settled events False) (andThen
      (case weStart e of None \<Rightarrow> ret () | Some ch \<Rightarrow> replyStart ch (Some (Plain ''lease_inactive'')))
      (if weResult e \<noteq> None then clearCompleteLogTarget else ret ()))"
    by (intro settled_rules)
  have result: "triple (\<lambda>w. ready events w \<and> snapshot w = state) (handleResult H S e a r) (\<lambda>_. settled events False) (\<lambda>_ _. True)"
    if "active state = Some a" for state a r
  proof (cases "cancellationID a \<noteq> [] \<and> cancellationDigest a = []")
    case True
    then show ?thesis using that by (auto simp: triple_def settled_def halfCancelled_def)
  next
    case False
    show ?thesis by (rule triple_conseq [OF ready_result [OF False]]) auto
  qed
  have rest: "triple (ready events) (bind (get (\<lambda>w. snapshot w)) (\<lambda>state.
      case active state of
        None \<Rightarrow> andThen (case weStart e of None \<Rightarrow> ret () | Some ch \<Rightarrow> replyStart ch (Some (Plain ''lease_inactive'')))
                  (if weResult e \<noteq> None then clearCompleteLogTarget else ret ())
      | Some a \<Rightarrow>
          if pendingMessage state \<noteq> [] then deferWorkerEvent e
          else (case weStart e of
              Some ch \<Rightarrow> handleStart H S ch state a
            | None \<Rightarrow> (case weResult e of
                Some result \<Rightarrow> handleResult H S e a result
              | None \<Rightarrow> fail (Plain ''empty_event''))))) (\<lambda>_. settled events False) (\<lambda>_ _. True)"
    by (rule triple_read, intro triple_option triple_if to_settled [OF inactive] to_settled [OF keeps_settled_start] result triple_fail)
       (auto simp: triple_def)
  show ?thesis
    unfolding handleWorkerEvent_def
    by (intro triple_option ready_request triple_andThen [OF finished rest] to_settled [OF keeps_settled_evidence]) simp
qed

lemma drain_fuel:
  "settled events False w \<Longrightarrow> length events < n \<Longrightarrow> length events < m \<Longrightarrow> drain_loop n H S w = drain_loop m H S w"
proof (induction n arbitrary: m w events)
  case (Suc n)
  then obtain k where m: "m = Suc k" by (cases m) auto
  show ?case
  proof (cases "pendingMessage (snapshot w) = [] \<and> events \<noteq> []")
    case False
    then show ?thesis using Suc.prems(1) by (auto simp: m proc_defs popDeferredWorkerEvent_def settled_def)
  next
    case True
    then obtain e rest where events: "events = e # rest" by (cases events) auto
    let ?w = "w\<lparr>deferredWorkerEvents := rest\<rparr>"
    have pop: "popDeferredWorkerEvent w = (Inr (Some e), ?w)"
      using Suc.prems(1) events by (simp add: popDeferredWorkerEvent_def settled_def)
    have "ready rest ?w" using Suc.prems(1) True by (simp add: settled_def)
    then have "drain_loop n H S v = drain_loop k H S v" if "handleWorkerEvent H S e ?w = (Inr x, v)" for x v
      using Suc.IH [of rest v k] triple_Inr [OF ready_event _ that] Suc.prems(2,3) m events by simp
    then show ?thesis
      using True pop by (auto simp: m bind_def andThen_def get_def split: prod.split sum.split)
  qed
qed simp

lemma result_deferred_again:
  assumes "weSecretRequest e = None" "weEvidence e = None" "weStart e = None" "weResult e = Some result"
    "weFinalEvidence e = None" "weFinalUsage e = None"
    "halfCancelled (snapshot w)" "pendingMessage (snapshot w) = []"
  shows "\<exists>w'. handleWorkerEvent H S e w = (Inr (), w') \<and> deferredWorkerEvents w' = deferredWorkerEvents w @ [e] \<and> snapshot w' = snapshot w"
proof -
  obtain a where a: "active (snapshot w) = Some a" "cancellationID a \<noteq> []" "cancellationDigest a = []"
    using assms(7) by (auto simp: halfCancelled_def split: option.splits)
  show ?thesis
    using a assms(1-6,8)
    by (auto simp: handleWorkerEvent_def workerFinished_def handleResult_def deferWorkerEvent_def Drain_def markWorkerStopped_def
        proc_defs split: option.split prod.split bool.split)
qed

subsection \<open>Properties\<close>


definition sampleStart :: worker_event where
  "sampleStart = \<lparr>weSecretRequest = None, weStart = Some 7, weResult = None, weEvidence = None, weFinalEvidence = None, weFinalUsage = None\<rparr>"

definition sampleWaiting :: clientSession where
  "sampleWaiting = (sampleClient (memoryJournal empty_journal))\<lparr>deferredWorkerEvents := [sampleStart]\<rparr>"


text \<open>
  C28. A lease cancelled by a reconciliation whose cancel command has not arrived makes the loop run forever: with the result of the
  worker as the only deferred event and no event awaiting an acknowledgement, the loop takes the result off the queue and puts it
  back, however many rounds it is given.
\<close>

theorem drain_livelock:
  assumes "weSecretRequest e = None" "weEvidence e = None" "weStart e = None" "weResult e = Some result"
    "weFinalEvidence e = None" "weFinalUsage e = None"
    "halfCancelled (snapshot w)" "pendingMessage (snapshot w) = []" "deferredWorkerEvents w = [e]"
  shows "fst (drain_loop n H S w) = Inl OutOfFuel"
  using assms(7-9)
proof (induction n arbitrary: w)
  case (Suc n)
  let ?w = "w\<lparr>deferredWorkerEvents := []\<rparr>"
  obtain w' where w': "handleWorkerEvent H S e ?w = (Inr (), w')" "deferredWorkerEvents w' = [e]" "snapshot w' = snapshot w"
    using result_deferred_again [OF assms(1-6), of ?w H S] Suc.prems by auto
  then have "fst (drain_loop n H S w') = Inl OutOfFuel" using Suc by simp
  then show ?case
    using Suc.prems w' by (simp add: bind_def andThen_def get_def popDeferredWorkerEvent_def)
qed (simp add: fail_def)

definition sampleFinished :: worker_event where
  "sampleFinished =
     \<lparr>weSecretRequest = None, weStart = None,
      weResult = Some \<lparr>exStatus = ''passed'', exClassification = Passed, exPhase = PhaseCompleted, exFailure = None,
        exExecution = Some (Some 0), exCompleteLog = None, exCleanup = Some (True, []), exStartedAt = 1, exCompletedAt = 2,
        exMeasuredResources = None, exMeasuredNetwork = False, exTerminalContext = None\<rparr>,
      weEvidence = None, weFinalEvidence = None, weFinalUsage = None\<rparr>"

definition sampleStuck :: clientSession where
  "sampleStuck =
     (sampleClient (memoryJournal (sampleBusy\<lparr>active := Some (sampleActive\<lparr>cancellationID := ''stop'', cancellationDigest := []\<rparr>),
                                               pendingMessage := []\<rparr>)))\<lparr>deferredWorkerEvents := [sampleFinished]\<rparr>"

theorem drain_livelock_witness:
  "\<forall>n. fst (drain_loop n (sampleHost sampleMessages []) sampleStream sampleStuck) = Inl OutOfFuel"
proof
  fix n
  show "fst (drain_loop n (sampleHost sampleMessages []) sampleStream sampleStuck) = Inl OutOfFuel"
    by (rule drain_livelock [of sampleFinished])
       (simp_all add: sampleStuck_def sampleFinished_def sampleClient_def memoryJournal_def halfCancelled_def)
qed

end
