(* ===== verification/Remembering.thy ===== *)
theory Remembering
  imports SessionRules SampleHost
begin

section \<open>Remembered messages\<close>

text \<open>
  A session remembers the gateway messages it has handled, the events that were acknowledged and the heartbeats that were
  acknowledged, each in a table with its insertion order. The tables stay bounded and agree with their order, and a message
  that is remembered is not handled again.
\<close>

definition window_ok :: "('k \<Rightarrow> 'v option) \<times> 'k list \<Rightarrow> bool" where
  "window_ok window \<longleftrightarrow>
     distinct (snd window) \<and> set (snd window) = dom (fst window) \<and> length (snd window) \<le> maximumRememberedGatewayMessageIDs"

lemma window_empty [simp]: "window_ok (\<lambda>_. None, [])" "window_ok ([k \<mapsto> v], [k])"
  by (simp_all add: window_ok_def maximumRememberedGatewayMessageIDs_def)

text \<open>Remembering a key keeps the window, finds the new entry, and forgets at most the oldest key.\<close>

lemma window_remember:
  assumes "window_ok window"
  shows "window_ok (rememberIn k v window)"
proof -
  obtain t ks where w: "window = (t, ks)" by (cases window)
  have ks: "distinct ks" "set ks = dom t" "length ks \<le> maximumRememberedGatewayMessageIDs"
    using assms by (simp_all add: w window_ok_def)
  show ?thesis
  proof (cases "t k")
    case None
    then have new: "k \<notin> set ks" using ks(2) by (auto simp: dom_def)
    show ?thesis
    proof (cases "length ks < maximumRememberedGatewayMessageIDs")
      case True
      then show ?thesis using None ks new by (simp add: w rememberIn_def window_ok_def Let_def)
    next
      case False
      then obtain x xs where x: "ks = x # xs"
        by (cases ks) (auto simp: maximumRememberedGatewayMessageIDs_def)
      then show ?thesis using None ks new False by (auto simp: w rememberIn_def window_ok_def Let_def)
    qed
  next
    case (Some y)
    then show ?thesis using ks by (auto simp: w rememberIn_def window_ok_def Let_def insert_absorb)
  qed
qed

lemma window_found:
  assumes "window_ok window"
  shows "fst (rememberIn k v window) k = Some v"
proof -
  obtain t ks where w: "window = (t, ks)" by (cases window)
  have "hd (ks @ [k]) \<noteq> k" if "t k = None" "length ks \<ge> maximumRememberedGatewayMessageIDs"
    using that assms by (cases ks) (auto simp: w window_ok_def maximumRememberedGatewayMessageIDs_def)
  then show ?thesis using assms by (auto simp: w rememberIn_def Let_def window_ok_def)
qed

definition remembers :: "clientSession \<Rightarrow> bool" where
  "remembers w \<longleftrightarrow>
     window_ok (seen w, seenOrder w) \<and> window_ok (settledEvents w, settledEventOrder w)
     \<and> window_ok (acknowledgedHeartbeats w, acknowledgedHBOrder w)"

lemma keeps_remembers:
  "keeps remembers (consult f)" "keeps remembers (send H m)" "keeps remembers (onJournal p)" "keeps remembers (journalUpdate H g)"
  by (auto simp: keeps_def remembers_def consult_def send_def onJournal_def journalUpdate_def proc_defs split: option.split prod.split)

lemma keeps_remembers_messages:
  "keeps remembers (runnerMessage H)" "keeps remembers (sendRetained H S m)" "keeps remembers (replayPending H S)"
  "keeps remembers (queueDurable H S p mutate)"
  unfolding runnerMessage_def sendRetained_def replayPending_def queueDurable_def Let_def by (intro keeps_rules keeps_remembers)+

lemma keeps_remembers_sendHeartbeat: "keeps remembers (sendHeartbeat H t)"
  unfolding sendHeartbeat_def loadHeartbeat_def newHeartbeat_def heartbeatMessage_def
  by (intro keeps_rules keeps_modify keeps_remembers keeps_remembers_messages) (simp_all add: remembers_def)

lemma remembers_windows:
  "remembers w \<Longrightarrow> rememberIn k d (seen w, seenOrder w) = (td, ks) \<Longrightarrow> remembers (w\<lparr>seen := td, seenOrder := ks\<rparr>)"
  "remembers w \<Longrightarrow> rememberIn k s (settledEvents w, settledEventOrder w) = (ts, ks)
   \<Longrightarrow> remembers (w\<lparr>settledEvents := ts, settledEventOrder := ks\<rparr>)"
  "remembers w \<Longrightarrow> rememberIn k b (acknowledgedHeartbeats w, acknowledgedHBOrder w) = (tb, ks)
   \<Longrightarrow> remembers (w\<lparr>acknowledgedHeartbeats := tb, acknowledgedHBOrder := ks\<rparr>)"
  using window_remember [of "(seen w, seenOrder w)" k d] window_remember [of "(settledEvents w, settledEventOrder w)" k s]
    window_remember [of "(acknowledgedHeartbeats w, acknowledgedHBOrder w)" k b]
  by (simp_all add: remembers_def)

interpretation memory: quiet_session remembers H "\<lambda>_. remembers" for H
proof (unfold_locales, goal_cases)
qed (simp_all add: guards_keeps keeps_remembers keeps_remembers_messages keeps_remembers_sendHeartbeat clearPending_def clearActive_def
        applyAuthoritativeReconciliation_def remembers_windows,
     auto intro: triple_keeps [OF keeps_remembers(4)], auto simp: remembers_def core_def)

lemma keeps_remembers_acceptOffer: "keeps remembers (acceptOffer H S i dg job target now)"
  unfolding acceptOffer_def by (intro keeps_rules keeps_remembers_messages)

lemma keeps_remembers_startWorker: "keeps remembers (startWorker H)"
  unfolding startWorker_def launch_def
  by (auto simp: remembers_def intro!: keeps_rules keeps_modify split: option.split)

interpretation memory: uniform_session H remembers "\<lambda>_. remembers" for H
  by unfold_locales
     (auto intro: keeps_remembers_messages keeps_remembers_startWorker triple_keeps [OF keeps_remembers_acceptOffer],
      auto simp: remembers_def)

interpretation memory: runner_property H remembers "\<lambda>_. remembers" "\<lambda>_. True" remembers for H
  by unfold_locales (simp_all add: keeps_remembers, auto simp: remembers_def core_def newSession_def newClient_def)

subsection \<open>Properties\<close>

text \<open>
  C29. In every run the three memories of a session stay within their bound of 4096 keys, hold no key twice in their order, and hold in
  the table exactly the keys of the order; and remembering a message always finds it afterwards, also when the memory is full.
\<close>

theorem memories_bounded:
  assumes "(runner_step H)\<^sup>*\<^sup>* (c, w) (c', w')" "remembers w"
  shows "remembers w' \<and> length (seenOrder w') \<le> 4096 \<and> length (settledEventOrder w') \<le> 4096 \<and> length (acknowledgedHBOrder w') \<le> 4096
         \<and> fst (rememberIn k d (seen w', seenOrder w')) k = Some d"
proof -
  have "memory.holds (c, w)" using assms(2) by (simp add: memory.holds_def split: connection.split)
  then have "memory.holds (c', w')" by (rule memory.holds_always [where H = H, rotated]) (simp add: assms(1))
  then have "remembers w'" by (simp add: memory.holds_def split: connection.splits)
  then show ?thesis
    using window_found [of "(seen w', seenOrder w')" k d] by (simp add: remembers_def window_ok_def maximumRememberedGatewayMessageIDs_def)
qed

theorem memories_bounded_witness:
  "remembers (snd (endSession sampleStream (sampleClient (memoryJournal empty_journal))))"
proof -
  let ?H = "sampleHost sampleMessages []" and ?w = "sampleClient (memoryJournal empty_journal)"
  have "(runner_step ?H)\<^sup>*\<^sup>* (Connected sampleStream, ?w) (afterError StreamEOF, snd (endSession sampleStream ?w))"
    by (rule r_into_rtranclp) (rule step_stream_lost)
  moreover have "remembers ?w" by (simp add: remembers_def sampleClient_def)
  ultimately show ?thesis using memories_bounded by blast
qed

text \<open>
  C30. A gateway message whose identifier is remembered is not handled again: the same message changes nothing but the number of calls to the
  clock, and a different message under the same identifier ends the session with an error and changes nothing else either.
\<close>

theorem remembered_message_ignored:
  assumes "\<not> isDelivery message" "validateGatewayEnvelope (libOf H) message (clockAt H (ticks w)) = None"
    "marshalGateway (libOf H) message = Some data" "seen w (gatewayMessageId message) = Some digest"
  shows "handleEvent H S (FromGateway message) w =
           (if digest = sha256Sum (libOf H) data then Inr () else Inl (Permanent ''message_reused''), w\<lparr>ticks := ticks w + 1\<rparr>)"
proof -
  have "refuseTestSecretDelivery message = None"
    using assms(1) by (auto simp: isDelivery_def refuseTestSecretDelivery_def split: option.splits gateway_payload.splits)
  then show ?thesis
    using assms by (simp add: handleEvent_def receiveMessage_def gatewayMessageDuplicate_def consult_def proc_defs Let_def)
qed

definition sampleSeen :: clientSession where
  "sampleSeen = (sampleClient (memoryJournal empty_journal))\<lparr>seen := [''offer'' \<mapsto> sampleDigest ''offer''], seenOrder := [''offer'']\<rparr>"

theorem remembered_message_ignored_witness:
  "handleEvent (sampleHost sampleMessages []) sampleStream (FromGateway (sampleGateway (G_Offer sampleOffer) ''offer'')) sampleSeen
     = (Inr (), sampleSeen\<lparr>ticks := 1\<rparr>)"
proof -
  let ?H = "sampleHost sampleMessages []" and ?m = "sampleGateway (G_Offer sampleOffer) ''offer''"
  have h: "\<not> isDelivery ?m" "validateGatewayEnvelope (libOf ?H) ?m (clockAt ?H (ticks sampleSeen)) = None"
    "marshalGateway (libOf ?H) ?m = Some ''offer''" "seen sampleSeen (gatewayMessageId ?m) = Some (sampleDigest ''offer'')"
    by (simp_all add: isDelivery_def sampleGateway_def validateGatewayEnvelope_def sample_ids sampleSeen_def)
  have "sha256Sum (libOf ?H) ''offer'' = sampleDigest ''offer''" "ticks sampleSeen = 0"
    by (simp_all add: sampleSeen_def)
  then show ?thesis using remembered_message_ignored [OF h] by simp
qed

end
