(* ===== verification/StartGate.thy ===== *)
theory StartGate
  imports SessionRules SampleHost
begin

section \<open>When a worker may start its workload\<close>

text \<open>
  A worker asks over its start channel before it runs the workload. The answer is positive only while the gateway's
  acknowledgement of the start event is handled; every other event can only refuse.
\<close>

text \<open>The channels that were answered positively.\<close>

definition confirmed :: "clientSession \<Rightarrow> nat list" where
  "confirmed w = map fst (filter (\<lambda>(_, e). e = None) (startReplies w))"

definition unchanged :: "nat list \<Rightarrow> clientSession \<Rightarrow> bool" where
  "unchanged chs w \<longleftrightarrow> confirmed w = chs"

text \<open>The acknowledgement that confirms a start: of the journaled start event, applied, active and running, and not cancelled.\<close>

definition confirms :: "lib \<Rightarrow> session_event \<Rightarrow> journal_state \<Rightarrow> bool" where
  "confirms L event s \<longleftrightarrow>
     (case event of
        FromGateway message \<Rightarrow>
          (case (gatewayPayload message, unmarshalRunner L (pendingMessage s)) of
             (Some (G_EventAck ack), Some pending) \<Rightarrow>
               ackRunnerMessageId ack = runnerMessageId pending
               \<and> (case runnerPayload pending of Some (P_JobStarted _) \<Rightarrow> True | _ \<Rightarrow> False)
               \<and> (case ackReconciliation ack of
                    None \<Rightarrow> False
                  | Some r \<Rightarrow> recDisposition r \<noteq> DISPOSITION_STALE \<and> recStatus r = STATUS_ACTIVE \<and> recPhase r = PHASE_RUNNING
                             \<and> recCancellationId r = [])
           | _ \<Rightarrow> False)
      | _ \<Rightarrow> False)"

lemma keeps_unchanged:
  "keeps (unchanged chs) (consult f)" "keeps (unchanged chs) (send H m)" "keeps (unchanged chs) (onJournal p)"
  "keeps (unchanged chs) (journalUpdate H g)"
  by (auto simp: keeps_def unchanged_def confirmed_def consult_def send_def onJournal_def journalUpdate_def proc_defs
      split: option.split prod.split)

lemma keeps_unchanged_messages:
  "keeps (unchanged chs) (runnerMessage H)" "keeps (unchanged chs) (sendRetained H S m)" "keeps (unchanged chs) (replayPending H S)"
  "keeps (unchanged chs) (queueDurable H S p mutate)"
  unfolding runnerMessage_def sendRetained_def replayPending_def queueDurable_def Let_def by (intro keeps_rules keeps_unchanged)+

lemma keeps_unchanged_sendHeartbeat: "keeps (unchanged chs) (sendHeartbeat H t)"
  unfolding sendHeartbeat_def loadHeartbeat_def newHeartbeat_def heartbeatMessage_def
  by (intro keeps_rules keeps_modify keeps_unchanged keeps_unchanged_messages) (simp_all add: unchanged_def confirmed_def)

interpretation gate: quiet_session "unchanged chs" H "\<lambda>_. unchanged chs" for chs H
  by unfold_locales
     (simp_all add: guards_keeps keeps_unchanged keeps_unchanged_messages keeps_unchanged_sendHeartbeat clearPending_def clearActive_def
        applyAuthoritativeReconciliation_def,
      auto intro: triple_keeps [OF keeps_unchanged(4)], auto simp: unchanged_def confirmed_def core_def)

lemma keeps_unchanged_acceptOffer: "keeps (unchanged chs) (acceptOffer H S i dg job target now)"
  unfolding acceptOffer_def by (intro keeps_rules keeps_unchanged_messages)

lemma keeps_unchanged_startWorker: "keeps (unchanged chs) (startWorker H)"
  unfolding startWorker_def launch_def
  by (auto simp: unchanged_def confirmed_def intro!: keeps_rules keeps_modify split: option.split)

lemma keeps_unchanged_acknowledged:
  assumes "\<And>v. runnerPayload pending \<noteq> Some (P_JobStarted v)"
  shows "keeps (unchanged chs) (acknowledgedEvent H S pending state now)"
proof -
  have recovering: "keeps (unchanged chs) (modify (\<lambda>w. w\<lparr>recovering := False\<rparr>))"
    by (rule keeps_modify) (simp add: unchanged_def confirmed_def)
  have after: "keeps (unchanged chs) (unlessRecovering H S now rest)" if "keeps (unchanged chs) rest" for rest
    unfolding unlessRecovering_def by (intro keeps_rules that)
  have go: "keeps (unchanged chs) (unlessCancelled H S now (queuePreparing H S now))"
    "keeps (unchanged chs) (unlessCancelled H S now (startWorker H))"
    unfolding unlessCancelled_def queuePreparing_def by (intro keeps_rules keeps_unchanged_messages keeps_unchanged_startWorker)+
  have terminal: "keeps (unchanged chs) (clearActive H)"
    unfolding clearActive_def by (rule keeps_unchanged)
  show ?thesis
    using assms unfolding acknowledgedEvent_def Let_def
    by (auto intro!: keeps_rules after go recovering terminal split: option.split runner_payload.split)
qed

lemma keeps_unchanged_acknowledge:
  assumes "validatePendingReconciliation pending r state = None"
    "\<not> ((\<exists>v. runnerPayload pending = Some (P_JobStarted v)) \<and> recDisposition r \<noteq> DISPOSITION_STALE \<and> recStatus r = STATUS_ACTIVE
        \<and> recPhase r = PHASE_RUNNING \<and> recCancellationId r = [])"
  shows "keeps (unchanged chs) (acknowledgePending H S pending r state now)"
proof -
  have reissue: "keeps (unchanged chs) (reissueStaleEvent H S pending now)"
    unfolding reissueStaleEvent_def by (intro keeps_rules keeps_unchanged_messages)
  have event: "keeps (unchanged chs) (acknowledgedEvent H S pending state now)"
    if "\<not> (\<not> terminalLeaseStatus (recStatus r) \<and> recCancellationId r \<noteq> [])" "recDisposition r \<noteq> DISPOSITION_STALE"
      "\<not> terminalLeaseStatus (recStatus r)"
  proof (rule keeps_unchanged_acknowledged, rule notI)
    fix v assume "runnerPayload pending = Some (P_JobStarted v)"
    then show False using assms that by (simp add: validatePendingReconciliation_def split: if_splits)
  qed
  show ?thesis
    unfolding acknowledgePending_def Let_def applyAuthoritativeReconciliation_def
    by (intro keeps_rules keeps_unchanged gate.k_endLease reissue event) auto
qed

interpretation gate: session_property H "unchanged chs" "\<lambda>_. unchanged chs" "\<lambda>event s. \<not> confirms (libOf H) event s" for chs H
proof
  fix S offer now job message i dg target
  show "triple (\<lambda>w. unchanged chs w \<and> idle w \<and> \<not> confirms (libOf H) (FromGateway message) (snapshot w))
      (acceptOffer H S i dg job target now) (\<lambda>_. unchanged chs) (\<lambda>_. unchanged chs)"
    by (rule triple_keeps [OF keeps_unchanged_acceptOffer]) simp
next
  fix message state ack r pending S now
  assume h: "\<not> confirms (libOf H) (FromGateway message) state" "gatewayPayload message = Some (G_EventAck ack)"
    "ackReconciliation ack = Some r" "ackRunnerMessageId ack = runnerMessageId pending" "pendingMessage state \<noteq> []"
    "unmarshalRunner (libOf H) (pendingMessage state) = Some pending" "validatePendingReconciliation pending r state = None"
  then show "triple (\<lambda>w. unchanged chs w \<and> snapshot w = state) (acknowledgePending H S pending r state now)
      (\<lambda>_. unchanged chs) (\<lambda>_. unchanged chs)"
    by (intro triple_keeps [OF keeps_unchanged_acknowledge]) (auto simp: confirms_def)
qed

subsection \<open>Property\<close>

text \<open>
  C23. A worker is allowed to start its workload only by the acknowledgement of the journaled start event: if an event answers a start
  channel positively, it is a gateway acknowledgement with the identifier of the pending event, that event is the start
  of the job, and the reconciliation it carries is not stale, reports the lease as active and running, and does not cancel it. The
  answer is positive in no other event, whether the handler succeeds or fails.
\<close>

theorem start_confirmed_by_acknowledgement:
  assumes "confirmed (snd (handleEvent H S event w)) \<noteq> confirmed w"
  shows "confirms (libOf H) event (snapshot w)"
proof (rule ccontr)
  assume "\<not> confirms (libOf H) event (snapshot w)"
  then have "unchanged (confirmed w) (snd (handleEvent H S event w))"
    by (intro triple_snd [OF gate.t_handleEvent]) (simp add: unchanged_def)
  then show False using assms by (simp add: unchanged_def)
qed

text \<open>A start that is confirmed: the start event is pending, and channel 7 waits for its acknowledgement.\<close>

definition sampleStarted :: runner_message where
  "sampleStarted =
     \<lparr>runnerMessageId = sampleEventId, runnerSentAt = Some (sampleTimestamp sampleNow),
      runnerPayload = Some (P_JobStarted \<lparr>startedLease = Some sampleLease, startedAttempt = Some sampleAttempt,
        startedAtTime = sampleTimestamp sampleNow\<rparr>)\<rparr>"

definition sampleStarting :: clientSession where
  "sampleStarting =
     (sampleClient (memoryJournal (empty_journal\<lparr>messageSequence := 1, pendingMessage := ''started''\<rparr>)))\<lparr>startResponse := Some 7\<rparr>"

abbreviation sampleStartState :: journal_state where
  "sampleStartState \<equiv> empty_journal\<lparr>messageSequence := 1, pendingMessage := ''started''\<rparr>"

abbreviation sampleStartHost :: host where "sampleStartHost \<equiv> sampleHost [(''started'', sampleStarted)] []"

lemma sampleStart_fields [simp]:
  "active sampleStartState = None" "pendingMessage sampleStartState = ''started''" "runnerMessageId sampleStarted = sampleEventId"
  "runnerMessageIdentity sampleStarted = (Some sampleLease, Some sampleAttempt)"
  "runnerPayload sampleStarted = Some (P_JobStarted \<lparr>startedLease = Some sampleLease, startedAttempt = Some sampleAttempt,
     startedAtTime = sampleTimestamp sampleNow\<rparr>)"
  by (simp_all add: empty_journal_def sampleStarted_def runnerMessageIdentity_def)

lemma sample_start_acknowledged:
  fixes w :: clientSession
  assumes "clientJournal w = memoryJournal sampleStartState" "startResponse w = Some 7" "startReplies w = []" "\<not> recovering w" "deferredWorkerEvents w = []"
  shows "\<exists>w'. acknowledgePending sampleStartHost S sampleStarted (sampleApplied PHASE_RUNNING) sampleStartState now w = (Inr (), w')
     \<and> confirmed w' = [7] \<and> heartbeatDeferred w' = heartbeatDeferred w"
proof -
  let ?s = "sampleStartState\<lparr>pendingMessage := []\<rparr>"
  have "journal_valid L ?s" for L by (simp add: empty_journal_def)
  then have clear: "clearPending sampleStartHost w = (Inr (), w\<lparr>clientJournal := memoryJournal ?s\<rparr>)"
    using journalUpdate_memory [OF assms(1), of "modify (\<lambda>s. s\<lparr>pendingMessage := []\<rparr>)" ?s sampleStartHost]
    by (simp add: clearPending_def modify_def)
  have drain: "drainDeferred sampleStartHost S v = (Inr (), v)" if "deferredWorkerEvents v = []" for v
    using that by (simp add: drainDeferred_def sampleHost_def numeral_eq_Suc proc_defs popDeferredWorkerEvent_def)
  show ?thesis
    using assms
    by (simp add: acknowledgePending_def acknowledgedEvent_def Let_def clear drain proc_defs terminalLeaseStatus_def activeMatchesIdentity_def
      is_rejection_def clearPendingAcknowledged_def rememberSettledMessage_def unlessRecovering_def completeStartResponse_def replyStart_def
      confirmed_def split: prod.split)
qed

lemma sample_start_handled:
  fixes w :: clientSession
  assumes "snapshot w = sampleStartState" "settledEvents w sampleEventId = None"
  shows "handleEventAcknowledgement sampleStartHost S
      \<lparr>ackRunnerMessageId = sampleEventId, ackCommittedAt = Some (sampleTimestamp sampleNow), ackReconciliation = Some (sampleApplied PHASE_RUNNING)\<rparr> now w
    = acknowledgePending sampleStartHost S sampleStarted (sampleApplied PHASE_RUNNING) sampleStartState now w"
proof -
  have "validateReconciliation (sampleLib ms js) (sampleApplied PHASE_RUNNING) = None" for ms js
    by (simp add: validateReconciliation_def validateTimestamp_def identity_uuids_def sampleLease_def sampleAttempt_def maximumAttemptNumber_def)
  moreover have "consumeNetworkAuthority sampleStartHost S (sampleApplied PHASE_RUNNING) w = (Inr (), w)"
    using assms by (simp add: consumeNetworkAuthority_def proc_defs activeMatchesIdentity_def)
  ultimately show ?thesis
    using assms
    by (simp add: handleEventAcknowledgement_def validateTimestamp_def proc_defs sameLeaseAttempt_def validatePendingReconciliation_def)
qed

lemma sample_confirmed:
  "confirmed (snd (handleEvent sampleStartHost sampleStream (FromGateway (sampleAck PHASE_RUNNING)) sampleStarting)) = [7]"
proof -
  let ?w = "sampleStarting\<lparr>seen := [''ack'' \<mapsto> sampleDigest ''ack''], seenOrder := [''ack''], ticks := ticks sampleStarting + 2\<rparr>"
  have w: "clientJournal ?w = memoryJournal sampleStartState" "startResponse ?w = Some 7" "startReplies ?w = []" "\<not> recovering ?w"
    "deferredWorkerEvents ?w = []" "\<not> heartbeatDeferred ?w" "settledEvents ?w sampleEventId = None"
    "seen sampleStarting = (\<lambda>_. None)" "seenOrder sampleStarting = []"
    by (simp_all add: sampleStarting_def sampleClient_def)
  obtain w' where w': "acknowledgePending sampleStartHost sampleStream sampleStarted (sampleApplied PHASE_RUNNING) sampleStartState sampleNow ?w = (Inr (), w')"
    "confirmed w' = [7]" "\<not> heartbeatDeferred w'"
    using sample_start_acknowledged [OF w(1-5)] w(6) by blast
  have "handleGatewayMessage sampleStartHost sampleStream (sampleAck PHASE_RUNNING) sampleNow ?w = (Inr (), w')"
    using w'(1) w(1,7) by (simp add: handleGatewayMessage_def sampleAck_def sampleGateway_def sample_start_handled)
  then have "handleEvent sampleStartHost sampleStream (FromGateway (sampleAck PHASE_RUNNING)) sampleStarting = (Inr (), w')"
    unfolding sampleAck_def using w'(3) w(8,9) by (intro sample_receive) simp_all
  then show ?thesis using w'(2) by simp
qed

theorem start_confirmed_by_acknowledgement_witness:
  "confirms (libOf sampleStartHost) (FromGateway (sampleAck PHASE_RUNNING)) (snapshot sampleStarting)
   \<and> confirmed (snd (handleEvent sampleStartHost sampleStream (FromGateway (sampleAck PHASE_RUNNING)) sampleStarting)) = [7]"
proof -
  have "confirmed sampleStarting = []" by (simp add: sampleStarting_def sampleClient_def confirmed_def)
  then show ?thesis
    using start_confirmed_by_acknowledgement [of sampleStartHost sampleStream "FromGateway (sampleAck PHASE_RUNNING)" sampleStarting] sample_confirmed
    by simp
qed

end
