(* ===== verification/RotationCommit.thy ===== *)
theory RotationCommit
  imports StateRules SampleHost
begin

section \<open>A rotation is acknowledged after it is durable\<close>

text \<open>
  The runner acknowledges a rotation only after the credential file was replaced and the journal on disk names the new credential,
  so that the gateway never retires a credential that a restarted runner would still use.
\<close>

text \<open>The journal in memory and on disk names the credential with this identifier and fingerprint, and the client uses it.\<close>

definition committedTo :: "host \<Rightarrow> string \<Rightarrow> bytes \<Rightarrow> bytes \<Rightarrow> (runner_message \<times> journal) list \<Rightarrow> 'x client_scheme \<Rightarrow> bool" where
  "committedTo H i fp secret msgs w \<longleftrightarrow>
     synced (jenv H) (clientJournal w) \<and> credential w = secret \<and> sent w = msgs
     \<and> (\<exists>c r. committedCredential (snapshot w) = Some c \<and> comRotationID c = i \<and> comFingerprint c = fp
              \<and> credentialRotation (snapshot w) = Some r \<and> rotRotationID r = i \<and> rotFingerprint r = fp)"

definition acknowledgedDurably :: "host \<Rightarrow> string \<Rightarrow> bytes \<Rightarrow> bytes \<Rightarrow> (runner_message \<times> journal) list \<Rightarrow> 'x client_scheme \<Rightarrow> bool" where
  "acknowledgedDurably H i fp secret msgs w \<longleftrightarrow>
     credential w = secret \<and> (\<exists>m j s c at. sent w = msgs @ [(m, j)] \<and> recovered (jenv H) j = Some s
        \<and> committedCredential s = Some c \<and> comRotationID c = i \<and> comFingerprint c = fp
        \<and> runnerPayload m = Some (P_RotationAcknowledgement \<lparr>ackRotationId = i, ackFingerprint = fp, ackPersistedAt = at\<rparr>))"

lemma t_commit:
  assumes "rotRotationID metadata = i" "rotFingerprint metadata = fp"
  shows "triple (\<lambda>w. persistent (jenv H) (clientJournal w) \<and> credential w = secret \<and> sent w = msgs)
    (journalUpdate H (commitRotation runner metadata now)) (\<lambda>_. committedTo H i fp secret msgs) (\<lambda>_ w. sent w = msgs)"
proof (rule tripleI)
  fix w x w'
  assume w: "persistent (jenv H) (clientJournal w) \<and> credential w = secret \<and> sent w = msgs"
    and u: "journalUpdate H (commitRotation runner metadata now) w = (Inr x, w')"
  obtain j where j: "update (jenv H) (commitRotation runner metadata now) (clientJournal w) = (Inr x, j)" "w' = w\<lparr>clientJournal := j\<rparr>"
    using u by (auto simp: journalUpdate_def onJournal_def split: prod.splits)
  have c: "commitRotation runner metadata now (snapshot w) = (Inr x, jState j)" "journal_valid (libOf H) (jState j)"
    "recovered (jenv H) j = Some (jState j)"
    using update_confirmed [OF j(1)] w by simp_all
  have "persistent (jenv H) j"
    using update_path [of "jenv H" "commitRotation runner metadata now" "clientJournal w"] j(1) w by (simp add: persistent_def)
  moreover have "\<exists>c r. committedCredential (jState j) = Some c \<and> comRotationID c = i \<and> comFingerprint c = fp
      \<and> credentialRotation (jState j) = Some r \<and> rotRotationID r = i \<and> rotFingerprint r = fp"
    using c(1) assms
    by (auto simp: commitRotation_def proc_defs Let_def sameCredentialRotation_def dest!: sym [where t = "jState j"]
        split: option.splits if_splits)
  ultimately show "committedTo H i fp secret msgs w'"
    using w c(2,3) j(2) by (simp add: committedTo_def)
next
  fix w e w'
  assume "persistent (jenv H) (clientJournal w) \<and> credential w = secret \<and> sent w = msgs"
    "journalUpdate H (commitRotation runner metadata now) w = (Inl e, w')"
  then show "sent w' = msgs" by (auto simp: journalUpdate_def onJournal_def split: prod.splits)
qed

lemma keeps_committed_numbering: "keeps (committedTo H i fp secret msgs) (onJournal (nextMessageSequence (jenv H)))"
proof (rule keepsI)
  fix w assume w: "committedTo H i fp secret msgs w"
  let ?j = "snd (nextMessageSequence (jenv H) (clientJournal w))"
  have "synced (jenv H) ?j" using w by (intro nextMessageSequence_synced) (simp add: committedTo_def)
  moreover have "committedCredential (jState ?j) = committedCredential (snapshot w)" "credentialRotation (jState ?j) = credentialRotation (snapshot w)"
    unfolding nextMessageSequence_def
    using update_states [of "jenv H" "bind (get messageSequence) (\<lambda>sequence.
       if sequence = not 0 then fail (Plain ''message_sequence_exhausted'')
       else andThen (modify (\<lambda>state. state\<lparr>messageSequence := messageSequence state + 1\<rparr>)) (get messageSequence))" "clientJournal w"]
    by (auto simp: proc_defs split: if_splits)
  ultimately show "committedTo H i fp secret msgs (snd (onJournal (nextMessageSequence (jenv H)) w))"
    using w by (simp add: committedTo_def onJournal_def split_beta)
qed

lemma keeps_committed_runnerMessage: "keeps (committedTo H i fp secret msgs) (runnerMessage H)"
  unfolding runnerMessage_def
  by (intro keeps_rules keeps_committed_numbering) (auto simp: keeps_def consult_def committedTo_def)

lemma t_acknowledge:
  "triple (committedTo H i fp secret msgs) (acknowledgeRotation H) (\<lambda>_ _. False)
     (\<lambda>_ w. sent w = msgs \<or> acknowledgedDurably H i fp secret msgs w)"
proof -
  let ?X = "\<lambda>(_ :: go_error) w. sent w = msgs \<or> acknowledgedDurably H i fp secret msgs w"
  have number: "triple (\<lambda>w. committedTo H i fp secret msgs w \<and> Q w) (runnerMessage H) (\<lambda>_. committedTo H i fp secret msgs) ?X" for Q
    using keeps_committed_runnerMessage [folded guards_keeps] by (rule triple_conseq) (auto simp: committedTo_def)
  have send: "triple (committedTo H i fp secret msgs)
      (bind (tryProc (send H (m\<lparr>runnerPayload := Some (P_RotationAcknowledgement \<lparr>ackRotationId = i, ackFingerprint = fp, ackPersistedAt = at\<rparr>)\<rparr>))) (\<lambda>sending.
         case sending of
           Inl e \<Rightarrow> bind (consult (rotationTimerFired H)) (\<lambda>fired. fail (if fired then CredentialRotationReconnect else e))
         | Inr _ \<Rightarrow> fail CredentialRotationReconnect)) (\<lambda>_ _. False) ?X" for m at
    by (rule tripleI)
       (auto simp: send_def consult_def proc_defs committedTo_def acknowledgedDurably_def split: option.splits)
  have current: "triple (\<lambda>w. committedTo H i fp secret msgs w \<and> credentialRotation (snapshot w) = Some r)
      (bind (runnerMessage H) (\<lambda>m.
       bind (tryProc (send H (m\<lparr>runnerPayload := Some (P_RotationAcknowledgement
               \<lparr>ackRotationId = rotRotationID r, ackFingerprint = rotFingerprint r,
                ackPersistedAt = tsNew (libOf H) (rotPersistedAt r)\<rparr>)\<rparr>))) (\<lambda>sending.
       case sending of
         Inl e \<Rightarrow> bind (consult (rotationTimerFired H)) (\<lambda>fired. fail (if fired then CredentialRotationReconnect else e))
       | Inr _ \<Rightarrow> fail CredentialRotationReconnect))) (\<lambda>_ _. False) ?X" for r
  proof (cases "rotRotationID r = i \<and> rotFingerprint r = fp")
    case True
    then show ?thesis
      by (intro triple_bind [OF number]) (simp add: send)
  next
    case False
    then show ?thesis by (auto simp: triple_def committedTo_def)
  qed
  show ?thesis
    unfolding acknowledgeRotation_def
    by (rule triple_read, rule triple_option, rule triple_fail, simp add: committedTo_def, simp only:, rule current)
qed

text \<open>The whole command, from a journal that agrees with the disk.\<close>

lemma t_handleCredentialRotation:
  "triple (\<lambda>w. persistent (jenv H) (clientJournal w) \<and> sent w = msgs) (handleCredentialRotation H rotation now) (\<lambda>_ _. False)
     (\<lambda>_ w. sent w = msgs
        \<or> (acknowledgedDurably H (rotationIdOf rotation) (sha256Sum (libOf H) (connectionCredential rotation)) (connectionCredential rotation) msgs w))"
proof -
  let ?P = "\<lambda>w. persistent (jenv H) (clientJournal w) \<and> sent w = msgs"
  let ?fp = "sha256Sum (libOf H) (connectionCredential rotation)"
  let ?X = "\<lambda>(_ :: go_error) w. sent w = msgs \<or> acknowledgedDurably H (rotationIdOf rotation) ?fp (connectionCredential rotation) msgs w"
  have recorded: "triple ?P (mapError g (journalUpdate H f)) (\<lambda>_. ?P) ?X" for g f
    using update_path [of "jenv H" f]
    by (intro triple_mapError tripleI)
       (auto simp: journalUpdate_def onJournal_def persistent_def split: prod.splits dest: arg_cong [where f = "\<lambda>p. jPath (snd p)"])
  have ask: "triple ?P (consult q) (\<lambda>_. ?P) ?X" for q :: "nat \<Rightarrow> bool"
    by (auto simp: triple_def consult_def)
  have load: "triple ?P (modify (\<lambda>w. w\<lparr>credential := secret\<rparr>)) (\<lambda>_ w. ?P w \<and> credential w = connectionCredential rotation) ?X"
    if "secret = connectionCredential rotation" for secret
    using that by (intro triple_modify) simp
  have commit: "triple (\<lambda>w. ?P w \<and> credential w = connectionCredential rotation) (mapError g (journalUpdate H (commitRotation runner metadata now)))
      (\<lambda>_. committedTo H (rotationIdOf rotation) ?fp (connectionCredential rotation) msgs) ?X"
    if "rotRotationID metadata = rotationIdOf rotation" "rotFingerprint metadata = ?fp" for g runner metadata now
    by (rule triple_mapError, rule triple_conseq [OF t_commit [OF that]]) auto
  have fields: "rotRotationID metadata = rotationIdOf rotation \<and> rotFingerprint metadata = ?fp \<and> secret = connectionCredential rotation"
    if "validateCredentialRotation (libOf H) rotation now = Some (metadata, secret)" for metadata secret
    using that by (auto simp: validateCredentialRotation_def Let_def split: if_splits)
  show ?thesis
    unfolding handleCredentialRotation_def Let_def
    by (intro triple_if triple_option triple_prod triple_fail triple_andThen [OF recorded] triple_bind [OF ask] triple_andThen [OF load]
        triple_andThen [OF commit] t_acknowledge) (auto dest: fields)
qed

subsection \<open>Property\<close>


definition sampleRotation :: rotate_credential where
  "sampleRotation =
     \<lparr>rotationIdOf = sampleUUID, connectionCredential = ''prc_v1_'', credentialFingerprint = [],
      rotationIssuedAt = None, rotationExpiresAt = None, reconnectBeforeOf = None\<rparr>"


end
