(* ===== verification/GoIO.thy ===== *)
theory GoIO
  imports GoLib
begin

section \<open>Readers, writers and number formats\<close>

text \<open>
  What the guest framing and the other byte formats use of \<open>io\<close>, \<open>encoding/binary\<close>
  and \<open>strconv\<close>: a reader is the bytes it will deliver and how it ends, a writer the bytes
  it took and the results its next calls have; big-endian 32-bit numbers and decimal numbers
  are encoded and decoded with their round trips.
\<close>

unbundle bit_operations_syntax

subsection \<open>Readers\<close>

datatype io_error = IoEOF | IoUnexpectedEOF | IoShortWrite | IoFault string

record reader =
  rdData :: bytes
  rdEnd :: io_error

text \<open>\<open>io.ReadFull(r, buf)\<close> with \<open>n = len(buf)\<close>: an error carries the number of bytes read.\<close>

definition ReadFull :: "nat \<Rightarrow> (reader, nat \<times> io_error, bytes) proc" where
  "ReadFull n r =
     (if n \<le> length (rdData r) then (Inr (take n (rdData r)), r\<lparr>rdData := drop n (rdData r)\<rparr>)
      else (Inl (length (rdData r),
                 if rdEnd r = IoEOF \<and> rdData r \<noteq> [] then IoUnexpectedEOF else rdEnd r),
            r\<lparr>rdData := []\<rparr>))"

lemma ReadFull_Inr_iff:
  "ReadFull n r = (Inr d, r') \<longleftrightarrow> length d = n \<and> rdData r = d @ rdData r' \<and> rdEnd r' = rdEnd r"
proof
  assume "ReadFull n r = (Inr d, r')"
  then show "length d = n \<and> rdData r = d @ rdData r' \<and> rdEnd r' = rdEnd r"
    by (auto simp: ReadFull_def split: if_splits)
next
  assume "length d = n \<and> rdData r = d @ rdData r' \<and> rdEnd r' = rdEnd r"
  then show "ReadFull n r = (Inr d, r')"
    by (cases r, cases r') (auto simp: ReadFull_def)
qed

subsection \<open>Writers\<close>

text \<open>
  A call of \<open>Write\<close> takes a prefix of the data and reports its length and an error; the
  results of the coming calls are listed, and calls beyond the list succeed.
\<close>

record writer =
  wrBytes :: bytes
  wrPlan :: "(nat \<times> io_error option) list"

definition io_write :: "bytes \<Rightarrow> writer \<Rightarrow> (nat \<times> io_error option) \<times> writer" where
  "io_write d w =
     (case wrPlan w of
        [] \<Rightarrow> ((length d, None), w\<lparr>wrBytes := wrBytes w @ d\<rparr>)
      | (n, e) # plan \<Rightarrow> ((n, e), w\<lparr>wrBytes := wrBytes w @ take n d, wrPlan := plan\<rparr>))"

lemma io_write_complete:
  "io_write d w = ((length d, None), w') \<Longrightarrow> wrBytes w' = wrBytes w @ d"
  by (auto simp: io_write_def split: list.splits)

subsection \<open>Big-endian numbers\<close>

definition byte_of :: "32 word \<Rightarrow> char" where
  "byte_of w = char_of (unat w)"

definition word_of_byte :: "char \<Rightarrow> 32 word" where
  "word_of_byte c = of_char c"

lemma unat_word_of_byte: "unat (word_of_byte c) = of_char c"
proof -
  have "unat (word_of_nat (of_char c) :: 32 word) = of_char c"
    using order_less_trans [OF nat_of_char_less_256 [of c], of "2 ^ 32"] by (simp only: unat_of_nat) simp
  then show ?thesis by (simp only: word_of_byte_def of_nat_of_char)
qed

lemma word_of_byte_inject: "word_of_byte c = word_of_byte d \<Longrightarrow> c = d"
  by (drule arg_cong [of _ _ unat]) (simp add: unat_word_of_byte)

lemma word_of_byte_of: "word_of_byte (byte_of w) = take_bit 8 w"
  by (rule unsigned_word_eqI [where 'a = nat]) (simp add: unat_word_of_byte byte_of_def unsigned_take_bit_eq take_bit_nat_def)

lemma bit_word_of_byte: "bit (word_of_byte c) n \<Longrightarrow> n < 8"
proof -
  have "take_bit 8 (word_of_byte c) = word_of_byte c"
    by (rule unsigned_word_eqI [where 'a = nat]) (simp add: unat_word_of_byte unsigned_take_bit_eq take_bit_nat_def)
  then show "bit (word_of_byte c) n \<Longrightarrow> n < 8" by (metis bit_take_bit_iff)
qed

definition PutUint32 :: "32 word \<Rightarrow> bytes" where
  "PutUint32 w = map (\<lambda>k. byte_of (drop_bit k w)) [24, 16, 8, 0]"

definition Uint32 :: "bytes \<Rightarrow> 32 word" where
  "Uint32 b = push_bit 24 (word_of_byte (b ! 0)) OR push_bit 16 (word_of_byte (b ! 1))
              OR push_bit 8 (word_of_byte (b ! 2)) OR word_of_byte (b ! 3)"

lemma length_PutUint32 [simp]: "length (PutUint32 w) = 4"
  by (simp add: PutUint32_def)

lemma Uint32_PutUint32: "Uint32 (PutUint32 w) = w"
proof (rule bit_word_eqI)
  fix n :: nat
  assume "n < LENGTH(32)"
  then consider "n < 8" | "8 \<le> n" "n < 16" | "16 \<le> n" "n < 24" | "24 \<le> n" "n < 32"
    by fastforce
  then show "bit (Uint32 (PutUint32 w)) n = bit w n"
    by cases (auto simp: Uint32_def PutUint32_def word_of_byte_of bit_simps)
qed

lemma Uint32_bytes:
  "take_bit 8 (drop_bit 24 (Uint32 b)) = word_of_byte (b ! 0)" "take_bit 8 (drop_bit 16 (Uint32 b)) = word_of_byte (b ! 1)"
  "take_bit 8 (drop_bit 8 (Uint32 b)) = word_of_byte (b ! 2)" "take_bit 8 (Uint32 b) = word_of_byte (b ! 3)"
  by (rule bit_word_eqI, auto simp: Uint32_def bit_simps dest: bit_word_of_byte)+

lemma byte_of_eq: "take_bit 8 w = word_of_byte c \<Longrightarrow> byte_of w = c"
  by (rule word_of_byte_inject) (simp add: word_of_byte_of)

lemma PutUint32_Uint32: "length b = 4 \<Longrightarrow> PutUint32 (Uint32 b) = b"
  using Uint32_bytes [of b, THEN byte_of_eq] by (auto simp: PutUint32_def length_Suc_conv numeral_eq_Suc)

subsection \<open>Decimal numbers\<close>

definition digit_char :: "nat \<Rightarrow> char" where
  "digit_char d = char_of (48 + d)"

fun decimal :: "nat \<Rightarrow> string" where
  "decimal n = (if n < 10 then [digit_char n] else decimal (n div 10) @ [digit_char (n mod 10)])"

declare decimal.simps [simp del]

definition parse_decimal :: "string \<Rightarrow> nat" where
  "parse_decimal = foldl (\<lambda>n c. 10 * n + (of_char c - 48)) 0"

lemma digit_char: "d < 10 \<Longrightarrow> ascii_digit (digit_char d) \<and> (of_char (digit_char d) :: nat) = 48 + d"
  by (simp add: digit_char_def char_class_defs)

lemma decimal_digits: "list_all ascii_digit (decimal n) \<and> decimal n \<noteq> []"
  by (induction n rule: decimal.induct) (subst (1 2) decimal.simps, simp add: digit_char)

lemma parse_decimal_decimal: "parse_decimal (decimal n) = n"
proof (induction n rule: decimal.induct)
  case (1 n)
  then show ?case by (subst decimal.simps) (simp add: parse_decimal_def digit_char)
qed

text \<open>\<open>strconv.Itoa\<close> and what it prints read back.\<close>

definition Itoa :: "int \<Rightarrow> string" where
  "Itoa n = (if n < 0 then CHR ''-'' # decimal (nat (- n)) else decimal (nat n))"

definition parse_int :: "string \<Rightarrow> int" where
  "parse_int s = (if take 1 s = ''-'' then - int (parse_decimal (tl s)) else int (parse_decimal s))"

lemma decimal_hd: "take 1 (decimal n) \<noteq> ''-''"
proof -
  obtain c s where "decimal n = c # s" "ascii_digit c"
    using decimal_digits [of n] by (cases "decimal n") auto
  then show ?thesis by (auto simp: char_class_defs)
qed

lemma parse_int_Itoa: "parse_int (Itoa n) = n"
  using decimal_hd by (simp add: parse_int_def Itoa_def parse_decimal_decimal)

end
