(* ===== verification/GuestOutput.thy ===== *)
theory GuestOutput
  imports GoIO
begin

section \<open>Framing of the guest's output\<close>

text \<open>
  \<open>internal/guestoutput\<close>: the frames an encoder writes and a reader accepts (\<open>frames.go\<close>),
  the finite stream of log, event and outcome frames (\<open>stream.go\<close>) and the startup marker
  (\<open>startup.go\<close>). A nil encoder, reader, writer or callback is \<open>None\<close>. The context is the
  error it reports at each poll, and the callback a function on a state of its own.
\<close>

datatype guest_error =
    ErrFrame
  | ErrStream
  | GuestIO io_error
  | ContextError string
  | SinkError string
  | Joined "guest_error list"

subsection \<open>Frames\<close>

definition MaximumChunk :: nat where "MaximumChunk = 32 * 1024"

text \<open>\<open>Kind\<close> is a byte; the constants are those of the source.\<close>

type_synonym kind = nat

definition Stdout :: kind where "Stdout = 1"
definition Stderr :: kind where "Stderr = 2"
definition Events :: kind where "Events = 3"
definition Outcome :: kind where "Outcome = 4"

lemmas kind_defs = Stdout_def Stderr_def Events_def Outcome_def

record encoder =
  encOutput :: "writer option"
  encFailed :: bool

definition NewEncoder :: "writer option \<Rightarrow> encoder" where
  "NewEncoder output = \<lparr>encOutput = output, encFailed = False\<rparr>"

definition frame_header :: "kind \<Rightarrow> nat \<Rightarrow> bytes" where
  "frame_header k n = ''PVG1'' @ [char_of k] @ PutUint32 (word_of_nat n)"

text \<open>The loop over header and data; an error leaves the encoder failed.\<close>

fun write_parts :: "bytes list \<Rightarrow> writer \<Rightarrow> guest_error option \<times> writer" where
  "write_parts [] w = (None, w)"
| "write_parts (part # parts) w =
     (case io_write part w of
        ((n, Some e), w') \<Rightarrow> (Some (Joined [ErrFrame, GuestIO e]), w')
      | ((n, None), w') \<Rightarrow> if n \<noteq> length part then (Some (Joined [ErrFrame]), w') else write_parts parts w')"

definition Encoder_Write :: "kind \<Rightarrow> bytes \<Rightarrow> (encoder option, guest_error, unit) proc" where
  "Encoder_Write k d enc =
     (case enc of
        None \<Rightarrow> (Inl ErrFrame, None)
      | Some e \<Rightarrow>
          (case encOutput e of
             Some w \<Rightarrow>
               if encFailed e \<or> k < Stdout \<or> k > Outcome \<or> length d = 0 \<or> length d > MaximumChunk
               then (Inl ErrFrame, Some (e\<lparr>encFailed := True\<rparr>))
               else (case write_parts [frame_header k (length d), d] w of
                   (Some err, w') \<Rightarrow> (Inl err, Some (e\<lparr>encOutput := Some w', encFailed := True\<rparr>))
                 | (None, w') \<Rightarrow> (Inr (), Some (e\<lparr>encOutput := Some w'\<rparr>)))
           | None \<Rightarrow> (Inl ErrFrame, Some (e\<lparr>encFailed := True\<rparr>))))"

text \<open>\<open>Read\<close> after its check for a nil reader.\<close>

definition readFrame :: "(reader, guest_error, kind \<times> bytes) proc" where
  "readFrame r =
     (case ReadFull 9 r of
        (Inl (n, e), r1) \<Rightarrow>
          if n = 0 \<and> e = IoEOF then (Inl (GuestIO IoEOF), r1) else (Inl (Joined [ErrFrame, GuestIO e]), r1)
      | (Inr header, r1) \<Rightarrow>
          let k = of_char (header ! 4); len = unat (Uint32 (drop 5 header))
          in if take 4 header \<noteq> ''PVG1'' \<or> k < Stdout \<or> k > Outcome \<or> len = 0 \<or> len > MaximumChunk
             then (Inl ErrFrame, r1)
             else (case ReadFull len r1 of
                 (Inl (_, e), r2) \<Rightarrow> (Inl (Joined [ErrFrame, GuestIO e]), r2)
               | (Inr d, r2) \<Rightarrow> (Inr (k, d), r2)))"

definition Read :: "(reader option, guest_error, kind \<times> bytes) proc" where
  "Read ro =
     (case ro of
        None \<Rightarrow> (Inl ErrFrame, None)
      | Some r \<Rightarrow> (case readFrame r of (result, r') \<Rightarrow> (result, Some r')))"

subsection \<open>The stream\<close>

definition MaximumLogBytes :: int where "MaximumLogBytes = 16 * 1024 * 1024"
definition MaximumEventBytes :: nat where "MaximumEventBytes = 4 * 1024 * 1024"
definition MaximumFrames :: nat where "MaximumFrames = 16384"

record transcript =
  exitCode :: int
  infrastructureFailure :: bool
  events :: bytes
  logBytes :: int

definition ClaimedExit :: "transcript \<Rightarrow> int \<times> bool" where
  "ClaimedExit t = (exitCode t, infrastructureFailure t)"

text \<open>
  The claim of an outcome frame. \<open>json.Marshal\<close> of the struct is \<open>marshalClaim\<close>. A text that
  \<open>json.Unmarshal\<close> accepts is refused unless it is what \<open>json.Marshal\<close> makes of the claim, so that
  only texts of that shape are read: \<open>unmarshalClaim\<close> reads the two fields of a text with the
  keys in place, and the comparison with the canonical text is made as in the source.
\<close>

definition claimHead :: string where "claimHead = ''{'' @ [CHR 0x22] @ ''exitCode'' @ [CHR 0x22] @ '':''"
definition claimMiddle :: string where
  "claimMiddle = '','' @ [CHR 0x22] @ ''infrastructureFailure'' @ [CHR 0x22] @ '':''"

definition marshalClaim :: "int \<times> bool \<Rightarrow> bytes" where
  "marshalClaim claim = claimHead @ Itoa (fst claim) @ claimMiddle @ (if snd claim then ''true'' else ''false'') @ ''}''"

definition unmarshalClaim :: "bytes \<Rightarrow> (int \<times> bool) option" where
  "unmarshalClaim raw =
     (if \<not> has_prefix raw claimHead then None
      else let rest = drop (length claimHead) raw;
               number = takeWhile (\<lambda>c. c \<noteq> CHR '','') rest;
               tail = dropWhile (\<lambda>c. c \<noteq> CHR '','') rest
           in if tail = claimMiddle @ ''true}'' then Some (parse_int number, True)
              else if tail = claimMiddle @ ''false}'' then Some (parse_int number, False)
              else None)"

record stream_state =
  transcriptOf :: transcript
  eventsStarted :: bool
  outcomeSeen :: bool

definition readOutcome :: "bytes \<Rightarrow> (int \<times> bool) option" where
  "readOutcome raw =
     (if length raw > 64 then None
      else (case unmarshalClaim raw of
          None \<Rightarrow> None
        | Some (code, infra) \<Rightarrow>
            if raw \<noteq> marshalClaim (code, infra) \<or> code < 0 \<or> code > 255 \<or> (code = 125) \<noteq> infra then None
            else Some (code, infra)))"

type_synonym 's sink = "'s \<Rightarrow> kind \<Rightarrow> bytes \<Rightarrow> guest_error option \<times> 's"

text \<open>The switch over the kind of a frame.\<close>

definition streamFrame ::
  "'s sink \<Rightarrow> int \<Rightarrow> kind \<Rightarrow> bytes \<Rightarrow> stream_state \<Rightarrow> 's \<Rightarrow> (guest_error + stream_state) \<times> 's" where
  "streamFrame onLog maximumLogBytes k raw st s =
     (let t = transcriptOf st
      in if k = Stdout \<or> k = Stderr then
           (if eventsStarted st \<or> int (length raw) > maximumLogBytes - logBytes t then (Inl ErrStream, s)
            else (case onLog s k raw of
                (Some e, s') \<Rightarrow> (Inl (Joined [ErrStream, e]), s')
              | (None, s') \<Rightarrow> (Inr (st\<lparr>transcriptOf := t\<lparr>logBytes := logBytes t + int (length raw)\<rparr>\<rparr>), s')))
         else if k = Events then
           (if length raw > MaximumEventBytes - length (events t) then (Inl ErrStream, s)
            else (Inr (st\<lparr>eventsStarted := True, transcriptOf := t\<lparr>events := events t @ raw\<rparr>\<rparr>), s))
         else if k = Outcome then
           (case readOutcome raw of
              None \<Rightarrow> (Inl ErrStream, s)
            | Some (code, infra) \<Rightarrow>
                (Inr (st\<lparr>transcriptOf := t\<lparr>exitCode := code, infrastructureFailure := infra\<rparr>, outcomeSeen := True\<rparr>), s))
         else (Inl ErrStream, s))"

text \<open>
  The loop of \<open>ReadStream\<close>; it runs at most until \<open>frames\<close> reaches the limit. The context is polled
  before a frame is read and before the transcript is returned.
\<close>

function stream_loop ::
  "(nat \<Rightarrow> guest_error option) \<Rightarrow> 's sink \<Rightarrow> int \<Rightarrow> nat \<Rightarrow> stream_state \<Rightarrow> reader \<Rightarrow> 's
     \<Rightarrow> (guest_error + transcript) \<times> reader \<times> 's" where
  "stream_loop ctx onLog maximumLogBytes frames st r s =
     (case ctx (2 * frames) of
        Some e \<Rightarrow> (Inl (Joined [ErrStream, e]), r, s)
      | None \<Rightarrow>
          (case readFrame r of
             (Inl e, r') \<Rightarrow>
               if e = GuestIO IoEOF \<and> outcomeSeen st
               then (case ctx (2 * frames + 1) of
                   Some e' \<Rightarrow> (Inl (Joined [ErrStream, e']), r', s)
                 | None \<Rightarrow> (Inr (transcriptOf st), r', s))
               else (Inl (Joined [ErrStream, e]), r', s)
           | (Inr (k, raw), r') \<Rightarrow>
               if outcomeSeen st \<or> frames \<ge> MaximumFrames then (Inl (Joined [ErrStream]), r', s)
               else (case streamFrame onLog maximumLogBytes k raw st s of
                   (Inl e, s') \<Rightarrow> (Inl e, r', s')
                 | (Inr st', s') \<Rightarrow> stream_loop ctx onLog maximumLogBytes (frames + 1) st' r' s')))"
  by pat_completeness auto
termination
  by (relation "measure (\<lambda>(_, _, _, frames, _). MaximumFrames - frames)") auto

declare stream_loop.simps [simp del]

definition newStream :: stream_state where
  "newStream = \<lparr>transcriptOf = \<lparr>exitCode = 0, infrastructureFailure = False, events = [], logBytes = 0\<rparr>,
                eventsStarted = False, outcomeSeen = False\<rparr>"

definition ReadStream ::
  "(nat \<Rightarrow> guest_error option) option \<Rightarrow> reader option \<Rightarrow> int \<Rightarrow> 's sink option \<Rightarrow> 's
     \<Rightarrow> (guest_error + transcript) \<times> reader option \<times> 's" where
  "ReadStream ctx reader maximumLogBytes onLog s =
     (case (ctx, reader, onLog) of
        (Some c, Some r, Some f) \<Rightarrow>
          if maximumLogBytes < 1 \<or> maximumLogBytes > MaximumLogBytes then (Inl ErrStream, reader, s)
          else (case stream_loop c f maximumLogBytes 0 newStream r s of (result, r', s') \<Rightarrow> (result, Some r', s'))
      | _ \<Rightarrow> (Inl ErrStream, reader, s))"

subsection \<open>The startup marker\<close>

definition startupMarker :: string where "startupMarker = ''PVREADY1''"

definition WriteStartup :: "(writer option, guest_error, unit) proc" where
  "WriteStartup wo =
     (case wo of
        None \<Rightarrow> (Inl ErrStream, None)
      | Some w \<Rightarrow>
          (case io_write startupMarker w of
             ((n, Some e), w') \<Rightarrow> (Inl (GuestIO e), Some w')
           | ((n, None), w') \<Rightarrow> if n \<noteq> length startupMarker then (Inl (GuestIO IoShortWrite), Some w') else (Inr (), Some w')))"

definition ReadStartup :: "(reader option, guest_error, unit) proc" where
  "ReadStartup ro =
     (case ro of
        None \<Rightarrow> (Inl ErrStream, None)
      | Some r \<Rightarrow>
          (case ReadFull (length startupMarker) r of
             (Inl (_, e), r') \<Rightarrow> (Inl (GuestIO e), Some r')
           | (Inr raw, r') \<Rightarrow> if raw \<noteq> startupMarker then (Inl ErrStream, Some r') else (Inr (), Some r')))"

subsection \<open>Frames read back\<close>

definition frame_ok :: "kind \<Rightarrow> bytes \<Rightarrow> bool" where
  "frame_ok k d \<longleftrightarrow> Stdout \<le> k \<and> k \<le> Outcome \<and> d \<noteq> [] \<and> length d \<le> MaximumChunk"

definition frame :: "kind \<Rightarrow> bytes \<Rightarrow> bytes" where
  "frame k d = frame_header k (length d) @ d"

lemma length_frame_header [simp]: "length (frame_header k n) = 9"
  by (simp add: frame_header_def)

lemma frame_header_fields:
  assumes "frame_ok k d"
  shows "take 4 (frame_header k (length d)) = ''PVG1''" "(of_char (frame_header k (length d) ! 4) :: nat) = k"
    "unat (Uint32 (drop 5 (frame_header k (length d)))) = length d"
proof -
  have "length d < 2 ^ 32" "k < 256" using assms by (auto simp: frame_ok_def MaximumChunk_def kind_defs)
  then show "take 4 (frame_header k (length d)) = ''PVG1''" "(of_char (frame_header k (length d) ! 4) :: nat) = k"
    "unat (Uint32 (drop 5 (frame_header k (length d)))) = length d"
    by (simp_all add: frame_header_def Uint32_PutUint32 unat_of_nat)
qed

lemma frame_header_unique:
  assumes "length h = 9" "take 4 h = ''PVG1''"
  shows "h = frame_header (of_char (h ! 4)) (unat (Uint32 (drop 5 h)))"
proof -
  have "h = take 4 h @ [h ! 4] @ drop 5 h"
    using assms(1) id_take_nth_drop [of 4 h] by simp
  then show ?thesis
    using assms by (simp add: frame_header_def PutUint32_Uint32)
qed

lemma readFrame_Inr_iff:
  "readFrame r = (Inr (k, d), r') \<longleftrightarrow> frame_ok k d \<and> rdData r = frame k d @ rdData r' \<and> rdEnd r' = rdEnd r"
proof
  assume read: "readFrame r = (Inr (k, d), r')"
  obtain h r1 where h: "ReadFull 9 r = (Inr h, r1)"
    using read by (auto simp: readFrame_def split: prod.splits sum.splits if_splits)
  have "take 4 h = ''PVG1''" and k: "k = of_char (h ! 4)" and ok: "Stdout \<le> k" "k \<le> Outcome" "d \<noteq> []" "length d \<le> MaximumChunk"
    and d: "ReadFull (unat (Uint32 (drop 5 h))) r1 = (Inr d, r')"
    using read by (auto simp: readFrame_def h Let_def ReadFull_Inr_iff split: prod.splits sum.splits if_splits)
  moreover have "length h = 9" "length d = unat (Uint32 (drop 5 h))" using h d by (simp_all add: ReadFull_Inr_iff)
  ultimately have "h = frame_header k (length d)" using frame_header_unique [of h] by simp
  then show "frame_ok k d \<and> rdData r = frame k d @ rdData r' \<and> rdEnd r' = rdEnd r"
    using h d ok by (simp add: ReadFull_Inr_iff frame_ok_def frame_def)
next
  assume a: "frame_ok k d \<and> rdData r = frame k d @ rdData r' \<and> rdEnd r' = rdEnd r"
  let ?h = "frame_header k (length d)" and ?r = "r'\<lparr>rdData := d @ rdData r'\<rparr>"
  have "ReadFull 9 r = (Inr ?h, ?r)" "ReadFull (length d) ?r = (Inr d, r')"
    using a by (simp_all add: ReadFull_Inr_iff frame_def)
  moreover have "Stdout \<le> k" "k \<le> Outcome" "length d \<noteq> 0" "length d \<le> MaximumChunk" using a by (simp_all add: frame_ok_def)
  ultimately show "readFrame r = (Inr (k, d), r')"
    using frame_header_fields [of k d] a by (simp add: readFrame_def Let_def)
qed

lemma readFrame_EOF_iff: "readFrame r = (Inl (GuestIO IoEOF), r') \<longleftrightarrow> rdData r = [] \<and> rdEnd r = IoEOF \<and> r' = r"
proof -
  have "readFrame r = (Inl (GuestIO IoEOF), r') \<longleftrightarrow> ReadFull 9 r = (Inl (0, IoEOF), r')"
    by (auto simp: readFrame_def Let_def split: prod.splits sum.splits if_splits)
  also have "\<dots> \<longleftrightarrow> rdData r = [] \<and> rdEnd r = IoEOF \<and> r' = r"
    by (cases r) (auto simp: ReadFull_def split: if_splits)
  finally show ?thesis .
qed

subsection \<open>Round trip of an encoder and a reader\<close>

primrec writeAll :: "(kind \<times> bytes) list \<Rightarrow> (encoder option, guest_error, unit) proc" where
  "writeAll [] = ret ()"
| "writeAll (f # fs) = andThen (Encoder_Write (fst f) (snd f)) (writeAll fs)"

primrec readAll :: "nat \<Rightarrow> (reader option, guest_error, (kind \<times> bytes) list) proc" where
  "readAll 0 = ret []"
| "readAll (Suc n) = bind Read (\<lambda>f. bind (readAll n) (\<lambda>fs. ret (f # fs)))"

lemma Encoder_Write_Inr:
  assumes "Encoder_Write k d enc = (Inr (), enc')"
  obtains e w w' where "enc = Some e" "encOutput e = Some w" "enc' = Some (e\<lparr>encOutput := Some w'\<rparr>)" "frame_ok k d"
    "wrBytes w' = wrBytes w @ frame k d"
proof -
  obtain e w w' where e: "enc = Some e" "encOutput e = Some w" "enc' = Some (e\<lparr>encOutput := Some w'\<rparr>)" "frame_ok k d"
    and p: "write_parts [frame_header k (length d), d] w = (None, w')"
    using assms by (auto simp: Encoder_Write_def frame_ok_def split: option.splits if_splits prod.splits)
  obtain w1 where "io_write (frame_header k (length d)) w = ((9, None), w1)" "io_write d w1 = ((length d, None), w')"
    using p by (auto split: prod.splits option.splits if_splits)
  then have "wrBytes w' = wrBytes w @ frame k d"
    using io_write_complete [of "frame_header k (length d)" w w1] io_write_complete [of d w1 w'] by (simp add: frame_def)
  with e show ?thesis by (rule that)
qed

lemma writeAll_Inr:
  assumes "writeAll fs (Some e) = (Inr (), Some e')" "encOutput e = Some w" "encOutput e' = Some w'"
  shows "list_all (\<lambda>(k, d). frame_ok k d) fs \<and> wrBytes w' = wrBytes w @ concat (map (\<lambda>(k, d). frame k d) fs)"
  using assms
proof (induction fs arbitrary: e w)
  case Nil
  then show ?case by (simp add: ret_def)
next
  case (Cons f fs)
  obtain k d where f: "f = (k, d)" by (cases f)
  obtain enc1 where w: "Encoder_Write k d (Some e) = (Inr (), enc1)" "writeAll fs enc1 = (Inr (), Some e')"
    using Cons.prems(1) by (auto simp: f andThen_Inr_iff)
  show ?case
    using w(1)
  proof (rule Encoder_Write_Inr)
    fix e0 w0 w1
    assume *: "Some e = Some e0" "encOutput e0 = Some w0" "enc1 = Some (e0\<lparr>encOutput := Some w1\<rparr>)" "frame_ok k d"
      "wrBytes w1 = wrBytes w0 @ frame k d"
    then show ?thesis using Cons.IH [of "e0\<lparr>encOutput := Some w1\<rparr>" w1] Cons.prems(2,3) w(2) by (simp add: f)
  qed
qed

lemma readAll_frames:
  "list_all (\<lambda>(k, d). frame_ok k d) fs \<Longrightarrow> rdData r = concat (map (\<lambda>(k, d). frame k d) fs) @ rdData r' \<Longrightarrow> rdEnd r' = rdEnd r
   \<Longrightarrow> readAll (length fs) (Some r) = (Inr fs, Some r')"
proof (induction fs arbitrary: r)
  case Nil
  then show ?case by (cases r, cases r') (simp add: ret_def)
next
  case (Cons f fs)
  obtain k d where f: "f = (k, d)" by (cases f)
  let ?r = "r'\<lparr>rdData := concat (map (\<lambda>(k, d). frame k d) fs) @ rdData r'\<rparr>"
  have "readFrame r = (Inr (k, d), ?r)" using Cons.prems by (simp add: readFrame_Inr_iff f)
  moreover have "readAll (length fs) (Some ?r) = (Inr fs, Some r')" using Cons by (simp add: f)
  ultimately show ?case by (simp add: f Read_def proc_defs)
qed

text \<open>
  C1. Frames survive the transport: after any sequence of successful writes of an encoder, the bytes that reached the
  writer, followed by whatever else, read back as the same kinds and data in the same order, and the reader stands
  exactly behind them.
\<close>

theorem guest_frames_roundtrip:
  assumes "writeAll fs (Some (NewEncoder (Some w))) = (Inr (), Some e)" "encOutput e = Some w'"
  shows "\<exists>out. wrBytes w' = wrBytes w @ out
           \<and> (\<forall>rest after. readAll (length fs) (Some \<lparr>rdData = out @ rest, rdEnd = after\<rparr>)
                             = (Inr fs, Some \<lparr>rdData = rest, rdEnd = after\<rparr>))"
proof -
  have "list_all (\<lambda>(k, d). frame_ok k d) fs \<and> wrBytes w' = wrBytes w @ concat (map (\<lambda>(k, d). frame k d) fs)"
    by (rule writeAll_Inr [OF assms(1) _ assms(2)]) (simp add: NewEncoder_def)
  then show ?thesis
    using readAll_frames [of fs] by (intro exI [of _ "concat (map (\<lambda>(k, d). frame k d) fs)"]) simp
qed

theorem guest_frames_roundtrip_witness:
  "\<exists>e w'. writeAll [(Stdout, ''a''), (Outcome, ''b'')] (Some (NewEncoder (Some \<lparr>wrBytes = [], wrPlan = []\<rparr>))) = (Inr (), Some e)
     \<and> encOutput e = Some w'
     \<and> readAll 2 (Some \<lparr>rdData = wrBytes w' @ ''x'', rdEnd = IoEOF\<rparr>)
         = (Inr [(Stdout, ''a''), (Outcome, ''b'')], Some \<lparr>rdData = ''x'', rdEnd = IoEOF\<rparr>)"
proof -
  let ?fs = "[(Stdout, ''a''), (Outcome, ''b'')]" and ?w = "\<lparr>wrBytes = [], wrPlan = []\<rparr>"
  have "fst (writeAll ?fs (Some (NewEncoder (Some ?w)))) = Inr ()"
    "\<exists>e w'. snd (writeAll ?fs (Some (NewEncoder (Some ?w)))) = Some e \<and> encOutput e = Some w'"
    by (simp_all add: proc_defs Encoder_Write_def NewEncoder_def kind_defs MaximumChunk_def io_write_def)
  then obtain e w' where e: "writeAll ?fs (Some (NewEncoder (Some ?w))) = (Inr (), Some e)" "encOutput e = Some w'"
    by (metis prod.collapse)
  show ?thesis
    using guest_frames_roundtrip [OF e] e by (auto simp: numeral_2_eq_2)
qed

subsection \<open>The language of accepted streams\<close>

lemma length_decimal: "n < 10 ^ Suc k \<Longrightarrow> length (decimal n) \<le> Suc k"
proof (induction k arbitrary: n)
  case 0
  then show ?case by (subst decimal.simps) simp
next
  case (Suc k)
  then have "n div 10 < 10 ^ Suc k" by (simp add: div_less_iff_less_mult mult.commute)
  with Suc.IH [of "n div 10"] show ?case by (subst decimal.simps) simp
qed

lemma unmarshal_marshalClaim: "unmarshalClaim (marshalClaim (n, b)) = Some (n, b)"
proof -
  have digits: "CHR '','' \<notin> set (decimal m)" for m
    using decimal_digits [of m] by (auto simp: list_all_iff char_class_defs)
  have "CHR '','' \<notin> set (Itoa n)" using digits by (simp add: Itoa_def)
  then have "takeWhile (\<lambda>c. c \<noteq> CHR '','') (Itoa n @ claimMiddle @ t) = Itoa n"
    "dropWhile (\<lambda>c. c \<noteq> CHR '','') (Itoa n @ claimMiddle @ t) = claimMiddle @ t" for t
    by (auto simp: takeWhile_append dropWhile_append claimMiddle_def)
  then show ?thesis
    by (simp add: unmarshalClaim_def marshalClaim_def has_prefix_def Let_def parse_int_Itoa)
qed

lemma readOutcome_iff: "readOutcome raw = Some (n, b) \<longleftrightarrow> raw = marshalClaim (n, b) \<and> 0 \<le> n \<and> n \<le> 255 \<and> (n = 125) = b"
proof
  assume "readOutcome raw = Some (n, b)"
  then show "raw = marshalClaim (n, b) \<and> 0 \<le> n \<and> n \<le> 255 \<and> (n = 125) = b"
    by (auto simp: readOutcome_def split: if_splits option.splits)
next
  assume a: "raw = marshalClaim (n, b) \<and> 0 \<le> n \<and> n \<le> 255 \<and> (n = 125) = b"
  then have "length (decimal (nat n)) \<le> Suc 2" by (intro length_decimal) auto
  then have "length raw \<le> 64" using a by (simp add: marshalClaim_def claimHead_def claimMiddle_def Itoa_def)
  then show "readOutcome raw = Some (n, b)" using a by (simp add: readOutcome_def unmarshal_marshalClaim)
qed

fun streamFrames :: "'s sink \<Rightarrow> int \<Rightarrow> (kind \<times> bytes) list \<Rightarrow> stream_state \<Rightarrow> 's \<Rightarrow> (stream_state \<times> 's) option" where
  "streamFrames onLog limit [] st s = Some (st, s)"
| "streamFrames onLog limit ((k, d) # fs) st s =
     (if outcomeSeen st then None
      else (case streamFrame onLog limit k d st s of
          (Inl _, _) \<Rightarrow> None
        | (Inr st', s') \<Rightarrow> streamFrames onLog limit fs st' s'))"

lemma stream_loop_sound:
  "stream_loop (\<lambda>_. None) onLog limit n st r s = (Inr t, r', s') \<Longrightarrow> n \<le> MaximumFrames
   \<Longrightarrow> \<exists>fs st'. list_all (\<lambda>(k, d). frame_ok k d) fs \<and> rdData r = concat (map (\<lambda>(k, d). frame k d) fs) \<and> rdEnd r = IoEOF
        \<and> streamFrames onLog limit fs st s = Some (st', s') \<and> outcomeSeen st' \<and> t = transcriptOf st' \<and> n + length fs \<le> MaximumFrames"
proof (induction "\<lambda>_::nat. None :: guest_error option" onLog limit n st r s arbitrary: t r' s' rule: stream_loop.induct)
  case (1 onLog limit n st r s)
  show ?case
  proof (cases "fst (readFrame r)")
    case (Inl e)
    then have "readFrame r = (Inl (GuestIO IoEOF), snd (readFrame r))" "outcomeSeen st" "t = transcriptOf st" "s' = s"
      using "1.prems"(1) by (auto simp: stream_loop.simps [of _ _ _ n] prod_eq_iff split: prod.splits if_splits)
    then show ?thesis
      using "1.prems"(2) by (intro exI [of _ "[]"] exI [of _ st]) (simp add: readFrame_EOF_iff)
  next
    case (Inr f)
    then obtain k d r1 where f: "readFrame r = (Inr (k, d), r1)" by (metis prod.collapse)
    obtain st1 s1 where st1: "streamFrame onLog limit k d st s = (Inr st1, s1)" "\<not> outcomeSeen st" "n < MaximumFrames"
      "stream_loop (\<lambda>_. None) onLog limit (n + 1) st1 r1 s1 = (Inr t, r', s')"
      using "1.prems"(1) by (auto simp: stream_loop.simps [of _ _ _ n] f not_le split: prod.splits sum.splits if_splits)
    obtain fs st' where fs: "list_all (\<lambda>(k, d). frame_ok k d) fs" "rdData r1 = concat (map (\<lambda>(k, d). frame k d) fs)" "rdEnd r1 = IoEOF"
      "streamFrames onLog limit fs st1 s1 = Some (st', s')" "outcomeSeen st'" "t = transcriptOf st'" "n + 1 + length fs \<le> MaximumFrames"
      using "1.hyps" [OF _ f [symmetric] _ _ _ st1(1) [symmetric] _ st1(4)] st1(2,3) by auto
    then show ?thesis
      using f st1 by (intro exI [of _ "(k, d) # fs"] exI [of _ st']) (simp add: readFrame_Inr_iff)
  qed
qed

lemma stream_loop_complete:
  "list_all (\<lambda>(k, d). frame_ok k d) fs \<Longrightarrow> rdData r = concat (map (\<lambda>(k, d). frame k d) fs) \<Longrightarrow> rdEnd r = IoEOF
   \<Longrightarrow> streamFrames onLog limit fs st s = Some (st', s') \<Longrightarrow> outcomeSeen st' \<Longrightarrow> n + length fs \<le> MaximumFrames
   \<Longrightarrow> stream_loop (\<lambda>_. None) onLog limit n st r s = (Inr (transcriptOf st'), r\<lparr>rdData := []\<rparr>, s')"
proof (induction fs arbitrary: n st r s)
  case Nil
  then have "readFrame r = (Inl (GuestIO IoEOF), r)" by (simp add: readFrame_EOF_iff)
  then show ?case using Nil by (subst stream_loop.simps) auto
next
  case (Cons f fs)
  obtain k d where f: "f = (k, d)" by (cases f)
  let ?r = "r\<lparr>rdData := concat (map (\<lambda>(k, d). frame k d) fs)\<rparr>"
  have "readFrame r = (Inr (k, d), ?r)" using Cons.prems by (simp add: readFrame_Inr_iff f)
  moreover obtain st1 s1 where "streamFrame onLog limit k d st s = (Inr st1, s1)" "\<not> outcomeSeen st"
    "streamFrames onLog limit fs st1 s1 = Some (st', s')"
    using Cons.prems(4) by (auto simp: f split: if_splits prod.splits sum.splits)
  ultimately show ?case
    using Cons.IH [of ?r st1 s1 "n + 1"] Cons.prems by (subst stream_loop.simps) (simp add: f)
qed

text \<open>A callback that keeps what it is given.\<close>

definition collect :: "(kind \<times> bytes) list sink" where
  "collect s k d = (None, s @ [(k, d)])"

definition log_size :: "(kind \<times> bytes) list \<Rightarrow> int" where
  "log_size logs = (\<Sum>(k, d)\<leftarrow>logs. int (length d))"

definition claim_ok :: "int \<Rightarrow> bool \<Rightarrow> bool" where
  "claim_ok n b \<longleftrightarrow> 0 \<le> n \<and> n \<le> 255 \<and> (n = 125) = b"

definition extended :: "transcript \<Rightarrow> (kind \<times> bytes) list \<Rightarrow> bytes list \<Rightarrow> int \<Rightarrow> bool \<Rightarrow> transcript" where
  "extended t logs evs n b =
     \<lparr>exitCode = n, infrastructureFailure = b, events = events t @ concat evs, logBytes = logBytes t + log_size logs\<rparr>"

lemma streamFrame_collect:
  "streamFrame collect limit k d st s = (Inr st', s') \<longleftrightarrow>
     (k = Stdout \<or> k = Stderr) \<and> \<not> eventsStarted st \<and> logBytes (transcriptOf st) + int (length d) \<le> limit
       \<and> st' = st\<lparr>transcriptOf := (transcriptOf st)\<lparr>logBytes := logBytes (transcriptOf st) + int (length d)\<rparr>\<rparr> \<and> s' = s @ [(k, d)]
     \<or> k = Events \<and> length d \<le> MaximumEventBytes - length (events (transcriptOf st)) \<and> s' = s
       \<and> st' = st\<lparr>eventsStarted := True, transcriptOf := (transcriptOf st)\<lparr>events := events (transcriptOf st) @ d\<rparr>\<rparr>
     \<or> k = Outcome \<and> s' = s \<and> (\<exists>n b. readOutcome d = Some (n, b)
       \<and> st' = st\<lparr>transcriptOf := (transcriptOf st)\<lparr>exitCode := n, infrastructureFailure := b\<rparr>, outcomeSeen := True\<rparr>)"
  by (auto simp: streamFrame_def Let_def collect_def kind_defs split: option.splits prod.splits)

lemma streamFrames_sound:
  "streamFrames collect limit fs st s = Some (st', s') \<Longrightarrow> outcomeSeen st' \<Longrightarrow> \<not> outcomeSeen st
   \<Longrightarrow> logBytes (transcriptOf st) \<le> limit \<Longrightarrow> length (events (transcriptOf st)) \<le> MaximumEventBytes
   \<Longrightarrow> \<exists>logs evs n b. fs = logs @ map (Pair Events) evs @ [(Outcome, marshalClaim (n, b))] \<and> (eventsStarted st \<longrightarrow> logs = [])
        \<and> list_all (\<lambda>(k, d). k = Stdout \<or> k = Stderr) logs \<and> logBytes (transcriptOf st) + log_size logs \<le> limit
        \<and> length (events (transcriptOf st) @ concat evs) \<le> MaximumEventBytes \<and> claim_ok n b
        \<and> s' = s @ logs \<and> transcriptOf st' = extended (transcriptOf st) logs evs n b"
proof (induction fs arbitrary: st s)
  case Nil
  then show ?case by simp
next
  case (Cons f fs)
  obtain k d where f: "f = (k, d)" by (cases f)
  obtain st1 s1 where st1: "streamFrame collect limit k d st s = (Inr st1, s1)"
    and rest: "streamFrames collect limit fs st1 s1 = Some (st', s')"
    using Cons.prems(1) by (auto simp: f split: if_splits prod.splits sum.splits)
  note IH = Cons.IH [OF rest Cons.prems(2)]
  consider (log) "k = Stdout \<or> k = Stderr" | (event) "k = Events" | (claim) "k = Outcome"
    using st1 by (auto simp: streamFrame_collect)
  then show ?case
  proof cases
    case log
    then have *: "\<not> eventsStarted st" "logBytes (transcriptOf st) + int (length d) \<le> limit" "s1 = s @ [(k, d)]"
      "st1 = st\<lparr>transcriptOf := (transcriptOf st)\<lparr>logBytes := logBytes (transcriptOf st) + int (length d)\<rparr>\<rparr>"
      using st1 by (auto simp: streamFrame_collect kind_defs)
    obtain logs evs n b where "fs = logs @ map (Pair Events) evs @ [(Outcome, marshalClaim (n, b))]"
      "list_all (\<lambda>(k, d). k = Stdout \<or> k = Stderr) logs" "logBytes (transcriptOf st) + int (length d) + log_size logs \<le> limit"
      "length (events (transcriptOf st) @ concat evs) \<le> MaximumEventBytes" "claim_ok n b"
      "s' = s1 @ logs" "transcriptOf st' = extended (transcriptOf st1) logs evs n b"
      using IH Cons.prems * by auto
    then show ?thesis
      using * log by (intro exI [of _ "(k, d) # logs"] exI [of _ evs] exI [of _ n] exI [of _ b])
        (simp add: f log_size_def extended_def add.assoc)
  next
    case event
    then have *: "length d \<le> MaximumEventBytes - length (events (transcriptOf st))" "s1 = s"
      "st1 = st\<lparr>eventsStarted := True, transcriptOf := (transcriptOf st)\<lparr>events := events (transcriptOf st) @ d\<rparr>\<rparr>"
      using st1 by (auto simp: streamFrame_collect kind_defs)
    have "\<not> outcomeSeen st1" "logBytes (transcriptOf st1) \<le> limit" "length (events (transcriptOf st1)) \<le> MaximumEventBytes" "eventsStarted st1"
      using * Cons.prems by simp_all
    then obtain evs n b where "fs = map (Pair Events) evs @ [(Outcome, marshalClaim (n, b))]"
      "length (events (transcriptOf st1) @ concat evs) \<le> MaximumEventBytes" "claim_ok n b"
      "s' = s1" "transcriptOf st' = extended (transcriptOf st1) [] evs n b"
      using IH by force
    then show ?thesis
      using * Cons.prems by (intro exI [of _ "[]"] exI [of _ "d # evs"] exI [of _ n] exI [of _ b])
        (simp add: f log_size_def extended_def event)
  next
    case claim
    then obtain n b where *: "readOutcome d = Some (n, b)" "s1 = s"
      "st1 = st\<lparr>transcriptOf := (transcriptOf st)\<lparr>exitCode := n, infrastructureFailure := b\<rparr>, outcomeSeen := True\<rparr>"
      using st1 by (auto simp: streamFrame_collect kind_defs)
    then have "fs = []" using rest by (cases fs) auto
    moreover from this have "st' = st1" "s' = s" using rest * by simp_all
    ultimately show ?thesis
      using *(1,3) Cons.prems(4,5) by (intro exI [of _ "[]"] exI [of _ n] exI [of _ b])
        (simp add: f log_size_def extended_def claim readOutcome_iff claim_ok_def)
  qed
qed

lemma streamFrames_events:
  "claim_ok n b \<Longrightarrow> \<not> outcomeSeen st \<Longrightarrow> length (events (transcriptOf st) @ concat evs) \<le> MaximumEventBytes
   \<Longrightarrow> \<exists>st'. streamFrames collect limit (map (Pair Events) evs @ [(Outcome, marshalClaim (n, b))]) st s = Some (st', s)
        \<and> outcomeSeen st' \<and> transcriptOf st' = extended (transcriptOf st) [] evs n b"
proof (induction evs arbitrary: st)
  case Nil
  then have "readOutcome (marshalClaim (n, b)) = Some (n, b)" by (simp add: readOutcome_iff claim_ok_def)
  with Nil show ?case by (simp add: streamFrame_def Let_def kind_defs extended_def log_size_def)
next
  case (Cons d evs)
  let ?st = "st\<lparr>eventsStarted := True, transcriptOf := (transcriptOf st)\<lparr>events := events (transcriptOf st) @ d\<rparr>\<rparr>"
  have "streamFrame collect limit Events d st s = (Inr ?st, s)"
    using Cons.prems by (simp add: streamFrame_def Let_def kind_defs)
  then show ?case using Cons.IH [of ?st] Cons.prems by (simp add: extended_def)
qed

lemma streamFrames_complete:
  "claim_ok n b \<Longrightarrow> \<not> outcomeSeen st \<Longrightarrow> \<not> eventsStarted st \<Longrightarrow> list_all (\<lambda>(k, d). k = Stdout \<or> k = Stderr) logs
   \<Longrightarrow> logBytes (transcriptOf st) + log_size logs \<le> limit \<Longrightarrow> length (events (transcriptOf st) @ concat evs) \<le> MaximumEventBytes
   \<Longrightarrow> \<exists>st'. streamFrames collect limit (logs @ map (Pair Events) evs @ [(Outcome, marshalClaim (n, b))]) st s = Some (st', s @ logs)
        \<and> outcomeSeen st' \<and> transcriptOf st' = extended (transcriptOf st) logs evs n b"
proof (induction logs arbitrary: st s)
  case Nil
  then show ?case using streamFrames_events [of n b st evs limit s] by auto
next
  case (Cons f logs)
  obtain k d where f: "f = (k, d)" by (cases f)
  let ?st = "st\<lparr>transcriptOf := (transcriptOf st)\<lparr>logBytes := logBytes (transcriptOf st) + int (length d)\<rparr>\<rparr>"
  have "0 \<le> log_size logs" unfolding log_size_def by (rule sum_list_nonneg) auto
  then have "streamFrame collect limit k d st s = (Inr ?st, s @ [(k, d)])"
    using Cons.prems by (auto simp: streamFrame_def Let_def collect_def f log_size_def)
  then show ?case
    using Cons.IH [of ?st "s @ [(k, d)]"] Cons.prems by (simp add: extended_def log_size_def f add.assoc)
qed

lemma ReadStream_Inr_iff:
  "ReadStream (Some ctx) (Some r) limit (Some onLog) s = (Inr t, r', s') \<longleftrightarrow>
     1 \<le> limit \<and> limit \<le> MaximumLogBytes \<and> (\<exists>r1. stream_loop ctx onLog limit 0 newStream r s = (Inr t, r1, s') \<and> r' = Some r1)"
  by (auto simp: ReadStream_def split: prod.splits)

lemma outcome_frame_ok: "claim_ok n b \<Longrightarrow> frame_ok Outcome (marshalClaim (n, b))"
proof -
  assume "claim_ok n b"
  then have "readOutcome (marshalClaim (n, b)) = Some (n, b)" by (simp add: readOutcome_iff claim_ok_def)
  then have "length (marshalClaim (n, b)) \<le> 64" by (auto simp: readOutcome_def split: if_splits)
  then show ?thesis by (simp add: frame_ok_def kind_defs MaximumChunk_def marshalClaim_def claimHead_def)
qed

text \<open>
  C2. The streams \<open>ReadStream\<close> accepts are exactly these, read to the end: log frames, then event frames, then one outcome
  frame with the canonical text of a claim whose code 125 means an infrastructure failure, with the log, event and frame
  limits kept and nothing after it. The callback was given the log frames in order, and the transcript holds the claim,
  the events and the number of log bytes; a truncated stream or one with anything else is refused.
\<close>

theorem guest_stream_accepted:
  "(\<exists>r'. ReadStream (Some (\<lambda>_. None)) (Some r) limit (Some collect) [] = (Inr t, r', logs)) \<longleftrightarrow>
   1 \<le> limit \<and> limit \<le> MaximumLogBytes \<and> rdEnd r = IoEOF
   \<and> (\<exists>evs n b. rdData r = concat (map (\<lambda>(k, d). frame k d) (logs @ map (Pair Events) evs @ [(Outcome, marshalClaim (n, b))]))
        \<and> list_all (\<lambda>(k, d). frame_ok k d) (logs @ map (Pair Events) evs) \<and> list_all (\<lambda>(k, d). k = Stdout \<or> k = Stderr) logs
        \<and> log_size logs \<le> limit \<and> length (concat evs) \<le> MaximumEventBytes
        \<and> length logs + length evs < MaximumFrames \<and> claim_ok n b
        \<and> t = \<lparr>exitCode = n, infrastructureFailure = b, events = concat evs, logBytes = log_size logs\<rparr>)"
    (is "?accepted \<longleftrightarrow> ?language")
proof
  assume ?accepted
  then obtain r' where l: "1 \<le> limit" "limit \<le> MaximumLogBytes" "stream_loop (\<lambda>_. None) collect limit 0 newStream r [] = (Inr t, r', logs)"
    by (auto simp: ReadStream_Inr_iff)
  obtain fs st' where fs: "list_all (\<lambda>(k, d). frame_ok k d) fs" "rdData r = concat (map (\<lambda>(k, d). frame k d) fs)" "rdEnd r = IoEOF"
    "streamFrames collect limit fs newStream [] = Some (st', logs)" "outcomeSeen st'" "t = transcriptOf st'" "length fs \<le> MaximumFrames"
    using stream_loop_sound [OF l(3)] by auto
  then obtain logs' evs n b where "fs = logs' @ map (Pair Events) evs @ [(Outcome, marshalClaim (n, b))]" "logs = logs'"
    "list_all (\<lambda>(k, d). k = Stdout \<or> k = Stderr) logs" "log_size logs \<le> limit" "length (concat evs) \<le> MaximumEventBytes" "claim_ok n b"
    "t = \<lparr>exitCode = n, infrastructureFailure = b, events = concat evs, logBytes = log_size logs\<rparr>"
    using streamFrames_sound [OF fs(4,5)] l(1) by (auto simp: newStream_def extended_def)
  then show ?language using l(1,2) fs by auto
next
  assume ?language
  then obtain evs n b where l: "1 \<le> limit" "limit \<le> MaximumLogBytes" "rdEnd r = IoEOF"
    "rdData r = concat (map (\<lambda>(k, d). frame k d) (logs @ map (Pair Events) evs @ [(Outcome, marshalClaim (n, b))]))"
    "list_all (\<lambda>(k, d). frame_ok k d) (logs @ map (Pair Events) evs)" "list_all (\<lambda>(k, d). k = Stdout \<or> k = Stderr) logs"
    "log_size logs \<le> limit" "length (concat evs) \<le> MaximumEventBytes" "length logs + length evs < MaximumFrames" "claim_ok n b"
    and t: "t = \<lparr>exitCode = n, infrastructureFailure = b, events = concat evs, logBytes = log_size logs\<rparr>"
    by blast
  obtain st' where st': "streamFrames collect limit (logs @ map (Pair Events) evs @ [(Outcome, marshalClaim (n, b))]) newStream [] = Some (st', logs)"
    "outcomeSeen st'" "transcriptOf st' = t"
    using streamFrames_complete [OF l(10), of newStream logs limit evs "[]"] l t by (auto simp: newStream_def extended_def)
  show ?accepted
    using stream_loop_complete [OF _ l(4) l(3) st'(1,2), of 0] l outcome_frame_ok [OF l(10)] st'(3)
    by (auto simp: ReadStream_Inr_iff)
qed

end
