(* ===== verification/Spec2Isabelle.thy ===== *)
theory Spec2Isabelle
  imports LogUpload WriteAhead Launching Reconnecting RotationSafety LeaseSlot Draining DeferredEvents Remembering StartGate RotationCommit GuestOutput
begin

text \<open>The runner.\<close>

end
